(* ===== verification/Procurement_Prelude.thy ===== *)
theory Procurement_Prelude
  imports Complex_Main "HOL-Library.Sublist"
begin

text \<open>
  Shared vocabulary of the development.

  \<^item> The fragment of Go's \<^verbatim>\<open>strings\<close> package the service relies on
    (\<^verbatim>\<open>TrimSpace\<close>, \<^verbatim>\<open>ToLower\<close>, \<^verbatim>\<open>EqualFold\<close>), on ASCII byte strings.
  \<^item> Money: \<^verbatim>\<open>float64\<close> amounts in Go and \<^verbatim>\<open>NUMERIC\<close> columns in Postgres are both
    \<open>amount\<close>, exact rationals. The tolerances the code writes (0.005, 0.01) are kept;
    binary rounding of \<^verbatim>\<open>float64\<close> is not modelled.
  \<^item> Fallible operations return \<open>'e + 'a\<close>; \<open>res_bind\<close> is Go's
    \<^verbatim>\<open>if err != nil { return err }\<close>.
  \<^item> Generic lemmas on lists and results that the component theories share.
\<close>

named_theorems string_simps "evaluation of the string operations on literals"
named_theorems engine_simps "unfolding rules of the approval engine's operations"
named_theorems store_simps "unfolding rules of the database operations"

type_synonym amount = rat
type_synonym timestamp = int
type_synonym scope_map = "string \<rightharpoonup> string"

section \<open>Strings\<close>

definition is_space :: "char \<Rightarrow> bool" where
  "is_space c \<longleftrightarrow> of_char c \<in> {9, 10, 11, 12, 13, 32 :: nat}"

definition trim_space :: "string \<Rightarrow> string" where
  "trim_space s = rev (dropWhile is_space (rev (dropWhile is_space s)))"

text \<open>An ASCII capital has bit 5 clear; its lower-case letter is the same byte with bit 5 set.\<close>

definition lower_char :: "char \<Rightarrow> char" where
  "lower_char c =
     (if 65 \<le> (of_char c :: nat) \<and> (of_char c :: nat) \<le> 90
      then Char (digit0 c) (digit1 c) (digit2 c) (digit3 c) (digit4 c) True (digit6 c) (digit7 c)
      else c)"

definition to_lower :: "string \<Rightarrow> string" where
  "to_lower s = map lower_char s"

definition equal_fold :: "string \<Rightarrow> string \<Rightarrow> bool" where
  "equal_fold s t \<longleftrightarrow> to_lower s = to_lower t"

abbreviation blank :: "string \<Rightarrow> bool" where
  "blank s \<equiv> trim_space s = ''''"

lemmas string_defs [string_simps] =
  is_space_def trim_space_def lower_char_def to_lower_def equal_fold_def

lemma dropWhile_idem: "dropWhile P (dropWhile P xs) = dropWhile P xs"
  by (induction xs) auto

lemma dropWhile_rev_dropWhile:
  "dropWhile P (rev (dropWhile P (rev (dropWhile P xs)))) = rev (dropWhile P (rev (dropWhile P xs)))"
proof (cases "dropWhile P xs")
  case Nil
  then show ?thesis by (simp only: Nil dropWhile.simps rev.simps)
next
  case (Cons y ys)
  then have ny: "\<not> P y"
    by (metis hd_dropWhile list.discI list.sel(1))
  have "dropWhile P (rev ys @ [y]) = dropWhile P (rev ys) @ [y]"
    if "\<exists>z \<in> set (rev ys). \<not> P z"
    using that by (meson dropWhile_append1)
  moreover have "dropWhile P (rev ys @ [y]) = [y]" if "\<forall>z \<in> set (rev ys). P z"
    using that ny by (subst dropWhile_append2) auto
  ultimately show ?thesis
    using Cons ny by (cases "\<forall>z \<in> set (rev ys). P z") auto
qed

lemma trim_space_idem [simp]: "trim_space (trim_space s) = trim_space s"
  unfolding trim_space_def by (simp add: dropWhile_rev_dropWhile dropWhile_idem)

lemma trim_space_Nil [simp]: "trim_space '''' = ''''"
  by (simp add: trim_space_def)

lemma not_blank_not_Nil: "\<not> blank s \<Longrightarrow> s \<noteq> ''''"
  by auto

lemma equal_fold_refl [simp]: "equal_fold s s"
  by (simp add: equal_fold_def)

lemma equal_fold_sym: "equal_fold s t \<Longrightarrow> equal_fold t s"
  by (simp add: equal_fold_def)

lemma equal_fold_trans: "equal_fold s t \<Longrightarrow> equal_fold t u \<Longrightarrow> equal_fold s u"
  by (simp add: equal_fold_def)

lemma equal_fold_Nil [simp]: "equal_fold s '''' \<longleftrightarrow> s = ''''" "equal_fold '''' s \<longleftrightarrow> s = ''''"
  by (auto simp: equal_fold_def to_lower_def)

section \<open>Formatting\<close>

text \<open>\<^verbatim>\<open>strconv\<close>/\<^verbatim>\<open>fmt\<close> verbs: \<^verbatim>\<open>%d\<close> on integers and \<^verbatim>\<open>%.2f\<close> on
  amounts, the exact value rounded to the nearest cent with ties to even.\<close>

definition digit :: "int \<Rightarrow> char" where
  "digit n = ''0123456789'' ! nat (n mod 10)"

function fmt_pos :: "int \<Rightarrow> string" where
  "fmt_pos n = (if n < 10 then [digit n] else fmt_pos (n div 10) @ [digit n])"
  by pat_completeness auto
termination by (relation "measure nat") auto

declare fmt_pos.simps [simp del]

definition fmt_nat :: "nat \<Rightarrow> string" where
  "fmt_nat n = fmt_pos (int n)"

definition fmt_int :: "int \<Rightarrow> string" where
  "fmt_int i = (if i < 0 then ''-'' @ fmt_pos (- i) else fmt_pos i)"

definition round_even :: "rat \<Rightarrow> int" where
  "round_even x =
     (let f = \<lfloor>x\<rfloor>; d = x - of_int f in
      if d < 1 / 2 then f else if d > 1 / 2 then f + 1 else if even f then f else f + 1)"

definition fmt_2f :: "amount \<Rightarrow> string" where
  "fmt_2f x =
     (let c = round_even (\<bar>x\<bar> * 100) in
      (if x < 0 then ''-'' else []) @ fmt_pos (c div 100) @ ''.'' @ [digit (c mod 100 div 10), digit (c mod 10)])"

section \<open>Results\<close>

text \<open>The early return of an error, and the monadic continuation otherwise.\<close>

fun res_bind :: "'e + 'a \<Rightarrow> ('a \<Rightarrow> 'e + 'b) \<Rightarrow> 'e + 'b" where
  "res_bind (Inl e) f = Inl e"
| "res_bind (Inr x) f = f x"

text \<open>\<^verbatim>\<open>if cond { return err }\<close>.\<close>

definition check :: "bool \<Rightarrow> 'e \<Rightarrow> 'e + unit" where
  "check ok e = (if ok then Inr () else Inl e)"

definition is_ok :: "'e + 'a \<Rightarrow> bool" where
  "is_ok r \<longleftrightarrow> (case r of Inl _ \<Rightarrow> False | Inr _ \<Rightarrow> True)"

lemma is_ok_simps [simp]: "is_ok (Inr x)" "\<not> is_ok (Inl e)"
  by (simp_all add: is_ok_def)

lemma is_ok_iff: "is_ok r \<longleftrightarrow> (\<exists>x. r = Inr x)"
  by (cases r) auto

lemma res_bind_Inr_iff [simp]: "res_bind m f = Inr y \<longleftrightarrow> (\<exists>x. m = Inr x \<and> f x = Inr y)"
  by (cases m) auto

lemma res_bind_Inl_iff: "res_bind m f = Inl e \<longleftrightarrow> m = Inl e \<or> (\<exists>x. m = Inr x \<and> f x = Inl e)"
  by (cases m) auto

lemma check_Inr_iff [simp]: "check ok e = Inr u \<longleftrightarrow> ok"
  by (auto simp: check_def)

lemma check_Inl_iff: "check ok e = Inl e' \<longleftrightarrow> \<not> ok \<and> e' = e"
  by (auto simp: check_def)

lemma check_True [simp]: "check True e = Inr ()"
  by (simp add: check_def)

lemma check_False [simp]: "check False e = Inl e"
  by (simp add: check_def)

lemma res_bind_check: "res_bind (check ok e) f = (if ok then f () else Inl e)"
  by (simp add: check_def)

section \<open>Lists\<close>

lemma nth_key_unique:
  assumes "distinct (map f xs)" and "i < length xs" and "j < length xs" and "f (xs ! i) = f (xs ! j)"
  shows "i = j"
  using assms by (metis length_map nth_eq_iff_index_eq nth_map)

lemma take_Suc_map_nth: "i < length xs \<Longrightarrow> map f (take (Suc i) xs) = map f (take i xs) @ [f (xs ! i)]"
  by (simp add: take_Suc_conv_app_nth)

lemma distinct_map_filter_sub: "distinct (map f xs) \<Longrightarrow> distinct (map f (filter P xs))"
  by (simp add: distinct_map_filter)

end
