(* ===== verification/Approval_Chain.thy ===== *)
theory Approval_Chain
  imports Procurement_Prelude
begin

text \<open>
  Desks, chains and the registry of \<^verbatim>\<open>third_party/platform-go/approvalchain\<close>
  (\<^verbatim>\<open>chain.go\<close> and \<^verbatim>\<open>roles.go\<close>): which desks a request engages, who holds a desk,
  and the validation a chain passes before it can route.

  A compiled role pattern (\<^verbatim>\<open>*regexp.Regexp\<close>) is used by the package only through
  \<^verbatim>\<open>MatchString\<close>, so it is a predicate on strings; \<^verbatim>\<open>regexp.Compile\<close> on the
  case-insensitive pattern is the parameter \<open>rx\<close> of \<open>compile\<close> and \<open>NewRegistry\<close>,
  \<open>None\<close> being a pattern that does not compile. Nothing is assumed about \<open>rx\<close>.
\<close>

section \<open>Data\<close>

record desk =
  d_key :: string
  d_label :: string
  d_role_patterns :: "string list"
  d_min_amount :: amount
  d_required_perm :: string
  d_action_label :: string
  d_status_label :: string
  d_allow_requester :: bool
  d_scope_by :: string
  d_roles :: "(string \<Rightarrow> bool) list"

record chain =
  c_key :: string
  c_label :: string
  c_desks :: "desk list"
  c_terminal_label :: string
  c_allow_auto_approve :: bool
  c_no_successive_approver :: bool
  c_no_repeat_approver :: bool

record options =
  o_amount :: amount
  o_skip :: "string list"
  o_scope :: scope_map

record actor =
  a_id :: string
  a_roles :: "string list"
  a_admin :: bool
  a_has_perm :: "(string \<Rightarrow> bool) option"
  a_attrs :: scope_map

record registry =
  reg_chains :: "string \<rightharpoonup> chain"
  reg_order :: "string list"

record desk_meta =
  dm_key :: string
  dm_label :: string
  dm_min_amount :: amount
  dm_required_perm :: string
  dm_action_label :: string
  dm_status_label :: string

record chain_meta =
  cm_key :: string
  cm_label :: string
  cm_terminal :: string
  cm_desks :: "desk_meta list"

datatype def_error =
    ErrBlankChainKey
  | ErrNoDesks
  | ErrBlankDeskKey nat
  | ErrDuplicateDesk string
  | ErrNoRoles string
  | ErrBadPattern string string
  | ErrNegativeBand string
  | ErrAllDesksBanded
  | ErrDeclaredTwice

section \<open>Which desks engage\<close>

definition skipped :: "options \<Rightarrow> string \<Rightarrow> bool" where
  "skipped opt key \<longleftrightarrow> key \<in> set (o_skip opt)"

definition amount_epsilon :: amount where
  "amount_epsilon = 5 / 1000"

definition below_band :: "amount \<Rightarrow> desk \<Rightarrow> bool" where
  "below_band amt d \<longleftrightarrow> 0 < d_min_amount d \<and> amt < d_min_amount d - amount_epsilon"

fun Engaged_loop :: "options \<Rightarrow> desk list \<Rightarrow> desk list" where
  "Engaged_loop opt [] = []"
| "Engaged_loop opt (d # ds) =
     (if skipped opt (d_key d) then Engaged_loop opt ds
      else if below_band (o_amount opt) d then Engaged_loop opt ds
      else d # Engaged_loop opt ds)"

definition Engaged :: "chain \<Rightarrow> options \<Rightarrow> desk list" where
  "Engaged c opt = Engaged_loop opt (c_desks c)"

fun find_desk :: "string \<Rightarrow> desk list \<Rightarrow> desk option" where
  "find_desk key [] = None"
| "find_desk key (d # ds) = (if d_key d = key then Some d else find_desk key ds)"

definition chain_Desk :: "chain \<Rightarrow> string \<Rightarrow> desk option" where
  "chain_Desk c key = find_desk key (c_desks c)"

definition Terminal :: "chain \<Rightarrow> string" where
  "Terminal c = (if \<not> blank (c_terminal_label c) then c_terminal_label c else ''Approved'')"

definition desk_Action :: "desk \<Rightarrow> string" where
  "desk_Action d = (if \<not> blank (d_action_label d) then d_action_label d else ''Approve'')"

definition PassedStatus :: "desk \<Rightarrow> string" where
  "PassedStatus d =
     (if \<not> blank (d_status_label d) then d_status_label d else d_label d @ '' Approved'')"

section \<open>Compilation and the registry\<close>

fun compile_patterns ::
  "(string \<Rightarrow> (string \<Rightarrow> bool) option) \<Rightarrow> string \<Rightarrow> string list \<Rightarrow> def_error + (string \<Rightarrow> bool) list" where
  "compile_patterns rx key [] = Inr []"
| "compile_patterns rx key (p # ps) =
     (case rx p of
        None \<Rightarrow> Inl (ErrBadPattern key p)
      | Some re \<Rightarrow> res_bind (compile_patterns rx key ps) (\<lambda>res. Inr (re # res)))"

definition default_label :: "desk \<Rightarrow> desk" where
  "default_label d = (if blank (d_label d) then d\<lparr>d_label := d_key d\<rparr> else d)"

definition compile_desk ::
  "(string \<Rightarrow> (string \<Rightarrow> bool) option) \<Rightarrow> nat \<Rightarrow> string list \<Rightarrow> desk \<Rightarrow> def_error + desk" where
  "compile_desk rx i seen d =
     (if blank (d_key d) then Inl (ErrBlankDeskKey i)
      else if d_key d \<in> set seen then Inl (ErrDuplicateDesk (d_key d))
      else if d_role_patterns d = [] then Inl (ErrNoRoles (d_key d))
      else res_bind (compile_patterns rx (d_key d) (d_role_patterns d)) (\<lambda>res.
        if d_min_amount d < 0 then Inl (ErrNegativeBand (d_key d))
        else Inr ((default_label d)\<lparr>d_roles := res\<rparr>)))"

fun compile_loop ::
  "(string \<Rightarrow> (string \<Rightarrow> bool) option) \<Rightarrow> nat \<Rightarrow> string list \<Rightarrow> desk list \<Rightarrow> def_error + desk list" where
  "compile_loop rx i seen [] = Inr []"
| "compile_loop rx i seen (d # ds) =
     res_bind (compile_desk rx i seen d) (\<lambda>d'.
     res_bind (compile_loop rx (Suc i) (d_key d # seen) ds) (\<lambda>ds'. Inr (d' # ds')))"

definition compile :: "(string \<Rightarrow> (string \<Rightarrow> bool) option) \<Rightarrow> chain \<Rightarrow> def_error + chain" where
  "compile rx c =
     (if blank (c_key c) then Inl ErrBlankChainKey
      else if c_desks c = [] then Inl ErrNoDesks
      else res_bind (compile_loop rx 0 [] (c_desks c)) (\<lambda>ds.
        if \<not> list_ex (\<lambda>d. d_min_amount d = 0) ds \<and> \<not> c_allow_auto_approve c
        then Inl ErrAllDesksBanded
        else Inr (c\<lparr>c_desks := ds\<rparr>)))"

fun NewRegistry_loop ::
  "(string \<Rightarrow> (string \<Rightarrow> bool) option) \<Rightarrow> registry \<Rightarrow> chain list \<Rightarrow> (string \<times> def_error) + registry" where
  "NewRegistry_loop rx r [] = Inr r"
| "NewRegistry_loop rx r (c # cs) =
     (case compile rx c of
        Inl e \<Rightarrow> Inl (c_key c, e)
      | Inr c' \<Rightarrow>
          (case reg_chains r (c_key c') of
             Some _ \<Rightarrow> Inl (c_key c', ErrDeclaredTwice)
           | None \<Rightarrow>
               NewRegistry_loop rx
                 (r\<lparr>reg_chains := (reg_chains r)(c_key c' \<mapsto> c'),
                    reg_order := reg_order r @ [c_key c']\<rparr>) cs))"

definition empty_registry :: registry where
  "empty_registry = \<lparr>reg_chains = Map.empty, reg_order = []\<rparr>"

definition NewRegistry ::
  "(string \<Rightarrow> (string \<Rightarrow> bool) option) \<Rightarrow> chain list \<Rightarrow> (string \<times> def_error) + registry" where
  "NewRegistry rx cs = NewRegistry_loop rx empty_registry cs"

definition registry_Get :: "registry \<Rightarrow> string \<Rightarrow> chain option" where
  "registry_Get r key = reg_chains r (trim_space key)"

definition registry_Keys :: "registry \<Rightarrow> string list" where
  "registry_Keys r = reg_order r"

definition DeskMeta_of :: "desk \<Rightarrow> desk_meta" where
  "DeskMeta_of d =
     \<lparr>dm_key = d_key d, dm_label = d_label d, dm_min_amount = d_min_amount d,
      dm_required_perm = d_required_perm d, dm_action_label = desk_Action d,
      dm_status_label = PassedStatus d\<rparr>"

definition ChainMeta_of :: "chain \<Rightarrow> chain_meta" where
  "ChainMeta_of c =
     \<lparr>cm_key = c_key c, cm_label = c_label c, cm_terminal = Terminal c,
      cm_desks = map DeskMeta_of (c_desks c)\<rparr>"

text \<open>
  \<^verbatim>\<open>Meta\<close> dereferences \<^verbatim>\<open>r.chains[key]\<close> for every listed key; a missing entry would be
  a nil dereference, the \<open>None\<close> here.
\<close>

fun Meta_loop :: "registry \<Rightarrow> string list \<Rightarrow> chain_meta list option" where
  "Meta_loop r [] = Some []"
| "Meta_loop r (k # ks) =
     (case reg_chains r k of
        None \<Rightarrow> None
      | Some c \<Rightarrow> map_option (\<lambda>ms. ChainMeta_of c # ms) (Meta_loop r ks))"

definition Meta :: "registry \<Rightarrow> chain_meta list option" where
  "Meta r = Meta_loop r (reg_order r)"

section \<open>Who holds a desk\<close>

definition Matches :: "desk \<Rightarrow> string \<Rightarrow> bool" where
  "Matches d role =
     (let role = trim_space role in role \<noteq> '''' \<and> list_ex (\<lambda>re. re role) (d_roles d))"

fun MatchedRole_loop :: "desk \<Rightarrow> string list \<Rightarrow> string option" where
  "MatchedRole_loop d [] = None"
| "MatchedRole_loop d (r # rs) = (if Matches d r then Some (trim_space r) else MatchedRole_loop d rs)"

definition MatchedRole :: "desk \<Rightarrow> actor \<Rightarrow> string option" where
  "MatchedRole d a = MatchedRole_loop d (a_roles a)"

definition Holds :: "desk \<Rightarrow> actor \<Rightarrow> bool" where
  "Holds d a = (case MatchedRole d a of Some _ \<Rightarrow> True | None \<Rightarrow> a_admin a)"

text \<open>Reading a missing key of a Go map gives the empty string.\<close>

definition map_get :: "scope_map \<Rightarrow> string \<Rightarrow> string" where
  "map_get m k = (case m k of Some v \<Rightarrow> v | None \<Rightarrow> '''')"

definition inScope :: "desk \<Rightarrow> actor \<Rightarrow> scope_map \<Rightarrow> bool" where
  "inScope d a scope =
     (let key = trim_space (d_scope_by d) in
      if key = '''' then True
      else let want = trim_space (map_get scope key) in
        if want = '''' then True
        else if equal_fold want (trim_space (a_id a)) then True
        else equal_fold want (trim_space (map_get (a_attrs a) key)))"

definition HoldsFor :: "desk \<Rightarrow> actor \<Rightarrow> scope_map \<Rightarrow> bool" where
  "HoldsFor d a scope =
     (if a_admin a then True else if \<not> Holds d a then False else inScope d a scope)"

definition Scoped :: "desk \<Rightarrow> scope_map \<Rightarrow> bool" where
  "Scoped d scope =
     (let key = trim_space (d_scope_by d) in key \<noteq> '''' \<and> \<not> blank (map_get scope key))"

text \<open>\<^verbatim>\<open>checkPerm\<close> returns nil or \<^verbatim>\<open>ErrMissingPermission\<close>: \<open>True\<close> is nil.\<close>

definition checkPerm :: "desk \<Rightarrow> actor \<Rightarrow> bool" where
  "checkPerm d a =
     (if blank (d_required_perm d) \<or> a_admin a then True
      else case a_has_perm a of None \<Rightarrow> True | Some has \<Rightarrow> has (d_required_perm d))"

definition deskHeldByRole :: "desk \<Rightarrow> actor \<Rightarrow> bool" where
  "deskHeldByRole d a \<longleftrightarrow> MatchedRole d a \<noteq> None"

definition byRole :: "desk \<Rightarrow> actor \<Rightarrow> string" where
  "byRole d a =
     (case MatchedRole d a of
        Some r \<Rightarrow> r
      | None \<Rightarrow> (case a_roles a of [] \<Rightarrow> '''' | r # _ \<Rightarrow> trim_space r))"

definition chain_DesksForRole :: "chain \<Rightarrow> string \<Rightarrow> string list" where
  "chain_DesksForRole c role = map d_key (filter (\<lambda>d. Matches d role) (c_desks c))"

definition chain_DesksForActor :: "chain \<Rightarrow> actor \<Rightarrow> string list" where
  "chain_DesksForActor c a = map d_key (filter (\<lambda>d. Holds d a) (c_desks c))"

text \<open>
  The Go loop dereferences \<^verbatim>\<open>r.chains[key]\<close> for each listed key. \<open>wf_registry\<close>
  (below) makes the missing case unreachable for a registry built by \<open>NewRegistry\<close>.
\<close>

fun registry_desks_loop :: "(chain \<Rightarrow> string list) \<Rightarrow> registry \<Rightarrow> string list \<Rightarrow> (string \<rightharpoonup> string list)" where
  "registry_desks_loop f r [] = Map.empty"
| "registry_desks_loop f r (k # ks) =
     (case reg_chains r k of
        None \<Rightarrow> registry_desks_loop f r ks
      | Some c \<Rightarrow>
          (if f c \<noteq> [] then (registry_desks_loop f r ks)(k \<mapsto> f c)
           else registry_desks_loop f r ks))"

definition registry_DesksForRole :: "registry \<Rightarrow> string \<Rightarrow> (string \<rightharpoonup> string list)" where
  "registry_DesksForRole r role = registry_desks_loop (\<lambda>c. chain_DesksForRole c role) r (reg_order r)"

definition registry_DesksForActor :: "registry \<Rightarrow> actor \<Rightarrow> (string \<rightharpoonup> string list)" where
  "registry_DesksForActor r a = registry_desks_loop (\<lambda>c. chain_DesksForActor c a) r (reg_order r)"

section \<open>Engagement\<close>

lemma Engaged_loop_filter:
  "Engaged_loop opt ds =
     filter (\<lambda>d. \<not> skipped opt (d_key d) \<and> \<not> below_band (o_amount opt) d) ds"
  by (induction ds) auto

lemma Engaged_filter:
  "Engaged c opt = filter (\<lambda>d. \<not> skipped opt (d_key d) \<and> \<not> below_band (o_amount opt) d) (c_desks c)"
  by (simp add: Engaged_def Engaged_loop_filter)

lemma Engaged_subset: "set (Engaged c opt) \<subseteq> set (c_desks c)"
  by (auto simp: Engaged_filter)

lemma Engaged_subseq: "subseq (Engaged c opt) (c_desks c)"
  by (simp add: Engaged_filter)

lemma Engaged_distinct: "distinct (map d_key (c_desks c)) \<Longrightarrow> distinct (map d_key (Engaged c opt))"
  by (simp add: Engaged_filter distinct_map_filter_sub)

lemma below_band_antimono: "a \<le> b \<Longrightarrow> below_band b d \<Longrightarrow> below_band a d"
  by (auto simp: below_band_def)

lemma below_band_mono_min:
  "d_min_amount d \<le> d_min_amount e \<Longrightarrow> below_band a d \<Longrightarrow> below_band a e"
  by (auto simp: below_band_def)

lemma not_below_zero_band: "d_min_amount d = 0 \<Longrightarrow> \<not> below_band a d"
  by (simp add: below_band_def)

text \<open>
  On a chain whose bands never decrease, the engaged desks of a smaller amount are a prefix
  of the engaged desks of a larger one (for the same skips).
\<close>

definition ascending_bands :: "chain \<Rightarrow> bool" where
  "ascending_bands c \<longleftrightarrow> sorted (map d_min_amount (c_desks c))"

lemma Engaged_loop_prefix:
  assumes "sorted (map d_min_amount ds)" and "o_skip o1 = o_skip o2" and "o_amount o1 \<le> o_amount o2"
  shows "prefix (Engaged_loop o1 ds) (Engaged_loop o2 ds)"
  using assms(1)
proof (induction ds)
  case Nil
  then show ?case by simp
next
  case (Cons d ds)
  have skip: "skipped o1 k = skipped o2 k" for k
    using assms(2) by (simp add: skipped_def)
  show ?case
  proof (cases "below_band (o_amount o1) d")
    case True
    then have "below_band (o_amount o1) e" if "e \<in> set ds" for e
      using Cons.prems that by (auto intro: below_band_mono_min)
    then have "Engaged_loop o1 ds = []"
      by (auto simp: Engaged_loop_filter filter_empty_conv)
    with True show ?thesis by simp
  next
    case False
    then have "\<not> below_band (o_amount o2) d"
      using assms(3) below_band_antimono by blast
    with False Cons show ?thesis by (auto simp: skip)
  qed
qed

lemma Engaged_prefix:
  assumes "ascending_bands c" and "o_skip o1 = o_skip o2" and "o_amount o1 \<le> o_amount o2"
  shows "prefix (Engaged c o1) (Engaged c o2)"
  using Engaged_loop_prefix [of "c_desks c" o1 o2] assms by (simp add: Engaged_def ascending_bands_def)

section \<open>What compilation guarantees\<close>

definition wf_desk :: "desk \<Rightarrow> bool" where
  "wf_desk d \<longleftrightarrow> \<not> blank (d_key d) \<and> 0 \<le> d_min_amount d \<and> d_roles d \<noteq> [] \<and> \<not> blank (d_label d)"

definition wf_chain :: "chain \<Rightarrow> bool" where
  "wf_chain c \<longleftrightarrow>
     \<not> blank (c_key c) \<and> c_desks c \<noteq> [] \<and> distinct (map d_key (c_desks c)) \<and>
     (\<forall>d \<in> set (c_desks c). wf_desk d) \<and>
     ((\<exists>d \<in> set (c_desks c). d_min_amount d = 0) \<or> c_allow_auto_approve c)"

definition wf_registry :: "registry \<Rightarrow> bool" where
  "wf_registry r \<longleftrightarrow>
     distinct (reg_order r) \<and> dom (reg_chains r) = set (reg_order r) \<and>
     (\<forall>k c. reg_chains r k = Some c \<longrightarrow> c_key c = k \<and> wf_chain c)"

lemma compile_patterns_length: "compile_patterns rx k ps = Inr res \<Longrightarrow> length res = length ps"
  by (induction ps arbitrary: res) (auto split: option.splits)

lemma compile_desk_wf:
  assumes "compile_desk rx i seen d = Inr d'"
  shows "wf_desk d' \<and> d_key d' = d_key d \<and> d_key d \<notin> set seen \<and> d_min_amount d' = d_min_amount d"
  using assms compile_patterns_length
  by (fastforce simp: compile_desk_def wf_desk_def default_label_def split: if_splits)

lemma compile_loop_wf:
  "compile_loop rx i seen ds = Inr ds' \<Longrightarrow>
   map d_key ds' = map d_key ds \<and> map d_min_amount ds' = map d_min_amount ds \<and>
   distinct (map d_key ds) \<and> set (map d_key ds) \<inter> set seen = {} \<and> (\<forall>d \<in> set ds'. wf_desk d)"
proof (induction ds arbitrary: i seen ds')
  case Nil
  then show ?case by simp
next
  case (Cons d ds)
  then obtain d' es where d': "compile_desk rx i seen d = Inr d'"
    and es: "compile_loop rx (Suc i) (d_key d # seen) ds = Inr es" and ds': "ds' = d' # es"
    by auto
  from Cons.IH [OF es] compile_desk_wf [OF d'] ds' show ?case by auto
qed

lemma compile_wf:
  assumes "compile rx c = Inr c'"
  shows "wf_chain c' \<and> c_key c' = c_key c \<and> map d_key (c_desks c') = map d_key (c_desks c)"
proof -
  from assms obtain ds where ds: "compile_loop rx 0 [] (c_desks c) = Inr ds"
    and c': "c' = c\<lparr>c_desks := ds\<rparr>" and ne: "\<not> blank (c_key c)" "c_desks c \<noteq> []"
    and ub: "list_ex (\<lambda>d. d_min_amount d = 0) ds \<or> c_allow_auto_approve c"
    by (auto simp: compile_def split: if_splits)
  note loop = compile_loop_wf [OF ds]
  have "ds \<noteq> []" using loop ne by auto
  moreover have "distinct (map d_key ds)" using loop by simp
  moreover have "(\<exists>d \<in> set ds. d_min_amount d = 0) \<or> c_allow_auto_approve c"
    using ub by (simp add: list_ex_iff)
  ultimately show ?thesis
    using loop ne(1) c' by (simp add: wf_chain_def)
qed

lemma wf_empty_registry: "wf_registry empty_registry"
  by (simp add: wf_registry_def empty_registry_def)

lemma NewRegistry_loop_wf:
  "NewRegistry_loop rx r cs = Inr r' \<Longrightarrow> wf_registry r \<Longrightarrow>
   wf_registry r' \<and> reg_order r' = reg_order r @ map c_key cs"
proof (induction cs arbitrary: r)
  case Nil
  then show ?case by simp
next
  case (Cons c cs)
  then obtain c' where c': "compile rx c = Inr c'" and fresh: "reg_chains r (c_key c') = None"
    and rest: "NewRegistry_loop rx
      (r\<lparr>reg_chains := (reg_chains r)(c_key c' \<mapsto> c'), reg_order := reg_order r @ [c_key c']\<rparr>) cs = Inr r'"
    (is "NewRegistry_loop rx ?r cs = _")
    by (auto split: sum.splits option.splits)
  from fresh Cons.prems(2) have new: "c_key c' \<notin> set (reg_order r)"
    by (auto simp: wf_registry_def)
  have "wf_registry ?r"
    using Cons.prems(2) new compile_wf [OF c'] by (auto simp: wf_registry_def)
  with Cons.IH [OF rest] compile_wf [OF c'] show ?case by simp
qed

lemma NewRegistry_wf_registry: "NewRegistry rx cs = Inr r \<Longrightarrow> wf_registry r \<and> reg_order r = map c_key cs"
  using NewRegistry_loop_wf wf_empty_registry unfolding NewRegistry_def
  by (fastforce simp: empty_registry_def)

lemma wf_registry_Get: "wf_registry r \<Longrightarrow> registry_Get r k = Some c \<Longrightarrow> wf_chain c \<and> c_key c = trim_space k"
  by (simp add: wf_registry_def registry_Get_def)

lemma wf_chain_engaged:
  assumes "wf_chain c" and "\<not> c_allow_auto_approve c" and "o_skip opt = []"
  shows "Engaged c opt \<noteq> []"
proof -
  from assms(1,2) obtain d where "d \<in> set (c_desks c)" and "d_min_amount d = 0"
    by (auto simp: wf_chain_def)
  then have "d \<in> set (Engaged c opt)"
    using assms(3) by (simp add: Engaged_filter skipped_def not_below_zero_band)
  then show ?thesis by auto
qed

lemma Meta_loop_total:
  "set ks \<subseteq> dom (reg_chains r) \<Longrightarrow> \<exists>ms. Meta_loop r ks = Some ms \<and> length ms = length ks"
  by (induction ks) auto

section \<open>Holding a desk\<close>

lemma MatchedRole_loop_Some: "MatchedRole_loop d rs = Some r \<Longrightarrow> \<exists>r' \<in> set rs. Matches d r' \<and> r = trim_space r'"
  by (induction rs) (auto split: if_splits)

lemma MatchedRole_loop_None: "MatchedRole_loop d rs = None \<longleftrightarrow> (\<forall>r \<in> set rs. \<not> Matches d r)"
  by (induction rs) auto

lemma Holds_iff: "Holds d a \<longleftrightarrow> (\<exists>r \<in> set (a_roles a). Matches d r) \<or> a_admin a"
  using MatchedRole_loop_None [of d "a_roles a"]
  by (auto simp: Holds_def MatchedRole_def split: option.splits)

lemma deskHeldByRole_iff: "deskHeldByRole d a \<longleftrightarrow> (\<exists>r \<in> set (a_roles a). Matches d r)"
  using MatchedRole_loop_None [of d "a_roles a"] by (auto simp: deskHeldByRole_def MatchedRole_def)

lemma HoldsFor_iff: "HoldsFor d a scope \<longleftrightarrow> a_admin a \<or> deskHeldByRole d a \<and> inScope d a scope"
  by (auto simp: HoldsFor_def Holds_iff deskHeldByRole_iff)

lemma HoldsFor_Holds: "HoldsFor d a scope \<Longrightarrow> Holds d a"
  by (auto simp: HoldsFor_iff Holds_iff deskHeldByRole_iff)

lemma registry_desks_loop_spec:
  assumes "distinct ks" and "set ks \<subseteq> dom (reg_chains r)"
  shows "registry_desks_loop f r ks k =
    (if k \<in> set ks \<and> f (the (reg_chains r k)) \<noteq> [] then Some (f (the (reg_chains r k))) else None)"
  using assms by (induction ks) (auto split: option.splits)

lemma DesksForActor_complete:
  assumes "wf_registry r" and "reg_chains r k = Some c" and "d \<in> set (c_desks c)" and "Holds d a"
  shows "\<exists>ks. registry_DesksForActor r a k = Some ks \<and> d_key d \<in> set ks"
proof -
  have "k \<in> set (reg_order r)" "distinct (reg_order r)" "set (reg_order r) \<subseteq> dom (reg_chains r)"
    using assms(1,2) by (auto simp: wf_registry_def)
  moreover have "d_key d \<in> set (chain_DesksForActor c a)"
    using assms(3,4) by (auto simp: chain_DesksForActor_def)
  moreover from this have "chain_DesksForActor c a \<noteq> []" by auto
  ultimately show ?thesis
    using assms(2) by (auto simp: registry_DesksForActor_def registry_desks_loop_spec)
qed

text \<open>Compilation fills in labels and compiled roles and keeps everything else of a chain.\<close>

lemma compile_loop_bands:
  "compile_loop rx i seen ds = Inr ds' \<Longrightarrow>
     map d_min_amount ds' = map d_min_amount ds \<and> map d_allow_requester ds' = map d_allow_requester ds"
  by (induction ds arbitrary: i seen ds') (auto simp: compile_desk_def default_label_def split: if_splits)

lemma compile_keeps:
  assumes "compile rx c = Inr c'"
  shows "c_no_repeat_approver c' = c_no_repeat_approver c \<and> (ascending_bands c' \<longleftrightarrow> ascending_bands c) \<and>
    d_allow_requester ` set (c_desks c') = d_allow_requester ` set (c_desks c)"
proof -
  from assms obtain ds where "compile_loop rx 0 [] (c_desks c) = Inr ds" and c': "c' = c\<lparr>c_desks := ds\<rparr>"
    by (auto simp: compile_def split: if_splits)
  with compile_loop_bands [of rx 0 "[]" "c_desks c" ds]
  have "map d_min_amount ds = map d_min_amount (c_desks c)"
    and "map d_allow_requester ds = map d_allow_requester (c_desks c)" by auto
  moreover from this(2) have "d_allow_requester ` set ds = d_allow_requester ` set (c_desks c)"
    by (metis list.set_map)
  ultimately show ?thesis unfolding c' ascending_bands_def by simp
qed

lemma NewRegistry_loop_compiled:
  "NewRegistry_loop rx r0 cs = Inr r \<Longrightarrow> reg_chains r k = Some c \<Longrightarrow>
     reg_chains r0 k = Some c \<or> (\<exists>c0 \<in> set cs. compile rx c0 = Inr c)"
proof (induction cs arbitrary: r0)
  case Nil
  then show ?case by simp
next
  case (Cons c0 cs)
  then obtain c' where c': "compile rx c0 = Inr c'"
    and rest: "NewRegistry_loop rx (r0\<lparr>reg_chains := (reg_chains r0)(c_key c' \<mapsto> c'),
       reg_order := reg_order r0 @ [c_key c']\<rparr>) cs = Inr r"
    by (auto split: sum.splits option.splits)
  from Cons.IH [OF rest Cons.prems(2)] c' show ?case by (auto split: if_splits)
qed

lemma NewRegistry_compiled:
  "NewRegistry rx cs = Inr r \<Longrightarrow> reg_chains r k = Some c \<Longrightarrow> \<exists>c0 \<in> set cs. compile rx c0 = Inr c"
  using NewRegistry_loop_compiled [of rx empty_registry cs r k c] by (auto simp: NewRegistry_def empty_registry_def)

end
