(* ===== verification/Approval_Engine.thy ===== *)
theory Approval_Engine
  imports Approval_Chain
begin

text \<open>
  The approval engine of \<^verbatim>\<open>third_party/platform-go/approvalchain\<close> (\<^verbatim>\<open>state.go\<close>,
  \<^verbatim>\<open>engine.go\<close>): a request's state, the six transitions and \<^verbatim>\<open>Rebase\<close>.

  A transition returns the new state or the error; the Go code returns the unchanged state
  beside the error, which every caller discards. The engine's clock is the argument
  \<open>now\<close>. \<open>StageIndex\<close> is an \<open>int\<close>: it starts at \<open>-1\<close> and is bounded by the number
  of desks. A nil Go map and an empty one read the same, so \<open>Scope\<close> is a partial map.
\<close>

section \<open>State\<close>

datatype status =
    StatusDraft
  | StatusInFlight
  | StatusReturned
  | StatusApproved
  | StatusRejected
  | StatusCancelled

datatype action = ActionSubmit | ActionAdvance | ActionReject | ActionAmend | ActionCancel

record step =
  st_desk :: string
  st_desk_label :: string
  st_action :: action
  st_actor :: string
  st_actor_role :: string
  st_reason :: string
  st_override :: bool
  st_at :: timestamp

record state =
  s_chain_key :: string
  s_status :: status
  s_desk :: string
  s_stage_index :: int
  s_amount :: amount
  s_skip :: "string list"
  s_requester :: string
  s_history :: "step list"
  s_scope :: scope_map

datatype chain_error =
    ErrUnknownChain
  | ErrNotWaiting
  | ErrWrongDesk
  | ErrForbidden
  | ErrSelfApproval
  | ErrSelfSuccession
  | ErrRepeatApprover
  | ErrReasonRequired
  | ErrNotRequester
  | ErrNoEngagedDesks
  | ErrAmountChanged
  | ErrMissingPermission

definition status_Open :: "status \<Rightarrow> bool" where
  "status_Open s \<longleftrightarrow> s = StatusDraft \<or> s = StatusInFlight \<or> s = StatusReturned"

definition status_Terminal :: "status \<Rightarrow> bool" where
  "status_Terminal s \<longleftrightarrow> s = StatusApproved \<or> s = StatusRejected \<or> s = StatusCancelled"

definition ActorWithRole :: "string \<Rightarrow> string \<Rightarrow> actor" where
  "ActorWithRole i role =
     \<lparr>a_id = i, a_roles = [role], a_admin = False, a_has_perm = None, a_attrs = Map.empty\<rparr>"

definition cloneScope :: "scope_map \<Rightarrow> scope_map" where
  "cloneScope m =
     (\<lambda>k. case m k of None \<Rightarrow> None
        | Some v \<Rightarrow> let v = trim_space v in if v \<noteq> '''' then Some v else None)"

definition New :: "string \<Rightarrow> string \<Rightarrow> options \<Rightarrow> state" where
  "New chainKey requester opt =
     \<lparr>s_chain_key = chainKey, s_status = StatusDraft, s_desk = '''', s_stage_index = -1,
      s_amount = o_amount opt, s_skip = o_skip opt, s_requester = trim_space requester,
      s_history = [], s_scope = cloneScope (o_scope opt)\<rparr>"

definition state_Options :: "state \<Rightarrow> options" where
  "state_Options s = \<lparr>o_amount = s_amount s, o_skip = s_skip s, o_scope = s_scope s\<rparr>"

fun LastReason_loop :: "step list \<Rightarrow> string" where
  "LastReason_loop [] = ''''"
| "LastReason_loop (st # sts) =
     (if st_action st = ActionReject \<or> st_action st = ActionAmend then st_reason st
      else LastReason_loop sts)"

definition LastReason :: "state \<Rightarrow> string" where
  "LastReason s = LastReason_loop (rev (s_history s))"

definition clone :: "state \<Rightarrow> state" where
  "clone s = s\<lparr>s_scope := cloneScope (s_scope s)\<rparr>"

definition record_step ::
  "desk \<Rightarrow> action \<Rightarrow> actor \<Rightarrow> string \<Rightarrow> bool \<Rightarrow> timestamp \<Rightarrow> state \<Rightarrow> state" where
  "record_step d act a reason override now s =
     s\<lparr>s_history := s_history s @
        [\<lparr>st_desk = d_key d, st_desk_label = d_label d, st_action = act, st_actor = a_id a,
          st_actor_role = byRole d a, st_reason = trim_space reason, st_override = override,
          st_at = now\<rparr>]\<rparr>"

text \<open>A desk with only a key and a label, \<^verbatim>\<open>Desk{Key: k, Label: l}\<close>: every other field is zero.\<close>

definition bare_desk :: "string \<Rightarrow> string \<Rightarrow> desk" where
  "bare_desk k l =
     \<lparr>d_key = k, d_label = l, d_role_patterns = [], d_min_amount = 0, d_required_perm = '''',
      d_action_label = '''', d_status_label = '''', d_allow_requester = False, d_scope_by = '''',
      d_roles = []\<rparr>"

section \<open>Helpers\<close>

definition sameActor :: "string \<Rightarrow> string \<Rightarrow> bool" where
  "sameActor a b = (let a = trim_space a; b = trim_space b in a \<noteq> '''' \<and> equal_fold a b)"

definition isSystemActor :: "string \<Rightarrow> bool" where
  "isSystemActor by = (let b = trim_space by in b = '''' \<or> equal_fold b ''system'')"

text \<open>The index loop of \<^verbatim>\<open>attemptStart\<close> runs down from \<open>len(history) - 1\<close>.\<close>

fun attemptStart_loop :: "step list \<Rightarrow> nat \<Rightarrow> nat" where
  "attemptStart_loop h 0 = 0"
| "attemptStart_loop h (Suc i) =
     (if st_action (h ! i) = ActionAmend then Suc i else attemptStart_loop h i)"

definition attemptStart :: "step list \<Rightarrow> nat" where
  "attemptStart h = attemptStart_loop h (length h)"

fun previousApprover_loop :: "step list \<Rightarrow> nat \<Rightarrow> nat \<Rightarrow> string" where
  "previousApprover_loop h lo 0 = ''''"
| "previousApprover_loop h lo (Suc i) =
     (if i < lo then ''''
      else if st_action (h ! i) \<noteq> ActionAdvance then previousApprover_loop h lo i
      else if isSystemActor (st_actor (h ! i)) then ''''
      else st_actor (h ! i))"

definition previousApprover :: "state \<Rightarrow> string" where
  "previousApprover s =
     previousApprover_loop (s_history s) (attemptStart (s_history s)) (length (s_history s))"

definition hasAlreadyAdvanced :: "state \<Rightarrow> string \<Rightarrow> bool" where
  "hasAlreadyAdvanced s i =
     (if isSystemActor i then False
      else list_ex (\<lambda>st. st_action st = ActionAdvance \<and> sameActor i (st_actor st))
             (drop (attemptStart (s_history s)) (s_history s)))"

definition deskAt :: "state \<Rightarrow> desk list \<Rightarrow> desk option" where
  "deskAt s engaged =
     (if s_stage_index s < 0 \<or> s_stage_index s \<ge> int (length engaged) then None
      else let d = engaged ! nat (s_stage_index s) in
        if s_desk s \<noteq> '''' \<and> d_key d \<noteq> s_desk s then None else Some d)"

definition currentDesk :: "state \<Rightarrow> desk list \<Rightarrow> chain_error + desk" where
  "currentDesk s engaged =
     (if s_status s \<noteq> StatusInFlight then Inl ErrNotWaiting
      else case deskAt s engaged of None \<Rightarrow> Inl ErrWrongDesk | Some d \<Rightarrow> Inr d)"

definition chainFor :: "registry \<Rightarrow> state \<Rightarrow> chain_error + chain \<times> desk list" where
  "chainFor r s =
     (case registry_Get r (s_chain_key s) of
        None \<Rightarrow> Inl ErrUnknownChain
      | Some c \<Rightarrow>
          let engaged = Engaged c (state_Options s) in
          if engaged = [] \<and> \<not> c_allow_auto_approve c then Inl ErrNoEngagedDesks
          else Inr (c, engaged))"

section \<open>Transitions\<close>

definition Submit :: "registry \<Rightarrow> timestamp \<Rightarrow> state \<Rightarrow> actor \<Rightarrow> chain_error + state" where
  "Submit r now s a =
     res_bind (chainFor r s) (\<lambda>(c, engaged).
     if s_status s \<noteq> StatusDraft \<and> s_status s \<noteq> StatusReturned then Inl ErrNotWaiting
     else if \<not> a_admin a \<and> \<not> sameActor (a_id a) (s_requester s) then Inl ErrNotRequester
     else case engaged of
       [] \<Rightarrow>
         Inr (record_step (bare_desk '''' (Terminal c)) ActionSubmit a ''''
           (a_admin a \<and> \<not> sameActor (a_id a) (s_requester s)) now
           ((clone s)\<lparr>s_status := StatusApproved, s_desk := '''', s_stage_index := 0\<rparr>))
     | first # _ \<Rightarrow>
         Inr (record_step first ActionSubmit a '''' False now
           ((clone s)\<lparr>s_status := StatusInFlight, s_stage_index := 0, s_desk := d_key first\<rparr>)))"

text \<open>The search loop of \<^verbatim>\<open>Rebase\<close>: the first engaged desk with the recorded key.\<close>

fun rebase_index :: "string \<Rightarrow> nat \<Rightarrow> desk list \<Rightarrow> nat option" where
  "rebase_index key i [] = None"
| "rebase_index key i (d # ds) = (if d_key d = key then Some i else rebase_index key (Suc i) ds)"

definition Rebase :: "registry \<Rightarrow> state \<Rightarrow> amount \<Rightarrow> chain_error + state" where
  "Rebase r s amt =
     (if amt = s_amount s then Inr s
      else res_bind (chainFor r s) (\<lambda>(c, _).
        let out = (clone s)\<lparr>s_amount := amt\<rparr> in
        if s_status s \<noteq> StatusInFlight then Inr out
        else case rebase_index (s_desk s) 0 (Engaged c (state_Options out)) of
          Some i \<Rightarrow> Inr (out\<lparr>s_stage_index := int i\<rparr>)
        | None \<Rightarrow> Inl ErrAmountChanged))"

definition Advance :: "registry \<Rightarrow> timestamp \<Rightarrow> state \<Rightarrow> actor \<Rightarrow> string \<Rightarrow> chain_error + state" where
  "Advance r now s a note =
     res_bind (chainFor r s) (\<lambda>(c, engaged).
     res_bind (currentDesk s engaged) (\<lambda>desk.
     if \<not> HoldsFor desk a (s_scope s) then Inl ErrForbidden
     else if \<not> checkPerm desk a then Inl ErrMissingPermission
     else if \<not> d_allow_requester desk \<and> sameActor (a_id a) (s_requester s) \<and> \<not> a_admin a
       then Inl ErrSelfApproval
     else if c_no_successive_approver c \<and> \<not> a_admin a \<and> sameActor (a_id a) (previousApprover s)
       then Inl ErrSelfSuccession
     else if c_no_repeat_approver c \<and> \<not> a_admin a \<and> hasAlreadyAdvanced s (a_id a)
       then Inl ErrRepeatApprover
     else
       let out = record_step desk ActionAdvance a note (a_admin a \<and> \<not> deskHeldByRole desk a) now (clone s) in
       if s_stage_index s + 1 \<ge> int (length engaged)
       then Inr (out\<lparr>s_status := StatusApproved, s_desk := '''', s_stage_index := int (length engaged)\<rparr>)
       else Inr (out\<lparr>s_stage_index := s_stage_index s + 1,
                     s_desk := d_key (engaged ! nat (s_stage_index s + 1))\<rparr>)))"

definition Reject :: "registry \<Rightarrow> timestamp \<Rightarrow> state \<Rightarrow> actor \<Rightarrow> string \<Rightarrow> chain_error + state" where
  "Reject r now s a reason =
     res_bind (chainFor r s) (\<lambda>(_, engaged).
     res_bind (currentDesk s engaged) (\<lambda>desk.
     if \<not> HoldsFor desk a (s_scope s) then Inl ErrForbidden
     else if blank reason then Inl ErrReasonRequired
     else Inr (record_step desk ActionReject a reason (a_admin a \<and> \<not> deskHeldByRole desk a) now
       ((clone s)\<lparr>s_status := StatusRejected, s_desk := d_key desk\<rparr>))))"

definition Amend :: "registry \<Rightarrow> timestamp \<Rightarrow> state \<Rightarrow> actor \<Rightarrow> string \<Rightarrow> chain_error + state" where
  "Amend r now s a reason =
     res_bind (chainFor r s) (\<lambda>(_, engaged).
     res_bind (currentDesk s engaged) (\<lambda>desk.
     if \<not> HoldsFor desk a (s_scope s) then Inl ErrForbidden
     else if blank reason then Inl ErrReasonRequired
     else Inr (record_step desk ActionAmend a reason (a_admin a \<and> \<not> deskHeldByRole desk a) now
       ((clone s)\<lparr>s_status := StatusReturned, s_desk := d_key desk, s_stage_index := -1\<rparr>))))"

definition Cancel :: "registry \<Rightarrow> timestamp \<Rightarrow> state \<Rightarrow> actor \<Rightarrow> string \<Rightarrow> chain_error + state" where
  "Cancel r now s a reason =
     res_bind (chainFor r s) (\<lambda>(c, engaged).
     if \<not> status_Open (s_status s) then Inl ErrNotWaiting
     else if \<not> a_admin a \<and> \<not> sameActor (a_id a) (s_requester s) then Inl ErrNotRequester
     else let override = a_admin a \<and> \<not> sameActor (a_id a) (s_requester s) in
       if override \<and> blank reason then Inl ErrReasonRequired
       else let desk = (case deskAt s engaged of Some d \<Rightarrow> d | None \<Rightarrow> bare_desk (s_desk s) (c_label c)) in
         Inr (record_step desk ActionCancel a reason override now
           ((clone s)\<lparr>s_status := StatusCancelled\<rparr>)))"

definition Reopen :: "registry \<Rightarrow> timestamp \<Rightarrow> state \<Rightarrow> actor \<Rightarrow> string \<Rightarrow> chain_error + state" where
  "Reopen r now s a reason =
     res_bind (chainFor r s) (\<lambda>(_, engaged).
     if s_status s \<noteq> StatusRejected then Inl ErrNotWaiting
     else if \<not> a_admin a then Inl ErrForbidden
     else if blank reason then Inl ErrReasonRequired
     else if s_stage_index s < 0 \<or> s_stage_index s \<ge> int (length engaged) then Inl ErrWrongDesk
     else let desk = engaged ! nat (s_stage_index s) in
       Inr (record_step desk ActionSubmit a reason True now
         ((clone s)\<lparr>s_status := StatusInFlight, s_desk := d_key desk\<rparr>)))"

text \<open>The transitions as one vocabulary, and the way the service runs one: rebase, then act.\<close>

datatype chain_op =
    OpSubmit actor
  | OpAdvance actor string
  | OpReject actor string
  | OpAmend actor string
  | OpCancel actor string
  | OpReopen actor string

fun op_actor :: "chain_op \<Rightarrow> actor" where
  "op_actor (OpSubmit a) = a"
| "op_actor (OpAdvance a _) = a"
| "op_actor (OpReject a _) = a"
| "op_actor (OpAmend a _) = a"
| "op_actor (OpCancel a _) = a"
| "op_actor (OpReopen a _) = a"

fun run_op :: "registry \<Rightarrow> timestamp \<Rightarrow> chain_op \<Rightarrow> state \<Rightarrow> chain_error + state" where
  "run_op r now (OpSubmit a) s = Submit r now s a"
| "run_op r now (OpAdvance a n) s = Advance r now s a n"
| "run_op r now (OpReject a n) s = Reject r now s a n"
| "run_op r now (OpAmend a n) s = Amend r now s a n"
| "run_op r now (OpCancel a n) s = Cancel r now s a n"
| "run_op r now (OpReopen a n) s = Reopen r now s a n"

definition chain_step ::
  "registry \<Rightarrow> timestamp \<Rightarrow> amount \<Rightarrow> chain_op \<Rightarrow> state \<Rightarrow> chain_error + state" where
  "chain_step r now amt op s = res_bind (Rebase r s amt) (run_op r now op)"

text \<open>States reachable from a fresh draft when every acting user satisfies \<open>ok\<close>.\<close>

inductive chain_reach :: "registry \<Rightarrow> (actor \<Rightarrow> bool) \<Rightarrow> state \<Rightarrow> bool" for r ok where
  opened: "registry_Get r key = Some c \<Longrightarrow> chain_reach r ok (New key requester opt)"
| stepped: "chain_reach r ok s \<Longrightarrow> ok (op_actor op) \<Longrightarrow> chain_step r now amt op s = Inr s' \<Longrightarrow>
     chain_reach r ok s'"

end
