(* ===== verification/Approval_Walk.thy ===== *)
theory Approval_Walk
  imports Approval_Engine
begin

text \<open>
  What the engine's transitions guarantee.

  The locale \<open>approval_transition\<close> is the contract every transition shares with its caller:
  it appends exactly one step of its own kind and leaves the request's identity alone. Each of
  the six transitions interprets it. On top of it: the walk invariant (the desks signed in the
  current attempt are exactly the engaged desks before the cursor), segregation of duties along
  a whole run, and progress.
\<close>

section \<open>The transition contract\<close>

text \<open>
  The database constraint on recorded steps (migration 022): a rejection, an amendment and an
  overriding cancellation carry a reason. \<^verbatim>\<open>length(btrim(reason)) > 0\<close> asks for a
  character other than a space.
\<close>

definition reason_check :: "step \<Rightarrow> bool" where
  "reason_check st \<longleftrightarrow>
     list_ex (\<lambda>ch. ch \<noteq> CHR '' '') (st_reason st) \<or>
     (st_action st \<noteq> ActionReject \<and> st_action st \<noteq> ActionAmend \<and>
      \<not> (st_action st = ActionCancel \<and> st_override st))"

lemma trim_space_check:
  assumes "\<not> blank r"
  shows "list_ex (\<lambda>ch. ch \<noteq> CHR '' '') (trim_space r)"
proof -
  define t where "t = dropWhile is_space (rev (dropWhile is_space r))"
  have ne: "t \<noteq> []" using assms by (simp add: trim_space_def t_def)
  then have "\<not> is_space (hd t)" unfolding t_def by (rule hd_dropWhile)
  moreover have "is_space (CHR '' '')" by (simp add: is_space_def)
  ultimately have "hd t \<noteq> CHR '' ''" by metis
  moreover have "set (trim_space r) = set t" by (simp add: trim_space_def t_def)
  ultimately show ?thesis unfolding list_ex_iff by (metis hd_in_set ne)
qed

locale approval_transition =
  fixes T :: "registry \<Rightarrow> timestamp \<Rightarrow> state \<Rightarrow> chain_error + state"
    and act :: action
    and who :: string
  assumes frame: "T r now s = Inr s' \<Longrightarrow>
      s_chain_key s' = s_chain_key s \<and> s_requester s' = s_requester s \<and> s_skip s' = s_skip s \<and>
      s_amount s' = s_amount s \<and> s_scope s' = cloneScope (s_scope s)"
    and appends: "T r now s = Inr s' \<Longrightarrow>
      \<exists>st. s_history s' = s_history s @ [st] \<and> st_action st = act \<and> st_actor st = who \<and> st_at st = now"
    and reasoned: "T r now s = Inr s' \<Longrightarrow> reason_check (last (s_history s'))"
begin

lemma history_grows: "T r now s = Inr s' \<Longrightarrow> length (s_history s') = Suc (length (s_history s))"
  using appends by fastforce

lemma history_prefix: "T r now s = Inr s' \<Longrightarrow> prefix (s_history s) (s_history s')"
  using appends by (fastforce simp: prefix_def)

lemma last_step: "T r now s = Inr s' \<Longrightarrow>
    s_history s' \<noteq> [] \<and> st_action (last (s_history s')) = act \<and> st_actor (last (s_history s')) = who"
  using appends by fastforce

end

lemma record_step_simps [simp]:
  "s_chain_key (record_step d act a n ov now s) = s_chain_key s"
  "s_status (record_step d act a n ov now s) = s_status s"
  "s_desk (record_step d act a n ov now s) = s_desk s"
  "s_stage_index (record_step d act a n ov now s) = s_stage_index s"
  "s_amount (record_step d act a n ov now s) = s_amount s"
  "s_skip (record_step d act a n ov now s) = s_skip s"
  "s_requester (record_step d act a n ov now s) = s_requester s"
  "s_scope (record_step d act a n ov now s) = s_scope s"
  by (simp_all add: record_step_def)

lemma record_step_history:
  "s_history (record_step d act a n ov now s) = s_history s @
     [\<lparr>st_desk = d_key d, st_desk_label = d_label d, st_action = act, st_actor = a_id a,
       st_actor_role = byRole d a, st_reason = trim_space n, st_override = ov, st_at = now\<rparr>]"
  by (simp add: record_step_def)

lemma clone_simps [simp]:
  "s_chain_key (clone s) = s_chain_key s" "s_status (clone s) = s_status s" "s_desk (clone s) = s_desk s"
  "s_stage_index (clone s) = s_stage_index s" "s_amount (clone s) = s_amount s" "s_skip (clone s) = s_skip s"
  "s_requester (clone s) = s_requester s" "s_history (clone s) = s_history s"
  "s_scope (clone s) = cloneScope (s_scope s)"
  by (simp_all add: clone_def)

lemma cloneScope_idem [simp]: "cloneScope (cloneScope m) = cloneScope m"
  by (rule ext) (simp add: cloneScope_def Let_def split: option.splits)

lemma state_Options_simps [simp]:
  "o_amount (state_Options s) = s_amount s" "o_skip (state_Options s) = s_skip s"
  "o_scope (state_Options s) = s_scope s"
  by (simp_all add: state_Options_def)

lemma Engaged_cong: "o_amount o1 = o_amount o2 \<Longrightarrow> o_skip o1 = o_skip o2 \<Longrightarrow> Engaged c o1 = Engaged c o2"
  by (simp add: Engaged_filter skipped_def)

lemmas transition_defs [engine_simps] =
  Submit_def Advance_def Reject_def Amend_def Cancel_def Reopen_def

interpretation submit_tr: approval_transition "\<lambda>r now s. Submit r now s a" ActionSubmit "a_id a" for a
  by unfold_locales
    (auto simp: Submit_def record_step_history reason_check_def split: if_splits list.splits)

interpretation advance_tr: approval_transition "\<lambda>r now s. Advance r now s a n" ActionAdvance "a_id a" for a n
  by unfold_locales
    (auto simp: Advance_def record_step_history reason_check_def Let_def split: if_splits)

interpretation reject_tr: approval_transition "\<lambda>r now s. Reject r now s a n" ActionReject "a_id a" for a n
  by unfold_locales
    (auto simp: Reject_def record_step_history reason_check_def trim_space_check split: if_splits)

interpretation amend_tr: approval_transition "\<lambda>r now s. Amend r now s a n" ActionAmend "a_id a" for a n
  by unfold_locales
    (auto simp: Amend_def record_step_history reason_check_def trim_space_check split: if_splits)

interpretation cancel_tr: approval_transition "\<lambda>r now s. Cancel r now s a n" ActionCancel "a_id a" for a n
  by unfold_locales
    (auto simp: Cancel_def record_step_history reason_check_def trim_space_check Let_def split: if_splits)

interpretation reopen_tr: approval_transition "\<lambda>r now s. Reopen r now s a n" ActionSubmit "a_id a" for a n
  by unfold_locales
    (auto simp: Reopen_def record_step_history reason_check_def Let_def split: if_splits)

text \<open>The same contract for an arbitrary operation of the vocabulary.\<close>

fun op_action :: "chain_op \<Rightarrow> action" where
  "op_action (OpSubmit _) = ActionSubmit"
| "op_action (OpAdvance _ _) = ActionAdvance"
| "op_action (OpReject _ _) = ActionReject"
| "op_action (OpAmend _ _) = ActionAmend"
| "op_action (OpCancel _ _) = ActionCancel"
| "op_action (OpReopen _ _) = ActionSubmit"

interpretation op_tr: approval_transition "\<lambda>r now s. run_op r now op s" "op_action op" "a_id (op_actor op)" for op
proof (cases op)
  case (OpSubmit a)
  then show "approval_transition (\<lambda>r now s. run_op r now op s) (op_action op) (a_id (op_actor op))"
    using submit_tr.approval_transition_axioms by simp
next
  case (OpAdvance a n)
  then show "approval_transition (\<lambda>r now s. run_op r now op s) (op_action op) (a_id (op_actor op))"
    using advance_tr.approval_transition_axioms by simp
next
  case (OpReject a n)
  then show "approval_transition (\<lambda>r now s. run_op r now op s) (op_action op) (a_id (op_actor op))"
    using reject_tr.approval_transition_axioms by simp
next
  case (OpAmend a n)
  then show "approval_transition (\<lambda>r now s. run_op r now op s) (op_action op) (a_id (op_actor op))"
    using amend_tr.approval_transition_axioms by simp
next
  case (OpCancel a n)
  then show "approval_transition (\<lambda>r now s. run_op r now op s) (op_action op) (a_id (op_actor op))"
    using cancel_tr.approval_transition_axioms by simp
next
  case (OpReopen a n)
  then show "approval_transition (\<lambda>r now s. run_op r now op s) (op_action op) (a_id (op_actor op))"
    using reopen_tr.approval_transition_axioms by simp
qed

section \<open>Attempts\<close>

definition attempt :: "step list \<Rightarrow> step list" where
  "attempt h = drop (attemptStart h) h"

lemma attemptStart_loop_append:
  "i \<le> length h \<Longrightarrow> attemptStart_loop (h @ h') i = attemptStart_loop h i"
  by (induction i) (auto simp: nth_append)

lemma attemptStart_loop_le: "attemptStart_loop h i \<le> i"
  by (induction i) auto

lemma attemptStart_le: "attemptStart h \<le> length h"
  by (simp add: attemptStart_def attemptStart_loop_le)

lemma attemptStart_snoc:
  "attemptStart (h @ [st]) = (if st_action st = ActionAmend then Suc (length h) else attemptStart h)"
  by (simp add: attemptStart_def attemptStart_loop_append)

lemma attempt_Nil [simp]: "attempt [] = []"
  by (simp add: attempt_def)

lemma attempt_snoc: "attempt (h @ [st]) = (if st_action st = ActionAmend then [] else attempt h @ [st])"
  using attemptStart_le [of h] by (simp add: attempt_def attemptStart_snoc)

definition advances :: "step list \<Rightarrow> step list" where
  "advances h = filter (\<lambda>st. st_action st = ActionAdvance) (attempt h)"

definition signed_desks :: "state \<Rightarrow> string list" where
  "signed_desks s = map st_desk (advances (s_history s))"

definition signers :: "state \<Rightarrow> string list" where
  "signers s = map st_actor (advances (s_history s))"

lemma advances_Nil [simp]: "advances [] = []"
  by (simp add: advances_def)

lemma advances_snoc:
  "advances (h @ [st]) =
     (if st_action st = ActionAmend then []
      else if st_action st = ActionAdvance then advances h @ [st] else advances h)"
  by (simp add: advances_def attempt_snoc)

lemma hasAlreadyAdvanced_iff:
  "hasAlreadyAdvanced s i \<longleftrightarrow> \<not> isSystemActor i \<and> (\<exists>b \<in> set (signers s). sameActor i b)"
  by (auto simp: hasAlreadyAdvanced_def signers_def advances_def attempt_def list_ex_iff)

lemma previousApprover_loop_spec:
  "n \<le> length h \<Longrightarrow> lo \<le> n \<Longrightarrow> previousApprover_loop h lo n =
     (let adv = filter (\<lambda>st. st_action st = ActionAdvance) (drop lo (take n h)) in
      if adv = [] \<or> isSystemActor (st_actor (last adv)) then '''' else st_actor (last adv))"
proof (induction n)
  case 0
  then show ?case by simp
next
  case (Suc n)
  show ?case
  proof (cases "n < lo")
    case True
    with Suc.prems show ?thesis by (simp add: le_Suc_eq)
  next
    case False
    with Suc.prems have "drop lo (take (Suc n) h) = drop lo (take n h) @ [h ! n]"
      by (simp add: take_Suc_conv_app_nth)
    with False Suc show ?thesis by (simp add: Let_def)
  qed
qed

lemma previousApprover_eq:
  "previousApprover s =
     (if signers s = [] \<or> isSystemActor (last (signers s)) then '''' else last (signers s))"
  using previousApprover_loop_spec [of "length (s_history s)" "s_history s" "attemptStart (s_history s)"]
    attemptStart_le [of "s_history s"]
  by (simp add: previousApprover_def signers_def advances_def attempt_def Let_def last_map)

section \<open>Rebase\<close>

lemma rebase_index_Some:
  "rebase_index key i ds = Some j \<Longrightarrow> i \<le> j \<and> j - i < length ds \<and> d_key (ds ! (j - i)) = key"
proof (induction ds arbitrary: i)
  case Nil
  then show ?case by simp
next
  case (Cons d ds)
  show ?case
  proof (cases "d_key d = key")
    case True
    with Cons.prems show ?thesis by auto
  next
    case False
    with Cons have "Suc i \<le> j \<and> j - Suc i < length ds \<and> d_key (ds ! (j - Suc i)) = key" by simp
    then show ?thesis by (auto simp: nth_Cons' Suc_diff_Suc)
  qed
qed

lemma rebase_index_None: "rebase_index key i ds = None \<longleftrightarrow> key \<notin> d_key ` set ds"
  by (induction ds arbitrary: i) auto

lemma chainFor_Inr:
  "chainFor r s = Inr (c, eng) \<longleftrightarrow>
     registry_Get r (s_chain_key s) = Some c \<and> eng = Engaged c (state_Options s) \<and>
     (eng \<noteq> [] \<or> c_allow_auto_approve c)"
  by (auto simp: chainFor_def Let_def split: option.splits)

lemma deskAt_Some:
  "deskAt s eng = Some d \<longleftrightarrow>
     0 \<le> s_stage_index s \<and> s_stage_index s < int (length eng) \<and> d = eng ! nat (s_stage_index s) \<and>
     (s_desk s = '''' \<or> d_key d = s_desk s)"
  by (auto simp: deskAt_def Let_def)

lemma currentDesk_Inr:
  "currentDesk s eng = Inr d \<longleftrightarrow> s_status s = StatusInFlight \<and> deskAt s eng = Some d"
  by (auto simp: currentDesk_def split: option.splits)

lemma Rebase_frame:
  "Rebase r s amt = Inr s' \<Longrightarrow>
     s_chain_key s' = s_chain_key s \<and> s_requester s' = s_requester s \<and> s_skip s' = s_skip s \<and>
     s_history s' = s_history s \<and> s_status s' = s_status s \<and> s_desk s' = s_desk s \<and> s_amount s' = amt"
  by (auto simp: Rebase_def Let_def split: if_splits option.splits)

lemma chain_step_frame:
  assumes "chain_step r now amt op s = Inr s'"
  shows "s_chain_key s' = s_chain_key s \<and> s_requester s' = s_requester s \<and> s_skip s' = s_skip s \<and>
    s_amount s' = amt \<and> prefix (s_history s) (s_history s')"
proof -
  from assms obtain s1 where s1: "Rebase r s amt = Inr s1" and s': "run_op r now op s1 = Inr s'"
    by (auto simp: chain_step_def)
  show ?thesis
    using Rebase_frame [OF s1] op_tr.frame [OF s'] op_tr.history_prefix [OF s'] by simp
qed

section \<open>The walk invariant\<close>

definition on_desk :: "desk list \<Rightarrow> state \<Rightarrow> bool" where
  "on_desk eng s \<longleftrightarrow>
     0 \<le> s_stage_index s \<and> s_stage_index s < int (length eng) \<and>
     s_desk s = d_key (eng ! nat (s_stage_index s)) \<and>
     signed_desks s = map d_key (take (nat (s_stage_index s)) eng)"

definition walk_ok :: "chain \<Rightarrow> state \<Rightarrow> bool" where
  "walk_ok c s \<longleftrightarrow>
     (let eng = Engaged c (state_Options s) in
      case s_status s of
        StatusDraft \<Rightarrow> s_stage_index s = -1 \<and> signed_desks s = []
      | StatusInFlight \<Rightarrow> on_desk eng s
      | StatusReturned \<Rightarrow> s_stage_index s = -1 \<and> signed_desks s = []
      | StatusApproved \<Rightarrow> signed_desks s = map d_key eng
      | StatusRejected \<Rightarrow> on_desk eng s
      | StatusCancelled \<Rightarrow> True)"

text \<open>What is left of it between the rebase and the transition it precedes.\<close>

definition rebased_ok :: "chain \<Rightarrow> state \<Rightarrow> bool" where
  "rebased_ok c s \<longleftrightarrow>
     (let eng = Engaged c (state_Options s) in
      case s_status s of
        StatusDraft \<Rightarrow> signed_desks s = []
      | StatusInFlight \<Rightarrow> on_desk eng s
      | StatusReturned \<Rightarrow> signed_desks s = []
      | StatusApproved \<Rightarrow> True
      | StatusRejected \<Rightarrow>
          (s_stage_index s < int (length eng) \<longrightarrow>
           signed_desks s = map d_key (take (nat (s_stage_index s)) eng))
      | StatusCancelled \<Rightarrow> True)"

lemma Engaged_take_eq:
  assumes "ascending_bands c" and "o_skip o1 = o_skip o2"
    and "i \<le> length (Engaged c o1)" and "i \<le> length (Engaged c o2)"
  shows "take i (Engaged c o1) = take i (Engaged c o2)"
proof (cases "o_amount o1 \<le> o_amount o2")
  case True
  with assms show ?thesis
    using Engaged_prefix [of c o1 o2] by (auto simp: prefix_def)
next
  case False
  with assms show ?thesis
    using Engaged_prefix [of c o2 o1] by (auto simp: prefix_def)
qed

lemma Engaged_nth_eq:
  assumes "ascending_bands c" and "o_skip o1 = o_skip o2"
    and "i < length (Engaged c o1)" and "i < length (Engaged c o2)"
  shows "Engaged c o1 ! i = Engaged c o2 ! i"
  using Engaged_take_eq [OF assms(1,2), of "Suc i"] assms(3,4)
  by (metis Suc_leI lessI nth_take)

lemma signed_desks_cong: "s_history s = s_history t \<Longrightarrow> signed_desks s = signed_desks t"
  by (simp add: signed_desks_def)

text \<open>On an ascending chain a rebase never moves the cursor of a request in flight.\<close>

lemma rebase_keeps_cursor:
  assumes asc: "ascending_bands c" and dist: "distinct (map d_key (c_desks c))"
    and skip: "o_skip o1 = o_skip o2"
    and i: "i < length (Engaged c o1)" and key: "d_key (Engaged c o1 ! i) = k"
    and j: "rebase_index k 0 (Engaged c o2) = Some j"
  shows "j = i \<and> i < length (Engaged c o2) \<and> take i (Engaged c o1) = take i (Engaged c o2) \<and>
    Engaged c o2 ! i = Engaged c o1 ! i"
proof -
  let ?e1 = "Engaged c o1" and ?e2 = "Engaged c o2"
  from rebase_index_Some [OF j] have j2: "j < length ?e2" and jk: "d_key (?e2 ! j) = k" by auto
  have d1: "distinct (map d_key ?e1)" and d2: "distinct (map d_key ?e2)"
    using dist by (simp_all add: Engaged_distinct)
  have "j = i"
  proof (cases "i < length ?e2")
    case True
    then have "?e2 ! i = ?e1 ! i" using Engaged_nth_eq [OF asc skip i] by simp
    then show ?thesis using nth_key_unique [OF d2 j2 True] jk key by simp
  next
    case False
    then have "j < length ?e1" using j2 i by simp
    then have "?e1 ! j = ?e2 ! j" using Engaged_nth_eq [OF asc skip _ j2] by simp
    then show ?thesis using nth_key_unique [OF d1 \<open>j < length ?e1\<close> i] jk key by simp
  qed
  with j2 i show ?thesis
    using Engaged_take_eq [OF asc skip, of i] Engaged_nth_eq [OF asc skip, of i] by simp
qed

lemma Rebase_walk:
  assumes asc: "ascending_bands c" and wf: "wf_chain c"
    and get: "registry_Get r (s_chain_key s) = Some c"
    and inv: "walk_ok c s" and step: "Rebase r s amt = Inr s1"
  shows "rebased_ok c s1"
proof (cases "amt = s_amount s")
  case True
  then have "s1 = s" using step by (simp add: Rebase_def)
  then show ?thesis
    using inv by (auto simp: walk_ok_def rebased_ok_def on_desk_def Let_def split: status.splits)
next
  case False
  let ?out = "(clone s)\<lparr>s_amount := amt\<rparr>"
  let ?e1 = "Engaged c (state_Options s)" and ?e2 = "Engaged c (state_Options ?out)"
  have sd: "signed_desks ?out = signed_desks s" by (simp add: signed_desks_def)
  show ?thesis
  proof (cases "s_status s = StatusInFlight")
    case True
    with False step get obtain j where j: "rebase_index (s_desk s) 0 ?e2 = Some j"
      and s1: "s1 = ?out\<lparr>s_stage_index := int j\<rparr>"
      by (auto simp: Rebase_def Let_def chainFor_Inr split: option.splits)
    from True inv have od: "on_desk ?e1 s" by (simp add: walk_ok_def)
    have "j = nat (s_stage_index s) \<and> nat (s_stage_index s) < length ?e2 \<and>
        take (nat (s_stage_index s)) ?e1 = take (nat (s_stage_index s)) ?e2 \<and>
        ?e2 ! nat (s_stage_index s) = ?e1 ! nat (s_stage_index s)"
      using wf od by (intro rebase_keeps_cursor [OF asc _ _ _ _ j]) (auto simp: wf_chain_def on_desk_def nat_less_iff)
    then show ?thesis
      using True od s1 sd signed_desks_cong [of s1 ?out]
        Engaged_cong [of "state_Options s1" "state_Options ?out" c]
      by (auto simp: rebased_ok_def on_desk_def)
  next
    case nf: False
    with False step get have s1: "s1 = ?out" by (auto simp: Rebase_def Let_def)
    have "take (nat (s_stage_index s)) ?e1 = take (nat (s_stage_index s)) ?e2"
      if "on_desk ?e1 s" and "s_stage_index s < int (length ?e2)"
      using that by (intro Engaged_take_eq [OF asc]) (auto simp: on_desk_def)
    with inv nf s1 sd show ?thesis
      by (auto simp: rebased_ok_def walk_ok_def on_desk_def Let_def split: status.splits)
  qed
qed

lemma signed_desks_step:
  assumes "s_history s' = s_history s @ [st]"
  shows "signed_desks s' =
    (if st_action st = ActionAmend then []
     else if st_action st = ActionAdvance then signed_desks s @ [st_desk st] else signed_desks s)"
  using assms by (simp add: signed_desks_def advances_snoc)

lemma Advance_result:
  assumes get: "registry_Get r (s_chain_key s) = Some c" and step: "Advance r now s a n = Inr s'"
  obtains d ov where "currentDesk s (Engaged c (state_Options s)) = Inr d"
    and "s' = (if s_stage_index s + 1 \<ge> int (length (Engaged c (state_Options s)))
       then (record_step d ActionAdvance a n ov now (clone s))\<lparr>s_status := StatusApproved, s_desk := [],
              s_stage_index := int (length (Engaged c (state_Options s)))\<rparr>
       else (record_step d ActionAdvance a n ov now (clone s))\<lparr>s_stage_index := s_stage_index s + 1,
              s_desk := d_key (Engaged c (state_Options s) ! nat (s_stage_index s + 1))\<rparr>)"
proof -
  let ?eng = "Engaged c (state_Options s)"
  have cf: "chainFor r s = Inr (c, ?eng)" using step get by (auto simp: Advance_def chainFor_Inr)
  then obtain d where cd: "currentDesk s ?eng = Inr d" using step by (auto simp: Advance_def)
  show ?thesis
    by (rule that [OF cd, of "a_admin a \<and> \<not> deskHeldByRole d a"])
      (use step in \<open>simp add: Advance_def cf cd Let_def split: if_splits\<close>)
qed

lemma Advance_walk:
  assumes get: "registry_Get r (s_chain_key s) = Some c"
    and inv: "rebased_ok c s" and step: "Advance r now s a n = Inr s'"
  shows "walk_ok c s'"
proof -
  let ?eng = "Engaged c (state_Options s)" and ?i = "nat (s_stage_index s)"
  obtain d ov where cd: "currentDesk s ?eng = Inr d"
    and s': "s' = (if s_stage_index s + 1 \<ge> int (length ?eng)
       then (record_step d ActionAdvance a n ov now (clone s))\<lparr>s_status := StatusApproved, s_desk := [],
              s_stage_index := int (length ?eng)\<rparr>
       else (record_step d ActionAdvance a n ov now (clone s))\<lparr>s_stage_index := s_stage_index s + 1,
              s_desk := d_key (?eng ! nat (s_stage_index s + 1))\<rparr>)"
    using Advance_result [OF get step] .
  have fl: "s_status s = StatusInFlight" and d: "d = ?eng ! ?i" using cd by (auto simp: currentDesk_Inr deskAt_Some)
  with inv have od: "on_desk ?eng s" by (simp add: rebased_ok_def)
  have e': "Engaged c (state_Options s') = ?eng"
    using advance_tr.frame [OF step] by (auto intro: Engaged_cong)
  have "signed_desks s' = signed_desks s @ [d_key d]"
    by (simp add: s' signed_desks_def advances_snoc record_step_history)
  then have take: "signed_desks s' = map d_key (take (Suc ?i) ?eng)"
    using od d by (simp add: on_desk_def take_Suc_conv_app_nth nat_less_iff)
  show ?thesis
  proof (cases "s_stage_index s + 1 \<ge> int (length ?eng)")
    case True
    then have "s_status s' = StatusApproved" by (simp add: s')
    moreover have "take (Suc ?i) ?eng = ?eng" using True od by (simp add: on_desk_def)
    ultimately show ?thesis using take e' by (simp add: walk_ok_def)
  next
    case False
    then have "s_status s' = StatusInFlight \<and> s_stage_index s' = s_stage_index s + 1 \<and>
        s_desk s' = d_key (?eng ! nat (s_stage_index s + 1))"
      using fl by (simp add: s' record_step_def clone_def)
    then show ?thesis using take e' od False
      by (simp add: walk_ok_def on_desk_def nat_add_distrib)
  qed
qed

lemma Submit_walk:
  assumes get: "registry_Get r (s_chain_key s) = Some c"
    and inv: "rebased_ok c s" and step: "Submit r now s a = Inr s'"
  shows "walk_ok c s'"
proof -
  let ?eng = "Engaged c (state_Options s)"
  have e': "Engaged c (state_Options s') = ?eng"
    using submit_tr.frame [OF step] by (auto intro: Engaged_cong)
  from step get inv have "signed_desks s = []"
    by (auto simp: Submit_def rebased_ok_def split: if_splits)
  with submit_tr.appends [OF step] have sg: "signed_desks s' = []"
    by (auto simp: signed_desks_step)
  show ?thesis
  proof (cases ?eng)
    case Nil
    with step get have "s_status s' = StatusApproved"
      by (auto simp: Submit_def chainFor_Inr split: if_splits)
    with Nil e' sg show ?thesis by (simp add: walk_ok_def)
  next
    case (Cons d ds)
    with step get have "s_status s' = StatusInFlight \<and> s_stage_index s' = 0 \<and> s_desk s' = d_key d"
      by (auto simp: Submit_def chainFor_Inr split: if_splits)
    with Cons e' sg show ?thesis by (simp add: walk_ok_def on_desk_def)
  qed
qed

lemma run_op_walk:
  assumes get: "registry_Get r (s_chain_key s) = Some c"
    and inv: "rebased_ok c s" and step: "run_op r now op s = Inr s'"
  shows "walk_ok c s'"
proof (cases op)
  case (OpSubmit a)
  with assms show ?thesis by (auto intro: Submit_walk)
next
  case (OpAdvance a n)
  with assms show ?thesis by (auto intro: Advance_walk)
next
  case (OpReject a n)
  with step have st: "Reject r now s a n = Inr s'" by simp
  have e': "Engaged c (state_Options s') = Engaged c (state_Options s)"
    using reject_tr.frame [OF st] by (auto intro: Engaged_cong)
  have sg: "signed_desks s' = signed_desks s"
    using reject_tr.appends [OF st] by (auto simp: signed_desks_step)
  have "s_status s = StatusInFlight \<and> s_status s' = StatusRejected \<and>
      s_stage_index s' = s_stage_index s \<and> s_desk s' = d_key (Engaged c (state_Options s) ! nat (s_stage_index s))"
    using st get by (auto simp: Reject_def chainFor_Inr currentDesk_Inr deskAt_Some split: if_splits)
  with e' sg inv show ?thesis by (simp add: walk_ok_def rebased_ok_def on_desk_def Let_def)
next
  case (OpAmend a n)
  with step have st: "Amend r now s a n = Inr s'" by simp
  have "signed_desks s' = []"
    using amend_tr.appends [OF st] by (auto simp: signed_desks_step)
  moreover have "s_status s' = StatusReturned \<and> s_stage_index s' = -1"
    using st by (auto simp: Amend_def split: if_splits)
  ultimately show ?thesis by (simp add: walk_ok_def)
next
  case (OpCancel a n)
  with step have "s_status s' = StatusCancelled"
    by (auto simp: Cancel_def Let_def split: if_splits)
  then show ?thesis by (simp add: walk_ok_def)
next
  case (OpReopen a n)
  with step have st: "Reopen r now s a n = Inr s'" by simp
  have e': "Engaged c (state_Options s') = Engaged c (state_Options s)"
    using reopen_tr.frame [OF st] by (auto intro: Engaged_cong)
  have sg: "signed_desks s' = signed_desks s"
    using reopen_tr.appends [OF st] by (auto simp: signed_desks_step)
  have "s_status s = StatusRejected \<and> s_status s' = StatusInFlight \<and> 0 \<le> s_stage_index s \<and>
      s_stage_index s < int (length (Engaged c (state_Options s))) \<and>
      s_stage_index s' = s_stage_index s \<and> s_desk s' = d_key (Engaged c (state_Options s) ! nat (s_stage_index s))"
    using st get by (auto simp: Reopen_def chainFor_Inr Let_def split: if_splits)
  with e' sg inv show ?thesis by (simp add: walk_ok_def rebased_ok_def on_desk_def Let_def)
qed

lemma reach_walk:
  assumes "chain_reach r ok s" and wf: "wf_registry r"
    and asc: "\<forall>k c. reg_chains r k = Some c \<longrightarrow> ascending_bands c"
  shows "\<exists>c. registry_Get r (s_chain_key s) = Some c \<and> wf_chain c \<and> walk_ok c s"
  using assms(1)
proof (induction rule: chain_reach.induct)
  case (opened key c requester opt)
  then show ?case
    using wf_registry_Get [OF wf] by (auto simp: walk_ok_def New_def signed_desks_def)
next
  case (stepped s op now amt s')
  then obtain c where get: "registry_Get r (s_chain_key s) = Some c" and wc: "wf_chain c"
    and inv: "walk_ok c s" by auto
  from stepped.hyps obtain s1 where s1: "Rebase r s amt = Inr s1" and s': "run_op r now op s1 = Inr s'"
    by (auto simp: chain_step_def)
  have "ascending_bands c" using asc get by (auto simp: registry_Get_def)
  with wc get inv s1 have "rebased_ok c s1" by (auto intro: Rebase_walk)
  then have "walk_ok c s'"
    using run_op_walk [OF _ _ s'] get Rebase_frame [OF s1] by simp
  then show ?case
    using get wc Rebase_frame [OF s1] op_tr.frame [OF s'] by auto
qed

text \<open>
  On chains whose bands do not ascend a rebase may move the cursor, yet it always lands on the desk
  the request was waiting for: the cursor itself stays valid on every chain.
\<close>

definition cursor_ok :: "chain \<Rightarrow> state \<Rightarrow> bool" where
  "cursor_ok c s \<longleftrightarrow>
     (s_status s = StatusInFlight \<longrightarrow>
        0 \<le> s_stage_index s \<and> s_stage_index s < int (length (Engaged c (state_Options s))) \<and>
        s_desk s = d_key (Engaged c (state_Options s) ! nat (s_stage_index s)))"

lemma Rebase_cursor:
  assumes get: "registry_Get r (s_chain_key s) = Some c"
    and inv: "cursor_ok c s" and step: "Rebase r s amt = Inr s1"
  shows "cursor_ok c s1"
proof (cases "amt = s_amount s")
  case True
  with step inv show ?thesis by (simp add: Rebase_def)
next
  case False
  let ?out = "(clone s)\<lparr>s_amount := amt\<rparr>"
  show ?thesis
  proof (cases "s_status s = StatusInFlight")
    case True
    with False step get obtain j
      where j: "rebase_index (s_desk s) 0 (Engaged c (state_Options ?out)) = Some j"
        and s1: "s1 = ?out\<lparr>s_stage_index := int j\<rparr>"
      by (auto simp: Rebase_def Let_def chainFor_Inr split: option.splits)
    have "Engaged c (state_Options s1) = Engaged c (state_Options ?out)"
      using s1 by (auto intro: Engaged_cong)
    then show ?thesis using rebase_index_Some [OF j] s1 by (simp add: cursor_ok_def)
  next
    case nf: False
    with Rebase_frame [OF step] show ?thesis by (simp add: cursor_ok_def)
  qed
qed

lemma run_op_cursor:
  assumes get: "registry_Get r (s_chain_key s) = Some c"
    and inv: "cursor_ok c s" and step: "run_op r now op s = Inr s'"
  shows "cursor_ok c s'"
proof -
  have e: "Engaged c (state_Options s') = Engaged c (state_Options s)"
    using op_tr.frame [OF step] by (auto intro: Engaged_cong)
  show ?thesis
  proof (cases op)
    case (OpSubmit a)
    with step get have "s_status s' = StatusInFlight \<longrightarrow> Engaged c (state_Options s) \<noteq> [] \<and>
        s_stage_index s' = 0 \<and> s_desk s' = d_key (Engaged c (state_Options s) ! 0)"
      by (auto simp: Submit_def chainFor_Inr neq_Nil_conv split: if_splits list.splits)
    with e show ?thesis by (simp add: cursor_ok_def)
  next
    case (OpAdvance a n)
    with step have st: "Advance r now s a n = Inr s'" by simp
    obtain d ov where cd: "currentDesk s (Engaged c (state_Options s)) = Inr d"
      and s': "s' = (if s_stage_index s + 1 \<ge> int (length (Engaged c (state_Options s)))
         then (record_step d ActionAdvance a n ov now (clone s))\<lparr>s_status := StatusApproved, s_desk := [],
                s_stage_index := int (length (Engaged c (state_Options s)))\<rparr>
         else (record_step d ActionAdvance a n ov now (clone s))\<lparr>s_stage_index := s_stage_index s + 1,
                s_desk := d_key (Engaged c (state_Options s) ! nat (s_stage_index s + 1))\<rparr>)"
      using Advance_result [OF get st] .
    have "0 \<le> s_stage_index s" using cd by (simp add: currentDesk_Inr deskAt_Some)
    moreover have "s_status s' = StatusInFlight \<longrightarrow>
        s_stage_index s' = s_stage_index s + 1 \<and> s_stage_index s + 1 < int (length (Engaged c (state_Options s))) \<and>
        s_desk s' = d_key (Engaged c (state_Options s) ! nat (s_stage_index s + 1))"
      by (simp add: s')
    ultimately show ?thesis using e by (simp add: cursor_ok_def)
  next
    case (OpReject a n)
    with step have "s_status s' = StatusRejected" by (auto simp: Reject_def split: if_splits)
    then show ?thesis by (simp add: cursor_ok_def)
  next
    case (OpAmend a n)
    with step have "s_status s' = StatusReturned" by (auto simp: Amend_def split: if_splits)
    then show ?thesis by (simp add: cursor_ok_def)
  next
    case (OpCancel a n)
    with step have "s_status s' = StatusCancelled"
      by (auto simp: Cancel_def Let_def split: if_splits)
    then show ?thesis by (simp add: cursor_ok_def)
  next
    case (OpReopen a n)
    with step get have "0 \<le> s_stage_index s \<and> s_stage_index s < int (length (Engaged c (state_Options s))) \<and>
        s_stage_index s' = s_stage_index s \<and> s_desk s' = d_key (Engaged c (state_Options s) ! nat (s_stage_index s))"
      by (auto simp: Reopen_def chainFor_Inr Let_def split: if_splits)
    with e show ?thesis by (simp add: cursor_ok_def)
  qed
qed

lemma reach_cursor:
  assumes "chain_reach r ok s" and wf: "wf_registry r"
  shows "\<exists>c. registry_Get r (s_chain_key s) = Some c \<and> wf_chain c \<and> cursor_ok c s"
  using assms(1)
proof (induction rule: chain_reach.induct)
  case (opened key c requester opt)
  then show ?case using wf_registry_Get [OF wf] by (auto simp: cursor_ok_def New_def)
next
  case (stepped s op now amt s')
  then obtain c where get: "registry_Get r (s_chain_key s) = Some c" and wc: "wf_chain c"
    and inv: "cursor_ok c s" by auto
  from stepped.hyps obtain s1 where s1: "Rebase r s amt = Inr s1" and s': "run_op r now op s1 = Inr s'"
    by (auto simp: chain_step_def)
  have get1: "registry_Get r (s_chain_key s1) = Some c" using get Rebase_frame [OF s1] by simp
  then show ?case
    using run_op_cursor [OF get1 Rebase_cursor [OF get inv s1] s'] wc op_tr.frame [OF s'] by auto
qed

section \<open>Segregation of duties along a run\<close>

definition fold_id :: "string \<Rightarrow> string" where
  "fold_id x = to_lower (trim_space x)"

lemma sameActor_fold: "sameActor a b \<longleftrightarrow> trim_space a \<noteq> '''' \<and> fold_id a = fold_id b"
  by (simp add: sameActor_def Let_def equal_fold_def fold_id_def)

lemma isSystemActor_cong: "fold_id a = fold_id b \<Longrightarrow> isSystemActor a = isSystemActor b"
  unfolding isSystemActor_def Let_def equal_fold_def fold_id_def
  by (metis equal_fold_Nil(1) equal_fold_def)

lemma not_system_not_blank: "\<not> isSystemActor a \<Longrightarrow> trim_space a \<noteq> ''''"
  by (auto simp: isSystemActor_def Let_def)

text \<open>The people (not the automated actors) who signed in the current attempt.\<close>

definition human_signers :: "state \<Rightarrow> string list" where
  "human_signers s = map fold_id (filter (\<lambda>x. \<not> isSystemActor x) (signers s))"

lemma signers_step:
  assumes "s_history s' = s_history s @ [st]"
  shows "signers s' =
    (if st_action st = ActionAmend then []
     else if st_action st = ActionAdvance then signers s @ [st_actor st] else signers s)"
  using assms by (simp add: signers_def advances_snoc)

lemma human_signers_step:
  assumes "s_history s' = s_history s @ [st]"
  shows "human_signers s' =
    (if st_action st = ActionAmend then []
     else if st_action st = ActionAdvance \<and> \<not> isSystemActor (st_actor st)
     then human_signers s @ [fold_id (st_actor st)] else human_signers s)"
  using signers_step [OF assms] by (simp add: human_signers_def)

lemma Advance_repeat_guard:
  assumes "Advance r now s a n = Inr s'" and "registry_Get r (s_chain_key s) = Some c"
    and "c_no_repeat_approver c" and "\<not> a_admin a" and "\<not> isSystemActor (a_id a)"
  shows "fold_id (a_id a) \<notin> set (human_signers s)"
proof -
  from assms have "\<not> hasAlreadyAdvanced s (a_id a)"
    by (auto simp: Advance_def chainFor_Inr split: if_splits)
  with assms(5) show ?thesis
    using not_system_not_blank [OF assms(5)]
    by (auto simp: hasAlreadyAdvanced_iff human_signers_def sameActor_fold)
qed

lemma Rebase_human_signers: "Rebase r s amt = Inr s1 \<Longrightarrow> human_signers s1 = human_signers s"
  by (frule Rebase_frame) (simp add: human_signers_def signers_def)

lemma run_op_distinct_signers:
  assumes get: "registry_Get r (s_chain_key s) = Some c" and nr: "c_no_repeat_approver c"
    and op: "\<not> a_admin (op_actor op)" and inv: "distinct (human_signers s)"
    and step: "run_op r now op s = Inr s'"
  shows "distinct (human_signers s')"
proof -
  from op_tr.appends [OF step] obtain st where h: "s_history s' = s_history s @ [st]"
    and act: "st_action st = op_action op" and who: "st_actor st = a_id (op_actor op)" by auto
  show ?thesis
  proof (cases "op_action op = ActionAdvance \<and> \<not> isSystemActor (a_id (op_actor op))")
    case True
    then obtain a n where "op = OpAdvance a n" by (cases op) auto
    with True step get nr op have "fold_id (a_id (op_actor op)) \<notin> set (human_signers s)"
      by (auto dest: Advance_repeat_guard)
    with True inv who act show ?thesis by (simp add: human_signers_step [OF h])
  next
    case False
    with inv act who show ?thesis by (auto simp: human_signers_step [OF h])
  qed
qed

lemma reach_distinct_signers:
  assumes "chain_reach r (\<lambda>a. \<not> a_admin a) s"
    and "\<forall>k c. reg_chains r k = Some c \<longrightarrow> c_no_repeat_approver c"
  shows "(\<exists>c. registry_Get r (s_chain_key s) = Some c) \<and> distinct (human_signers s)"
  using assms(1)
proof (induction rule: chain_reach.induct)
  case (opened key c requester opt)
  then show ?case by (simp add: New_def human_signers_def signers_def)
next
  case (stepped s op now amt s')
  then obtain c where get: "registry_Get r (s_chain_key s) = Some c" by auto
  from stepped.hyps obtain s1 where s1: "Rebase r s amt = Inr s1" and s': "run_op r now op s1 = Inr s'"
    by (auto simp: chain_step_def)
  have nr: "c_no_repeat_approver c" using assms(2) get by (auto simp: registry_Get_def)
  have "registry_Get r (s_chain_key s1) = Some c" "distinct (human_signers s1)"
    using get stepped.IH Rebase_frame [OF s1] Rebase_human_signers [OF s1] by auto
  from run_op_distinct_signers [OF this(1) nr stepped.hyps(2) this(2) s'] show ?case
    using get Rebase_frame [OF s1] op_tr.frame [OF s'] by auto
qed

text \<open>Four eyes: who may have signed which desk, over the whole history.\<close>

definition four_eyes :: "state \<Rightarrow> bool" where
  "four_eyes s \<longleftrightarrow>
     (\<forall>st \<in> set (s_history s). st_action st = ActionAdvance \<longrightarrow> \<not> sameActor (st_actor st) (s_requester s))"

lemma run_op_four_eyes:
  assumes get: "registry_Get r (s_chain_key s) = Some c" and no: "\<forall>d \<in> set (c_desks c). \<not> d_allow_requester d"
    and op: "\<not> a_admin (op_actor op)" and inv: "four_eyes s" and step: "run_op r now op s = Inr s'"
  shows "four_eyes s'"
proof -
  from op_tr.appends [OF step] obtain st where h: "s_history s' = s_history s @ [st]"
    and act: "st_action st = op_action op" and who: "st_actor st = a_id (op_actor op)" by auto
  have "\<not> sameActor (st_actor st) (s_requester s)" if adv: "st_action st = ActionAdvance"
  proof -
    from adv act obtain a n where op': "op = OpAdvance a n" by (cases op) auto
    with step get obtain d where d: "deskAt s (Engaged c (state_Options s)) = Some d"
      and ok: "d_allow_requester d \<or> \<not> sameActor (a_id a) (s_requester s) \<or> a_admin a"
      by (auto simp: Advance_def chainFor_Inr currentDesk_Inr split: if_splits)
    from d have "d \<in> set (c_desks c)"
      using Engaged_subset [of c "state_Options s"] by (auto simp: deskAt_Some nat_less_iff)
    with no op op' ok who show ?thesis by auto
  qed
  with inv h op_tr.frame [OF step] show ?thesis by (auto simp: four_eyes_def)
qed

lemma reach_four_eyes:
  assumes "chain_reach r (\<lambda>a. \<not> a_admin a) s"
    and "\<forall>k c. reg_chains r k = Some c \<longrightarrow> (\<forall>d \<in> set (c_desks c). \<not> d_allow_requester d)"
  shows "(\<exists>c. registry_Get r (s_chain_key s) = Some c) \<and> four_eyes s"
  using assms(1)
proof (induction rule: chain_reach.induct)
  case (opened key c requester opt)
  then show ?case by (simp add: New_def four_eyes_def)
next
  case (stepped s op now amt s')
  then obtain c where get: "registry_Get r (s_chain_key s) = Some c" by auto
  from stepped.hyps obtain s1 where s1: "Rebase r s amt = Inr s1" and s': "run_op r now op s1 = Inr s'"
    by (auto simp: chain_step_def)
  have no: "\<forall>d \<in> set (c_desks c). \<not> d_allow_requester d"
    using assms(2) get by (auto simp: registry_Get_def)
  have "registry_Get r (s_chain_key s1) = Some c" "four_eyes s1"
    using get stepped.IH Rebase_frame [OF s1] by (auto simp: four_eyes_def)
  from run_op_four_eyes [OF this(1) no stepped.hyps(2) this(2) s'] show ?case
    using get Rebase_frame [OF s1] op_tr.frame [OF s'] by auto
qed

section \<open>The audit trail\<close>

definition refusals_reasoned :: "state \<Rightarrow> bool" where
  "refusals_reasoned s \<longleftrightarrow>
     (\<forall>st \<in> set (s_history s). reason_check st)"

lemma chain_step_refusals:
  assumes "chain_step r now amt op s = Inr s'" and "refusals_reasoned s"
  shows "refusals_reasoned s'"
proof -
  from assms(1) obtain s1 where s1: "Rebase r s amt = Inr s1" and s': "run_op r now op s1 = Inr s'"
    by (auto simp: chain_step_def)
  from op_tr.appends [OF s'] obtain st where h: "s_history s' = s_history s1 @ [st]"
    and act: "st_action st = op_action op" by auto
  have "reason_check st"
    using op_tr.reasoned [OF s'] h by simp
  with assms(2) h Rebase_frame [OF s1] show ?thesis by (auto simp: refusals_reasoned_def)
qed

lemma New_refusals: "refusals_reasoned (New key requester opt)"
  by (simp add: New_def refusals_reasoned_def)

lemma reach_refusals: "chain_reach r ok s \<Longrightarrow> refusals_reasoned s"
  by (induction rule: chain_reach.induct) (auto intro: New_refusals chain_step_refusals)

section \<open>Progress\<close>

text \<open>An approved or cancelled request accepts no further transition.\<close>

lemma chain_step_from_closed:
  assumes "s_status s = StatusApproved \<or> s_status s = StatusCancelled"
  shows "\<not> is_ok (chain_step r now amt op s)"
proof
  assume "is_ok (chain_step r now amt op s)"
  then obtain s1 s' where s1: "Rebase r s amt = Inr s1" and s': "run_op r now op s1 = Inr s'"
    by (auto simp: chain_step_def is_ok_iff)
  have "s_status s1 = s_status s" using Rebase_frame [OF s1] by simp
  with s' assms show False
    by (cases op) (auto simp: transition_defs currentDesk_Inr status_Open_def Let_def split: if_splits)
qed

fun admin_walk :: "registry \<Rightarrow> timestamp \<Rightarrow> actor \<Rightarrow> nat \<Rightarrow> state \<Rightarrow> chain_error + state" where
  "admin_walk r now a 0 s = Inr s"
| "admin_walk r now a (Suc n) s = res_bind (Advance r now s a '''') (admin_walk r now a n)"

lemma admin_Advance_ok:
  assumes get: "registry_Get r (s_chain_key s) = Some c" and fl: "s_status s = StatusInFlight"
    and ok: "cursor_ok c s" and adm: "a_admin a"
  shows "\<exists>s'. Advance r now s a n = Inr s'"
proof -
  let ?eng = "Engaged c (state_Options s)"
  have cur: "0 \<le> s_stage_index s" "s_stage_index s < int (length ?eng)"
    "s_desk s = d_key (?eng ! nat (s_stage_index s))"
    using ok fl by (simp_all add: cursor_ok_def)
  then have "?eng \<noteq> []" by auto
  then have "chainFor r s = Inr (c, ?eng)" using get by (simp add: chainFor_Inr)
  moreover have "currentDesk s ?eng = Inr (?eng ! nat (s_stage_index s))"
    using cur fl by (simp add: currentDesk_Inr deskAt_Some)
  ultimately show ?thesis using adm by (simp add: Advance_def HoldsFor_iff checkPerm_def Let_def)
qed

lemma admin_walk_completes:
  assumes get: "registry_Get r (s_chain_key s) = Some c" and fl: "s_status s = StatusInFlight"
    and ok: "cursor_ok c s" and adm: "a_admin a"
    and n: "n = length (Engaged c (state_Options s)) - nat (s_stage_index s)"
  shows "\<exists>s'. admin_walk r now a n s = Inr s' \<and> s_status s' = StatusApproved"
  using assms
proof (induction n arbitrary: s)
  case 0
  then show ?case by (auto simp: cursor_ok_def)
next
  case (Suc n)
  let ?eng = "Engaged c (state_Options s)"
  from admin_Advance_ok [OF Suc.prems(1-4)] obtain s1 where s1: "Advance r now s a '''' = Inr s1" by blast
  have ok1: "cursor_ok c s1"
    using run_op_cursor [OF Suc.prems(1,3), of now "OpAdvance a ''''" s1] s1 by simp
  have get1: "registry_Get r (s_chain_key s1) = Some c"
    using advance_tr.frame [OF s1] Suc.prems(1) by simp
  have eng: "Engaged c (state_Options s1) = ?eng"
    using advance_tr.frame [OF s1] by (auto intro: Engaged_cong)
  have cur: "0 \<le> s_stage_index s" "s_stage_index s < int (length ?eng)"
    using Suc.prems(2,3) by (simp_all add: cursor_ok_def)
  show ?case
  proof (cases n)
    case 0
    with Suc.prems(5) cur have "s_stage_index s + 1 \<ge> int (length ?eng)" by auto
    then have "s_status s1 = StatusApproved"
      using s1 Suc.prems(1) by (auto simp: Advance_def chainFor_Inr Let_def split: if_splits)
    with 0 s1 show ?thesis by simp
  next
    case (Suc m)
    with Suc.prems(5) cur have "\<not> s_stage_index s + 1 \<ge> int (length ?eng)" by auto
    then have fl1: "s_status s1 = StatusInFlight" and i1: "s_stage_index s1 = s_stage_index s + 1"
      using s1 Suc.prems(1,2) by (auto simp: Advance_def chainFor_Inr Let_def split: if_splits)
    have "n = length (Engaged c (state_Options s1)) - nat (s_stage_index s1)"
      using Suc.prems(5) eng i1 cur by (simp add: nat_add_distrib)
    then show ?thesis using Suc.IH [OF get1 fl1 ok1 adm] s1 by auto
  qed
qed

end
