(* ===== verification/Approval_Queue.thy ===== *)
theory Approval_Queue
  imports Approval_Walk
begin

text \<open>
  The read side of the engine (\<^verbatim>\<open>third_party/platform-go/approvalchain/queue.go\<close>): which
  desk a request waits on, whether an actor may act on it, and the desk-by-desk tracker. The zero
  \<^verbatim>\<open>time.Time\<close> of a tracker row with no recorded action is \<open>None\<close>.
\<close>

datatype step_state = StepPending | StepCurrent | StepDone | StepSkipped | StepRejected

record tracker_step =
  ts_desk :: string
  ts_label :: string
  ts_state :: step_state
  ts_actor :: string
  ts_actor_role :: string
  ts_reason :: string
  ts_at :: "timestamp option"
  ts_skipped :: bool
  ts_min_amount :: amount
  ts_scoped_to :: string

record progress =
  p_chain_key :: string
  p_chain_label :: string
  p_status :: status
  p_status_label :: string
  p_waiting_on :: string
  p_desk :: string
  p_action_label :: string
  p_reason :: string
  p_steps :: "tracker_step list"

definition WaitingOn :: "registry \<Rightarrow> state \<Rightarrow> desk option" where
  "WaitingOn r s =
     (case chainFor r s of
        Inl _ \<Rightarrow> None
      | Inr (_, engaged) \<Rightarrow> if s_status s \<noteq> StatusInFlight then None else deskAt s engaged)"

definition Actionable :: "registry \<Rightarrow> state \<Rightarrow> actor \<Rightarrow> bool" where
  "Actionable r s a =
     (case WaitingOn r s of
        None \<Rightarrow> False
      | Some desk \<Rightarrow>
          if \<not> HoldsFor desk a (s_scope s) then False
          else if \<not> d_allow_requester desk \<and> sameActor (a_id a) (s_requester s) \<and> \<not> a_admin a then False
          else True)"

fun pos_loop :: "nat \<Rightarrow> desk list \<Rightarrow> (string \<rightharpoonup> nat) \<Rightarrow> (string \<rightharpoonup> nat)" where
  "pos_loop i [] m = m"
| "pos_loop i (d # ds) m = pos_loop (Suc i) ds (m(d_key d \<mapsto> i))"

fun last_loop :: "step list \<Rightarrow> (string \<rightharpoonup> step) \<Rightarrow> (string \<rightharpoonup> step)" where
  "last_loop [] m = m"
| "last_loop (st # sts) m =
     last_loop sts
       (if st_action st = ActionAdvance \<or> st_action st = ActionReject \<or> st_action st = ActionAmend
        then m(st_desk st \<mapsto> st) else m)"

definition tracker_state :: "state \<Rightarrow> nat option \<Rightarrow> step_state" where
  "tracker_state s pos =
     (case pos of
        None \<Rightarrow> StepSkipped
      | Some idx \<Rightarrow>
          if s_status s = StatusRejected \<and> int idx = s_stage_index s then StepRejected
          else if s_status s = StatusApproved \<or> int idx < s_stage_index s then StepDone
          else if s_status s = StatusInFlight \<and> int idx = s_stage_index s then StepCurrent
          else StepPending)"

definition tracker_row :: "state \<Rightarrow> (string \<rightharpoonup> nat) \<Rightarrow> (string \<rightharpoonup> step) \<Rightarrow> desk \<Rightarrow> tracker_step" where
  "tracker_row s pos lst d =
     (let ts = \<lparr>ts_desk = d_key d, ts_label = d_label d, ts_state = tracker_state s (pos (d_key d)),
                ts_actor = '''', ts_actor_role = '''', ts_reason = '''', ts_at = None,
                ts_skipped = (pos (d_key d) = None), ts_min_amount = d_min_amount d,
                ts_scoped_to = (if Scoped d (s_scope s) then map_get (s_scope s) (d_scope_by d) else '''')\<rparr>
      in case lst (d_key d) of
           None \<Rightarrow> ts
         | Some st \<Rightarrow>
             ts\<lparr>ts_actor := st_actor st, ts_actor_role := st_actor_role st, ts_at := Some (st_at st),
                ts_reason := (if st_action st \<noteq> ActionAdvance then st_reason st else '''')\<rparr>)"

definition Progress :: "registry \<Rightarrow> state \<Rightarrow> chain_error + progress" where
  "Progress r s =
     (case registry_Get r (s_chain_key s) of
        None \<Rightarrow> Inl ErrUnknownChain
      | Some c \<Rightarrow>
          let engaged = Engaged c (state_Options s);
              pos = pos_loop 0 engaged Map.empty;
              lst = last_loop (drop (attemptStart (s_history s)) (s_history s)) Map.empty;
              p = \<lparr>p_chain_key = c_key c, p_chain_label = c_label c, p_status = s_status s,
                   p_status_label = '''', p_waiting_on = '''', p_desk = '''', p_action_label = '''',
                   p_reason = LastReason s, p_steps = map (tracker_row s pos lst) (c_desks c)\<rparr>
          in Inr (case s_status s of
               StatusApproved \<Rightarrow> p\<lparr>p_status_label := Terminal c\<rparr>
             | StatusRejected \<Rightarrow> p\<lparr>p_status_label := ''Rejected''\<rparr>
             | StatusCancelled \<Rightarrow> p\<lparr>p_status_label := ''Cancelled''\<rparr>
             | StatusReturned \<Rightarrow>
                 p\<lparr>p_status_label := ''Returned for Amendment'', p_waiting_on := ''Requestor''\<rparr>
             | StatusDraft \<Rightarrow> p\<lparr>p_status_label := ''Draft'', p_waiting_on := ''Requestor''\<rparr>
             | StatusInFlight \<Rightarrow>
                 (case deskAt s engaged of
                    None \<Rightarrow> p
                  | Some d \<Rightarrow>
                      p\<lparr>p_desk := d_key d, p_waiting_on := d_label d, p_action_label := desk_Action d,
                        p_status_label :=
                          (if s_stage_index s > 0
                           then PassedStatus (engaged ! nat (s_stage_index s - 1))
                           else ''Submitted'')\<rparr>)))"

section \<open>The queue and the engine agree\<close>

lemma WaitingOn_Some:
  "WaitingOn r s = Some d \<longleftrightarrow>
     (\<exists>c eng. chainFor r s = Inr (c, eng) \<and> s_status s = StatusInFlight \<and> deskAt s eng = Some d)"
  by (auto simp: WaitingOn_def split: sum.splits if_splits)

lemma Actionable_iff:
  "Actionable r s a \<longleftrightarrow>
     (\<exists>d. WaitingOn r s = Some d \<and> HoldsFor d a (s_scope s) \<and>
        (d_allow_requester d \<or> \<not> sameActor (a_id a) (s_requester s) \<or> a_admin a))"
  by (auto simp: Actionable_def split: option.splits)

lemma Advance_Actionable: "Advance r now s a n = Inr s' \<Longrightarrow> Actionable r s a"
  by (auto simp: Advance_def Actionable_iff WaitingOn_Some currentDesk_Inr split: if_splits)

lemma Actionable_Advance:
  assumes "Actionable r s a"
  shows "is_ok (Advance r now s a n) \<or>
    (\<not> a_admin a \<and> Advance r now s a n \<in> {Inl ErrMissingPermission, Inl ErrSelfSuccession, Inl ErrRepeatApprover})"
proof -
  from assms obtain d c eng where "chainFor r s = Inr (c, eng)" and "currentDesk s eng = Inr d"
    and "HoldsFor d a (s_scope s)"
    and "d_allow_requester d \<or> \<not> sameActor (a_id a) (s_requester s) \<or> a_admin a"
    by (auto simp: Actionable_iff WaitingOn_Some currentDesk_Inr)
  then show ?thesis by (auto simp: Advance_def Let_def checkPerm_def)
qed

lemma Actionable_in_queue:
  assumes wf: "wf_registry r" and act: "Actionable r s a"
    and trimmed: "trim_space (s_chain_key s) = s_chain_key s" and desk: "s_desk s \<noteq> ''''"
  shows "\<exists>ks. registry_DesksForActor r a (s_chain_key s) = Some ks \<and> s_desk s \<in> set ks"
proof -
  from act obtain d c eng where ch: "chainFor r s = Inr (c, eng)" and da: "deskAt s eng = Some d"
    and h: "HoldsFor d a (s_scope s)"
    by (auto simp: Actionable_iff WaitingOn_Some)
  from ch have c: "reg_chains r (s_chain_key s) = Some c" and eng: "eng = Engaged c (state_Options s)"
    using trimmed by (auto simp: chainFor_Inr registry_Get_def)
  have "d \<in> set (c_desks c)"
    using da eng Engaged_subset [of c "state_Options s"] by (auto simp: deskAt_Some nat_less_iff)
  moreover have "d_key d = s_desk s" using da desk by (auto simp: deskAt_Some)
  ultimately show ?thesis
    using DesksForActor_complete [OF wf c _ HoldsFor_Holds [OF h]] by auto
qed

section \<open>The tracker\<close>

lemma pos_loop_notin: "k \<notin> d_key ` set ds \<Longrightarrow> pos_loop i ds m k = m k"
  by (induction ds arbitrary: i m) auto

lemma pos_loop_nth:
  "distinct (map d_key ds) \<Longrightarrow> j < length ds \<Longrightarrow> pos_loop i ds m (d_key (ds ! j)) = Some (i + j)"
proof (induction ds arbitrary: i j m)
  case Nil
  then show ?case by simp
next
  case (Cons d ds)
  show ?case
  proof (cases j)
    case 0
    with Cons.prems show ?thesis by (auto simp: pos_loop_notin)
  next
    case (Suc j')
    with Cons show ?thesis by simp
  qed
qed

lemma pos_loop_iff:
  assumes "distinct (map d_key ds)"
  shows "pos_loop 0 ds Map.empty k = Some j \<longleftrightarrow> j < length ds \<and> d_key (ds ! j) = k"
proof
  assume p: "pos_loop 0 ds Map.empty k = Some j"
  then have "k \<in> d_key ` set ds" using pos_loop_notin [of k ds 0 Map.empty] by fastforce
  then obtain j' where "j' < length ds" "d_key (ds ! j') = k" by (auto simp: in_set_conv_nth)
  then show "j < length ds \<and> d_key (ds ! j) = k"
    using p pos_loop_nth [OF assms, of j' 0 Map.empty] by auto
next
  assume "j < length ds \<and> d_key (ds ! j) = k"
  then show "pos_loop 0 ds Map.empty k = Some j"
    using pos_loop_nth [OF assms, of j 0 Map.empty] by auto
qed

lemma tracker_row_simps [simp]:
  "ts_desk (tracker_row s pos lst d) = d_key d"
  "ts_state (tracker_row s pos lst d) = tracker_state s (pos (d_key d))"
  "ts_skipped (tracker_row s pos lst d) = (pos (d_key d) = None)"
  by (simp_all add: tracker_row_def Let_def split: option.splits)

lemma Progress_steps:
  assumes "Progress r s = Inr p" and "registry_Get r (s_chain_key s) = Some c"
  shows "p_steps p = map (tracker_row s (pos_loop 0 (Engaged c (state_Options s)) Map.empty)
      (last_loop (attempt (s_history s)) Map.empty)) (c_desks c) \<and> p_status p = s_status s"
  using assms by (auto simp: Progress_def Let_def attempt_def split: status.splits option.splits)

lemma Progress_total: "registry_Get r (s_chain_key s) = Some c \<Longrightarrow> \<exists>p. Progress r s = Inr p"
  by (simp add: Progress_def Let_def)

lemma pos_Engaged:
  assumes "distinct (map d_key (c_desks c))" and "d \<in> set (c_desks c)"
  shows "pos_loop 0 (Engaged c opt) Map.empty (d_key d) = None \<longleftrightarrow> d \<notin> set (Engaged c opt)"
proof -
  have dist: "distinct (map d_key (Engaged c opt))" using assms(1) by (rule Engaged_distinct)
  have inj: "inj_on d_key (set (c_desks c))" using assms(1) by (simp add: distinct_map)
  have "d \<in> set (Engaged c opt) \<longleftrightarrow> (\<exists>j < length (Engaged c opt). d_key (Engaged c opt ! j) = d_key d)"
    using inj assms(2) Engaged_subset [of c opt]
    by (metis in_set_conv_nth inj_onD subsetD)
  then show ?thesis
    using pos_loop_iff [OF dist, of "d_key d"] by (metis not_None_eq)
qed

text \<open>On a well-walked request, the tracker marks exactly the signed desks as done.\<close>

lemma in_take_keys:
  assumes "distinct (map d_key eng)" and "j < length eng"
  shows "d_key (eng ! j) \<in> set (map d_key (take i eng)) \<longleftrightarrow> j < i"
proof
  assume "d_key (eng ! j) \<in> set (map d_key (take i eng))"
  then obtain k where "k < i" "k < length eng" "d_key (eng ! k) = d_key (eng ! j)"
    by (auto simp: in_set_conv_nth)
  then show "j < i" using nth_key_unique [OF assms(1), of k j] assms(2) by simp
next
  assume "j < i"
  then have "take i eng ! j = eng ! j" and "j < length (take i eng)" using assms(2) by simp_all
  then show "d_key (eng ! j) \<in> set (map d_key (take i eng))"
    by (metis image_eqI list.set_map nth_mem)
qed

lemma tracker_done_iff:
  assumes wc: "wf_chain c" and ok: "walk_ok c s" and st: "s_status s \<in> {StatusInFlight, StatusApproved, StatusRejected}"
  shows "tracker_state s (pos_loop 0 (Engaged c (state_Options s)) Map.empty k) = StepDone \<longleftrightarrow>
    k \<in> set (signed_desks s)"
proof -
  let ?eng = "Engaged c (state_Options s)" and ?i = "nat (s_stage_index s)"
  have dist: "distinct (map d_key ?eng)" using wc by (simp add: wf_chain_def Engaged_distinct)
  have sub: "set (signed_desks s) \<subseteq> d_key ` set ?eng"
    using st ok by (auto simp: walk_ok_def on_desk_def Let_def intro!: imageI dest: in_set_takeD)
  show ?thesis
  proof (cases "pos_loop 0 ?eng Map.empty k")
    case None
    then have "k \<notin> d_key ` set ?eng"
      using pos_loop_iff [OF dist, of k] by (metis imageE in_set_conv_nth option.distinct(1))
    with None sub show ?thesis by (auto simp: tracker_state_def)
  next
    case (Some j)
    then have j: "j < length ?eng" and k: "d_key (?eng ! j) = k" using pos_loop_iff [OF dist] by auto
    show ?thesis
    proof (cases "s_status s = StatusApproved")
      case True
      then have "signed_desks s = map d_key ?eng" using ok by (simp add: walk_ok_def)
      with True Some j k show ?thesis by (auto simp: tracker_state_def)
    next
      case False
      with st ok have od: "on_desk ?eng s" by (auto simp: walk_ok_def Let_def)
      then have "k \<in> set (signed_desks s) \<longleftrightarrow> j < ?i"
        using in_take_keys [OF dist j, of ?i] k by (simp add: on_desk_def)
      with False Some od show ?thesis by (auto simp: tracker_state_def on_desk_def zless_nat_eq_int_zless)
    qed
  qed
qed

end
