(* ===== verification/Approval_Properties.thy ===== *)
theory Approval_Properties
  imports Approval_Queue
begin

text \<open>
  The properties of the approval engine, stated over its own definitions, each with a concrete
  run that exercises it.

  The runs use the two chains the service ships (migration 022): \<open>requisition_chain\<close>, whose
  bands ascend, and \<open>material_chain\<close>, which returns to an always-engaged desk after its banded
  ones. \<^verbatim>\<open>regexp.Compile\<close> is instantiated by \<open>literal_rx\<close>, which reads a pattern as
  the role name itself, compared without regard to case.
\<close>

section \<open>Runs\<close>

fun run_ops :: "registry \<Rightarrow> (timestamp \<times> amount \<times> chain_op) list \<Rightarrow> state \<Rightarrow> chain_error + state" where
  "run_ops r [] s = Inr s"
| "run_ops r ((now, amt, op) # ops) s = res_bind (chain_step r now amt op s) (run_ops r ops)"

lemma run_ops_reach:
  "run_ops r ops s = Inr s' \<Longrightarrow> chain_reach r ok s \<Longrightarrow>
     \<forall>x \<in> set ops. ok (op_actor (snd (snd x))) \<Longrightarrow> chain_reach r ok s'"
proof (induction ops arbitrary: s)
  case Nil
  then show ?case by simp
next
  case (Cons x ops)
  obtain now amt op where x: "x = (now, amt, op)" by (cases x)
  with Cons.prems obtain s1 where s1: "chain_step r now amt op s = Inr s1" and rest: "run_ops r ops s1 = Inr s'"
    by auto
  from Cons.prems x have "chain_reach r ok s1" by (auto intro: chain_reach.stepped [OF _ _ s1])
  with Cons.IH rest Cons.prems show ?case by auto
qed

section \<open>The shipped chains\<close>

definition literal_rx :: "string \<Rightarrow> (string \<Rightarrow> bool) option" where
  "literal_rx p = Some (equal_fold p)"

definition shipped_desk :: "string \<Rightarrow> amount \<Rightarrow> desk" where
  "shipped_desk k m = (bare_desk k '''')\<lparr>d_role_patterns := [k], d_min_amount := m\<rparr>"

definition requisition_chain :: chain where
  "requisition_chain =
     \<lparr>c_key = ''requisition'', c_label = '''',
      c_desks = [shipped_desk ''pm'' 0, shipped_desk ''accounts'' 0, shipped_desk ''gm'' 5000000,
                 shipped_desk ''ceo'' 20000000],
      c_terminal_label = ''Approved'', c_allow_auto_approve = False,
      c_no_successive_approver = False, c_no_repeat_approver = True\<rparr>"

definition material_chain :: chain where
  "material_chain =
     \<lparr>c_key = ''material.procurement'', c_label = '''',
      c_desks = [shipped_desk ''finance_review'' 0, shipped_desk ''gm'' 5000000, shipped_desk ''ceo'' 20000000,
                 shipped_desk ''procurement_followup'' 0],
      c_terminal_label = ''Approved'', c_allow_auto_approve = False,
      c_no_successive_approver = False, c_no_repeat_approver = True\<rparr>"

definition shipped_registry :: "chain \<Rightarrow> registry" where
  "shipped_registry c = projr (NewRegistry literal_rx [c])"

definition run_options :: "amount \<Rightarrow> options" where
  "run_options amt = \<lparr>o_amount = amt, o_skip = [], o_scope = Map.empty\<rparr>"

definition admin_actor :: "string \<Rightarrow> actor" where
  "admin_actor i = \<lparr>a_id = i, a_roles = [], a_admin = True, a_has_perm = None, a_attrs = Map.empty\<rparr>"

lemmas fixture_defs =
  literal_rx_def shipped_desk_def requisition_chain_def material_chain_def shipped_registry_def
  run_options_def admin_actor_def bare_desk_def empty_registry_def ActorWithRole_def

lemma cloneScope_empty [simp]: "cloneScope Map.empty = Map.empty"
  by (rule ext) (simp add: cloneScope_def)

lemma map_get_empty [simp]: "map_get Map.empty k = ''''"
  by (simp add: map_get_def)

definition staff :: "string \<Rightarrow> string \<Rightarrow> actor" where
  "staff i role = ActorWithRole i role"

definition requisition_run :: "chain_error + state" where
  "requisition_run =
     run_ops (shipped_registry requisition_chain)
       [(1, 6000000, OpSubmit (staff ''ann'' ''staff'')),
        (2, 6000000, OpAdvance (staff ''bob'' ''PM'') ''ok''),
        (3, 6000000, OpAdvance (staff ''cid'' ''accounts'') ''''),
        (4, 6000000, OpAdvance (staff ''dee'' ''gm'') '''')]
       (New ''requisition'' ''ann'' (run_options 6000000))"

definition waiting_run :: "chain_error + state" where
  "waiting_run =
     run_ops (shipped_registry requisition_chain)
       [(1, 6000000, OpSubmit (staff ''ann'' ''staff'')),
        (2, 6000000, OpAdvance (staff ''bob'' ''PM'') ''ok''),
        (3, 6000000, OpAdvance (staff ''cid'' ''accounts'') '''')]
       (New ''requisition'' ''ann'' (run_options 6000000))"

definition bypass_run :: "chain_error + state" where
  "bypass_run =
     run_ops (shipped_registry material_chain)
       [(1, 1000, OpSubmit (staff ''ann'' ''staff'')),
        (2, 1000, OpAdvance (staff ''bob'' ''finance_review'') ''ok''),
        (3, 50000000, OpAdvance (staff ''cid'' ''procurement_followup'') '''')]
       (New ''material.procurement'' ''ann'' (run_options 1000))"

lemma registry_ok: "is_ok (NewRegistry literal_rx [requisition_chain])" "is_ok (NewRegistry literal_rx [material_chain])"
  by code_simp+

lemma registry_shipped: "is_ok (NewRegistry literal_rx [c]) \<Longrightarrow> NewRegistry literal_rx [c] = Inr (shipped_registry c)"
  by (auto simp: shipped_registry_def is_ok_iff)

lemmas registry_requisition = registry_shipped [OF registry_ok(1)]
lemmas registry_material = registry_shipped [OF registry_ok(2)]

lemma run_from_New_reach:
  assumes run: "run_ops r ops (New key who opt) = x" and ok: "is_ok x"
    and get: "registry_Get r key \<noteq> None" and actors: "list_all (\<lambda>y. P (op_actor (snd (snd y)))) ops"
  shows "chain_reach r P (projr x)"
proof -
  from get obtain c where "registry_Get r key = Some c" by auto
  then have "chain_reach r P (New key who opt)" by (rule chain_reach.opened)
  moreover have "run_ops r ops (New key who opt) = Inr (projr x)" using run ok by (auto simp: is_ok_iff)
  ultimately show ?thesis using actors by (auto simp: list_all_iff intro: run_ops_reach)
qed

lemma get_requisition: "registry_Get (shipped_registry requisition_chain) ''requisition'' \<noteq> None"
  by code_simp

lemma get_material: "registry_Get (shipped_registry material_chain) ''material.procurement'' \<noteq> None"
  by code_simp

lemma requisition_run_ok: "is_ok requisition_run" by code_simp
lemma waiting_run_ok: "is_ok waiting_run" by code_simp
lemma bypass_run_ok: "is_ok bypass_run" by code_simp

lemma requisition_run_reach:
  "chain_reach (shipped_registry requisition_chain) (\<lambda>a. \<not> a_admin a) (projr requisition_run)"
  by (rule run_from_New_reach [OF requisition_run_def [symmetric] requisition_run_ok get_requisition])
    (simp add: staff_def ActorWithRole_def)

lemma waiting_run_reach:
  "chain_reach (shipped_registry requisition_chain) (\<lambda>a. \<not> a_admin a) (projr waiting_run)"
  by (rule run_from_New_reach [OF waiting_run_def [symmetric] waiting_run_ok get_requisition])
    (simp add: staff_def ActorWithRole_def)

lemma bypass_run_reach:
  "chain_reach (shipped_registry material_chain) (\<lambda>a. \<not> a_admin a) (projr bypass_run)"
  by (rule run_from_New_reach [OF bypass_run_def [symmetric] bypass_run_ok get_material])
    (simp add: staff_def ActorWithRole_def)

section \<open>Properties\<close>

lemma reach_walk_compiled:
  assumes "NewRegistry rx cs = Inr r" and "\<forall>c \<in> set cs. ascending_bands c" and "chain_reach r ok s"
  shows "\<exists>c. registry_Get r (s_chain_key s) = Some c \<and> wf_chain c \<and> walk_ok c s"
proof (rule reach_walk [OF assms(3)])
  show "wf_registry r" using NewRegistry_wf_registry [OF assms(1)] by simp
  show "\<forall>k c. reg_chains r k = Some c \<longrightarrow> ascending_bands c"
    using NewRegistry_compiled [OF assms(1)] compile_keeps assms(2) by metis
qed

text \<open>
  C1. On a registry of chains whose amount bands never decrease, every reachable request walks
  its desks in order: an approved request carries a signature of every desk its amount engages,
  in chain order, and a request in flight or rejected sits on the desk its index names, having
  been signed by exactly the engaged desks before it. Amount edits between steps are included,
  since every step rebases first.
\<close>

theorem approval_needs_every_engaged_desk:
  assumes "NewRegistry rx cs = Inr r" and "\<forall>c \<in> set cs. ascending_bands c" and "chain_reach r ok s"
  shows "\<exists>c. registry_Get r (s_chain_key s) = Some c \<and>
    (let engaged = Engaged c (state_Options s) in
      (s_status s = StatusApproved \<longrightarrow> signed_desks s = map d_key engaged) \<and>
      (s_status s = StatusInFlight \<or> s_status s = StatusRejected \<longrightarrow>
         0 \<le> s_stage_index s \<and> s_stage_index s < int (length engaged) \<and>
         s_desk s = d_key (engaged ! nat (s_stage_index s)) \<and>
         signed_desks s = map d_key (take (nat (s_stage_index s)) engaged)))"
proof -
  obtain c where c: "registry_Get r (s_chain_key s) = Some c" and ok: "walk_ok c s"
    using reach_walk_compiled [OF assms(1-3)] by blast
  from ok show ?thesis
    by (intro exI [of _ c] conjI c) (auto simp: walk_ok_def on_desk_def Let_def)
qed

theorem approval_needs_every_engaged_desk_witness:
  "s_status (projr requisition_run) = StatusApproved \<and>
   signed_desks (projr requisition_run) = [''pm'', ''accounts'', ''gm''] \<and>
   (\<exists>c. registry_Get (shipped_registry requisition_chain) (s_chain_key (projr requisition_run)) = Some c \<and>
     map d_key (Engaged c (state_Options (projr requisition_run))) = [''pm'', ''accounts'', ''gm''])"
proof -
  have st: "s_status (projr requisition_run) = StatusApproved" by code_simp
  have sg: "signed_desks (projr requisition_run) = [''pm'', ''accounts'', ''gm'']" by code_simp
  have asc: "\<forall>c \<in> set [requisition_chain]. ascending_bands c" by code_simp
  show ?thesis
    using approval_needs_every_engaged_desk [OF registry_requisition asc requisition_run_reach] st sg
    by (auto simp: Let_def)
qed

text \<open>
  C9. On chains with the no-repeat flag, along any run of non-admin actors, no person (ids
  compared trimmed and without case) advances two desks of the same attempt.
\<close>

theorem nobody_signs_twice:
  assumes "NewRegistry rx cs = Inr r" and "\<forall>c \<in> set cs. c_no_repeat_approver c"
    and "chain_reach r (\<lambda>a. \<not> a_admin a) s"
  shows "distinct (map fold_id (filter (\<lambda>x. \<not> isSystemActor x) (signers s)))"
proof -
  have "\<forall>k c. reg_chains r k = Some c \<longrightarrow> c_no_repeat_approver c"
    using NewRegistry_compiled [OF assms(1)] compile_keeps assms(2) by metis
  then show ?thesis using reach_distinct_signers [OF assms(3)] by (simp add: human_signers_def)
qed

theorem nobody_signs_twice_witness:
  "signers (projr requisition_run) = [''bob'', ''cid'', ''dee''] \<and>
   distinct (map fold_id (filter (\<lambda>x. \<not> isSystemActor x) (signers (projr requisition_run))))"
proof -
  have "\<forall>c \<in> set [requisition_chain]. c_no_repeat_approver c" by code_simp
  moreover have "signers (projr requisition_run) = [''bob'', ''cid'', ''dee'']" by code_simp
  ultimately show ?thesis
    using nobody_signs_twice [OF registry_requisition _ requisition_run_reach] by simp
qed

text \<open>
  C10. Four eyes: where no desk allows the requester, no advance step recorded in a run of non-
  admin actors is by the person who raised the request.
\<close>

theorem requester_never_approves:
  assumes "NewRegistry rx cs = Inr r" and "\<forall>c \<in> set cs. \<forall>d \<in> set (c_desks c). \<not> d_allow_requester d"
    and "chain_reach r (\<lambda>a. \<not> a_admin a) s" and "st \<in> set (s_history s)" and "st_action st = ActionAdvance"
  shows "\<not> sameActor (st_actor st) (s_requester s)"
proof -
  have "\<not> d_allow_requester d" if "reg_chains r k = Some c" and d: "d \<in> set (c_desks c)" for k c d
  proof -
    from NewRegistry_compiled [OF assms(1) that(1)] obtain c0 where c0: "c0 \<in> set cs" "compile rx c0 = Inr c"
      by blast
    with d compile_keeps have "d_allow_requester d \<in> d_allow_requester ` set (c_desks c0)" by (metis imageI)
    then show ?thesis using c0(1) assms(2) by auto
  qed
  then have "four_eyes s" using reach_four_eyes [OF assms(3)] by blast
  then show ?thesis using assms(4,5) by (simp add: four_eyes_def)
qed

theorem requester_never_approves_witness:
  "st_actor (s_history (projr requisition_run) ! 1) = ''bob'' \<and>
   \<not> sameActor (st_actor (s_history (projr requisition_run) ! 1)) (s_requester (projr requisition_run))"
proof -
  let ?st = "s_history (projr requisition_run) ! 1"
  have no: "\<forall>c \<in> set [requisition_chain]. \<forall>d \<in> set (c_desks c). \<not> d_allow_requester d" by code_simp
  have "length (s_history (projr requisition_run)) = 4" by code_simp
  then have mem: "?st \<in> set (s_history (projr requisition_run))" by simp
  have act: "st_action ?st = ActionAdvance" and who: "st_actor ?st = ''bob''" by code_simp+
  show ?thesis
    using requester_never_approves [OF registry_requisition no requisition_run_reach mem act] who by simp
qed

text \<open>
  In every reachable history a rejection, an amendment and an overriding cancellation carry
  a reason with a character other than a space, so the CHECK constraint on recorded steps always
  holds.
\<close>

lemma refusals_carry_a_reason:
  assumes "chain_reach r ok s" and "st \<in> set (s_history s)"
    and "st_action st = ActionReject \<or> st_action st = ActionAmend \<or> (st_action st = ActionCancel \<and> st_override st)"
  shows "\<exists>ch \<in> set (st_reason st). ch \<noteq> CHR '' ''"
proof -
  have "reason_check st" using reach_refusals [OF assms(1)] assms(2) by (simp add: refusals_reasoned_def)
  then show ?thesis using assms(3) by (auto simp: reason_check_def list_ex_iff)
qed

text \<open>
  C36. A registry that NewRegistry accepts lists its chains in the given order under distinct
  keys; every chain has distinct, labelled desks with compiled roles and non-negative bands, and
  for any amount it engages a desk unless it allows auto-approval.
\<close>

theorem registry_is_well_formed:
  assumes "NewRegistry rx cs = Inr r"
  shows "reg_order r = map c_key cs \<and> distinct (reg_order r) \<and> dom (reg_chains r) = set (reg_order r) \<and>
    (\<forall>k c opt. reg_chains r k = Some c \<longrightarrow>
       c_key c = k \<and> distinct (map d_key (c_desks c)) \<and> (\<forall>d \<in> set (c_desks c). wf_desk d) \<and>
       (o_skip opt = [] \<longrightarrow> Engaged c opt \<noteq> [] \<or> c_allow_auto_approve c))"
proof -
  from NewRegistry_wf_registry [OF assms] have wf: "wf_registry r" and ord: "reg_order r = map c_key cs" by auto
  have chains: "c_key c = k \<and> wf_chain c" if "reg_chains r k = Some c" for k c
    using wf that by (simp add: wf_registry_def)
  have "Engaged c opt \<noteq> [] \<or> c_allow_auto_approve c" if "reg_chains r k = Some c" "o_skip opt = []" for k c opt
    using chains [OF that(1)] wf_chain_engaged [of c opt] that(2) by blast
  moreover have "distinct (map d_key (c_desks c)) \<and> (\<forall>d \<in> set (c_desks c). wf_desk d)"
    if "reg_chains r k = Some c" for k c
    using chains [OF that] by (simp add: wf_chain_def)
  moreover have "distinct (reg_order r) \<and> dom (reg_chains r) = set (reg_order r)"
    using wf by (simp add: wf_registry_def)
  ultimately show ?thesis using ord chains by blast
qed

theorem registry_is_well_formed_witness:
  "reg_order (shipped_registry material_chain) = [''material.procurement''] \<and>
   distinct (reg_order (shipped_registry material_chain))"
  using registry_is_well_formed [OF registry_material] by (simp add: material_chain_def)

text \<open>
  C17. Advance succeeds exactly when the chain is known, the request waits on a desk the actor
  holds in scope with its permission, and, unless the actor is an admin: the actor is not the
  requester or the desk allows the requester; where succession is forbidden, the last signature
  of this attempt is not by the actor, or is by an automated actor; and where repetition is
  forbidden, the actor has not signed in this attempt, or is an automated actor.
\<close>

theorem advance_succeeds_iff:
  "is_ok (Advance r now s a n) \<longleftrightarrow>
     (\<exists>c d. registry_Get r (s_chain_key s) = Some c \<and> WaitingOn r s = Some d \<and>
        HoldsFor d a (s_scope s) \<and> checkPerm d a \<and>
        (a_admin a \<or>
          (d_allow_requester d \<or> \<not> sameActor (a_id a) (s_requester s)) \<and>
          (c_no_successive_approver c \<and> signers s \<noteq> [] \<and> \<not> isSystemActor (last (signers s)) \<longrightarrow>
             \<not> sameActor (a_id a) (last (signers s))) \<and>
          (c_no_repeat_approver c \<and> \<not> isSystemActor (a_id a) \<longrightarrow>
             (\<forall>b \<in> set (signers s). \<not> sameActor (a_id a) b))))"
proof -
  have succ: "sameActor (a_id a) (previousApprover s) \<longleftrightarrow>
      signers s \<noteq> [] \<and> \<not> isSystemActor (last (signers s)) \<and> sameActor (a_id a) (last (signers s))"
    by (auto simp: previousApprover_eq sameActor_def)
  have core: "is_ok (Advance r now s a n) \<longleftrightarrow>
      HoldsFor d a (s_scope s) \<and> checkPerm d a \<and>
      \<not> (\<not> d_allow_requester d \<and> sameActor (a_id a) (s_requester s) \<and> \<not> a_admin a) \<and>
      \<not> (c_no_successive_approver c \<and> \<not> a_admin a \<and> sameActor (a_id a) (previousApprover s)) \<and>
      \<not> (c_no_repeat_approver c \<and> \<not> a_admin a \<and> hasAlreadyAdvanced s (a_id a))"
    if "chainFor r s = Inr (c, eng)" and "currentDesk s eng = Inr d" for c eng d
    using that by (simp add: Advance_def Let_def)
  have none: "\<not> is_ok (Advance r now s a n)" if "WaitingOn r s = None"
    using that Advance_Actionable [of r now s a n] by (auto simp: is_ok_iff Actionable_def)
  show ?thesis
  proof (cases "WaitingOn r s")
    case None
    then show ?thesis using none by simp
  next
    case (Some d)
    then obtain c eng where ch: "chainFor r s = Inr (c, eng)" and cd: "currentDesk s eng = Inr d"
      by (auto simp: WaitingOn_Some currentDesk_Inr)
    from ch have "registry_Get r (s_chain_key s) = Some c" by (simp add: chainFor_Inr)
    then show ?thesis
      using Some unfolding core [OF ch cd] succ hasAlreadyAdvanced_iff by auto
  qed
qed

theorem advance_succeeds_iff_witness:
  "\<exists>c d. registry_Get (shipped_registry requisition_chain) ''requisition'' = Some c \<and>
     WaitingOn (shipped_registry requisition_chain) (projr waiting_run) = Some d \<and>
     HoldsFor d (staff ''dee'' ''gm'') (s_scope (projr waiting_run)) \<and>
     (c_no_repeat_approver c \<and> \<not> isSystemActor ''dee'' \<longrightarrow>
        (\<forall>b \<in> set (signers (projr waiting_run)). \<not> sameActor ''dee'' b))"
proof -
  have ok: "is_ok (Advance (shipped_registry requisition_chain) 9 (projr waiting_run) (staff ''dee'' ''gm'') '''')"
    by code_simp
  have k: "s_chain_key (projr waiting_run) = ''requisition''" by code_simp
  have "a_id (staff ''dee'' ''gm'') = ''dee''" "\<not> a_admin (staff ''dee'' ''gm'')"
    by (simp_all add: staff_def ActorWithRole_def)
  with ok [unfolded advance_succeeds_iff] k show ?thesis by auto
qed

text \<open>
  The queue never hides an actionable request: whatever Advance accepts, Actionable
  reports. Conversely an actionable request is accepted, or a non-admin actor is refused for a
  missing permission, for signing last or for signing twice, the three guards the queue does not
  look at.
\<close>

lemma queue_matches_engine:
  "(is_ok (Advance r now s a n) \<longrightarrow> Actionable r s a) \<and>
   (Actionable r s a \<longrightarrow> is_ok (Advance r now s a n) \<or>
      (\<not> a_admin a \<and> Advance r now s a n \<in>
         {Inl ErrMissingPermission, Inl ErrSelfSuccession, Inl ErrRepeatApprover}))"
  using Advance_Actionable Actionable_Advance by (auto simp: is_ok_iff)

text \<open>
  On reachable requests of chains with non-decreasing bands the tracker is computed without
  error and marks a desk done exactly when it signed in the current attempt.
\<close>

lemma tracker_done_is_signed:
  assumes "NewRegistry rx cs = Inr r" and "\<forall>c \<in> set cs. ascending_bands c" and "chain_reach r ok s"
    and "s_status s \<in> {StatusInFlight, StatusApproved, StatusRejected}"
  shows "\<exists>p. Progress r s = Inr p \<and> p_status p = s_status s \<and>
    (\<forall>t \<in> set (p_steps p). ts_state t = StepDone \<longleftrightarrow> ts_desk t \<in> set (signed_desks s))"
proof -
  obtain c where c: "registry_Get r (s_chain_key s) = Some c" and wc: "wf_chain c" and ok: "walk_ok c s"
    using reach_walk_compiled [OF assms(1-3)] by blast
  obtain p where p: "Progress r s = Inr p" using Progress_total [OF c] by blast
  show ?thesis
    using Progress_steps [OF p c] tracker_done_iff [OF wc ok assms(4)] p by auto
qed

text \<open>
  C37. On every registry the constructor accepts, whether or not its amount bands ascend, no
  reachable request in flight is stuck while its amount stays: its cursor names a desk its
  amount engages, and an admin advancing once per remaining desk approves it.
\<close>

theorem admin_can_always_finish:
  assumes "NewRegistry rx cs = Inr r" and "chain_reach r ok s"
    and "s_status s = StatusInFlight" and "a_admin a"
  shows "\<exists>c s'. registry_Get r (s_chain_key s) = Some c \<and>
    admin_walk r now a (length (Engaged c (state_Options s)) - nat (s_stage_index s)) s = Inr s' \<and>
    s_status s' = StatusApproved"
proof -
  have "wf_registry r" using NewRegistry_wf_registry [OF assms(1)] by simp
  then obtain c where c: "registry_Get r (s_chain_key s) = Some c" and ok: "cursor_ok c s"
    using reach_cursor [OF assms(2)] by blast
  show ?thesis using admin_walk_completes [OF c assms(3) ok assms(4) refl] c by blast
qed

theorem admin_can_always_finish_witness:
  "a_admin (admin_actor ''root'') \<and>
   (\<exists>n s'. admin_walk (shipped_registry requisition_chain) 9 (admin_actor ''root'') n (projr waiting_run) = Inr s' \<and>
     s_status s' = StatusApproved)"
proof -
  have st: "s_status (projr waiting_run) = StatusInFlight" by code_simp
  have adm: "a_admin (admin_actor ''root'')" by (simp add: admin_actor_def)
  show ?thesis
    using admin_can_always_finish [OF registry_requisition waiting_run_reach st adm] adm by blast
qed

text \<open>
  C30. A successful step (rebase, then a transition) appends exactly one history entry of its
  own action, actor and time, keeps the chain and the requester, stores the live amount, and
  never starts from an approved or cancelled request.
\<close>

theorem history_is_append_only:
  assumes "chain_step r now amt op s = Inr s'"
  shows "\<exists>st. s_history s' = s_history s @ [st] \<and> st_actor st = a_id (op_actor op) \<and>
    st_action st = op_action op \<and> st_at st = now \<and>
    s_status s \<noteq> StatusApproved \<and> s_status s \<noteq> StatusCancelled \<and>
    s_chain_key s' = s_chain_key s \<and> s_requester s' = s_requester s \<and> s_amount s' = amt"
proof -
  from assms obtain s1 where s1: "Rebase r s amt = Inr s1" and s': "run_op r now op s1 = Inr s'"
    by (auto simp: chain_step_def)
  have "s_status s \<noteq> StatusApproved \<and> s_status s \<noteq> StatusCancelled"
    using chain_step_from_closed [of s r now amt op] assms by auto
  then show ?thesis
    using op_tr.appends [OF s'] Rebase_frame [OF s1] chain_step_frame [OF assms] by auto
qed

theorem history_is_append_only_witness:
  "\<exists>s' st. chain_step (shipped_registry requisition_chain) 7 6000000 (OpAdvance (staff ''dee'' ''gm'') ''fine'')
       (projr waiting_run) = Inr s' \<and> s_history s' = s_history (projr waiting_run) @ [st] \<and> st_actor st = ''dee''"
proof -
  have "is_ok (chain_step (shipped_registry requisition_chain) 7 6000000
      (OpAdvance (staff ''dee'' ''gm'') ''fine'') (projr waiting_run))" by code_simp
  then obtain s' where s': "chain_step (shipped_registry requisition_chain) 7 6000000
      (OpAdvance (staff ''dee'' ''gm'') ''fine'') (projr waiting_run) = Inr s'" by (auto simp: is_ok_iff)
  then show ?thesis using history_is_append_only [OF s'] by (auto simp: staff_def ActorWithRole_def)
qed

text \<open>
  When an edited amount no longer engages the desk a request in flight sits on, every
  transition of the service fails with ErrAmountChanged, the amendment and the cancellation the
  error text recommends included.
\<close>

lemma dropped_band_blocks_every_transition:
  assumes "registry_Get r (s_chain_key s) = Some c" and "s_status s = StatusInFlight"
    and "Engaged c (state_Options s) \<noteq> []" and "amt \<noteq> s_amount s"
    and "s_desk s \<notin> d_key ` set (Engaged c ((state_Options s)\<lparr>o_amount := amt\<rparr>))"
  shows "\<forall>op. chain_step r now amt op s = Inl ErrAmountChanged"
proof -
  let ?out = "(clone s)\<lparr>s_amount := amt\<rparr>"
  have "Engaged c (state_Options ?out) = Engaged c ((state_Options s)\<lparr>o_amount := amt\<rparr>)"
    by (rule Engaged_cong) simp_all
  then have none: "rebase_index (s_desk s) 0 (Engaged c (state_Options ?out)) = None"
    using assms(5) by (simp add: rebase_index_None)
  have "chainFor r s = Inr (c, Engaged c (state_Options s))" using assms(1,3) by (simp add: chainFor_Inr)
  then have "Rebase r s amt = Inl ErrAmountChanged"
    using assms(2,4) none by (simp add: Rebase_def Let_def)
  then show ?thesis by (simp add: chain_step_def)
qed

text \<open>
  On the shipped material.procurement chain, whose last desk is always engaged, raising the
  amount to 50M while the request sits on that desk lets non-admin actors approve it with the GM
  and CEO desks engaged and unsigned.
\<close>

lemma raised_amount_bypasses_banded_desks:
  "\<exists>s. chain_reach (shipped_registry material_chain) (\<lambda>a. \<not> a_admin a) s \<and>
     s_status s = StatusApproved \<and> s_amount s = 50000000 \<and>
     signed_desks s = [''finance_review'', ''procurement_followup''] \<and>
     map d_key (Engaged material_chain (state_Options s)) =
       [''finance_review'', ''gm'', ''ceo'', ''procurement_followup'']"
  by (rule exI [of _ "projr bypass_run"], rule conjI [OF bypass_run_reach]) code_simp

end
