(* ===== verification/Store.thy ===== *)
theory Store
  imports Approval_Engine
begin

text \<open>
  The database the repository layer (\<^verbatim>\<open>internal/repo\<close>) reads and writes, as the
  migrations leave it.

  \<^item> A table with a text or uuid key is an association list from keys to rows, in insertion order;
    the line, ledger and log tables are lists of rows.
  \<^item> An id is a non-empty string in the spelling the database prints; the empty string is what a
    \<^verbatim>\<open>UUID\<close> column refuses (\<open>DbBadUuid\<close>). For the supplier of an order, which the code compares
    both as text and as a uuid, the input syntax of the type is modelled (\<open>uuid_in\<close>), so that other
    spellings of an id are accepted as the database accepts them.
  \<^item> An uncast parameter of a statement has one type; a statement that compares it with columns of
    different types fails (\<open>one_type\<close>).
  \<^item> A transaction is a function from \<open>db\<close> to \<open>repo_error + 'a \<times> db\<close>; its error
    carries no database, which is the rollback. Row locks (\<^verbatim>\<open>FOR UPDATE\<close>) serialise
    transactions, so a transaction is one atomic step.
  \<^item> The clock, generated ids and random document numbers are the \<open>env\<close> argument.
  \<^item> A wrapped error keeps its sentinel and not its message.
\<close>

section \<open>Rows\<close>

record budget_row =
  b_code :: string
  b_period :: string
  b_allocated :: amount
  b_pre_committed :: amount
  b_committed :: amount
  b_spent :: amount
  b_remaining :: amount
  b_dept :: string
  b_period_end :: "int option"
  b_period_closed_at :: "timestamp option"

record requisition_row =
  rq_doc_no :: "string option"
  rq_title :: string
  rq_dept :: string
  rq_requester :: string
  rq_priority :: string
  rq_status :: string
  rq_created_at :: int
  rq_needed_by :: "int option"
  rq_total :: amount
  rq_currency :: string
  rq_budget_id :: "string option"
  rq_notes :: string
  rq_pm_requisition_id :: "string option"
  rq_pm_workspace_owner :: "string option"
  rq_payee :: string
  rq_justification :: string
  rq_budget_committed :: bool
  rq_pre_released :: bool
  rq_origin_system :: string
  rq_origin_ref :: string

record po_row =
  po_doc_no :: "string option"
  po_vendor_id :: string
  po_title :: string
  po_total :: amount
  po_currency :: string
  po_status :: string
  po_payment_status :: string
  po_created_at :: int
  po_expected_date :: "int option"
  po_budget_id :: "string option"
  po_requisition_id :: "string option"
  po_created_by :: string
  po_budget_committed :: bool
  po_spent_recognized :: amount

record po_line_row =
  pl_po_id :: string
  pl_item_id :: string
  pl_qty :: amount
  pl_unit_price :: amount
  pl_received_qty :: amount

record vendor_row =
  vd_name :: string
  vd_logo :: string
  vd_category :: string
  vd_contact :: string
  vd_email :: string
  vd_phone :: string
  vd_country :: string
  vd_terms :: string
  vd_rating :: amount
  vd_status :: string
  vd_total_spend :: amount
  vd_open_pos :: int
  vd_party_id :: "string option"
  vd_platform_user_id :: "string option"
  vd_scm_business_id :: "string option"
  vd_quality_status :: string
  vd_quality_status_reason :: string
  vd_quality_status_by :: string
  vd_quality_status_at :: "timestamp option"
  vd_qc_recommendation :: string
  vd_qc_acceptance_rate :: "amount option"
  vd_qc_reasons :: "string list"
  vd_qc_recommended_at :: "timestamp option"

record item_row =
  it_sku :: string
  it_name :: string
  it_category :: string
  it_uom :: string
  it_stock :: amount
  it_reorder :: amount
  it_last_price :: amount
  it_currency :: string
  it_preferred_vendor_id :: "string option"
  it_stockable :: bool
  it_attrs :: string

record rfq_row =
  rf_doc_no :: "string option"
  rf_title :: string
  rf_status :: string
  rf_due_date :: "int option"
  rf_created_at :: int
  rf_winner_vendor_id :: "string option"
  rf_invited_vendor_ids :: "string list"
  rf_requisition_id :: "string option"
  rf_awarded_at :: "timestamp option"

record quote_row =
  qt_rfq_id :: string
  qt_vendor_id :: string
  qt_amount :: amount
  qt_currency :: string
  qt_notes :: string
  qt_created_at :: timestamp
  qt_created_by :: string

record grn_row =
  gr_doc_no :: "string option"
  gr_po_id :: "string option"
  gr_vendor_id :: string
  gr_received_date :: "int option"
  gr_received_by :: string
  gr_status :: string
  gr_quality_critical :: bool
  gr_qc_status :: string
  gr_warehouse :: string
  gr_notes :: string
  gr_budget_recognized :: bool
  gr_recognized_amount :: amount

record grn_line_row =
  gl_grn_id :: string
  gl_item_id :: string
  gl_qty :: amount
  gl_unit_price :: amount

record invoice_row =
  inv_invoice_no :: "string option"
  inv_vendor_id :: string
  inv_po_id :: "string option"
  inv_grn_id :: "string option"
  inv_amount :: amount
  inv_currency :: string
  inv_status :: string
  inv_match_status :: string
  inv_invoice_date :: "int option"
  inv_payment_date :: "int option"
  inv_payment_method :: string
  inv_variance_resolution :: string
  inv_due_date :: "int option"

record payment_row =
  pay_invoice_id :: string
  pay_vendor_id :: string
  pay_amount :: amount
  pay_currency :: string
  pay_date :: int
  pay_method :: string
  pay_reference :: string
  pay_status :: string
  pay_initiated_by :: string

record contract_row =
  ct_doc_no :: "string option"
  ct_vendor_id :: string
  ct_title :: string
  ct_start_date :: "int option"
  ct_end_date :: "int option"
  ct_value :: amount
  ct_currency :: string
  ct_status :: string
  ct_committed_volume :: amount

record tier_row =
  ti_tier :: int
  ti_label :: string
  ti_min_amount :: amount
  ti_max_amount :: "amount option"
  ti_required_perm :: string

record approval_row =
  ar_requisition_id :: string
  ar_tier :: int
  ar_actor :: string
  ar_decision :: string
  ar_note :: string

record desk_row =
  dr_chain_key :: string
  dr_position :: int
  dr_desk :: string
  dr_label :: string
  dr_role_patterns :: "string list"
  dr_min_amount :: amount
  dr_required_perm :: string
  dr_action_label :: string
  dr_status_label :: string
  dr_scope_by :: string
  dr_no_repeat_approver :: bool
  dr_terminal_label :: string

record chain_state_row =
  cs_chain_key :: string
  cs_status :: status
  cs_desk :: string
  cs_stage_index :: int
  cs_amount :: amount
  cs_skip :: "string list"
  cs_requester :: string
  cs_scope :: scope_map
  cs_updated_at :: timestamp

record step_row =
  sr_requisition_id :: string
  sr_seq :: nat
  sr_step :: step

record audit_row =
  au_username :: string
  au_action :: string
  au_target :: string
  au_detail :: string

datatype json =
    JStr string
  | JNum amount
  | JTime timestamp
  | JDate int
  | JArr "json list"
  | JObj "(string \<times> json) list"

record outbox_row =
  ob_id :: nat
  ob_event_type :: string
  ob_event_key :: "string option"
  ob_payload :: json
  ob_available_at :: timestamp
  ob_attempts :: nat
  ob_last_error :: "string option"
  ob_dispatched_at :: "timestamp option"

section \<open>Tables\<close>

type_synonym 'r table = "(string \<times> 'r) list"

definition tbl_get :: "'r table \<Rightarrow> string \<Rightarrow> 'r option" where
  "tbl_get t k = map_of t k"

text \<open>\<^verbatim>\<open>UPDATE t SET ... WHERE p\<close>, and the common case of one key.\<close>

definition tbl_where :: "(string \<Rightarrow> 'r \<Rightarrow> bool) \<Rightarrow> ('r \<Rightarrow> 'r) \<Rightarrow> 'r table \<Rightarrow> 'r table" where
  "tbl_where p f t = map (\<lambda>(k, r). (k, if p k r then f r else r)) t"

definition tbl_upd :: "string \<Rightarrow> ('r \<Rightarrow> 'r) \<Rightarrow> 'r table \<Rightarrow> 'r table" where
  "tbl_upd k f t = tbl_where (\<lambda>k' _. k' = k) f t"

definition tbl_ins :: "string \<Rightarrow> 'r \<Rightarrow> 'r table \<Rightarrow> 'r table" where
  "tbl_ins k r t = t @ [(k, r)]"

definition tbl_del :: "string \<Rightarrow> 'r table \<Rightarrow> 'r table" where
  "tbl_del k t = filter (\<lambda>(k', _). k' \<noteq> k) t"

definition tbl_ex :: "(string \<Rightarrow> 'r \<Rightarrow> bool) \<Rightarrow> 'r table \<Rightarrow> bool" where
  "tbl_ex p t = list_ex (\<lambda>(k, r). p k r) t"

record db =
  db_budgets :: "budget_row table"
  db_requisitions :: "requisition_row table"
  db_purchase_orders :: "po_row table"
  db_po_lines :: "po_line_row list"
  db_vendors :: "vendor_row table"
  db_items :: "item_row table"
  db_rfqs :: "rfq_row table"
  db_rfq_quotes :: "quote_row table"
  db_grns :: "grn_row table"
  db_grn_lines :: "grn_line_row list"
  db_invoices :: "invoice_row table"
  db_payments :: "payment_row table"
  db_contracts :: "contract_row table"
  db_tiers :: "tier_row list"
  db_approvals :: "approval_row list"
  db_desks :: "desk_row list"
  db_chain_state :: "chain_state_row table"
  db_steps :: "step_row list"
  db_audit :: "audit_row list"
  db_outbox :: "outbox_row list"
  db_processed :: "string list"
  db_kafka_dedupe :: "(string \<times> string) list"

section \<open>Configuration, environment and errors\<close>

text \<open>The fields of \<^verbatim>\<open>Procurement\<close> besides the pool: whether an outbox is wired, and the thresholds.\<close>

record config =
  cf_outbox :: bool
  cf_approval_threshold :: amount
  cf_invoice_variance_pct :: amount

record env =
  e_now :: timestamp
  e_today :: int
  e_id :: string
  e_doc_no :: string
  e_uuid :: string
  e_event_id :: string

datatype repo_error =
    ErrInvalidArgument
  | ErrNotFound
  | ErrForbiddenRepo
  | ErrConflict
  | ErrSupplierSuspended
  | ErrPlain
  | ErrNoBudget
  | ErrPMRequisitionExists
  | ErrProcurementRequestExists
  | ErrChain chain_error
  | DbForeignKey
  | DbUnique
  | DbCheck
  | DbBadUuid
  | DbNullScan
  | DbUndefinedOperator

text \<open>\<^verbatim>\<open>mapProcurementErr\<close>: \<^verbatim>\<open>ErrSupplierSuspended\<close> wraps \<^verbatim>\<open>ErrConflict\<close>.\<close>

fun mapProcurementErr :: "repo_error \<Rightarrow> nat" where
  "mapProcurementErr ErrInvalidArgument = 400"
| "mapProcurementErr ErrNotFound = 404"
| "mapProcurementErr ErrForbiddenRepo = 403"
| "mapProcurementErr ErrConflict = 409"
| "mapProcurementErr ErrSupplierSuspended = 409"
| "mapProcurementErr DbForeignKey = 400"
| "mapProcurementErr _ = 500"

type_synonym 'a tx = "repo_error + 'a \<times> db"

text \<open>
  A value bound to a \<^verbatim>\<open>UUID\<close> column, and \<^verbatim>\<open>NULLIF($n, '')::uuid\<close>. Ids are taken in the spelling
  in which the database prints them; the supplier of an order, which the code also compares as text,
  is read by \<open>uuid_ref\<close> below.
\<close>

definition uuid_param :: "string \<Rightarrow> repo_error + string" where
  "uuid_param s = (if s = '''' then Inl DbBadUuid else Inr s)"

text \<open>
  The input syntax of the type: sixteen bytes of two hexadecimal digits in either case, a hyphen
  allowed after every second byte but the last, braces around the whole. The output is lower case
  with the four standard hyphens.
\<close>

definition is_xdigit :: "char \<Rightarrow> bool" where
  "is_xdigit c \<longleftrightarrow> c \<in> set ''0123456789abcdefABCDEF''"

definition skip_hyphen :: "bool \<Rightarrow> string \<Rightarrow> string" where
  "skip_hyphen ok s = (case s of [] \<Rightarrow> [] | c # r \<Rightarrow> if ok \<and> c = CHR ''-'' then r else s)"

fun uuid_bytes :: "nat \<Rightarrow> string \<Rightarrow> (string \<times> string) option" where
  "uuid_bytes 0 s = Some ([], s)"
| "uuid_bytes (Suc n) (a # b # s) =
     (if is_xdigit a \<and> is_xdigit b
      then map_option (\<lambda>(ds, rest). (a # b # ds, rest)) (uuid_bytes n (skip_hyphen (even n \<and> 0 < n) s))
      else None)"
| "uuid_bytes (Suc n) s = None"

definition uuid_out :: "string \<Rightarrow> string" where
  "uuid_out ds =
     to_lower (take 8 ds @ ''-'' @ take 4 (drop 8 ds) @ ''-'' @ take 4 (drop 12 ds) @ ''-'' @
       take 4 (drop 16 ds) @ ''-'' @ drop 20 ds)"

definition uuid_in :: "string \<Rightarrow> string option" where
  "uuid_in s =
     (let braces = (s \<noteq> [] \<and> hd s = CHR ''{'') in
      case uuid_bytes 16 (if braces then tl s else s) of
        None \<Rightarrow> None
      | Some (ds, rest) \<Rightarrow> if rest = (if braces then ''}'' else []) then Some (uuid_out ds) else None)"

definition uuid_ref :: "string \<Rightarrow> repo_error + string" where
  "uuid_ref s = (case uuid_in s of None \<Rightarrow> Inl DbBadUuid | Some u \<Rightarrow> Inr u)"

definition uuid_ref_opt :: "string option \<Rightarrow> repo_error + string option" where
  "uuid_ref_opt s = (case s of None \<Rightarrow> Inr None | Some x \<Rightarrow> res_bind (uuid_ref x) (\<lambda>u. Inr (Some u)))"

text \<open>
  \<^verbatim>\<open>WHERE a = $1 OR b = $1\<close>: the first comparison fixes the type of the parameter, and there is no
  equality between \<^verbatim>\<open>uuid\<close> and \<^verbatim>\<open>text\<close> (\<^verbatim>\<open>SQLSTATE 42883\<close>).
\<close>

datatype sql_type = SqlUuid | SqlText

definition one_type :: "sql_type list \<Rightarrow> repo_error + unit" where
  "one_type cols = check (list_all (\<lambda>c. c = hd cols) cols) DbUndefinedOperator"

definition nullif_blank :: "string \<Rightarrow> string option" where
  "nullif_blank s = (if s = '''' then None else Some s)"

text \<open>A foreign key on a nullable and on a mandatory column.\<close>

definition fk_opt :: "'r table \<Rightarrow> string option \<Rightarrow> repo_error + unit" where
  "fk_opt t k = (case k of None \<Rightarrow> Inr () | Some i \<Rightarrow> check (tbl_get t i \<noteq> None) DbForeignKey)"

definition fk :: "'r table \<Rightarrow> string \<Rightarrow> repo_error + unit" where
  "fk t i = check (tbl_get t i \<noteq> None) DbForeignKey"

text \<open>\<^verbatim>\<open>INSERT ... RETURNING id\<close> with the column's generated key.\<close>

definition insert_row :: "string \<Rightarrow> 'r \<Rightarrow> 'r table \<Rightarrow> repo_error + 'r table" where
  "insert_row k r t = (if tbl_get t k = None then Inr (tbl_ins k r t) else Inl DbUnique)"

definition deref :: "string option \<Rightarrow> string" where
  "deref s = (case s of None \<Rightarrow> '''' | Some x \<Rightarrow> x)"

definition coalesce :: "'a option \<Rightarrow> 'a \<Rightarrow> 'a" where
  "coalesce x d = (case x of None \<Rightarrow> d | Some v \<Rightarrow> v)"

definition greatest0 :: "amount \<Rightarrow> amount" where
  "greatest0 x = max x 0"

definition trimPtr :: "string option \<Rightarrow> string option" where
  "trimPtr v = map_option trim_space v"

section \<open>The table interface\<close>

text \<open>
  What the repository relies on of a keyed table: what a lookup sees after an insert, an update
  and a delete. \<open>row_table\<close> adds the general \<^verbatim>\<open>WHERE\<close>. The lemmas inside carry a
  row invariant through each of them; the tables above interpret both.
\<close>

locale keyed_table =
  fixes get :: "'t \<Rightarrow> string \<Rightarrow> 'r option"
    and upd :: "string \<Rightarrow> ('r \<Rightarrow> 'r) \<Rightarrow> 't \<Rightarrow> 't"
    and ins :: "string \<Rightarrow> 'r \<Rightarrow> 't \<Rightarrow> 't"
    and del :: "string \<Rightarrow> 't \<Rightarrow> 't"
  assumes get_upd: "get (upd k f t) k' = (if k' = k then map_option f (get t k') else get t k')"
    and get_ins: "get t k = None \<Longrightarrow> get (ins k r t) k' = (if k' = k then Some r else get t k')"
    and get_del: "get (del k t) k' = (if k' = k then None else get t k')"
begin

lemma upd_keeps:
  assumes "\<forall>k r. get t k = Some r \<longrightarrow> P k r" and "\<And>r. get t k = Some r \<Longrightarrow> P k r \<Longrightarrow> P k (f r)"
  shows "\<forall>k' r. get (upd k f t) k' = Some r \<longrightarrow> P k' r"
  using assms by (auto simp: get_upd)

lemma ins_keeps:
  assumes "\<forall>k r. get t k = Some r \<longrightarrow> P k r" and "get t k = None" and "P k r"
  shows "\<forall>k' r'. get (ins k r t) k' = Some r' \<longrightarrow> P k' r'"
  using assms by (auto simp: get_ins)

lemma del_keeps:
  assumes "\<forall>k r. get t k = Some r \<longrightarrow> P k r"
  shows "\<forall>k' r'. get (del k t) k' = Some r' \<longrightarrow> P k' r'"
  using assms by (auto simp: get_del)

lemma upd_dom: "get (upd k f t) k' = None \<longleftrightarrow> get t k' = None"
  by (simp add: get_upd)

end

locale row_table = keyed_table +
  fixes whr :: "(string \<Rightarrow> 'b \<Rightarrow> bool) \<Rightarrow> ('b \<Rightarrow> 'b) \<Rightarrow> 'a \<Rightarrow> 'a"
  assumes get_whr: "get (whr p f t) k = map_option (\<lambda>r. if p k r then f r else r) (get t k)"
begin

lemma whr_keeps:
  assumes "\<forall>k r. get t k = Some r \<longrightarrow> P k r" and "\<And>k r. P k r \<Longrightarrow> p k r \<Longrightarrow> P k (f r)"
  shows "\<forall>k' r. get (whr p f t) k' = Some r \<longrightarrow> P k' r"
  using assms by (auto simp: get_whr split: if_splits)

end

lemma tbl_get_where: "tbl_get (tbl_where p f t) k = map_option (\<lambda>r. if p k r then f r else r) (tbl_get t k)"
  by (induction t) (auto simp: tbl_get_def tbl_where_def)

lemma tbl_get_upd: "tbl_get (tbl_upd k f t) k' = (if k' = k then map_option f (tbl_get t k') else tbl_get t k')"
  by (cases "tbl_get t k'") (auto simp: tbl_upd_def tbl_get_where)

lemma tbl_get_ins: "tbl_get t k = None \<Longrightarrow> tbl_get (tbl_ins k r t) k' = (if k' = k then Some r else tbl_get t k')"
  by (auto simp: tbl_get_def tbl_ins_def map_add_def split: option.splits)

lemma tbl_get_del: "tbl_get (tbl_del k t) k' = (if k' = k then None else tbl_get t k')"
  by (induction t) (auto simp: tbl_get_def tbl_del_def)

interpretation tb: row_table tbl_get tbl_upd tbl_ins tbl_del tbl_where
  by unfold_locales (auto simp: tbl_get_upd tbl_get_ins tbl_get_del tbl_get_where)

text \<open>A row invariant, and the forms in which the operations meet it.\<close>

definition tbl_all :: "('r \<Rightarrow> bool) \<Rightarrow> 'r table \<Rightarrow> bool" where
  "tbl_all P t \<longleftrightarrow> (\<forall>k r. tbl_get t k = Some r \<longrightarrow> P r)"

lemma tbl_all_upd: "tbl_all P t \<Longrightarrow> (\<And>r. tbl_get t k = Some r \<Longrightarrow> P r \<Longrightarrow> P (f r)) \<Longrightarrow> tbl_all P (tbl_upd k f t)"
  unfolding tbl_all_def by (rule tb.upd_keeps)

lemma tbl_all_whr: "tbl_all P t \<Longrightarrow> (\<And>k r. P r \<Longrightarrow> p k r \<Longrightarrow> P (f r)) \<Longrightarrow> tbl_all P (tbl_where p f t)"
  unfolding tbl_all_def by (rule tb.whr_keeps)

lemma tbl_all_del: "tbl_all P t \<Longrightarrow> tbl_all P (tbl_del k t)"
  unfolding tbl_all_def by (rule tb.del_keeps)

lemma tbl_all_insert_row: "insert_row k r t = Inr t' \<Longrightarrow> tbl_all P t \<Longrightarrow> P r \<Longrightarrow> tbl_all P t'"
  by (auto simp: tbl_all_def insert_row_def tbl_get_ins split: if_splits)

lemma tbl_all_get: "tbl_all P t \<Longrightarrow> tbl_get t k = Some r \<Longrightarrow> P r"
  by (simp add: tbl_all_def)

lemma insert_row_Inr [simp]: "insert_row k r t = Inr t' \<longleftrightarrow> tbl_get t k = None \<and> t' = tbl_ins k r t"
  by (auto simp: insert_row_def)

lemma uuid_param_Inr [simp]: "uuid_param s = Inr x \<longleftrightarrow> s \<noteq> '''' \<and> x = s"
  by (auto simp: uuid_param_def)

lemma uuid_ref_Inr [simp]: "uuid_ref s = Inr u \<longleftrightarrow> uuid_in s = Some u"
  by (auto simp: uuid_ref_def split: option.splits)

lemma uuid_ref_opt_Inr [simp]:
  "uuid_ref_opt s = Inr u \<longleftrightarrow> (case s of None \<Rightarrow> u = None | Some x \<Rightarrow> u \<noteq> None \<and> uuid_in x = u)"
  by (auto simp: uuid_ref_opt_def split: option.splits)

lemma uuid_bytes_digits:
  "uuid_bytes n s = Some (ds, rest) \<Longrightarrow> length ds = 2 * n \<and> list_all is_xdigit ds"
  by (induction n s arbitrary: ds rest rule: uuid_bytes.induct) (auto split: if_splits)

lemma xdigit_lower:
  assumes "is_xdigit c"
  shows "\<not> is_space (lower_char c)"
proof -
  have "list_all (\<lambda>c. \<not> is_space (lower_char c)) ''0123456789abcdefABCDEF''" by (simp add: string_simps)
  then have "\<forall>c \<in> set ''0123456789abcdefABCDEF''. \<not> is_space (lower_char c)" by (simp only: list_all_iff)
  from bspec [OF this assms [unfolded is_xdigit_def]] show ?thesis .
qed

lemma trim_space_same: "s \<noteq> [] \<Longrightarrow> \<not> is_space (hd s) \<Longrightarrow> \<not> is_space (last s) \<Longrightarrow> trim_space s = s"
proof -
  assume s: "s \<noteq> []" "\<not> is_space (hd s)" "\<not> is_space (last s)"
  have keep: "dropWhile is_space xs = xs" if "xs \<noteq> []" "\<not> is_space (hd xs)" for xs
    using that by (cases xs) auto
  show "trim_space s = s" using s by (simp add: trim_space_def keep hd_rev)
qed

text \<open>What the database prints carries no outer blanks.\<close>

lemma uuid_in_trimmed:
  assumes "uuid_in s = Some u"
  shows "trim_space u = u"
proof -
  from assms obtain ds where len: "length ds = 32" and hex: "list_all is_xdigit ds" and u: "u = uuid_out ds"
    by (auto simp: uuid_in_def Let_def split: option.splits if_splits dest: uuid_bytes_digits)
  from len have ne: "ds \<noteq> []" "drop 20 ds \<noteq> []" by auto
  have "u \<noteq> []" "hd u = lower_char (hd ds)" "last u = lower_char (last ds)"
    using ne len by (auto simp: u uuid_out_def to_lower_def hd_append hd_map last_map hd_take)
  then show ?thesis
    using hex ne xdigit_lower [of "hd ds"] xdigit_lower [of "last ds"]
    by (intro trim_space_same) (auto simp: list_all_iff)
qed

lemma fk_Inr [simp]: "fk t i = Inr u \<longleftrightarrow> tbl_get t i \<noteq> None"
  by (simp add: fk_def)

lemma fk_opt_Inr [simp]: "fk_opt t k = Inr u \<longleftrightarrow> (\<forall>i. k = Some i \<longrightarrow> tbl_get t i \<noteq> None)"
  by (auto simp: fk_opt_def split: option.splits)

lemma nullif_blank_simps [simp]:
  "nullif_blank s = None \<longleftrightarrow> s = ''''" "nullif_blank s = Some x \<longleftrightarrow> s \<noteq> '''' \<and> x = s"
  by (auto simp: nullif_blank_def)

lemma coalesce_simps [simp]: "coalesce None d = d" "coalesce (Some x) d = x"
  by (simp_all add: coalesce_def)

lemma deref_simps [simp]: "deref None = ''''" "deref (Some x) = x"
  by (simp_all add: deref_def)

lemma greatest0_nonneg [simp]: "0 \<le> greatest0 x"
  by (simp add: greatest0_def)

lemma greatest0_id [simp]: "0 \<le> x \<Longrightarrow> greatest0 x = x"
  by (simp add: greatest0_def)

section \<open>Audit rows\<close>

definition insert_audit :: "string \<Rightarrow> string \<Rightarrow> string \<Rightarrow> string \<Rightarrow> db \<Rightarrow> db" where
  "insert_audit user act target detail d =
     d\<lparr>db_audit := db_audit d @
        [\<lparr>au_username = user, au_action = act, au_target = target, au_detail = detail\<rparr>]\<rparr>"

text \<open>\<^verbatim>\<open>if auditUser == "" { auditUser = "unknown" }\<close>, and \<^verbatim>\<open>auditTx\<close>, which trims first.\<close>

definition audit_user :: "string \<Rightarrow> string" where
  "audit_user u = (if u = '''' then ''unknown'' else u)"

definition auditTx :: "string \<Rightarrow> string \<Rightarrow> string \<Rightarrow> string \<Rightarrow> db \<Rightarrow> db" where
  "auditTx actor act target detail d =
     insert_audit (if blank actor then ''unknown'' else actor) act target detail d"

lemma insert_audit_simps [simp]:
  "db_budgets (insert_audit u a t x d) = db_budgets d" "db_requisitions (insert_audit u a t x d) = db_requisitions d"
  "db_purchase_orders (insert_audit u a t x d) = db_purchase_orders d" "db_po_lines (insert_audit u a t x d) = db_po_lines d"
  "db_vendors (insert_audit u a t x d) = db_vendors d" "db_items (insert_audit u a t x d) = db_items d"
  "db_rfqs (insert_audit u a t x d) = db_rfqs d" "db_rfq_quotes (insert_audit u a t x d) = db_rfq_quotes d"
  "db_grns (insert_audit u a t x d) = db_grns d" "db_grn_lines (insert_audit u a t x d) = db_grn_lines d"
  "db_invoices (insert_audit u a t x d) = db_invoices d" "db_payments (insert_audit u a t x d) = db_payments d"
  "db_contracts (insert_audit u a t x d) = db_contracts d" "db_tiers (insert_audit u a t x d) = db_tiers d"
  "db_approvals (insert_audit u a t x d) = db_approvals d" "db_desks (insert_audit u a t x d) = db_desks d"
  "db_chain_state (insert_audit u a t x d) = db_chain_state d" "db_steps (insert_audit u a t x d) = db_steps d"
  "db_outbox (insert_audit u a t x d) = db_outbox d" "db_processed (insert_audit u a t x d) = db_processed d"
  "db_kafka_dedupe (insert_audit u a t x d) = db_kafka_dedupe d"
  by (simp_all add: insert_audit_def)

section \<open>Sample rows\<close>

definition empty_db :: db where
  "empty_db =
     \<lparr>db_budgets = [], db_requisitions = [], db_purchase_orders = [], db_po_lines = [], db_vendors = [],
      db_items = [], db_rfqs = [], db_rfq_quotes = [], db_grns = [], db_grn_lines = [], db_invoices = [],
      db_payments = [], db_contracts = [], db_tiers = [], db_approvals = [], db_desks = [],
      db_chain_state = [], db_steps = [], db_audit = [], db_outbox = [], db_processed = [],
      db_kafka_dedupe = []\<rparr>"

definition sample_budget :: "amount \<Rightarrow> budget_row" where
  "sample_budget x =
     \<lparr>b_code = ''OPS'', b_period = ''FY2026'', b_allocated = x, b_pre_committed = 0, b_committed = 0,
      b_spent = 0, b_remaining = x, b_dept = ''ops'', b_period_end = None, b_period_closed_at = None\<rparr>"

definition sample_requisition :: "amount \<Rightarrow> requisition_row" where
  "sample_requisition x =
     \<lparr>rq_doc_no = None, rq_title = ''pumps'', rq_dept = ''ops'', rq_requester = ''ann'', rq_priority = ''Medium'',
      rq_status = ''Pending Approval'', rq_created_at = 0, rq_needed_by = None, rq_total = x,
      rq_currency = ''USD'', rq_budget_id = Some ''b1'', rq_notes = '''', rq_pm_requisition_id = None,
      rq_pm_workspace_owner = None, rq_payee = '''', rq_justification = '''', rq_budget_committed = False,
      rq_pre_released = False, rq_origin_system = '''', rq_origin_ref = ''''\<rparr>"

definition sample_env :: env where
  "sample_env = \<lparr>e_now = 100, e_today = 1, e_id = ''id1'', e_doc_no = ''DOC-1'', e_uuid = ''u1'', e_event_id = ''ev1''\<rparr>"

definition sample_config :: config where
  "sample_config = \<lparr>cf_outbox = True, cf_approval_threshold = 0, cf_invoice_variance_pct = 2\<rparr>"

end
