(* ===== verification/Outbox.thy ===== *)
theory Outbox
  imports Store "HOL-Library.Word"
begin

text \<open>
  The transactional outbox: the event builders of \<^verbatim>\<open>internal/events/outbox_bridge.go\<close>, the
  enqueue helpers the repository calls inside its transactions, and the store and publisher of
  \<^verbatim>\<open>internal/outbox/outbox.go\<close>.

  The JSON envelope is a \<open>json\<close> value; the order of object members and the rendering of
  times are left to the encoder. The broker is the parameter \<open>dispatch\<close>: \<open>None\<close> is a
  delivery, \<open>Some err\<close> a failure.
\<close>

section \<open>Event builders\<close>

definition TypeRequisitionApproved :: string where
  "TypeRequisitionApproved = ''procurement.requisition.approved''"
definition TypeRequisitionRejected :: string where
  "TypeRequisitionRejected = ''procurement.requisition.rejected''"
definition TypeInvoiceReceived :: string where
  "TypeInvoiceReceived = ''procurement.invoice.received''"
definition TypeGrnPosted :: string where
  "TypeGrnPosted = ''procurement.grn.posted''"
definition TypeVendorUpserted :: string where
  "TypeVendorUpserted = ''party.vendor.upserted''"

definition platformEvent :: "env \<Rightarrow> string \<Rightarrow> (string \<times> json) list \<Rightarrow> json" where
  "platformEvent e ty data =
     JObj [(''id'', JStr (e_event_id e)), (''type'', JStr ty), (''time'', JTime (e_now e)),
           (''source'', JStr ''iag.procurement''), (''specversion'', JStr ''1.0''), (''data'', JObj data)]"

text \<open>\<^verbatim>\<open>data[k] = v\<close> on a map under construction.\<close>

definition put :: "string \<Rightarrow> json \<Rightarrow> (string \<times> json) list \<Rightarrow> (string \<times> json) list" where
  "put k v m = (k, v) # filter (\<lambda>(k', _). k' \<noteq> k) m"

definition BuildRequisitionOutcome ::
  "env \<Rightarrow> string \<Rightarrow> string \<Rightarrow> string \<Rightarrow> string \<Rightarrow> string \<Rightarrow> string \<Rightarrow> string \<times> json" where
  "BuildRequisitionOutcome e eventType requisitionID pmRequisitionID owner actor budgetID =
     (let data = [(''requisitionId'', JStr requisitionID), (''budgetId'', JStr budgetID)];
          data = (if pmRequisitionID \<noteq> ''''
                  then put ''procurementRequisitionId'' (JStr requisitionID)
                         (put ''requisitionId'' (JStr pmRequisitionID) data) else data);
          data = (if owner \<noteq> '''' then put ''workspaceOwnerUserId'' (JStr owner) data else data);
          data = (if eventType = TypeRequisitionApproved
                  then put ''approvedAt'' (JTime (e_now e)) (put ''approvedBy'' (JStr actor) data)
                  else if eventType = TypeRequisitionRejected
                  then put ''rejectedAt'' (JTime (e_now e)) (put ''rejectedBy'' (JStr actor) data)
                  else data)
      in (if pmRequisitionID \<noteq> '''' then pmRequisitionID else requisitionID, platformEvent e eventType data))"

definition BuildInvoiceReceived ::
  "env \<Rightarrow> string \<Rightarrow> string \<Rightarrow> string \<Rightarrow> string \<Rightarrow> string \<Rightarrow> int option \<Rightarrow> string \<times> json" where
  "BuildInvoiceReceived e documentRef vendorRef amt currency poRef dueDate =
     (let data = [(''documentRef'', JStr documentRef), (''vendorRef'', JStr vendorRef), (''amount'', JStr amt),
                  (''currency'', JStr currency), (''description'', JStr ''Procurement vendor invoice'')];
          data = (case dueDate of None \<Rightarrow> data | Some t \<Rightarrow> put ''dueDate'' (JDate t) data);
          data = (if poRef \<noteq> '''' then put ''poRef'' (JStr poRef) data else data)
      in (documentRef, platformEvent e TypeInvoiceReceived data))"

record grn_posted_line =
  gpl_sku :: string
  gpl_qty :: amount
  gpl_uom :: string
  gpl_unit_price :: amount

definition grn_line_json :: "grn_posted_line \<Rightarrow> json" where
  "grn_line_json l =
     (let line = [(''sku'', JStr (gpl_sku l)), (''qty'', JNum (gpl_qty l)),
                  (''uom'', JStr (if gpl_uom l = '''' then ''ea'' else gpl_uom l))]
      in JObj (if gpl_unit_price l > 0 then put ''unit_price'' (JNum (gpl_unit_price l)) line else line))"

definition BuildGrnPosted ::
  "env \<Rightarrow> string \<Rightarrow> string \<Rightarrow> string \<Rightarrow> string \<Rightarrow> string \<Rightarrow> string \<Rightarrow> grn_posted_line list \<Rightarrow> string \<times> json" where
  "BuildGrnPosted e grnID poID vendorID receivedBy receivedValue inventoryValue lines =
     (let data = [(''grn_id'', JStr grnID), (''po_id'', JStr poID), (''vendor_id'', JStr vendorID),
                  (''received_by'', JStr receivedBy)];
          data = (if receivedValue \<noteq> '''' then put ''amount'' (JStr receivedValue) data else data);
          data = (if inventoryValue \<noteq> '''' then put ''inventory_value'' (JStr inventoryValue) data else data);
          data = (if lines \<noteq> [] then put ''lines'' (JArr (map grn_line_json lines)) data else data)
      in (grnID, platformEvent e TypeGrnPosted data))"

record vendor_upsert =
  vu_party_id :: string
  vu_code :: string
  vu_name :: string
  vu_category :: string
  vu_email :: string
  vu_phone :: string
  vu_country :: string
  vu_currency :: string
  vu_status :: string

definition BuildVendorUpserted :: "env \<Rightarrow> vendor_upsert \<Rightarrow> string \<times> json" where
  "BuildVendorUpserted e v =
     (let status = (if vu_status v = '''' then ''Active'' else vu_status v) in
      (if vu_party_id v = '''' then vu_code v else vu_party_id v,
       platformEvent e TypeVendorUpserted
         [(''party_id'', JStr (vu_party_id v)), (''code'', JStr (vu_code v)), (''name'', JStr (vu_name v)),
          (''category'', JStr (vu_category v)), (''email'', JStr (vu_email v)), (''phone'', JStr (vu_phone v)),
          (''country'', JStr (vu_country v)), (''currency'', JStr (vu_currency v)), (''status'', JStr status),
          (''supplier_type'', JStr ''vendor''), (''source'', JStr ''iag.procurement'')]))"

section \<open>Enqueueing\<close>

text \<open>The \<^verbatim>\<open>BIGSERIAL\<close> key counts inserts; rows are never deleted.\<close>

definition enqueue :: "env \<Rightarrow> string \<Rightarrow> string \<Rightarrow> json \<Rightarrow> db \<Rightarrow> db" where
  "enqueue e eventType key payload d =
     d\<lparr>db_outbox := db_outbox d @
        [\<lparr>ob_id = Suc (length (db_outbox d)), ob_event_type = eventType, ob_event_key = nullif_blank key,
          ob_payload = payload, ob_available_at = e_now e, ob_attempts = 0, ob_last_error = None,
          ob_dispatched_at = None\<rparr>]\<rparr>"

definition enqueueRequisitionOutcome ::
  "config \<Rightarrow> env \<Rightarrow> string \<Rightarrow> string \<Rightarrow> string \<Rightarrow> string \<Rightarrow> string \<Rightarrow> string \<Rightarrow> db \<Rightarrow> db" where
  "enqueueRequisitionOutcome cf e outcome reqID pmReqID pmOwner actor budgetID d =
     (if \<not> cf_outbox cf then d
      else let eventType = (if outcome = ''rejected'' then TypeRequisitionRejected else TypeRequisitionApproved);
               kp = BuildRequisitionOutcome e eventType reqID pmReqID pmOwner actor budgetID
           in enqueue e eventType (fst kp) (snd kp) d)"

definition enqueueVendorUpsertedTx :: "config \<Rightarrow> env \<Rightarrow> vendor_upsert \<Rightarrow> db \<Rightarrow> db" where
  "enqueueVendorUpsertedTx cf e v d =
     (if \<not> cf_outbox cf \<or> blank (vu_party_id v) then d
      else let kp = BuildVendorUpserted e v in enqueue e TypeVendorUpserted (fst kp) (snd kp) d)"

lemma enqueue_simps [simp]:
  "db_budgets (enqueue e ty k p d) = db_budgets d" "db_requisitions (enqueue e ty k p d) = db_requisitions d"
  "db_purchase_orders (enqueue e ty k p d) = db_purchase_orders d" "db_po_lines (enqueue e ty k p d) = db_po_lines d"
  "db_vendors (enqueue e ty k p d) = db_vendors d" "db_items (enqueue e ty k p d) = db_items d"
  "db_rfqs (enqueue e ty k p d) = db_rfqs d" "db_rfq_quotes (enqueue e ty k p d) = db_rfq_quotes d"
  "db_grns (enqueue e ty k p d) = db_grns d" "db_grn_lines (enqueue e ty k p d) = db_grn_lines d"
  "db_invoices (enqueue e ty k p d) = db_invoices d" "db_payments (enqueue e ty k p d) = db_payments d"
  "db_contracts (enqueue e ty k p d) = db_contracts d" "db_tiers (enqueue e ty k p d) = db_tiers d"
  "db_approvals (enqueue e ty k p d) = db_approvals d" "db_desks (enqueue e ty k p d) = db_desks d"
  "db_chain_state (enqueue e ty k p d) = db_chain_state d" "db_steps (enqueue e ty k p d) = db_steps d"
  "db_audit (enqueue e ty k p d) = db_audit d" "db_processed (enqueue e ty k p d) = db_processed d"
  "db_kafka_dedupe (enqueue e ty k p d) = db_kafka_dedupe d"
  by (simp_all add: enqueue_def)

lemma enqueueRequisitionOutcome_simps [simp]:
  "db_budgets (enqueueRequisitionOutcome cf e o' r p w a b d) = db_budgets d"
  "db_requisitions (enqueueRequisitionOutcome cf e o' r p w a b d) = db_requisitions d"
  "db_purchase_orders (enqueueRequisitionOutcome cf e o' r p w a b d) = db_purchase_orders d"
  "db_po_lines (enqueueRequisitionOutcome cf e o' r p w a b d) = db_po_lines d"
  "db_grns (enqueueRequisitionOutcome cf e o' r p w a b d) = db_grns d"
  "db_grn_lines (enqueueRequisitionOutcome cf e o' r p w a b d) = db_grn_lines d"
  "db_vendors (enqueueRequisitionOutcome cf e o' r p w a b d) = db_vendors d"
  "db_approvals (enqueueRequisitionOutcome cf e o' r p w a b d) = db_approvals d"
  "db_tiers (enqueueRequisitionOutcome cf e o' r p w a b d) = db_tiers d"
  "db_desks (enqueueRequisitionOutcome cf e o' r p w a b d) = db_desks d"
  "db_chain_state (enqueueRequisitionOutcome cf e o' r p w a b d) = db_chain_state d"
  "db_steps (enqueueRequisitionOutcome cf e o' r p w a b d) = db_steps d"
  by (simp_all add: enqueueRequisitionOutcome_def Let_def)

section \<open>The store and the publisher\<close>

text \<open>A \<^verbatim>\<open>time.Duration\<close> is a signed 64-bit count of nanoseconds; timestamps count milliseconds.\<close>

type_synonym duration = "64 word"

definition second :: duration where
  "second = 1000000000"

definition Milliseconds :: "duration \<Rightarrow> int" where
  "Milliseconds d = sgn (sint d) * (\<bar>sint d\<bar> div 1000000)"

definition is_due :: "timestamp \<Rightarrow> outbox_row \<Rightarrow> bool" where
  "is_due now r \<longleftrightarrow> ob_dispatched_at r = None \<and> ob_available_at r \<le> now"

definition claim_row :: "timestamp \<Rightarrow> duration \<Rightarrow> outbox_row \<Rightarrow> outbox_row" where
  "claim_row now backoff r =
     r\<lparr>ob_attempts := ob_attempts r + 1, ob_available_at := now + Milliseconds backoff\<rparr>"

definition claimed_ids :: "timestamp \<Rightarrow> int \<Rightarrow> outbox_row list \<Rightarrow> nat list" where
  "claimed_ids now limit rows =
     (let limit = (if limit \<le> 0 then 32 else limit) in take (nat limit) (map ob_id (filter (is_due now) rows)))"

definition ClaimBatch ::
  "timestamp \<Rightarrow> int \<Rightarrow> duration \<Rightarrow> outbox_row list \<Rightarrow> outbox_row list \<times> outbox_row list" where
  "ClaimBatch now limit backoff rows =
     (let due = claimed_ids now limit rows;
          rows' = map (\<lambda>r. if ob_id r \<in> set due then claim_row now backoff r else r) rows
      in (filter (\<lambda>r. ob_id r \<in> set due) rows', rows'))"

definition upd_outbox :: "nat \<Rightarrow> (outbox_row \<Rightarrow> outbox_row) \<Rightarrow> outbox_row list \<Rightarrow> outbox_row list" where
  "upd_outbox i f rows = map (\<lambda>r. if ob_id r = i then f r else r) rows"

definition MarkDispatched :: "timestamp \<Rightarrow> nat \<Rightarrow> outbox_row list \<Rightarrow> outbox_row list" where
  "MarkDispatched now i rows =
     upd_outbox i (\<lambda>r. r\<lparr>ob_dispatched_at := Some now, ob_last_error := None\<rparr>) rows"

definition MarkFailed :: "timestamp \<Rightarrow> nat \<Rightarrow> string \<Rightarrow> duration \<Rightarrow> outbox_row list \<Rightarrow> outbox_row list" where
  "MarkFailed now i err delay rows =
     upd_outbox i (\<lambda>r. r\<lparr>ob_last_error := Some err, ob_available_at := now + Milliseconds delay\<rparr>) rows"

text \<open>
  \<^verbatim>\<open>time.Duration(math.Pow(2, float64(attempts))) * time.Second\<close>: powers up to
  \<open>2 ^ 62\<close> convert exactly; beyond that the conversion from \<^verbatim>\<open>float64\<close> is
  implementation-dependent and is the parameter \<open>ovf\<close>. The product wraps.
\<close>

definition backoffFor :: "(nat \<Rightarrow> duration) \<Rightarrow> nat \<Rightarrow> duration \<Rightarrow> duration" where
  "backoffFor ovf attempts mx =
     (let a = (if attempts < 1 then 1 else attempts);
          d = (if a < 63 then word_of_int (2 ^ a) else ovf a) * second
      in if sint mx < sint d then mx else d)"

definition DispatchOutbox ::
  "bool \<Rightarrow> (string \<Rightarrow> json \<Rightarrow> string \<Rightarrow> string option) \<Rightarrow> outbox_row \<Rightarrow> string option" where
  "DispatchOutbox enabled write row =
     (if \<not> enabled then None else write (deref (ob_event_key row)) (ob_payload row) (ob_event_type row))"

fun drain_loop ::
  "(nat \<Rightarrow> duration) \<Rightarrow> timestamp \<Rightarrow> duration \<Rightarrow> (outbox_row \<Rightarrow> string option) \<Rightarrow> outbox_row list \<Rightarrow>
   outbox_row list \<Rightarrow> outbox_row list" where
  "drain_loop ovf now mx dispatch [] st = st"
| "drain_loop ovf now mx dispatch (r # rs) st =
     drain_loop ovf now mx dispatch rs
       (case dispatch r of
          Some err \<Rightarrow> MarkFailed now (ob_id r) err (backoffFor ovf (ob_attempts r) mx) st
        | None \<Rightarrow> MarkDispatched now (ob_id r) st)"

definition outbox_batch :: int where "outbox_batch = 32"
definition outbox_tick :: duration where "outbox_tick = 2 * second"
definition outbox_max_backoff :: duration where "outbox_max_backoff = 300 * second"
definition outboxIdleBackoffMax :: duration where "outboxIdleBackoffMax = 8 * second"

definition drainOnce ::
  "(nat \<Rightarrow> duration) \<Rightarrow> timestamp \<Rightarrow> (outbox_row \<Rightarrow> string option) \<Rightarrow> outbox_row list \<Rightarrow> nat \<times> outbox_row list" where
  "drainOnce ovf now dispatch st =
     (let (rows, st') = ClaimBatch now outbox_batch second st
      in (length rows, drain_loop ovf now outbox_max_backoff dispatch rows st'))"

definition nextOutboxInterval :: "duration \<Rightarrow> duration \<Rightarrow> duration" where
  "nextOutboxInterval current base =
     (let current = (if sint current < sint base then base else current); nxt = current * 2
      in if sint nxt < sint outboxIdleBackoffMax then nxt else outboxIdleBackoffMax)"

text \<open>
  One turn of \<^verbatim>\<open>Run\<close>'s loop at a timer expiry: \<open>fails\<close> says whether the claim query
  errors. The state is the poll interval and the table.
\<close>

definition Run_turn ::
  "(nat \<Rightarrow> duration) \<Rightarrow> timestamp \<Rightarrow> bool \<Rightarrow> bool \<Rightarrow> (outbox_row \<Rightarrow> string option) \<Rightarrow>
   duration \<times> outbox_row list \<Rightarrow> duration \<times> outbox_row list" where
  "Run_turn ovf now fails fails2 dispatch s =
     (let (interval, st) = s in
      if fails then (nextOutboxInterval interval outbox_tick, st)
      else let (n, st') = drainOnce ovf now dispatch st in
        if n > 0
        then (outbox_tick,
              if int n \<ge> outbox_batch \<and> \<not> fails2 then snd (drainOnce ovf now dispatch st') else st')
        else (nextOutboxInterval interval outbox_tick, st'))"

section \<open>Properties of the publisher\<close>

lemma sint_second: "0 \<le> k \<Longrightarrow> k \<le> 9223372036 \<Longrightarrow> sint (word_of_int k * second) = k * 1000000000"
proof -
  assume k: "0 \<le> k" "k \<le> 9223372036"
  have "word_of_int k * second = word_of_int (k * 1000000000)" by (simp add: second_def)
  moreover have "sint (word_of_int (k * 1000000000) :: 64 word) = signed_take_bit 63 (k * 1000000000)"
    unfolding sint_sbintrunc' by simp
  moreover have "signed_take_bit 63 (k * 1000000000) = k * 1000000000"
    using k by (intro signed_take_bit_int_eq_self) simp_all
  ultimately show ?thesis by simp
qed

lemma outbox_max_backoff_sint: "sint outbox_max_backoff = 300000000000"
  using sint_second [of 300] by (simp add: outbox_max_backoff_def)

lemma pow_le_33: "a \<le> 33 \<Longrightarrow> (2 :: int) ^ a \<le> 8589934592"
  using power_increasing [of a 33 "2 :: int"] by simp

lemma backoffFor_small:
  assumes "attempts \<le> 33"
  shows "sint (backoffFor ovf attempts outbox_max_backoff) =
    min (2 ^ max 1 attempts * 1000000000) 300000000000"
proof -
  let ?a = "max 1 attempts"
  have a: "(if attempts < 1 then 1 else attempts) = ?a" by simp
  have "sint (word_of_int (2 ^ ?a) * second) = 2 ^ ?a * 1000000000"
    using pow_le_33 [of ?a] assms by (intro sint_second) simp_all
  then show ?thesis
    using assms by (auto simp: backoffFor_def Let_def outbox_max_backoff_sint min_def)
qed

lemma backoffFor_34: "sint (backoffFor ovf 34 outbox_max_backoff) = - 1266874889709551616"
  by (simp add: backoffFor_def outbox_max_backoff_def second_def)

lemma backoffFor_55: "55 \<le> a \<Longrightarrow> a < 63 \<Longrightarrow> backoffFor ovf a outbox_max_backoff = 0"
proof -
  assume a: "55 \<le> a" "a < 63"
  then obtain k where k: "a = 55 + k" using le_Suc_ex by blast
  have "word_of_int (2 ^ a) * second = (word_of_int (2 ^ k) :: duration) * (word_of_int (2 ^ 55) * second)"
    by (simp add: k power_add)
  also have "word_of_int (2 ^ 55) * second = (0 :: duration)" by (simp add: second_def)
  finally show ?thesis using a by (simp add: backoffFor_def Let_def outbox_max_backoff_sint)
qed

lemma nextOutboxInterval_bounds:
  assumes "2000000000 \<le> sint i" and "sint i \<le> 8000000000"
  shows "2000000000 \<le> sint (nextOutboxInterval i outbox_tick) \<and>
    sint (nextOutboxInterval i outbox_tick) \<le> 8000000000"
proof -
  have tick: "sint outbox_tick = 2000000000" using sint_second [of 2] by (simp add: outbox_tick_def)
  have mx: "sint outboxIdleBackoffMax = 8000000000" using sint_second [of 8] by (simp add: outboxIdleBackoffMax_def)
  have eq: "i * 2 = word_of_int (sint i * 2)" by simp
  have "sint (i * 2) = signed_take_bit 63 (sint i * 2)"
    unfolding eq sint_sbintrunc' by simp
  also have "\<dots> = sint i * 2" using assms by (intro signed_take_bit_int_eq_self) simp_all
  finally have dbl: "sint (i * 2) = sint i * 2" .
  show ?thesis using assms dbl by (simp add: nextOutboxInterval_def Let_def tick mx)
qed

text \<open>Draining as a function of each row.\<close>

definition drained_row ::
  "(nat \<Rightarrow> duration) \<Rightarrow> timestamp \<Rightarrow> duration \<Rightarrow> (outbox_row \<Rightarrow> string option) \<Rightarrow> outbox_row \<Rightarrow> outbox_row" where
  "drained_row ovf now mx dispatch r =
     (case dispatch r of
        Some err \<Rightarrow> r\<lparr>ob_last_error := Some err,
            ob_available_at := now + Milliseconds (backoffFor ovf (ob_attempts r) mx)\<rparr>
      | None \<Rightarrow> r\<lparr>ob_dispatched_at := Some now, ob_last_error := None\<rparr>)"

lemma drain_loop_map:
  assumes "distinct (map ob_id st)" and "distinct (map ob_id rs)" and "set rs \<subseteq> set st"
  shows "drain_loop ovf now mx dispatch rs st =
    map (\<lambda>r. if ob_id r \<in> ob_id ` set rs then drained_row ovf now mx dispatch r else r) st"
  using assms
proof (induction rs arbitrary: st)
  case Nil
  then show ?case by simp
next
  case (Cons q rs)
  let ?st = "map (\<lambda>r. if ob_id r = ob_id q then drained_row ovf now mx dispatch q else r) st"
  have q: "q \<in> set st" using Cons.prems by simp
  have same: "r = q" if "r \<in> set st" "ob_id r = ob_id q" for r
    using Cons.prems(1) q that by (auto simp: distinct_map inj_on_def)
  have step: "(case dispatch q of Some err \<Rightarrow> MarkFailed now (ob_id q) err (backoffFor ovf (ob_attempts q) mx) st
      | None \<Rightarrow> MarkDispatched now (ob_id q) st) = ?st"
    by (auto simp: MarkFailed_def MarkDispatched_def upd_outbox_def drained_row_def dest: same split: option.splits)
  have ids: "map ob_id ?st = map ob_id st"
    by (auto simp: drained_row_def split: option.splits)
  have sub: "set rs \<subseteq> set ?st"
  proof
    fix x assume x: "x \<in> set rs"
    have "ob_id x \<in> ob_id ` set rs" using x by simp
    then have "ob_id x \<noteq> ob_id q" using Cons.prems(2) by (metis distinct.simps(2) list.set_map list.simps(9))
    moreover have "x \<in> set st" using x Cons.prems(3) by auto
    ultimately show "x \<in> set ?st" by (auto intro: rev_image_eqI)
  qed
  have "drain_loop ovf now mx dispatch rs ?st =
      map (\<lambda>r. if ob_id r \<in> ob_id ` set rs then drained_row ovf now mx dispatch r else r) ?st"
  proof (rule Cons.IH)
    show "distinct (map ob_id ?st)" unfolding ids by (rule Cons.prems(1))
    show "distinct (map ob_id rs)" using Cons.prems(2) by simp
    show "set rs \<subseteq> set ?st" by (rule sub)
  qed
  also have "\<dots> = map (\<lambda>r. if ob_id r \<in> ob_id ` set (q # rs) then drained_row ovf now mx dispatch r else r) st"
    using Cons.prems(2) by (auto simp: drained_row_def dest: same split: option.splits)
  finally show ?case using step by simp
qed


lemma claim_row_id [simp]: "ob_id (claim_row now b r) = ob_id r"
  by (simp add: claim_row_def)

lemma claimed_row_ids: "map ob_id (map (\<lambda>r. if P r then claim_row now b r else r) st) = map ob_id st"
  by auto

text \<open>One drain, row by row: a claimed row is delivered or rescheduled, any other row is untouched.\<close>

lemma drainOnce_rows:
  assumes dist: "distinct (map ob_id st)"
  shows "snd (drainOnce ovf now dispatch st) =
    map (\<lambda>r. if ob_id r \<in> set (claimed_ids now outbox_batch st)
      then drained_row ovf now outbox_max_backoff dispatch (claim_row now second r) else r) st"
proof -
  define due where "due = set (claimed_ids now outbox_batch st)"
  let ?c = "\<lambda>r. if ob_id r \<in> due then claim_row now second r else r"
  let ?rs = "filter (\<lambda>r. ob_id r \<in> due) (map ?c st)"
  have ids: "map ob_id (map ?c st) = map ob_id st" by (rule claimed_row_ids)
  have in_rs: "ob_id ` set ?rs = due"
  proof -
    have "due \<subseteq> ob_id ` set st"
      by (auto simp: due_def claimed_ids_def Let_def dest!: in_set_takeD)
    moreover have "x \<in> ob_id ` set ?rs \<longleftrightarrow> x \<in> ob_id ` set st \<and> x \<in> due" for x
      by (auto simp: image_iff split: if_splits)
    ultimately show ?thesis by blast
  qed
  have "drain_loop ovf now outbox_max_backoff dispatch ?rs (map ?c st) =
      map (\<lambda>r. if ob_id r \<in> ob_id ` set ?rs then drained_row ovf now outbox_max_backoff dispatch r else r) (map ?c st)"
  proof (rule drain_loop_map)
    show "distinct (map ob_id (map ?c st))" unfolding ids by (rule dist)
    then show "distinct (map ob_id ?rs)" by (rule distinct_map_filter_sub)
    show "set ?rs \<subseteq> set (map ?c st)" by auto
  qed
  then show ?thesis
    unfolding in_rs by (auto simp: drainOnce_def ClaimBatch_def due_def Let_def)
qed

definition undelivered :: "outbox_row list \<Rightarrow> outbox_row list" where
  "undelivered st = filter (\<lambda>r. ob_dispatched_at r = None) st"

lemma drained_row_ids [simp]: "ob_id (drained_row ovf now mx dispatch r) = ob_id r"
  by (simp add: drained_row_def split: option.splits)

lemma drainOnce_ids: "distinct (map ob_id st) \<Longrightarrow> map ob_id (snd (drainOnce ovf now dispatch st)) = map ob_id st"
  by (auto simp: drainOnce_rows)

lemma claimed_ids_take: "claimed_ids now outbox_batch st = take 32 (map ob_id (filter (is_due now) st))"
  by (simp add: claimed_ids_def outbox_batch_def)

lemma filter_take_ids:
  assumes "distinct (map ob_id st)"
  shows "filter (\<lambda>r. P r \<and> ob_id r \<notin> set (take n (map ob_id (filter P st)))) st = drop n (filter P st)"
  using assms
proof (induction st arbitrary: n)
  case Nil
  then show ?case by simp
next
  case (Cons r st)
  have r: "ob_id r \<notin> ob_id ` set st" using Cons.prems by simp
  have IH: "filter (\<lambda>r. P r \<and> ob_id r \<notin> set (take n (map ob_id (filter P st)))) st = drop n (filter P st)" for n
    using Cons by simp
  show ?case
  proof (cases "P r")
    case False
    then show ?thesis using IH by simp
  next
    case True
    show ?thesis
    proof (cases n)
      case 0
      then show ?thesis by simp
    next
      case (Suc m)
      have "filter (\<lambda>q. P q \<and> ob_id q \<notin> insert (ob_id r) (set (take m (map ob_id (filter P st))))) st =
          filter (\<lambda>q. P q \<and> ob_id q \<notin> set (take m (map ob_id (filter P st)))) st"
        using r by (intro filter_cong refl) (metis image_eqI insert_iff)
      with True Suc IH [of m] show ?thesis by simp
    qed
  qed
qed

lemma filter_map_if:
  assumes "\<And>r. \<not> P (f r)"
  shows "filter P (map (\<lambda>r. if Q r then f r else r) xs) = filter (\<lambda>r. P r \<and> \<not> Q r) xs"
  using assms by (induction xs) auto

text \<open>With a working broker and every undelivered row due, each drain delivers the oldest 32.\<close>

lemma drainOnce_delivers:
  assumes dist: "distinct (map ob_id st)" and ok: "\<And>r. dispatch r = None"
    and due: "\<forall>r \<in> set st. ob_dispatched_at r = None \<longrightarrow> ob_available_at r \<le> now"
  shows "undelivered (snd (drainOnce ovf now dispatch st)) = drop 32 (undelivered st)"
proof -
  let ?ids = "set (take 32 (map ob_id (filter (is_due now) st)))"
  have u: "undelivered st = filter (is_due now) st"
    unfolding undelivered_def using due by (intro filter_cong) (auto simp: is_due_def)
  have "undelivered (snd (drainOnce ovf now dispatch st)) =
      filter (\<lambda>r. ob_dispatched_at r = None \<and> ob_id r \<notin> ?ids) st"
    unfolding undelivered_def drainOnce_rows [OF dist] claimed_ids_take
    by (rule filter_map_if) (simp add: drained_row_def ok)
  also have "\<dots> = filter (\<lambda>r. is_due now r \<and> ob_id r \<notin> ?ids) st"
    using due by (intro filter_cong) (auto simp: is_due_def)
  also have "\<dots> = drop 32 (filter (is_due now) st)"
    by (rule filter_take_ids [OF dist])
  finally show ?thesis by (simp add: u)
qed

fun drain_times ::
  "(nat \<Rightarrow> duration) \<Rightarrow> timestamp \<Rightarrow> (outbox_row \<Rightarrow> string option) \<Rightarrow> nat \<Rightarrow> outbox_row list \<Rightarrow> outbox_row list" where
  "drain_times ovf now dispatch 0 st = st"
| "drain_times ovf now dispatch (Suc n) st =
     drain_times ovf now dispatch n (snd (drainOnce ovf now dispatch st))"

lemma drain_times_delivers:
  assumes "distinct (map ob_id st)" and ok: "\<And>r. dispatch r = None"
    and "\<forall>r \<in> set st. ob_dispatched_at r = None \<longrightarrow> ob_available_at r \<le> now"
  shows "undelivered (drain_times ovf now dispatch n st) = drop (32 * n) (undelivered st)"
  using assms(1,3)
proof (induction n arbitrary: st)
  case 0
  then show ?case by simp
next
  case (Suc n)
  let ?st = "snd (drainOnce ovf now dispatch st)"
  have "\<forall>r \<in> set ?st. ob_dispatched_at r = None \<longrightarrow> ob_available_at r \<le> now"
    using Suc.prems by (auto simp: drainOnce_rows drained_row_def ok)
  moreover have "distinct (map ob_id ?st)" using Suc.prems(1) by (simp add: drainOnce_ids)
  ultimately have "undelivered (drain_times ovf now dispatch n ?st) = drop (32 * n) (undelivered ?st)"
    by (rule Suc.IH [rotated])
  then show ?case using drainOnce_delivers [OF Suc.prems(1) ok Suc.prems(2)] by (simp add: add.commute)
qed


section \<open>Properties\<close>

definition outbox_ids_ok :: "outbox_row list \<Rightarrow> bool" where
  "outbox_ids_ok st \<longleftrightarrow> map ob_id st = [1..<Suc (length st)]"

lemma outbox_ids_distinct: "outbox_ids_ok st \<Longrightarrow> distinct (map ob_id st)"
  by (simp add: outbox_ids_ok_def)

lemma enqueue_ids_ok: "outbox_ids_ok (db_outbox d) \<Longrightarrow> outbox_ids_ok (db_outbox (enqueue e ty k p d))"
  by (simp add: outbox_ids_ok_def enqueue_def)

definition sample_outbox :: "outbox_row list" where
  "sample_outbox =
     map (\<lambda>i. \<lparr>ob_id = i, ob_event_type = TypeGrnPosted, ob_event_key = None, ob_payload = JObj [],
       ob_available_at = 0, ob_attempts = 0, ob_last_error = None, ob_dispatched_at = None\<rparr>) [1..<41]"

text \<open>
  C22. One drain of the outbox touches exactly the first 32 due rows, counts an attempt on each,
  marks it dispatched exactly when the broker accepted it, and keeps every row and payload.
\<close>

theorem drain_loses_no_event:
  assumes "outbox_ids_ok st" and "i < length st"
  shows "let st' = snd (drainOnce ovf now dispatch st);
             claimed = ob_id (st ! i) \<in> set (take 32 (map ob_id (filter (is_due now) st)))
         in length st' = length st \<and> outbox_ids_ok st' \<and> ob_payload (st' ! i) = ob_payload (st ! i) \<and>
            (\<not> claimed \<longrightarrow> st' ! i = st ! i) \<and>
            (claimed \<longrightarrow> ob_attempts (st' ! i) = ob_attempts (st ! i) + 1 \<and>
               (ob_dispatched_at (st' ! i) = None \<longleftrightarrow> dispatch (claim_row now second (st ! i)) \<noteq> None))"
proof -
  note rows = drainOnce_rows [OF outbox_ids_distinct [OF assms(1)], of ovf now dispatch, unfolded claimed_ids_take]
  have ids: "map ob_id (snd (drainOnce ovf now dispatch st)) = map ob_id st"
    by (rule drainOnce_ids [OF outbox_ids_distinct [OF assms(1)]])
  then have len: "length (snd (drainOnce ovf now dispatch st)) = length st" by (metis length_map)
  have undel: "ob_dispatched_at (st ! i) = None"
    if "ob_id (st ! i) \<in> set (take 32 (map ob_id (filter (is_due now) st)))"
  proof -
    from that have "ob_id (st ! i) \<in> set (map ob_id (filter (is_due now) st))" by (rule in_set_takeD)
    then obtain r where "r \<in> set st" "is_due now r" "ob_id r = ob_id (st ! i)" by auto
    then have "r = st ! i"
      using outbox_ids_distinct [OF assms(1)] assms(2) by (auto simp: distinct_map inj_on_def)
    with \<open>is_due now r\<close> show ?thesis by (simp add: is_due_def)
  qed
  show ?thesis
    unfolding Let_def
  proof (intro conjI impI)
    show "length (snd (drainOnce ovf now dispatch st)) = length st" by (rule len)
    show "outbox_ids_ok (snd (drainOnce ovf now dispatch st))"
      using assms(1) ids len by (simp add: outbox_ids_ok_def)
    show "ob_payload (snd (drainOnce ovf now dispatch st) ! i) = ob_payload (st ! i)"
      using assms(2) by (simp add: rows drained_row_def claim_row_def split: option.splits)
    show "snd (drainOnce ovf now dispatch st) ! i = st ! i"
      if "ob_id (st ! i) \<notin> set (take 32 (map ob_id (filter (is_due now) st)))"
      using assms(2) that by (simp add: rows)
    show "ob_attempts (snd (drainOnce ovf now dispatch st) ! i) = ob_attempts (st ! i) + 1"
      if "ob_id (st ! i) \<in> set (take 32 (map ob_id (filter (is_due now) st)))"
      using assms(2) that by (simp add: rows drained_row_def claim_row_def split: option.splits)
    show "(ob_dispatched_at (snd (drainOnce ovf now dispatch st) ! i) = None) =
        (dispatch (claim_row now second (st ! i)) \<noteq> None)"
      if "ob_id (st ! i) \<in> set (take 32 (map ob_id (filter (is_due now) st)))"
      using assms(2) that undel [OF that]
      by (simp add: rows drained_row_def split: option.splits) (simp add: claim_row_def)
  qed
qed

lemma sample_outbox_ok: "outbox_ids_ok sample_outbox"
  by (simp add: outbox_ids_ok_def sample_outbox_def o_def)

theorem drain_loses_no_event_witness:
  "length (snd (drainOnce (\<lambda>_. 0) 5 (\<lambda>r. Some ''down'') sample_outbox)) = 40 \<and>
   ob_payload (snd (drainOnce (\<lambda>_. 0) 5 (\<lambda>r. Some ''down'') sample_outbox) ! 35) = JObj []"
proof -
  have len: "length sample_outbox = 40" and p: "ob_payload (sample_outbox ! 35) = JObj []"
    by (simp_all add: sample_outbox_def)
  show ?thesis
    using drain_loses_no_event [OF sample_outbox_ok, of 35 "\<lambda>_. 0" 5 "\<lambda>r. Some ''down''"] len p
    by (simp add: Let_def)
qed

text \<open>
  C23. With a broker that accepts every event, n drains deliver up to 32n pending due events:
  nothing stays undelivered.
\<close>

theorem every_event_is_delivered:
  assumes "outbox_ids_ok st" and "\<forall>r \<in> set st. ob_dispatched_at r = None \<longrightarrow> ob_available_at r \<le> now"
    and "length (undelivered st) \<le> 32 * n" and "\<And>r. dispatch r = None"
  shows "undelivered (drain_times ovf now dispatch n st) = []"
  using drain_times_delivers [OF outbox_ids_distinct [OF assms(1)] assms(4,2)] assms(3) by simp

theorem every_event_is_delivered_witness:
  "length (undelivered sample_outbox) = 40 \<and> undelivered (drain_times (\<lambda>_. 0) 5 (\<lambda>r. None) 2 sample_outbox) = []"
proof -
  have due: "\<forall>r \<in> set sample_outbox. ob_dispatched_at r = None \<longrightarrow> ob_available_at r \<le> 5"
    by (simp add: sample_outbox_def)
  have len: "length (undelivered sample_outbox) = 40"
    by (simp add: sample_outbox_def undelivered_def filter_map o_def)
  show ?thesis
    using every_event_is_delivered [OF sample_outbox_ok due, of 2 "\<lambda>r. None" "\<lambda>_. 0"] len by simp
qed

lemma backoffFor_max: "sint (backoffFor ovf attempts outbox_max_backoff) \<le> 300000000000"
  using sint_second [of 300] by (auto simp: backoffFor_def outbox_max_backoff_def Let_def)

text \<open>
  C38. The retry delay as a 64-bit duration is 2^attempts seconds (at least two) capped at five
  minutes up to attempt 33 and never exceeds five minutes; at attempt 34 the product wraps to a
  negative delay, and for attempts 55 to 62 it is zero, so rows that failed that often are
  retried at once. Beyond attempt 62 the delay depends on the float conversion, which the
  language leaves open.
\<close>

theorem retry_delay_is_capped_until_overflow:
  "(attempts \<le> 33 \<longrightarrow>
      sint (backoffFor ovf attempts outbox_max_backoff) = min (2 ^ max 1 attempts * 1000000000) 300000000000) \<and>
   sint (backoffFor ovf 34 outbox_max_backoff) < 0 \<and>
   (55 \<le> attempts \<and> attempts \<le> 62 \<longrightarrow> backoffFor ovf attempts outbox_max_backoff = 0) \<and>
   sint (backoffFor ovf attempts outbox_max_backoff) \<le> 300000000000"
  using backoffFor_small [of attempts ovf] backoffFor_34 [of ovf] backoffFor_55 [of attempts ovf]
    backoffFor_max [of ovf attempts] by simp

theorem retry_delay_is_capped_until_overflow_witness:
  "sint (backoffFor (\<lambda>_. 0) 3 outbox_max_backoff) = 8000000000 \<and> backoffFor (\<lambda>_. 0) 60 outbox_max_backoff = 0"
  using retry_delay_is_capped_until_overflow [of 3 "\<lambda>_. 0"] retry_delay_is_capped_until_overflow [of 60 "\<lambda>_. 0"]
  by simp

text \<open>
  The poll interval of the publisher stays between its tick of two seconds and eight
  seconds whatever the store and the broker answer.
\<close>

lemma poll_interval_stays_bounded:
  assumes "2000000000 \<le> sint (fst s)" and "sint (fst s) \<le> 8000000000"
  shows "2000000000 \<le> sint (fst (Run_turn ovf now fails fails2 dispatch s)) \<and>
    sint (fst (Run_turn ovf now fails fails2 dispatch s)) \<le> 8000000000"
proof -
  have tick: "sint outbox_tick = 2000000000" using sint_second [of 2] by (simp add: outbox_tick_def)
  obtain i st where s: "s = (i, st)" by (cases s)
  show ?thesis
    using nextOutboxInterval_bounds [of i] assms
    by (auto simp: Run_turn_def s tick Let_def split: prod.splits)
qed

end
