(* ===== verification/Budgets.thy ===== *)
theory Budgets
  imports Outbox
begin

text \<open>
  The three-stage budget envelope (\<^verbatim>\<open>internal/repo/requisition_outcome.go\<close>,
  \<^verbatim>\<open>budget_period.go\<close> and the budget part of \<^verbatim>\<open>procurement_more.go\<close> and
  \<^verbatim>\<open>procurement_update_delete_more.go\<close>): a requisition pre-encumbers on approval, a
  purchase order encumbers, a receipt turns the encumbrance into spend.

  Each \<^verbatim>\<open>UPDATE budgets SET\<close> of the code is a function on the row; the locale
  \<open>budget_move\<close> is what all of them promise, and is interpreted on each.
\<close>

section \<open>Moves on one envelope\<close>

text \<open>In a Postgres \<^verbatim>\<open>UPDATE\<close> every right-hand side reads the old row.\<close>

definition pre_encumber :: "amount \<Rightarrow> budget_row \<Rightarrow> budget_row" where
  "pre_encumber x b =
     b\<lparr>b_pre_committed := b_pre_committed b + x,
       b_remaining := b_allocated b - (b_pre_committed b + x) - b_committed b - b_spent b\<rparr>"

definition release_pre :: "amount \<Rightarrow> budget_row \<Rightarrow> budget_row" where
  "release_pre x b =
     b\<lparr>b_pre_committed := greatest0 (b_pre_committed b - x),
       b_remaining := b_allocated b - greatest0 (b_pre_committed b - x) - b_committed b - b_spent b\<rparr>"

definition encumber :: "amount \<Rightarrow> budget_row \<Rightarrow> budget_row" where
  "encumber x b =
     b\<lparr>b_committed := b_committed b + x,
       b_remaining := b_allocated b - b_pre_committed b - (b_committed b + x) - b_spent b\<rparr>"

definition release_committed :: "amount \<Rightarrow> budget_row \<Rightarrow> budget_row" where
  "release_committed x b =
     b\<lparr>b_committed := greatest0 (b_committed b - x),
       b_remaining := b_allocated b - b_pre_committed b - greatest0 (b_committed b - x) - b_spent b\<rparr>"

definition recognize_spend :: "amount \<Rightarrow> budget_row \<Rightarrow> budget_row" where
  "recognize_spend x b =
     b\<lparr>b_spent := b_spent b + x, b_committed := greatest0 (b_committed b - x),
       b_remaining := b_allocated b - b_pre_committed b - greatest0 (b_committed b - x) - (b_spent b + x)\<rparr>"

definition reverse_spend :: "amount \<Rightarrow> budget_row \<Rightarrow> budget_row" where
  "reverse_spend x b =
     b\<lparr>b_spent := greatest0 (b_spent b - x), b_committed := b_committed b + x,
       b_remaining := b_allocated b - b_pre_committed b - (b_committed b + x) - greatest0 (b_spent b - x)\<rparr>"

text \<open>The delta a purchase order edit books; it may be negative.\<close>

definition adjust_committed :: "amount \<Rightarrow> budget_row \<Rightarrow> budget_row" where
  "adjust_committed x b =
     b\<lparr>b_committed := greatest0 (b_committed b + x),
       b_remaining := b_allocated b - b_pre_committed b - greatest0 (b_committed b + x) - b_spent b\<rparr>"

section \<open>The contract of a move\<close>

definition budget_ok :: "budget_row \<Rightarrow> bool" where
  "budget_ok b \<longleftrightarrow>
     b_remaining b = b_allocated b - b_pre_committed b - b_committed b - b_spent b \<and>
     0 \<le> b_pre_committed b \<and> 0 \<le> b_committed b \<and> 0 \<le> b_spent b"

locale budget_move =
  fixes mv :: "amount \<Rightarrow> budget_row \<Rightarrow> budget_row"
  assumes keeps_ok: "0 \<le> x \<Longrightarrow> budget_ok b \<Longrightarrow> budget_ok (mv x b)"
    and keeps_envelope: "b_allocated (mv x b) = b_allocated b \<and> b_code (mv x b) = b_code b \<and>
      b_period (mv x b) = b_period b \<and> b_dept (mv x b) = b_dept b \<and>
      b_period_closed_at (mv x b) = b_period_closed_at b"
begin

lemma table_ok: "0 \<le> x \<Longrightarrow> tbl_all budget_ok t \<Longrightarrow> tbl_all budget_ok (tbl_upd k (mv x) t)"
  by (rule tbl_all_upd) (auto intro: keeps_ok)

lemma total_kept: "0 \<le> x \<Longrightarrow> budget_ok b \<Longrightarrow>
    b_remaining (mv x b) + b_pre_committed (mv x b) + b_committed (mv x b) + b_spent (mv x b) = b_allocated b"
  using keeps_ok keeps_envelope by (auto simp: budget_ok_def)

end

interpretation pre_mv: budget_move pre_encumber
  by unfold_locales (auto simp: pre_encumber_def budget_ok_def)
interpretation rel_pre_mv: budget_move release_pre
  by unfold_locales (auto simp: release_pre_def budget_ok_def)
interpretation enc_mv: budget_move encumber
  by unfold_locales (auto simp: encumber_def budget_ok_def)
interpretation rel_com_mv: budget_move release_committed
  by unfold_locales (auto simp: release_committed_def budget_ok_def)
interpretation spend_mv: budget_move recognize_spend
  by unfold_locales (auto simp: recognize_spend_def budget_ok_def)
interpretation unspend_mv: budget_move reverse_spend
  by unfold_locales (auto simp: reverse_spend_def budget_ok_def)
interpretation adjust_mv: budget_move adjust_committed
  by unfold_locales (auto simp: adjust_committed_def budget_ok_def)

lemma adjust_ok: "budget_ok b \<Longrightarrow> budget_ok (adjust_committed x b)"
  by (simp add: adjust_committed_def budget_ok_def)

section \<open>Operations\<close>

definition applyBudgetCommitment ::
  "string \<Rightarrow> string \<Rightarrow> bool \<Rightarrow> bool \<Rightarrow> string \<Rightarrow> amount \<Rightarrow> db \<Rightarrow> repo_error + db" where
  "applyBudgetCommitment reqID outcome alreadyCommitted preReleased budgetID tot d =
     (if blank budgetID \<or> tot \<le> 0 then Inr d
      else if outcome = ''approved'' then
        if alreadyCommitted then Inr d
        else case tbl_get (db_budgets d) budgetID of
            None \<Rightarrow> Inr d
          | Some b \<Rightarrow>
              if tot - (b_allocated b - b_pre_committed b - b_committed b - b_spent b) > 5 / 1000
              then Inl ErrInvalidArgument
              else Inr (d\<lparr>db_budgets := tbl_upd budgetID (pre_encumber tot) (db_budgets d),
                          db_requisitions := tbl_upd reqID (\<lambda>r. r\<lparr>rq_budget_committed := True\<rparr>)
                            (db_requisitions d)\<rparr>)
      else if outcome = ''rejected'' then
        if \<not> alreadyCommitted \<or> preReleased then
          if alreadyCommitted
          then Inr (d\<lparr>db_requisitions := tbl_upd reqID (\<lambda>r. r\<lparr>rq_budget_committed := False\<rparr>)
                        (db_requisitions d)\<rparr>)
          else Inr d
        else Inr (d\<lparr>db_budgets := tbl_upd budgetID (release_pre tot) (db_budgets d),
                    db_requisitions := tbl_upd reqID (\<lambda>r. r\<lparr>rq_budget_committed := False\<rparr>)
                      (db_requisitions d)\<rparr>)
      else Inr d)"

text \<open>The two stages of \<^verbatim>\<open>applyPOEncumbrance\<close>: liquidate the requisition's reservation, then book.\<close>

definition liquidate_requisition :: "string \<Rightarrow> db \<Rightarrow> db" where
  "liquidate_requisition reqID d =
     (let rid = trim_space reqID in
      if rid = '''' then d
      else case tbl_get (db_requisitions d) rid of
          None \<Rightarrow> d
        | Some r \<Rightarrow>
            let reqBudget = deref (rq_budget_id r) in
            if rq_budget_committed r \<and> \<not> rq_pre_released r \<and> \<not> blank reqBudget \<and> rq_total r > 0
            then d\<lparr>db_budgets := tbl_upd reqBudget (release_pre (rq_total r)) (db_budgets d),
                   db_requisitions := tbl_upd rid (\<lambda>r. r\<lparr>rq_pre_released := True\<rparr>) (db_requisitions d)\<rparr>
            else d)"

definition applyPOEncumbrance ::
  "string \<Rightarrow> string \<Rightarrow> string \<Rightarrow> amount \<Rightarrow> db \<Rightarrow> repo_error + db" where
  "applyPOEncumbrance poID budgetID reqID poTotal d =
     (let budgetID = trim_space budgetID in
      if budgetID = '''' \<or> poTotal \<le> 0 then Inr d
      else let d = liquidate_requisition reqID d in
        case tbl_get (db_budgets d) budgetID of
          None \<Rightarrow> Inr d
        | Some b \<Rightarrow>
            if b_committed b + poTotal + b_spent b - b_allocated b > 5 / 1000 then Inl ErrInvalidArgument
            else Inr (d\<lparr>db_budgets := tbl_upd budgetID (encumber poTotal) (db_budgets d),
                        db_purchase_orders := tbl_upd poID (\<lambda>p. p\<lparr>po_budget_committed := True\<rparr>)
                          (db_purchase_orders d)\<rparr>))"

definition releasePOEncumbrance :: "string \<Rightarrow> amount \<Rightarrow> amount \<Rightarrow> db \<Rightarrow> db" where
  "releasePOEncumbrance budgetID poTotal spentRecognized d =
     (let budgetID = trim_space budgetID; open = poTotal - spentRecognized in
      if budgetID = '''' \<or> open \<le> 0 then d
      else d\<lparr>db_budgets := tbl_upd budgetID (release_committed open) (db_budgets d)\<rparr>)"

record close_filter =
  bf_period :: string
  bf_budget_id :: string
  bf_due_only :: bool

definition close_matches :: "env \<Rightarrow> close_filter \<Rightarrow> string \<Rightarrow> budget_row \<Rightarrow> bool" where
  "close_matches e f k b \<longleftrightarrow>
     b_period_closed_at b = None \<and>
     (blank (bf_period f) \<or> b_period b = trim_space (bf_period f)) \<and>
     (blank (bf_budget_id f) \<or> k = trim_space (bf_budget_id f)) \<and>
     (bf_due_only f \<longrightarrow> (case b_period_end b of None \<Rightarrow> False | Some x \<Rightarrow> x < e_today e))"

definition close_budget :: "env \<Rightarrow> string \<Rightarrow> budget_row \<Rightarrow> budget_row" where
  "close_budget e policy b =
     (if policy = ''lapse''
      then b\<lparr>b_pre_committed := 0, b_committed := 0, b_remaining := b_allocated b - b_spent b,
             b_period_closed_at := Some (e_now e)\<rparr>
      else b\<lparr>b_period_closed_at := Some (e_now e)\<rparr>)"

definition CloseBudgetPeriod ::
  "env \<Rightarrow> string \<Rightarrow> close_filter \<Rightarrow> string \<Rightarrow> db \<Rightarrow> string list tx" where
  "CloseBudgetPeriod e policy f auditUser d =
     (let policy = to_lower (trim_space policy) in
      if policy \<noteq> ''lapse'' \<and> policy \<noteq> ''carry'' then Inl ErrInvalidArgument
      else let ids = map fst (filter (\<lambda>(k, b). close_matches e f k b) (db_budgets d));
               d1 = d\<lparr>db_budgets := tbl_where (close_matches e f) (close_budget e policy) (db_budgets d)\<rparr>;
               user = (if auditUser = '''' then ''system'' else auditUser)
           in Inr (ids, fold (\<lambda>i. insert_audit user ''budget.period.close'' i (''policy='' @ policy)) ids d1))"

definition CreateBudget ::
  "env \<Rightarrow> string \<Rightarrow> string \<Rightarrow> amount \<Rightarrow> string \<Rightarrow> string \<Rightarrow> db \<Rightarrow> (string \<times> budget_row) tx" where
  "CreateBudget e code period allocated dept auditUser d =
     (let code = trim_space code in
      if code = '''' then Inl ErrInvalidArgument
      else let b = \<lparr>b_code = code, b_period = period, b_allocated = allocated, b_pre_committed = 0,
                    b_committed = 0, b_spent = 0, b_remaining = allocated - 0 - 0, b_dept = dept,
                    b_period_end = None, b_period_closed_at = None\<rparr>
           in res_bind (insert_row (e_id e) b (db_budgets d)) (\<lambda>t.
                Inr ((e_id e, b),
                  insert_audit (audit_user auditUser) ''create'' (e_id e)
                    (''code='' @ code @ '' allocated='' @ fmt_2f allocated) (d\<lparr>db_budgets := t\<rparr>))))"

definition UpdateBudget ::
  "string \<Rightarrow> string option \<Rightarrow> string option \<Rightarrow> amount option \<Rightarrow> string option \<Rightarrow> string \<Rightarrow> db \<Rightarrow>
   budget_row tx" where
  "UpdateBudget i code period allocated dept auditUser d =
     (let i = trim_space i in
      if i = '''' then Inl ErrInvalidArgument
      else if (case code of Some c \<Rightarrow> blank c | None \<Rightarrow> False) then Inl ErrInvalidArgument
      else let f = (\<lambda>b. b\<lparr>b_code := coalesce code (b_code b), b_period := coalesce period (b_period b),
                          b_allocated := coalesce allocated (b_allocated b), b_dept := coalesce dept (b_dept b),
                          b_remaining := coalesce allocated (b_allocated b) - b_pre_committed b -
                            b_committed b - b_spent b\<rparr>)
           in case tbl_get (db_budgets d) i of
                None \<Rightarrow> Inl ErrNotFound
              | Some b \<Rightarrow>
                  Inr (f b, insert_audit (audit_user auditUser) ''update'' i ''budget updated''
                    (d\<lparr>db_budgets := tbl_upd i f (db_budgets d)\<rparr>)))"

definition DeleteBudget :: "string \<Rightarrow> string \<Rightarrow> db \<Rightarrow> unit tx" where
  "DeleteBudget i auditUser d =
     (let i = trim_space i in
      if i = '''' then Inl ErrInvalidArgument
      else if tbl_get (db_budgets d) i = None then Inl ErrNotFound
      else if tbl_ex (\<lambda>_ r. rq_budget_id r = Some i) (db_requisitions d) \<or>
              tbl_ex (\<lambda>_ p. po_budget_id p = Some i) (db_purchase_orders d)
        then Inl DbForeignKey
      else Inr ((), insert_audit (audit_user auditUser) ''delete'' i ''budget deleted''
             (d\<lparr>db_budgets := tbl_del i (db_budgets d)\<rparr>)))"

section \<open>Every operation keeps the envelopes balanced\<close>

abbreviation budgets_ok :: "db \<Rightarrow> bool" where
  "budgets_ok d \<equiv> tbl_all budget_ok (db_budgets d)"

named_theorems budget_safe "operations that keep the envelopes balanced"

lemma liquidate_requisition_ok [budget_safe]: "budgets_ok d \<Longrightarrow> budgets_ok (liquidate_requisition reqID d)"
  by (auto simp: liquidate_requisition_def Let_def intro!: rel_pre_mv.table_ok split: option.splits)

lemma applyBudgetCommitment_ok [budget_safe]:
  "applyBudgetCommitment reqID out ac pr bid tot d = Inr d' \<Longrightarrow> budgets_ok d \<Longrightarrow> budgets_ok d'"
  by (auto simp: applyBudgetCommitment_def intro!: pre_mv.table_ok rel_pre_mv.table_ok
      split: if_splits option.splits)

lemma applyPOEncumbrance_ok [budget_safe]:
  "applyPOEncumbrance poID bid reqID tot d = Inr d' \<Longrightarrow> budgets_ok d \<Longrightarrow> budgets_ok d'"
  by (auto simp: applyPOEncumbrance_def Let_def intro!: enc_mv.table_ok liquidate_requisition_ok
      split: if_splits option.splits)

lemma releasePOEncumbrance_ok [budget_safe]: "budgets_ok d \<Longrightarrow> budgets_ok (releasePOEncumbrance bid tot sp d)"
  by (auto simp: releasePOEncumbrance_def Let_def intro!: rel_com_mv.table_ok)

lemma fold_audit_budgets [simp]:
  "db_budgets (fold (\<lambda>i. insert_audit u a i x) ids d) = db_budgets d"
  by (induction ids arbitrary: d) auto

lemma CloseBudgetPeriod_ok [budget_safe]:
  "CloseBudgetPeriod e policy f u d = Inr (ids, d') \<Longrightarrow> budgets_ok d \<Longrightarrow> budgets_ok d'"
  by (auto simp: CloseBudgetPeriod_def Let_def close_budget_def budget_ok_def intro!: tbl_all_whr split: if_splits)

lemma CreateBudget_ok [budget_safe]:
  "CreateBudget e code period al dept u d = Inr (x, d') \<Longrightarrow> budgets_ok d \<Longrightarrow> budgets_ok d'"
  by (auto simp: CreateBudget_def Let_def budget_ok_def tbl_all_def tbl_get_ins split: if_splits)

lemma UpdateBudget_ok [budget_safe]:
  "UpdateBudget i code period al dept u d = Inr (x, d') \<Longrightarrow> budgets_ok d \<Longrightarrow> budgets_ok d'"
  by (auto simp: UpdateBudget_def Let_def budget_ok_def intro!: tbl_all_upd split: if_splits option.splits)

lemma DeleteBudget_ok [budget_safe]: "DeleteBudget i u d = Inr (x, d') \<Longrightarrow> budgets_ok d \<Longrightarrow> budgets_ok d'"
  by (auto simp: DeleteBudget_def Let_def intro!: tbl_all_del split: if_splits)

section \<open>Ceilings and reversals\<close>

lemma approval_within_headroom:
  assumes "applyBudgetCommitment reqID ''approved'' False pr bid tot d = Inr d'"
    and "\<not> blank bid" and "0 < tot" and "tbl_get (db_budgets d) bid = Some b"
  shows "\<exists>b'. tbl_get (db_budgets d') bid = Some b' \<and> b_pre_committed b' = b_pre_committed b + tot \<and>
    b_pre_committed b' + b_committed b' + b_spent b' \<le> b_allocated b' + 5 / 1000"
  using assms
  by (auto simp: applyBudgetCommitment_def tbl_get_upd pre_encumber_def split: if_splits)

lemma encumbrance_within_ceiling:
  assumes "applyPOEncumbrance poID bid reqID tot d = Inr d'" and "\<not> blank bid" and "0 < tot"
    and "tbl_get (db_budgets d) (trim_space bid) = Some b"
  shows "\<exists>b'. tbl_get (db_budgets d') (trim_space bid) = Some b' \<and> b_committed b' = b_committed b + tot \<and>
    b_committed b' + b_spent b' \<le> b_allocated b' + 5 / 1000"
proof -
  have "\<exists>b1. tbl_get (db_budgets (liquidate_requisition reqID d)) (trim_space bid) = Some b1 \<and>
      b_committed b1 = b_committed b \<and> b_spent b1 = b_spent b \<and> b_allocated b1 = b_allocated b"
    using assms(4)
    by (auto simp: liquidate_requisition_def Let_def tbl_get_upd release_pre_def split: option.splits)
  then show ?thesis
    using assms(1-3) by (auto simp: applyPOEncumbrance_def Let_def tbl_get_upd encumber_def split: if_splits)
qed

lemma release_pre_encumber: "0 < x \<Longrightarrow> budget_ok b \<Longrightarrow> release_pre x (pre_encumber x b) = b"
  by (simp add: release_pre_def pre_encumber_def budget_ok_def)

lemma release_encumber: "0 < x \<Longrightarrow> budget_ok b \<Longrightarrow> release_committed x (encumber x b) = b"
  by (simp add: release_committed_def encumber_def budget_ok_def)

lemma reverse_recognize: "0 < x \<Longrightarrow> x \<le> b_committed b \<Longrightarrow> budget_ok b \<Longrightarrow> reverse_spend x (recognize_spend x b) = b"
  by (simp add: reverse_spend_def recognize_spend_def budget_ok_def)

lemma approve_then_reject_restores:
  assumes "applyBudgetCommitment reqID ''approved'' False pr bid tot d = Inr d1" and "budgets_ok d"
    and "tbl_get (db_budgets d) bid \<noteq> None" and "\<not> blank bid" and "0 < tot"
  shows "\<exists>d2. applyBudgetCommitment reqID ''rejected'' True False bid tot d1 = Inr d2 \<and>
    (\<forall>k. tbl_get (db_budgets d2) k = tbl_get (db_budgets d) k)"
proof -
  have t1: "db_budgets d1 = tbl_upd bid (pre_encumber tot) (db_budgets d)"
    using assms(1,3-5) by (auto simp: applyBudgetCommitment_def split: if_splits)
  have undo: "map_option (\<lambda>x. release_pre tot (pre_encumber tot x)) (tbl_get (db_budgets d) k) = tbl_get (db_budgets d) k"
    for k
    using tbl_all_get [OF assms(2), of k] assms(5)
    by (cases "tbl_get (db_budgets d) k") (auto simp: release_pre_encumber)
  show ?thesis
    using assms(4,5) undo by (simp add: applyBudgetCommitment_def t1 tbl_get_upd option.map_comp o_def)
qed

text \<open>Beyond the envelopes, a commitment touches only the flag of requisitions.\<close>

lemma applyBudgetCommitment_frame:
  assumes "applyBudgetCommitment reqID out ac pr bid tot d = Inr d'"
  shows "db_approvals d' = db_approvals d" "db_tiers d' = db_tiers d" "db_desks d' = db_desks d"
    "db_chain_state d' = db_chain_state d" "db_steps d' = db_steps d" "db_outbox d' = db_outbox d"
    "db_purchase_orders d' = db_purchase_orders d" "db_grns d' = db_grns d" "db_audit d' = db_audit d"
    "db_po_lines d' = db_po_lines d" "db_grn_lines d' = db_grn_lines d" "db_rfqs d' = db_rfqs d"
  using assms by (auto simp: applyBudgetCommitment_def split: if_splits option.splits)

lemma applyBudgetCommitment_requisition:
  assumes "applyBudgetCommitment reqID out ac pr bid tot d = Inr d'"
  shows "\<exists>g. tbl_get (db_requisitions d') k =
    map_option (\<lambda>r. r\<lparr>rq_budget_committed := g r\<rparr>) (tbl_get (db_requisitions d) k)"
proof -
  have "db_requisitions d' = db_requisitions d \<or>
      (\<exists>c. db_requisitions d' = tbl_upd reqID (\<lambda>r. r\<lparr>rq_budget_committed := c\<rparr>) (db_requisitions d))"
    using assms by (auto simp: applyBudgetCommitment_def split: if_splits option.splits)
  then show ?thesis
  proof (elim disjE exE)
    assume same: "db_requisitions d' = db_requisitions d"
    show ?thesis
      unfolding same by (rule exI [of _ rq_budget_committed]) (cases "tbl_get (db_requisitions d) k"; simp)
  next
    fix c
    assume upd: "db_requisitions d' = tbl_upd reqID (\<lambda>r. r\<lparr>rq_budget_committed := c\<rparr>) (db_requisitions d)"
    show ?thesis
      unfolding upd
      by (rule exI [of _ "\<lambda>r. if k = reqID then c else rq_budget_committed r"])
        (cases "tbl_get (db_requisitions d) k"; auto simp: tbl_get_upd)
  qed
qed

end
