(* ===== verification/Requisitions.thy ===== *)
theory Requisitions
  imports Budgets
begin

text \<open>
  Requisitions and the amount-band approval tiers (\<^verbatim>\<open>internal/repo/procurement.go\<close>,
  \<^verbatim>\<open>procurement_update_delete.go\<close> and \<^verbatim>\<open>requisition_approval.go\<close>).

  An optional argument is Go's nil-able pointer; \<open>int option option\<close> is the three-state date
  of a patch (absent, clear, set). \<open>DbNullScan\<close> is the driver's error for a NULL scanned into
  a plain string, which \<^verbatim>\<open>lockRequisitionForApproval\<close> and
  \<^verbatim>\<open>UpdateRequisition\<close> meet on a requisition without a budget.
\<close>

section \<open>Actors\<close>

definition sameActor_repo :: "string \<Rightarrow> string \<Rightarrow> bool" where
  "sameActor_repo a b =
     (let a = trim_space a; b = trim_space b in
      if a = '''' \<or> b = '''' \<or> equal_fold a ''unknown'' then False else equal_fold a b)"

section \<open>Create, update, delete\<close>

definition CreateRequisition ::
  "env \<Rightarrow> string \<Rightarrow> string \<Rightarrow> string \<Rightarrow> string \<Rightarrow> string \<Rightarrow> int option \<Rightarrow> amount \<Rightarrow> string \<Rightarrow> string \<Rightarrow>
   string \<Rightarrow> string \<Rightarrow> db \<Rightarrow> (string \<times> requisition_row) tx" where
  "CreateRequisition e title dept requester priority st neededBy tot currency budgetID notes auditUser d =
     (let currency = (if currency = '''' then ''USD'' else currency);
          priority = (if priority = '''' then ''Medium'' else priority);
          st = (if st = '''' then ''Pending Approval'' else st);
          r = \<lparr>rq_doc_no = Some (e_doc_no e), rq_title = title, rq_dept = dept, rq_requester = requester,
               rq_priority = priority, rq_status = st, rq_created_at = e_today e, rq_needed_by = neededBy,
               rq_total = tot, rq_currency = currency, rq_budget_id = Some budgetID,
               rq_notes = trim_space notes, rq_pm_requisition_id = None, rq_pm_workspace_owner = None,
               rq_payee = '''', rq_justification = '''', rq_budget_committed = False,
               rq_pre_released = False, rq_origin_system = '''', rq_origin_ref = ''''\<rparr>
      in res_bind (uuid_param budgetID) (\<lambda>_.
         res_bind (fk (db_budgets d) budgetID) (\<lambda>_.
         res_bind (insert_row (e_id e) r (db_requisitions d)) (\<lambda>t.
           Inr ((e_id e, r),
             insert_audit (audit_user auditUser) ''create'' (e_id e)
               (''budget='' @ budgetID @ '' total='' @ fmt_2f tot @ '' '' @ currency)
               (d\<lparr>db_requisitions := t\<rparr>))))))"

definition UpdateRequisition ::
  "config \<Rightarrow> env \<Rightarrow> string \<Rightarrow> string option \<Rightarrow> string option \<Rightarrow> string option \<Rightarrow> string option \<Rightarrow>
   string option \<Rightarrow> string option \<Rightarrow> int option option \<Rightarrow> amount option \<Rightarrow> string option \<Rightarrow> string \<Rightarrow> db \<Rightarrow>
   requisition_row tx" where
  "UpdateRequisition cf e i title dept priority st currency budgetID neededBy tot notes auditUser d =
     (let i = trim_space i; lst = map_option (\<lambda>s. to_lower (trim_space s)) st in
      if i = '''' then Inl ErrInvalidArgument
      else if (case title of Some x \<Rightarrow> blank x | None \<Rightarrow> False) then Inl ErrInvalidArgument
      else if (case budgetID of Some x \<Rightarrow> blank x | None \<Rightarrow> False) then Inl ErrInvalidArgument
      else if lst \<in> {Some ''approved'', Some ''rejected'', Some ''ordered''} then Inl ErrConflict
      else
        let f = (\<lambda>r. r\<lparr>rq_title := coalesce title (rq_title r), rq_dept := coalesce dept (rq_dept r),
                       rq_priority := coalesce priority (rq_priority r), rq_status := coalesce st (rq_status r),
                       rq_needed_by := coalesce neededBy (rq_needed_by r), rq_total := coalesce tot (rq_total r),
                       rq_currency := coalesce currency (rq_currency r),
                       rq_budget_id := (case budgetID of None \<Rightarrow> rq_budget_id r | Some b \<Rightarrow> Some b),
                       rq_notes := coalesce (trimPtr notes) (rq_notes r)\<rparr>);
            user = audit_user auditUser
        in case tbl_get (db_requisitions d) i of
             None \<Rightarrow> Inl ErrNotFound
           | Some r0 \<Rightarrow>
               res_bind (fk_opt (db_budgets d) budgetID) (\<lambda>_.
               let r = f r0;
                   d1 = insert_audit user ''update'' i ''requisition updated''
                          (d\<lparr>db_requisitions := tbl_upd i f (db_requisitions d)\<rparr>)
               in case rq_budget_id r of
                    None \<Rightarrow> Inl DbNullScan
                  | Some bid \<Rightarrow>
                      if lst = Some ''approved'' \<or> lst = Some ''rejected'' then
                        if lst = Some ''approved'' \<and> sameActor_repo user (rq_requester r)
                        then Inl ErrForbiddenRepo
                        else res_bind
                               (applyBudgetCommitment i (coalesce lst '''') (rq_budget_committed r)
                                  (rq_pre_released r) bid (rq_total r) d1) (\<lambda>d2.
                             Inr (r, enqueueRequisitionOutcome cf e (coalesce lst '''') i
                               (deref (rq_pm_requisition_id r)) (deref (rq_pm_workspace_owner r)) user bid d2))
                      else Inr (r, d1)))"

definition DeleteRequisition :: "string \<Rightarrow> string \<Rightarrow> db \<Rightarrow> unit tx" where
  "DeleteRequisition i auditUser d =
     (let i = trim_space i in
      if i = '''' then Inl ErrInvalidArgument
      else case tbl_get (db_requisitions d) i of
          None \<Rightarrow> Inl ErrNotFound
        | Some r \<Rightarrow>
            let bid = deref (rq_budget_id r);
                d1 = (if rq_budget_committed r \<and> \<not> rq_pre_released r \<and> \<not> blank bid \<and> rq_total r > 0
                      then d\<lparr>db_budgets := tbl_upd bid (release_pre (rq_total r)) (db_budgets d)\<rparr> else d)
            in if tbl_ex (\<lambda>_ p. po_requisition_id p = Some i) (db_purchase_orders d) \<or>
                  tbl_ex (\<lambda>_ f. rf_requisition_id f = Some i) (db_rfqs d)
               then Inl DbForeignKey
               else Inr ((),
                 insert_audit (audit_user auditUser) ''delete'' i ''requisition deleted''
                   (d1\<lparr>db_requisitions := tbl_del i (db_requisitions d),
                       db_approvals := filter (\<lambda>a. ar_requisition_id a \<noteq> i) (db_approvals d),
                       db_chain_state := tbl_del i (db_chain_state d),
                       db_steps := filter (\<lambda>s. sr_requisition_id s \<noteq> i) (db_steps d)\<rparr>)))"

section \<open>The tier matrix\<close>

definition approvalEpsilon :: amount where
  "approvalEpsilon = 5 / 1000"

record approval_progress =
  ap_required :: "int list"
  ap_approved :: "int list"
  ap_next_tier :: "int option"
  ap_next_perm :: string
  ap_complete :: bool

text \<open>\<^verbatim>\<open>ORDER BY tier\<close>; \<open>tier\<close> is the primary key of the matrix.\<close>

definition listApprovalTiers :: "db \<Rightarrow> tier_row list" where
  "listApprovalTiers d = sort_key ti_tier (db_tiers d)"

fun requiredTiers :: "tier_row list \<Rightarrow> amount \<Rightarrow> tier_row list" where
  "requiredTiers [] tot = []"
| "requiredTiers (t # ts) tot =
     (if tot - ti_min_amount t > approvalEpsilon then t # requiredTiers ts tot else requiredTiers ts tot)"

fun allRequiredApproved :: "tier_row list \<Rightarrow> int list \<Rightarrow> bool" where
  "allRequiredApproved [] approved = True"
| "allRequiredApproved (t # ts) approved =
     (if ti_tier t \<notin> set approved then False else allRequiredApproved ts approved)"

fun next_tier :: "tier_row list \<Rightarrow> int list \<Rightarrow> tier_row option" where
  "next_tier [] approved = None"
| "next_tier (t # ts) approved = (if ti_tier t \<notin> set approved then Some t else next_tier ts approved)"

definition buildProgress :: "tier_row list \<Rightarrow> int list \<Rightarrow> bool \<Rightarrow> approval_progress" where
  "buildProgress required approved cmpl =
     \<lparr>ap_required = map ti_tier required, ap_approved = approved,
      ap_next_tier = (if cmpl then None else map_option ti_tier (next_tier required approved)),
      ap_next_perm = (if cmpl then ''''
                      else case next_tier required approved of None \<Rightarrow> '''' | Some t \<Rightarrow> ti_required_perm t),
      ap_complete = cmpl\<rparr>"

text \<open>The row with the budget id as the string it is scanned into.\<close>

definition lockRequisitionForApproval :: "string \<Rightarrow> db \<Rightarrow> repo_error + requisition_row \<times> string" where
  "lockRequisitionForApproval i d =
     (case tbl_get (db_requisitions d) i of
        None \<Rightarrow> Inl ErrNotFound
      | Some r \<Rightarrow> (case rq_budget_id r of None \<Rightarrow> Inl DbNullScan | Some b \<Rightarrow> Inr (r, b)))"

definition approved_rows :: "string \<Rightarrow> db \<Rightarrow> approval_row list" where
  "approved_rows i d =
     filter (\<lambda>a. ar_requisition_id a = i \<and> ar_decision a = ''approved'') (db_approvals d)"

definition approvedTiers :: "string \<Rightarrow> db \<Rightarrow> int list" where
  "approvedTiers i d = sort (map ar_tier (approved_rows i d))"

definition actorAlreadyApproved :: "string \<Rightarrow> string \<Rightarrow> db \<Rightarrow> bool" where
  "actorAlreadyApproved i actor d =
     (let actor = trim_space actor in
      if actor = '''' then False
      else list_ex (\<lambda>a. to_lower (ar_actor a) = to_lower actor) (approved_rows i d))"

text \<open>The unique index allows one approved row per requisition and tier.\<close>

definition insertApprovalRow ::
  "string \<Rightarrow> int \<Rightarrow> string \<Rightarrow> string \<Rightarrow> string \<Rightarrow> db \<Rightarrow> repo_error + db" where
  "insertApprovalRow i tier actor decision note' d =
     (if decision = ''approved'' \<and> tier \<in> set (approvedTiers i d) then Inl DbUnique
      else Inr (d\<lparr>db_approvals := db_approvals d @
             [\<lparr>ar_requisition_id = i, ar_tier = tier, ar_actor = actor, ar_decision = decision,
               ar_note = note'\<rparr>]\<rparr>))"

definition set_req_status :: "string \<Rightarrow> string \<Rightarrow> db \<Rightarrow> db" where
  "set_req_status i st d = d\<lparr>db_requisitions := tbl_upd i (\<lambda>r. r\<lparr>rq_status := st\<rparr>) (db_requisitions d)\<rparr>"

definition closed_status :: "string \<Rightarrow> bool" where
  "closed_status s \<longleftrightarrow> to_lower (trim_space s) \<in> {''approved'', ''rejected'', ''ordered'', ''closed''}"

text \<open>
  The two phases of \<^verbatim>\<open>ApproveRequisitionTier\<close> after its guards: sign the lowest missing
  tier (or finalise a requisition that reaches none), then finalise or mark it pending.
\<close>

definition sign_next_tier ::
  "(string \<Rightarrow> bool) \<Rightarrow> string \<Rightarrow> string \<Rightarrow> string \<Rightarrow> tier_row list \<Rightarrow> int list \<Rightarrow> db \<Rightarrow>
   repo_error + bool \<times> int \<times> int list \<times> db" where
  "sign_next_tier perm i actor note' required approved d =
     (case next_tier required approved of
        None \<Rightarrow> Inr (True, 0, approved, d)
      | Some t \<Rightarrow>
          if \<not> perm (ti_required_perm t) then Inl ErrForbiddenRepo
          else res_bind (insertApprovalRow i (ti_tier t) actor ''approved'' note' d) (\<lambda>d1.
            let approved' = approved @ [ti_tier t]
            in Inr (allRequiredApproved required approved', ti_tier t, approved', d1)))"

definition settle_approval ::
  "config \<Rightarrow> env \<Rightarrow> string \<Rightarrow> string \<Rightarrow> requisition_row \<Rightarrow> string \<Rightarrow> bool \<Rightarrow> db \<Rightarrow>
   repo_error + requisition_row \<times> db" where
  "settle_approval cf e i actor req bid finalize d =
     (if finalize
      then res_bind
             (applyBudgetCommitment i ''approved'' (rq_budget_committed req) (rq_pre_released req) bid
                (rq_total req) (set_req_status i ''approved'' d)) (\<lambda>d2.
           Inr (req\<lparr>rq_status := ''approved''\<rparr>,
             enqueueRequisitionOutcome cf e ''approved'' i (deref (rq_pm_requisition_id req))
               (deref (rq_pm_workspace_owner req)) actor bid d2))
      else if \<not> equal_fold (trim_space (rq_status req)) ''pending approval''
      then Inr (req\<lparr>rq_status := ''pending approval''\<rparr>, set_req_status i ''pending approval'' d)
      else Inr (req, d))"

definition ApproveRequisitionTier ::
  "config \<Rightarrow> env \<Rightarrow> string \<Rightarrow> string \<Rightarrow> (string \<Rightarrow> bool) option \<Rightarrow> string \<Rightarrow> db \<Rightarrow>
   (requisition_row \<times> approval_progress) tx" where
  "ApproveRequisitionTier cf e i actor hasPerm note' d =
     (let i = trim_space i; perm = (case hasPerm of None \<Rightarrow> (\<lambda>_. False) | Some h \<Rightarrow> h) in
      if i = '''' then Inl ErrInvalidArgument
      else res_bind (lockRequisitionForApproval i d) (\<lambda>(req, bid).
      if closed_status (rq_status req) then Inl ErrInvalidArgument
      else if sameActor_repo actor (rq_requester req) then Inl ErrForbiddenRepo
      else
        let required = requiredTiers (listApprovalTiers d) (rq_total req);
            approved = approvedTiers i d
        in if actorAlreadyApproved i actor d then Inl ErrForbiddenRepo
           else
             res_bind (sign_next_tier perm i actor note' required approved d) (\<lambda>(finalize, cleared, approved', d1).
             res_bind (settle_approval cf e i actor req bid finalize d1) (\<lambda>(req', d2).
             Inr ((req', buildProgress required approved' finalize),
               auditTx actor ''approve'' i
                 (''tier '' @ fmt_int cleared @ '' approved'' @
                   (if finalize then '' (requisition fully approved)'' else '''')) d2)))))"

definition reject_tier :: "(string \<Rightarrow> bool) \<Rightarrow> tier_row list \<Rightarrow> int" where
  "reject_tier perm required =
     fold (\<lambda>t acc. if perm (ti_required_perm t) \<and> acc = 0 then ti_tier t else acc) required 0"

definition RejectRequisitionTiered ::
  "config \<Rightarrow> env \<Rightarrow> string \<Rightarrow> string \<Rightarrow> (string \<Rightarrow> bool) option \<Rightarrow> string \<Rightarrow> db \<Rightarrow>
   (requisition_row \<times> approval_progress) tx" where
  "RejectRequisitionTiered cf e i actor hasPerm note' d =
     (let i = trim_space i; perm = (case hasPerm of None \<Rightarrow> (\<lambda>_. False) | Some h \<Rightarrow> h) in
      if i = '''' then Inl ErrInvalidArgument
      else res_bind (lockRequisitionForApproval i d) (\<lambda>(req, bid).
      if closed_status (rq_status req) then Inl ErrInvalidArgument
      else
        let required = requiredTiers (listApprovalTiers d) (rq_total req);
            approved = approvedTiers i d;
            allowed = sameActor_repo actor (rq_requester req) \<or> required = [] \<or>
                      list_ex (\<lambda>t. perm (ti_required_perm t)) required
        in if \<not> allowed then Inl ErrForbiddenRepo
           else
             res_bind (insertApprovalRow i (reject_tier perm required) actor ''rejected'' note' d) (\<lambda>d1.
             res_bind
               (applyBudgetCommitment i ''rejected'' (rq_budget_committed req) (rq_pre_released req) bid
                  (rq_total req) (set_req_status i ''rejected'' d1)) (\<lambda>d2.
             Inr ((req\<lparr>rq_status := ''rejected''\<rparr>, buildProgress required approved False),
               auditTx actor ''reject'' i ''requisition rejected''
                 (enqueueRequisitionOutcome cf e ''rejected'' i (deref (rq_pm_requisition_id req))
                   (deref (rq_pm_workspace_owner req)) actor bid d2))))))"

section \<open>The matrix\<close>

lemma requiredTiers_filter: "requiredTiers ts tot = filter (\<lambda>t. tot - ti_min_amount t > approvalEpsilon) ts"
  by (induction ts) auto

lemma allRequiredApproved_iff: "allRequiredApproved ts approved \<longleftrightarrow> ti_tier ` set ts \<subseteq> set approved"
  by (induction ts) auto

lemma next_tier_None: "next_tier ts approved = None \<longleftrightarrow> allRequiredApproved ts approved"
  by (induction ts) auto

lemma next_tier_Some: "next_tier ts approved = Some t \<Longrightarrow> t \<in> set ts \<and> ti_tier t \<notin> set approved"
  by (induction ts) (auto split: if_splits)

lemma set_required: "t \<in> set (requiredTiers (listApprovalTiers d) tot) \<longleftrightarrow>
    t \<in> set (db_tiers d) \<and> tot - ti_min_amount t > 5 / 1000"
  by (auto simp: requiredTiers_filter listApprovalTiers_def approvalEpsilon_def)

lemma set_approvedTiers [simp]: "set (approvedTiers i d) = ar_tier ` set (approved_rows i d)"
  by (simp add: approvedTiers_def)

lemma approved_rows_snoc:
  "db_approvals d' = db_approvals d @ [a] \<Longrightarrow>
     approved_rows i d' = approved_rows i d @
       (if ar_requisition_id a = i \<and> ar_decision a = ''approved'' then [a] else [])"
  by (simp add: approved_rows_def)

lemma approved_rows_cong: "db_approvals d' = db_approvals d \<Longrightarrow> approved_rows i d' = approved_rows i d"
  by (simp add: approved_rows_def)

lemma set_req_status_simps [simp]:
  "db_approvals (set_req_status i st d) = db_approvals d" "db_tiers (set_req_status i st d) = db_tiers d"
  "db_budgets (set_req_status i st d) = db_budgets d" "db_outbox (set_req_status i st d) = db_outbox d"
  "db_chain_state (set_req_status i st d) = db_chain_state d" "db_steps (set_req_status i st d) = db_steps d"
  "db_desks (set_req_status i st d) = db_desks d"
  "tbl_get (db_requisitions (set_req_status i st d)) k =
     map_option (\<lambda>r. if k = i then r\<lparr>rq_status := st\<rparr> else r) (tbl_get (db_requisitions d) k)"
  by (auto simp: set_req_status_def tbl_get_upd option.map_ident)

lemma auditTx_simps [simp]:
  "db_budgets (auditTx a b c x d) = db_budgets d" "db_requisitions (auditTx a b c x d) = db_requisitions d"
  "db_approvals (auditTx a b c x d) = db_approvals d" "db_tiers (auditTx a b c x d) = db_tiers d"
  "db_chain_state (auditTx a b c x d) = db_chain_state d" "db_steps (auditTx a b c x d) = db_steps d"
  "db_desks (auditTx a b c x d) = db_desks d" "db_outbox (auditTx a b c x d) = db_outbox d"
  by (simp_all add: auditTx_def)

lemma lock_Inr:
  "lockRequisitionForApproval i d = Inr (r, b) \<longleftrightarrow> tbl_get (db_requisitions d) i = Some r \<and> rq_budget_id r = Some b"
  by (auto simp: lockRequisitionForApproval_def split: option.splits)

section \<open>What a signature does\<close>

text \<open>The row an approval appends, and the requisition row it leaves.\<close>

definition signature_row :: "string \<Rightarrow> tier_row \<Rightarrow> string \<Rightarrow> string \<Rightarrow> approval_row" where
  "signature_row i t actor note' =
     \<lparr>ar_requisition_id = i, ar_tier = ti_tier t, ar_actor = actor, ar_decision = ''approved'', ar_note = note'\<rparr>"

lemma sign_next_tier_Inr:
  assumes "sign_next_tier perm i actor n required approved d = Inr (fin, cleared, approved', d1)"
  shows "fin \<longleftrightarrow> allRequiredApproved required approved'"
    and "case next_tier required approved of
        None \<Rightarrow> d1 = d \<and> approved' = approved
      | Some t \<Rightarrow> perm (ti_required_perm t) \<and> approved' = approved @ [ti_tier t] \<and>
          d1 = d\<lparr>db_approvals := db_approvals d @ [signature_row i t actor n]\<rparr> \<and>
          ti_tier t \<notin> set (approvedTiers i d)"
  using assms next_tier_None [of required approved]
  by (auto simp: sign_next_tier_def insertApprovalRow_def signature_row_def Let_def split: option.splits if_splits)

lemma sign_next_tier_rows:
  assumes "sign_next_tier perm i actor n required (approvedTiers i d) d = Inr (fin, cleared, approved', d1)"
  shows "set approved' = ar_tier ` set (approved_rows i d1)"
proof (cases "next_tier required (approvedTiers i d)")
  case None
  then show ?thesis using sign_next_tier_Inr(2) [OF assms] by simp
next
  case (Some t)
  then have ap: "approved' = approvedTiers i d @ [ti_tier t]"
    and d1: "d1 = d\<lparr>db_approvals := db_approvals d @ [signature_row i t actor n]\<rparr>"
    using sign_next_tier_Inr(2) [OF assms] by auto
  have "approved_rows i d1 = approved_rows i d @ [signature_row i t actor n]"
    by (simp add: d1 approved_rows_def signature_row_def)
  then show ?thesis by (simp add: ap signature_row_def)
qed

lemma settle_approval_status:
  assumes "settle_approval cf e i actor req bid fin d = Inr (req', d2)"
  shows "rq_status req' = (if fin then ''approved''
      else if equal_fold (trim_space (rq_status req)) ''pending approval'' then rq_status req else ''pending approval'')"
    and "db_approvals d2 = db_approvals d"
  using assms by (auto simp: settle_approval_def split: if_splits dest: applyBudgetCommitment_frame(1))

lemma settle_approval_ok:
  "settle_approval cf e i actor req bid fin d = Inr (req', d2) \<Longrightarrow> budgets_ok d \<Longrightarrow> budgets_ok d2"
  by (auto simp: settle_approval_def split: if_splits dest!: applyBudgetCommitment_ok)

lemma settle_approval_rows:
  assumes "settle_approval cf e i actor req bid fin d = Inr (req', d2)" and "tbl_get (db_requisitions d) i = Some req"
  shows "\<exists>g. tbl_get (db_requisitions d2) k = map_option (\<lambda>r. r\<lparr>rq_budget_committed := g r,
    rq_status := (if k = i then rq_status req' else rq_status r)\<rparr>) (tbl_get (db_requisitions d) k)"
proof (cases fin)
  case True
  with assms(1) obtain d1 where d1: "applyBudgetCommitment i ''approved'' (rq_budget_committed req)
      (rq_pre_released req) bid (rq_total req) (set_req_status i ''approved'' d) = Inr d1"
    and req': "rq_status req' = ''approved''" and d2: "db_requisitions d2 = db_requisitions d1"
    by (auto simp: settle_approval_def)
  from applyBudgetCommitment_requisition [OF d1, of k] obtain g where
    "tbl_get (db_requisitions d1) k = map_option (\<lambda>r. r\<lparr>rq_budget_committed := g r\<rparr>)
       (map_option (\<lambda>r. if k = i then r\<lparr>rq_status := ''approved''\<rparr> else r) (tbl_get (db_requisitions d) k))"
    by auto
  then show ?thesis
    unfolding d2 req'
    by (intro exI [of _ "\<lambda>r. g (if k = i then r\<lparr>rq_status := ''approved''\<rparr> else r)"])
      (cases "tbl_get (db_requisitions d) k"; auto)
next
  case False
  then show ?thesis
    using assms
    by (intro exI [of _ rq_budget_committed], cases "tbl_get (db_requisitions d) k")
      (auto simp: settle_approval_def split: if_splits)
qed

lemma settle_approval_requester:
  assumes "settle_approval cf e i actor req bid fin d = Inr (req', d2)" and "tbl_get (db_requisitions d) i = Some req"
    and "tbl_get (db_requisitions d2) k = Some q'"
  shows "\<exists>q. tbl_get (db_requisitions d) k = Some q \<and> rq_requester q' = rq_requester q"
proof -
  obtain g where "tbl_get (db_requisitions d2) k = map_option (\<lambda>r. r\<lparr>rq_budget_committed := g r,
      rq_status := (if k = i then rq_status req' else rq_status r)\<rparr>) (tbl_get (db_requisitions d) k)"
    using settle_approval_rows [OF assms(1,2), of k] by blast
  with assms(3) show ?thesis by (cases "tbl_get (db_requisitions d) k") auto
qed

text \<open>A successful signature, decomposed.\<close>

lemma ApproveRequisitionTier_E:
  assumes "ApproveRequisitionTier cf e i actor hp n d = Inr ((req', prog), d')"
  obtains req bid fin cleared approved d1 d2 where "trim_space i \<noteq> []"
    and "lockRequisitionForApproval (trim_space i) d = Inr (req, bid)"
    and "\<not> closed_status (rq_status req)" and "\<not> sameActor_repo actor (rq_requester req)"
    and "\<not> actorAlreadyApproved (trim_space i) actor d"
    and "sign_next_tier (case hp of None \<Rightarrow> (\<lambda>_. False) | Some h \<Rightarrow> h) (trim_space i) actor n
      (requiredTiers (listApprovalTiers d) (rq_total req)) (approvedTiers (trim_space i) d) d =
      Inr (fin, cleared, approved, d1)"
    and "settle_approval cf e (trim_space i) actor req bid fin d1 = Inr (req', d2)"
    and "prog = buildProgress (requiredTiers (listApprovalTiers d) (rq_total req)) approved fin"
    and "db_requisitions d' = db_requisitions d2" and "db_approvals d' = db_approvals d2"
    and "db_budgets d' = db_budgets d2"
proof -
  let ?i = "trim_space i" and ?p = "case hp of None \<Rightarrow> (\<lambda>_. False) | Some h \<Rightarrow> h"
  obtain req bid where lock: "lockRequisitionForApproval ?i d = Inr (req, bid)"
    using assms by (cases "lockRequisitionForApproval ?i d")
      (auto simp: ApproveRequisitionTier_def Let_def split: if_splits)
  let ?req = "requiredTiers (listApprovalTiers d) (rq_total req)"
  have i: "?i \<noteq> ''''" using assms by (simp add: ApproveRequisitionTier_def Let_def split: if_splits)
  have cl: "\<not> closed_status (rq_status req)"
    using assms lock i by (simp add: ApproveRequisitionTier_def Let_def split: if_splits)
  have sa: "\<not> sameActor_repo actor (rq_requester req)"
    using assms lock i cl by (simp add: ApproveRequisitionTier_def Let_def split: if_splits)
  have al: "\<not> actorAlreadyApproved ?i actor d"
    using assms lock i cl sa by (simp add: ApproveRequisitionTier_def Let_def split: if_splits)
  obtain fin cleared approved d1 where
    sg: "sign_next_tier ?p ?i actor n ?req (approvedTiers ?i d) d = Inr (fin, cleared, approved, d1)"
    using assms lock i cl sa al by (auto simp: ApproveRequisitionTier_def Let_def)
  from assms lock i cl sa al sg obtain d2 where
    st: "settle_approval cf e ?i actor req bid fin d1 = Inr (req', d2)"
    and pr: "prog = buildProgress ?req approved fin"
    and d': "\<exists>x. d' = auditTx actor ''approve'' ?i x d2"
    by (auto simp: ApproveRequisitionTier_def Let_def)
  from d' have "db_requisitions d' = db_requisitions d2" "db_approvals d' = db_approvals d2"
    "db_budgets d' = db_budgets d2" by auto
  with i lock cl sa al sg st pr show ?thesis by (rule that)
qed

section \<open>The ledger of signatures\<close>

definition approvals_ok :: "db \<Rightarrow> bool" where
  "approvals_ok d \<longleftrightarrow>
     (\<forall>i. distinct (map ar_tier (approved_rows i d)) \<and>
          distinct (map (\<lambda>a. to_lower (ar_actor a)) (approved_rows i d)) \<and>
          (\<forall>r a. tbl_get (db_requisitions d) i = Some r \<longrightarrow> a \<in> set (approved_rows i d) \<longrightarrow>
             \<not> sameActor_repo (ar_actor a) (rq_requester r)))"

lemma approvals_ok_snoc:
  assumes ok: "approvals_ok d" and rows: "db_approvals d' = db_approvals d @ [signature_row i t actor n]"
    and reqs: "\<And>k r'. tbl_get (db_requisitions d') k = Some r' \<Longrightarrow>
      \<exists>r. tbl_get (db_requisitions d) k = Some r \<and> rq_requester r' = rq_requester r"
    and tier: "ti_tier t \<notin> set (approvedTiers i d)" and fresh: "\<not> actorAlreadyApproved i actor d"
    and trimmed: "trim_space actor = actor" and named: "actor \<noteq> ''''"
    and req: "tbl_get (db_requisitions d) i = Some req" and four: "\<not> sameActor_repo actor (rq_requester req)"
  shows "approvals_ok d'"
proof -
  have ar: "approved_rows k d' = approved_rows k d @ (if k = i then [signature_row i t actor n] else [])" for k
    using rows by (auto simp: approved_rows_def signature_row_def)
  have new: "to_lower actor \<notin> (\<lambda>a. to_lower (ar_actor a)) ` set (approved_rows i d)"
    using fresh trimmed named by (auto simp: actorAlreadyApproved_def list_ex_iff)
  have "distinct (map ar_tier (approved_rows k d'))" for k
    using ok tier by (auto simp: ar approvals_ok_def signature_row_def)
  moreover have "distinct (map (\<lambda>a. to_lower (ar_actor a)) (approved_rows k d'))" for k
    using ok new by (auto simp: ar approvals_ok_def signature_row_def)
  moreover have "\<not> sameActor_repo (ar_actor a) (rq_requester r')"
    if r': "tbl_get (db_requisitions d') k = Some r'" and a: "a \<in> set (approved_rows k d')" for k r' a
  proof -
    from reqs [OF r'] obtain r where r: "tbl_get (db_requisitions d) k = Some r" "rq_requester r' = rq_requester r"
      by blast
    show ?thesis
      using a ok r req four by (auto simp: ar approvals_ok_def signature_row_def split: if_splits)
  qed
  ultimately show ?thesis by (simp add: approvals_ok_def)
qed

lemma approvals_ok_same:
  assumes ok: "approvals_ok d" and rows: "\<And>k. approved_rows k d' = approved_rows k d"
    and reqs: "\<And>k r'. tbl_get (db_requisitions d') k = Some r' \<Longrightarrow>
      \<exists>r. tbl_get (db_requisitions d) k = Some r \<and> rq_requester r' = rq_requester r"
  shows "approvals_ok d'"
  using ok reqs unfolding approvals_ok_def rows by metis

lemma RejectRequisitionTiered_E:
  assumes "RejectRequisitionTiered cf e i actor hp n d = Inr ((req', prog), d')"
  obtains req bid d0 d1 where "lockRequisitionForApproval (trim_space i) d = Inr (req, bid)"
    and "\<not> closed_status (rq_status req)" and "rq_status req' = ''rejected''"
    and "db_requisitions d0 = db_requisitions d" and "db_budgets d0 = db_budgets d"
    and "\<forall>k. approved_rows k d0 = approved_rows k d"
    and "applyBudgetCommitment (trim_space i) ''rejected'' (rq_budget_committed req) (rq_pre_released req) bid
      (rq_total req) (set_req_status (trim_space i) ''rejected'' d0) = Inr d1"
    and "db_requisitions d' = db_requisitions d1" and "db_approvals d' = db_approvals d1"
    and "db_budgets d' = db_budgets d1"
proof -
  let ?i = "trim_space i" and ?p = "case hp of None \<Rightarrow> (\<lambda>_. False) | Some h \<Rightarrow> h"
  obtain req bid where lock: "lockRequisitionForApproval ?i d = Inr (req, bid)"
    using assms by (cases "lockRequisitionForApproval ?i d")
      (auto simp: RejectRequisitionTiered_def Let_def split: if_splits)
  let ?req = "requiredTiers (listApprovalTiers d) (rq_total req)"
  define d0 where "d0 = d\<lparr>db_approvals := db_approvals d @
    [\<lparr>ar_requisition_id = ?i, ar_tier = reject_tier ?p ?req, ar_actor = actor, ar_decision = ''rejected'', ar_note = n\<rparr>]\<rparr>"
  have d0: "insertApprovalRow ?i (reject_tier ?p ?req) actor ''rejected'' n d = Inr d0"
    by (simp add: insertApprovalRow_def d0_def)
  have rows: "approved_rows k d0 = approved_rows k d" for k by (simp add: approved_rows_def d0_def)
  have i: "?i \<noteq> ''''" using assms by (simp add: RejectRequisitionTiered_def Let_def split: if_splits)
  have cl: "\<not> closed_status (rq_status req)"
    using assms lock i by (simp add: RejectRequisitionTiered_def Let_def split: if_splits)
  obtain d1 where "applyBudgetCommitment ?i ''rejected'' (rq_budget_committed req) (rq_pre_released req) bid
      (rq_total req) (set_req_status ?i ''rejected'' d0) = Inr d1"
    and "rq_status req' = ''rejected''" and "\<exists>x y. d' = auditTx actor ''reject'' ?i x
      (enqueueRequisitionOutcome cf e ''rejected'' ?i (deref (rq_pm_requisition_id req))
                   (deref (rq_pm_workspace_owner req)) actor bid d1)"
    using assms lock i cl d0 by (simp add: RejectRequisitionTiered_def Let_def split: if_splits) force
  with lock cl rows show ?thesis by (intro that [of req bid d0 d1]) (auto simp: d0_def)
qed

section \<open>Properties\<close>

definition shipped_tiers :: "tier_row list" where
  "shipped_tiers =
     [\<lparr>ti_tier = 1, ti_label = ''Supervisor'', ti_min_amount = 0, ti_max_amount = Some 5000000, ti_required_perm = ''t1''\<rparr>,
      \<lparr>ti_tier = 2, ti_label = ''Manager'', ti_min_amount = 5000000, ti_max_amount = Some 20000000, ti_required_perm = ''t2''\<rparr>,
      \<lparr>ti_tier = 3, ti_label = ''Director'', ti_min_amount = 20000000, ti_max_amount = None, ti_required_perm = ''t3''\<rparr>]"

definition tier_db :: db where
  "tier_db = empty_db\<lparr>db_tiers := shipped_tiers, db_budgets := [(''b1'', sample_budget 9000000)],
     db_requisitions := [(''r1'', sample_requisition 6000000)]\<rparr>"

definition sign_tier :: "string \<Rightarrow> db \<Rightarrow> (requisition_row \<times> approval_progress) tx" where
  "sign_tier who d = ApproveRequisitionTier sample_config sample_env ''r1'' who (Some (\<lambda>_. True)) '''' d"

definition once_signed_db :: db where
  "once_signed_db = snd (projr (sign_tier ''sup'' tier_db))"

text \<open>
  C24. A tiered approval finalises the requisition exactly when the ledger then holds an
  approval of every tier whose band the total exceeds, and the reported progress says so.
\<close>

theorem tier_approval_needs_every_band:
  assumes "ApproveRequisitionTier cf e i actor hp n d = Inr ((req, prog), d')"
  shows "\<exists>r r'. tbl_get (db_requisitions d) (trim_space i) = Some r \<and>
    tbl_get (db_requisitions d') (trim_space i) = Some r' \<and> rq_status r' = rq_status req \<and>
    (rq_status r' = ''approved'' \<longleftrightarrow> ap_complete prog) \<and>
    (ap_complete prog \<longleftrightarrow>
       (\<forall>t \<in> set (db_tiers d). rq_total r - ti_min_amount t > 5 / 1000 \<longrightarrow>
          ti_tier t \<in> ar_tier ` set (approved_rows (trim_space i) d')))"
proof -
  let ?i = "trim_space i"
  obtain r bid fin cleared approved d1 d2 where
    lock: "lockRequisitionForApproval ?i d = Inr (r, bid)" and cl: "\<not> closed_status (rq_status r)"
    and sg: "sign_next_tier (case hp of None \<Rightarrow> (\<lambda>_. False) | Some h \<Rightarrow> h) ?i actor n
      (requiredTiers (listApprovalTiers d) (rq_total r)) (approvedTiers ?i d) d = Inr (fin, cleared, approved, d1)"
    and st: "settle_approval cf e ?i actor r bid fin d1 = Inr (req, d2)"
    and pr: "prog = buildProgress (requiredTiers (listApprovalTiers d) (rq_total r)) approved fin"
    and d': "db_requisitions d' = db_requisitions d2" "db_approvals d' = db_approvals d2"
    by (rule ApproveRequisitionTier_E [OF assms])
  from lock have r: "tbl_get (db_requisitions d) ?i = Some r" by (simp add: lock_Inr)
  have r1: "db_requisitions d1 = db_requisitions d"
    using sign_next_tier_Inr(2) [OF sg] by (auto split: option.splits)
  from r r1 have "tbl_get (db_requisitions d1) ?i = Some r" by simp
  from settle_approval_rows [OF st this, of ?i] this obtain r' where
    r': "tbl_get (db_requisitions d') ?i = Some r'" "rq_status r' = rq_status req"
    unfolding d' by auto
  have "approved_rows ?i d' = approved_rows ?i d1"
    using settle_approval_status(2) [OF st] d'(2) by (intro approved_rows_cong) simp
  moreover have "set approved = ar_tier ` set (approved_rows ?i d1)"
    by (rule sign_next_tier_rows [OF sg])
  ultimately have app: "set approved = ar_tier ` set (approved_rows ?i d')" by simp
  have fin: "ap_complete prog = fin" by (simp add: pr buildProgress_def)
  have "to_lower (trim_space ''approved'') = ''approved''" "to_lower (trim_space ''pending approval'') = ''pending approval''"
    by code_simp+
  then have stat: "rq_status req = ''approved'' \<longleftrightarrow> fin"
    using settle_approval_status(1) [OF st] cl by (auto simp: closed_status_def)
  have "fin \<longleftrightarrow> (\<forall>t \<in> set (db_tiers d). rq_total r - ti_min_amount t > 5 / 1000 \<longrightarrow>
      ti_tier t \<in> ar_tier ` set (approved_rows ?i d'))"
    unfolding sign_next_tier_Inr(1) [OF sg] allRequiredApproved_iff app by (auto simp: set_required)
  with r r' stat fin show ?thesis by (intro exI [of _ r] exI [of _ r'] conjI) simp_all
qed

theorem tier_approval_needs_every_band_witness:
  "\<exists>req prog d2 r'. sign_tier ''mgr'' once_signed_db = Inr ((req, prog), d2) \<and>
     tbl_get (db_requisitions d2) ''r1'' = Some r' \<and> rq_status r' = ''approved'' \<and>
     map ar_tier (approved_rows ''r1'' d2) = [1, 2]"
proof -
  have "is_ok (sign_tier ''mgr'' once_signed_db)" by code_simp
  then obtain req prog d2 where s: "sign_tier ''mgr'' once_signed_db = Inr ((req, prog), d2)"
    by (auto simp: is_ok_iff)
  have "ap_complete (snd (fst (projr (sign_tier ''mgr'' once_signed_db))))"
    "map ar_tier (approved_rows ''r1'' (snd (projr (sign_tier ''mgr'' once_signed_db)))) = [1, 2]" by code_simp+
  moreover have "trim_space ''r1'' = ''r1''" by code_simp
  ultimately show ?thesis
    using tier_approval_needs_every_band [OF s [unfolded sign_tier_def]] s by auto
qed

lemma ApproveRequisitionTier_segregated:
  assumes "approvals_ok d" and "trim_space actor = actor" and "actor \<noteq> []"
    and "ApproveRequisitionTier cf e i actor hp n d = Inr ((req, prog), d')"
  shows "approvals_ok d'"
proof -
  obtain r bid fin cleared approved d1 d2 where
    lock: "lockRequisitionForApproval (trim_space i) d = Inr (r, bid)"
    and sa: "\<not> sameActor_repo actor (rq_requester r)" and al: "\<not> actorAlreadyApproved (trim_space i) actor d"
    and sg: "sign_next_tier (case hp of None \<Rightarrow> (\<lambda>_. False) | Some h \<Rightarrow> h) (trim_space i) actor n
      (requiredTiers (listApprovalTiers d) (rq_total r)) (approvedTiers (trim_space i) d) d = Inr (fin, cleared, approved, d1)"
    and st: "settle_approval cf e (trim_space i) actor r bid fin d1 = Inr (req, d2)"
    and d': "db_requisitions d' = db_requisitions d2" "db_approvals d' = db_approvals d2"
    by (rule ApproveRequisitionTier_E [OF assms(4)])
  from lock have r: "tbl_get (db_requisitions d) (trim_space i) = Some r" by (simp add: lock_Inr)
  have r1: "db_requisitions d1 = db_requisitions d"
    using sign_next_tier_Inr(2) [OF sg] by (auto split: option.splits)
  have reqs: "\<exists>q. tbl_get (db_requisitions d) k = Some q \<and> rq_requester q' = rq_requester q"
    if "tbl_get (db_requisitions d') k = Some q'" for k q'
  proof -
    from r r1 have "tbl_get (db_requisitions d1) (trim_space i) = Some r" by simp
    from settle_approval_requester [OF st this] that show ?thesis unfolding d' r1 by blast
  qed
  show "approvals_ok d'"
  proof (cases "next_tier (requiredTiers (listApprovalTiers d) (rq_total r)) (approvedTiers (trim_space i) d)")
    case None
    then have "db_approvals d' = db_approvals d"
      using sign_next_tier_Inr(2) [OF sg] settle_approval_status(2) [OF st] d' by simp
    from approvals_ok_same [OF assms(1) approved_rows_cong [OF this] reqs] show ?thesis .
  next
    case (Some t)
    then have rows: "db_approvals d' = db_approvals d @ [signature_row (trim_space i) t actor n]"
      and new: "ti_tier t \<notin> set (approvedTiers (trim_space i) d)"
      using sign_next_tier_Inr(2) [OF sg] settle_approval_status(2) [OF st] d' by auto
    from approvals_ok_snoc [OF assms(1) rows reqs new al assms(2,3) r sa] show ?thesis .
  qed
qed

lemma RejectRequisitionTiered_segregated:
  assumes "approvals_ok d" and "RejectRequisitionTiered cf e i actor hp n d = Inr ((req, prog), d')"
  shows "approvals_ok d'"
proof -
  obtain r bid d0 d1 where "lockRequisitionForApproval (trim_space i) d = Inr (r, bid)"
    and "\<not> closed_status (rq_status r)" and "rq_status req = ''rejected''"
    and d0: "db_requisitions d0 = db_requisitions d" and "db_budgets d0 = db_budgets d"
    and ap: "\<forall>k. approved_rows k d0 = approved_rows k d"
    and ab: "applyBudgetCommitment (trim_space i) ''rejected'' (rq_budget_committed r) (rq_pre_released r) bid
      (rq_total r) (set_req_status (trim_space i) ''rejected'' d0) = Inr d1"
    and d': "db_requisitions d' = db_requisitions d1" and da: "db_approvals d' = db_approvals d1"
    and "db_budgets d' = db_budgets d1"
    by (rule RejectRequisitionTiered_E [OF assms(2)])

  have rows: "approved_rows k d' = approved_rows k d" for k
    using ap approved_rows_cong [of d' d0 k] applyBudgetCommitment_frame(1) [OF ab] da by simp
  have "\<exists>q. tbl_get (db_requisitions d) k = Some q \<and> rq_requester q' = rq_requester q"
    if "tbl_get (db_requisitions d') k = Some q'" for k q'
    using applyBudgetCommitment_requisition [OF ab, of k] that d0
    by (cases "tbl_get (db_requisitions d) k") (auto simp: d' split: if_splits)
  then show "approvals_ok d'" by (rule approvals_ok_same [OF assms(1) rows])
qed

text \<open>
  C25. Segregation of duties in the tiered ledger, for an actor whose id is not empty and
  carries no outer blanks (an anonymous actor is not deduplicated): tiered approvals and
  rejections keep that no approval is by the requester, no actor approved two tiers of a
  requisition and no tier is approved twice.
\<close>

theorem tier_signatures_stay_segregated:
  assumes "approvals_ok d" and "trim_space actor = actor" and "actor \<noteq> []"
    and "ApproveRequisitionTier cf e i actor hp n d = Inr ((req, prog), d') \<or>
      RejectRequisitionTiered cf e i actor hp n d = Inr ((req, prog), d')"
  shows "approvals_ok d'"
  using assms(4)
proof
  assume "ApproveRequisitionTier cf e i actor hp n d = Inr ((req, prog), d')"
  from ApproveRequisitionTier_segregated [OF assms(1-3) this] show ?thesis .
next
  assume "RejectRequisitionTiered cf e i actor hp n d = Inr ((req, prog), d')"
  from RejectRequisitionTiered_segregated [OF assms(1) this] show ?thesis .
qed

theorem tier_signatures_stay_segregated_witness:
  "\<exists>req prog d1. sign_tier ''sup'' tier_db = Inr ((req, prog), d1) \<and> approvals_ok d1"
proof -
  have "is_ok (sign_tier ''sup'' tier_db)" by code_simp
  then obtain req prog d1 where s: "sign_tier ''sup'' tier_db = Inr ((req, prog), d1)" by (auto simp: is_ok_iff)
  have ok: "approvals_ok tier_db" by (simp add: approvals_ok_def approved_rows_def tier_db_def empty_db_def)
  have tr: "trim_space ''sup'' = ''sup''" by code_simp
  show ?thesis
    using tier_signatures_stay_segregated [OF ok tr _ disjI1 [OF s [unfolded sign_tier_def]]] s by simp
qed

end
