(* ===== verification/Desk_Chain.thy ===== *)
theory Desk_Chain
  imports Approval_Properties Requisitions "HOL-Library.List_Lexorder" "HOL-Library.Char_ord"
    "HOL-Library.Product_Lexorder"
begin

text \<open>
  The desk-chain side of the repository (\<^verbatim>\<open>internal/repo/requisition_desk_chain.go\<close>): the
  editable desk matrix and the engine built from it, and the transaction that runs an engine
  transition and persists its result with the budget commitment, the event and the audit row.

  \<^verbatim>\<open>ORDER BY chain_key\<close> is the byte order (collation \<^verbatim>\<open>C\<close>). The cached engine
  \<^verbatim>\<open>deskEngine\<close> is an optional registry; a function that may reload it returns the new cache.
  A write that commits before an error is reported returns both, so those functions return the
  database beside the result.
\<close>

section \<open>The desk matrix\<close>

definition ChainRequisition :: string where
  "ChainRequisition = ''requisition''"

definition desk_of_row :: "desk_row \<Rightarrow> desk" where
  "desk_of_row r =
     \<lparr>d_key = dr_desk r, d_label = dr_label r, d_role_patterns = dr_role_patterns r,
      d_min_amount = dr_min_amount r, d_required_perm = dr_required_perm r,
      d_action_label = dr_action_label r, d_status_label = dr_status_label r,
      d_allow_requester = False, d_scope_by = dr_scope_by r, d_roles = []\<rparr>"

text \<open>The arrow and the dash of the labels are UTF-8 byte sequences.\<close>

definition arrow :: string where
  "arrow = '' '' @ [CHR 0xE2, CHR 0x86, CHR 0x92] @ '' ''"

definition em_dash :: string where
  "em_dash = '' '' @ [CHR 0xE2, CHR 0x80, CHR 0x94] @ '' ''"

fun join :: "string \<Rightarrow> string list \<Rightarrow> string" where
  "join sep [] = ''''"
| "join sep [x] = x"
| "join sep (x # y # xs) = x @ sep @ join sep (y # xs)"

definition chainTerminal :: "desk list \<Rightarrow> string \<Rightarrow> string" where
  "chainTerminal desks configured =
     (let configured = trim_space configured in
      if configured \<noteq> '''' then configured
      else if desks = [] then ''Approved''
      else PassedStatus (last desks))"

definition deskChainLabel :: "desk list \<Rightarrow> string \<Rightarrow> string" where
  "deskChainLabel desks terminal =
     join arrow (''Requestor'' # map d_label desks @ [chainTerminal desks terminal])"

definition ListDeskMatrix :: "db \<Rightarrow> desk_row list" where
  "ListDeskMatrix d = sort_key (\<lambda>r. (dr_chain_key r, dr_position r)) (db_desks d)"

record load_acc =
  la_by_chain :: "string \<rightharpoonup> desk list"
  la_no_repeat :: "string \<Rightarrow> bool"
  la_terminal :: "string \<Rightarrow> string"
  la_order :: "string list"

fun load_loop :: "desk_row list \<Rightarrow> load_acc \<Rightarrow> load_acc" where
  "load_loop [] acc = acc"
| "load_loop (r # rs) acc =
     (let k = dr_chain_key r in
      load_loop rs
        \<lparr>la_by_chain = (la_by_chain acc)(k \<mapsto> (case la_by_chain acc k of None \<Rightarrow> [] | Some ds \<Rightarrow> ds) @ [desk_of_row r]),
         la_no_repeat = (if dr_no_repeat_approver r then (la_no_repeat acc)(k := True) else la_no_repeat acc),
         la_terminal = (if la_terminal acc k = '''' then (la_terminal acc)(k := trim_space (dr_terminal_label r))
                        else la_terminal acc),
         la_order = (if la_by_chain acc k = None then la_order acc @ [k] else la_order acc)\<rparr>)"

definition mk_chain :: "string \<Rightarrow> desk list \<Rightarrow> string \<Rightarrow> bool \<Rightarrow> chain" where
  "mk_chain key desks terminal noRepeat =
     \<lparr>c_key = key, c_label = deskChainLabel desks terminal, c_desks = desks,
      c_terminal_label = chainTerminal desks terminal, c_allow_auto_approve = False,
      c_no_successive_approver = False, c_no_repeat_approver = noRepeat\<rparr>"

definition loadDeskChains :: "db \<Rightarrow> chain list" where
  "loadDeskChains d =
     (let acc = load_loop (ListDeskMatrix d)
                  \<lparr>la_by_chain = Map.empty, la_no_repeat = (\<lambda>_. False), la_terminal = (\<lambda>_. ''''), la_order = []\<rparr>
      in map (\<lambda>k. mk_chain k (case la_by_chain acc k of None \<Rightarrow> [] | Some ds \<Rightarrow> ds) (la_terminal acc k)
                    (la_no_repeat acc k)) (la_order acc))"

type_synonym regex = "string \<Rightarrow> (string \<Rightarrow> bool) option"

definition ReloadDeskChains :: "regex \<Rightarrow> db \<Rightarrow> repo_error + registry" where
  "ReloadDeskChains rx d =
     (case NewRegistry rx (loadDeskChains d) of Inl _ \<Rightarrow> Inl ErrInvalidArgument | Inr reg \<Rightarrow> Inr reg)"

definition DeskEngine :: "regex \<Rightarrow> registry option \<Rightarrow> db \<Rightarrow> repo_error + registry" where
  "DeskEngine rx cache d = (case cache of Some eng \<Rightarrow> Inr eng | None \<Rightarrow> ReloadDeskChains rx d)"

fun first_terminal :: "desk_row list \<Rightarrow> string" where
  "first_terminal [] = ''''"
| "first_terminal (r # rs) =
     (let t = trim_space (dr_terminal_label r) in if t \<noteq> '''' then t else first_terminal rs)"

definition chain_status_in :: "status list \<Rightarrow> string \<Rightarrow> db \<Rightarrow> nat" where
  "chain_status_in sts key d =
     length (filter (\<lambda>(_, s). cs_chain_key s = key \<and> cs_status s \<in> set sts) (db_chain_state d))"

fun replace_rows :: "string \<Rightarrow> string \<Rightarrow> int \<Rightarrow> desk_row list \<Rightarrow> desk_row list" where
  "replace_rows key terminal i [] = []"
| "replace_rows key terminal i (r # rs) =
     r\<lparr>dr_chain_key := key, dr_position := i + 1, dr_desk := trim_space (dr_desk r), dr_terminal_label := terminal\<rparr> #
     replace_rows key terminal (i + 1) rs"

definition trimmed_desk :: "desk_row \<Rightarrow> desk" where
  "trimmed_desk r = (desk_of_row r)\<lparr>d_key := trim_space (dr_desk r)\<rparr>"

definition ReplaceDeskChain ::
  "regex \<Rightarrow> registry option \<Rightarrow> string \<Rightarrow> desk_row list \<Rightarrow> db \<Rightarrow>
   (repo_error + desk_row list) \<times> db \<times> registry option" where
  "ReplaceDeskChain rx cache chainKey desks d =
     (let key = trim_space chainKey in
      if key = '''' \<or> desks = [] then (Inl ErrInvalidArgument, d, cache)
      else
        let candidate = map trimmed_desk desks; terminal = first_terminal desks in
        case NewRegistry rx [mk_chain key candidate terminal (dr_no_repeat_approver (hd desks))] of
          Inl _ \<Rightarrow> (Inl ErrInvalidArgument, d, cache)
        | Inr _ \<Rightarrow>
            if chain_status_in [StatusInFlight, StatusReturned] key d > 0 then (Inl ErrConflict, d, cache)
            else
              let d' = d\<lparr>db_desks := filter (\<lambda>r. dr_chain_key r \<noteq> key) (db_desks d) @
                         replace_rows key terminal 0 desks\<rparr>
              in (case ReloadDeskChains rx d' of
                    Inl er \<Rightarrow> (Inl er, d', cache)
                  | Inr eng \<Rightarrow> (Inr (ListDeskMatrix d'), d', Some eng)))"

definition DeleteDeskChain ::
  "regex \<Rightarrow> registry option \<Rightarrow> string \<Rightarrow> db \<Rightarrow> (repo_error + unit) \<times> db \<times> registry option" where
  "DeleteDeskChain rx cache chainKey d =
     (let key = trim_space chainKey in
      if key = '''' then (Inl ErrInvalidArgument, d, cache)
      else if chain_status_in [StatusDraft, StatusInFlight, StatusReturned] key d > 0
        then (Inl ErrConflict, d, cache)
      else if list_all (\<lambda>r. dr_chain_key r \<noteq> key) (db_desks d) then (Inl ErrNotFound, d, cache)
      else
        let d' = d\<lparr>db_desks := filter (\<lambda>r. dr_chain_key r \<noteq> key) (db_desks d)\<rparr>
        in (case ReloadDeskChains rx d' of
              Inl er \<Rightarrow> (Inl er, d', cache)
            | Inr eng \<Rightarrow> (Inr (), d', Some eng)))"

section \<open>Persisted requests\<close>

definition steps_of :: "string \<Rightarrow> db \<Rightarrow> step_row list" where
  "steps_of i d = filter (\<lambda>s. sr_requisition_id s = i) (db_steps d)"

definition loadDeskStateTx :: "string \<Rightarrow> db \<Rightarrow> repo_error + state" where
  "loadDeskStateTx i d =
     (case tbl_get (db_chain_state d) i of
        None \<Rightarrow> Inl ErrNotFound
      | Some r \<Rightarrow>
          Inr \<lparr>s_chain_key = cs_chain_key r, s_status = cs_status r, s_desk = cs_desk r,
               s_stage_index = cs_stage_index r, s_amount = cs_amount r, s_skip = cs_skip r,
               s_requester = cs_requester r, s_history = map sr_step (sort_key sr_seq (steps_of i d)),
               s_scope = cs_scope r\<rparr>)"

definition LoadDeskState :: "string \<Rightarrow> db \<Rightarrow> repo_error + state" where
  "LoadDeskState i d = loadDeskStateTx i d"

definition requisitionScope :: "requisition_row \<Rightarrow> scope_map" where
  "requisitionScope r =
     (let m = Map.empty;
          m = (case rq_pm_workspace_owner r of
                 None \<Rightarrow> m
               | Some o' \<Rightarrow> if \<not> blank o' then m(''project_owner'' \<mapsto> trim_space o') else m)
      in if \<not> blank (rq_dept r) then m(''department'' \<mapsto> trim_space (rq_dept r)) else m)"

definition insertDeskState :: "env \<Rightarrow> string \<Rightarrow> state \<Rightarrow> db \<Rightarrow> repo_error + db" where
  "insertDeskState e i s d =
     res_bind (fk (db_requisitions d) i) (\<lambda>_.
     res_bind
       (insert_row i
          \<lparr>cs_chain_key = s_chain_key s, cs_status = s_status s, cs_desk = s_desk s,
           cs_stage_index = s_stage_index s, cs_amount = s_amount s, cs_skip = s_skip s,
           cs_requester = s_requester s, cs_scope = s_scope s, cs_updated_at = e_now e\<rparr>
          (db_chain_state d)) (\<lambda>t.
     Inr (d\<lparr>db_chain_state := t\<rparr>)))"

definition updateDeskState :: "env \<Rightarrow> string \<Rightarrow> state \<Rightarrow> db \<Rightarrow> db" where
  "updateDeskState e i s d =
     d\<lparr>db_chain_state :=
        tbl_upd i (\<lambda>r. r\<lparr>cs_status := s_status s, cs_desk := s_desk s, cs_stage_index := s_stage_index s,
                        cs_amount := s_amount s, cs_skip := s_skip s, cs_updated_at := e_now e\<rparr>)
          (db_chain_state d)\<rparr>"

definition insertDeskStep :: "string \<Rightarrow> nat \<Rightarrow> step \<Rightarrow> db \<Rightarrow> repo_error + db" where
  "insertDeskStep i sq st d =
     (if list_ex (\<lambda>s. sr_seq s = sq) (steps_of i d) then Inl DbUnique
      else if \<not> reason_check st then Inl DbCheck
      else Inr (d\<lparr>db_steps := db_steps d @ [\<lparr>sr_requisition_id = i, sr_seq = sq, sr_step = st\<rparr>]\<rparr>))"

fun insert_steps :: "string \<Rightarrow> nat \<Rightarrow> step list \<Rightarrow> db \<Rightarrow> repo_error + db" where
  "insert_steps i sq [] d = Inr d"
| "insert_steps i sq (st # sts) d = res_bind (insertDeskStep i sq st d) (insert_steps i (Suc sq) sts)"

definition openDeskChainTx ::
  "env \<Rightarrow> string \<Rightarrow> string \<Rightarrow> string \<Rightarrow> string list \<Rightarrow> db \<Rightarrow> state tx" where
  "openDeskChainTx e i chainKey requester skip d =
     (case tbl_get (db_requisitions d) i of
        None \<Rightarrow> Inl ErrNotFound
      | Some r \<Rightarrow>
          if approved_rows i d \<noteq> [] then Inl ErrConflict
          else if tbl_get (db_chain_state d) i \<noteq> None then Inl ErrConflict
          else
            let s = New chainKey requester
                      \<lparr>o_amount = rq_total r, o_skip = skip, o_scope = requisitionScope r\<rparr>
            in res_bind (insertDeskState e i s d) (\<lambda>d1. Inr (s, d1)))"

definition OpenDeskChain ::
  "env \<Rightarrow> registry \<Rightarrow> string \<Rightarrow> string \<Rightarrow> string \<Rightarrow> string list \<Rightarrow> db \<Rightarrow> state tx" where
  "OpenDeskChain e eng i chainKey requester skip d =
     (let i = trim_space i in
      if i = '''' \<or> blank requester then Inl ErrInvalidArgument
      else if registry_Get eng chainKey = None then Inl ErrInvalidArgument
      else openDeskChainTx e i chainKey requester skip d)"

section \<open>Running a transition\<close>

fun requisitionStatusFor :: "status \<Rightarrow> string" where
  "requisitionStatusFor StatusApproved = ''approved''"
| "requisitionStatusFor StatusRejected = ''rejected''"
| "requisitionStatusFor StatusCancelled = ''cancelled''"
| "requisitionStatusFor StatusReturned = ''returned for amendment''"
| "requisitionStatusFor StatusDraft = ''draft''"
| "requisitionStatusFor StatusInFlight = ''pending approval''"

fun terminalOutcome :: "status \<Rightarrow> string" where
  "terminalOutcome StatusApproved = ''approved''"
| "terminalOutcome StatusRejected = ''rejected''"
| "terminalOutcome StatusCancelled = ''rejected''"
| "terminalOutcome _ = ''''"

definition lastActor :: "state \<Rightarrow> string" where
  "lastActor s = (if s_history s = [] then '''' else st_actor (last (s_history s)))"

definition deskAuditAction :: "state \<Rightarrow> string" where
  "deskAuditAction s =
     (if s_history s = [] then ''approve''
      else case st_action (last (s_history s)) of
          ActionReject \<Rightarrow> ''reject'' | ActionAmend \<Rightarrow> ''amend'' | ActionCancel \<Rightarrow> ''cancel''
        | ActionSubmit \<Rightarrow> ''submit'' | ActionAdvance \<Rightarrow> ''approve'')"

fun action_word :: "action \<Rightarrow> string" where
  "action_word ActionSubmit = ''submit''"
| "action_word ActionAdvance = ''advance''"
| "action_word ActionReject = ''reject''"
| "action_word ActionAmend = ''amend''"
| "action_word ActionCancel = ''cancel''"

definition deskAuditDetail :: "state \<Rightarrow> string" where
  "deskAuditDetail s =
     (if s_history s = [] then ''desk chain updated''
      else let l = last (s_history s) in
        action_word (st_action l) @ '' at '' @ st_desk_label l @ '' desk'' @
        (if st_reason l \<noteq> '''' then '': '' @ st_reason l else '''') @
        (if st_override l then '' (admin override)'' else '''') @
        (if s_status s = StatusApproved then em_dash @ ''requisition fully approved'' else ''''))"

fun mapChainErr :: "chain_error \<Rightarrow> repo_error" where
  "mapChainErr ErrForbidden = ErrForbiddenRepo"
| "mapChainErr ErrSelfApproval = ErrForbiddenRepo"
| "mapChainErr ErrNotRequester = ErrForbiddenRepo"
| "mapChainErr ErrReasonRequired = ErrInvalidArgument"
| "mapChainErr ErrUnknownChain = ErrInvalidArgument"
| "mapChainErr ErrNoEngagedDesks = ErrInvalidArgument"
| "mapChainErr ErrNotWaiting = ErrConflict"
| "mapChainErr ErrWrongDesk = ErrConflict"
| "mapChainErr x = ErrChain x"

definition map_err :: "chain_error + 'a \<Rightarrow> repo_error + 'a" where
  "map_err x = (case x of Inl er \<Rightarrow> Inl (mapChainErr er) | Inr y \<Rightarrow> Inr y)"

definition settle_outcome ::
  "config \<Rightarrow> env \<Rightarrow> string \<Rightarrow> requisition_row \<Rightarrow> string \<Rightarrow> state \<Rightarrow> db \<Rightarrow> repo_error + db" where
  "settle_outcome cf e i req bid after d =
     (let outcome = terminalOutcome (s_status after) in
      if outcome = '''' then Inr d
      else res_bind
             (applyBudgetCommitment i outcome (rq_budget_committed req) (rq_pre_released req) bid (rq_total req) d)
             (\<lambda>d1. Inr (enqueueRequisitionOutcome cf e outcome i (deref (rq_pm_requisition_id req))
                      (deref (rq_pm_workspace_owner req)) (lastActor after) bid d1)))"

definition load_or_open :: "env \<Rightarrow> string \<Rightarrow> string \<Rightarrow> db \<Rightarrow> state tx" where
  "load_or_open e i openedBy d =
     (case loadDeskStateTx i d of
        Inr s \<Rightarrow> Inr (s, d)
      | Inl er \<Rightarrow> if er = ErrNotFound \<and> openedBy \<noteq> '''' then openDeskChainTx e i ChainRequisition openedBy [] d
                 else Inl er)"

definition applyDeskTransition ::
  "config \<Rightarrow> env \<Rightarrow> registry \<Rightarrow> string \<Rightarrow> string \<Rightarrow> (registry \<Rightarrow> state \<Rightarrow> chain_error + state) \<Rightarrow> db \<Rightarrow> state tx" where
  "applyDeskTransition cf e eng i openedBy fn d =
     (if openedBy \<noteq> '''' \<and> registry_Get eng ChainRequisition = None then Inl ErrInvalidArgument
      else
        res_bind (lockRequisitionForApproval i d) (\<lambda>(req, bid).
        res_bind (load_or_open e i openedBy d) (\<lambda>(before, d0).
        res_bind (map_err (Rebase eng before (rq_total req))) (\<lambda>rebased.
        res_bind (map_err (fn eng rebased)) (\<lambda>after.
        res_bind (insert_steps i (length (s_history before)) (drop (length (s_history before)) (s_history after))
                   (updateDeskState e i after d0)) (\<lambda>d1.
        res_bind (settle_outcome cf e i req bid after
                   (set_req_status i (requisitionStatusFor (s_status after)) d1)) (\<lambda>d2.
        Inr (after, auditTx (lastActor after) (deskAuditAction after) i (deskAuditDetail after) d2))))))))"

definition ApplyDeskTransition ::
  "config \<Rightarrow> env \<Rightarrow> registry \<Rightarrow> string \<Rightarrow> (registry \<Rightarrow> state \<Rightarrow> chain_error + state) \<Rightarrow> db \<Rightarrow> state tx" where
  "ApplyDeskTransition cf e eng i fn d = applyDeskTransition cf e eng i '''' fn d"

definition ApplyDeskTransitionSelfOpening ::
  "config \<Rightarrow> env \<Rightarrow> registry \<Rightarrow> string \<Rightarrow> string \<Rightarrow> (registry \<Rightarrow> state \<Rightarrow> chain_error + state) \<Rightarrow> db \<Rightarrow> state tx" where
  "ApplyDeskTransitionSelfOpening cf e eng i openedBy fn d =
     (if blank openedBy then Inl ErrInvalidArgument else applyDeskTransition cf e eng i openedBy fn d)"

section \<open>Queue, recipients and progress\<close>

record queue_item =
  qi_requisition_id :: string
  qi_title :: string
  qi_dept :: string
  qi_requester :: string
  qi_total :: amount
  qi_currency :: string
  qi_needed_by :: "int option"
  qi_progress :: progress

definition queue_chains :: "registry \<Rightarrow> actor \<Rightarrow> string list" where
  "queue_chains eng a = filter (\<lambda>k. registry_DesksForActor eng a k \<noteq> None) (reg_order eng)"

definition queue_desks :: "registry \<Rightarrow> actor \<Rightarrow> string list" where
  "queue_desks eng a = concat (map (\<lambda>k. the (registry_DesksForActor eng a k)) (queue_chains eng a))"

text \<open>\<^verbatim>\<open>ORDER BY r.needed_by NULLS LAST, s.updated_at\<close>.\<close>

definition queue_order :: "string \<times> chain_state_row \<times> requisition_row \<Rightarrow> (int \<times> int) \<times> timestamp" where
  "queue_order x =
     (case x of (_, s, r) \<Rightarrow>
        (case rq_needed_by r of None \<Rightarrow> (1, 0) | Some n \<Rightarrow> (0, n), cs_updated_at s))"

definition queue_rows :: "registry \<Rightarrow> actor \<Rightarrow> db \<Rightarrow> (string \<times> chain_state_row \<times> requisition_row) list" where
  "queue_rows eng a d =
     sort_key queue_order
       (concat (map (\<lambda>(i, s).
          case tbl_get (db_requisitions d) i of
            None \<Rightarrow> []
          | Some r \<Rightarrow>
              if cs_status s = StatusInFlight \<and> cs_chain_key s \<in> set (queue_chains eng a) \<and>
                 cs_desk s \<in> set (queue_desks eng a)
              then [(i, s, r)] else []) (db_chain_state d)))"

definition state_of_row :: "string \<Rightarrow> chain_state_row \<Rightarrow> db \<Rightarrow> state" where
  "state_of_row i r d =
     \<lparr>s_chain_key = cs_chain_key r, s_status = cs_status r, s_desk = cs_desk r,
      s_stage_index = cs_stage_index r, s_amount = cs_amount r, s_skip = cs_skip r,
      s_requester = cs_requester r, s_history = map sr_step (sort_key sr_seq (steps_of i d)),
      s_scope = cs_scope r\<rparr>"

fun queue_loop ::
  "registry \<Rightarrow> actor \<Rightarrow> db \<Rightarrow> (string \<times> chain_state_row \<times> requisition_row) list \<Rightarrow> chain_error + queue_item list" where
  "queue_loop eng a d [] = Inr []"
| "queue_loop eng a d ((i, s, r) # rows) =
     (if \<not> Actionable eng (state_of_row i s d) a then queue_loop eng a d rows
      else res_bind (Progress eng (state_of_row i s d)) (\<lambda>prog.
           res_bind (queue_loop eng a d rows) (\<lambda>items.
           Inr (\<lparr>qi_requisition_id = i, qi_title = rq_title r, qi_dept = rq_dept r,
                 qi_requester = cs_requester s, qi_total = rq_total r, qi_currency = rq_currency r,
                 qi_needed_by = rq_needed_by r, qi_progress = prog\<rparr> # items))))"

definition DeskQueue :: "registry \<Rightarrow> actor \<Rightarrow> db \<Rightarrow> chain_error + queue_item list" where
  "DeskQueue eng a d = (if queue_chains eng a = [] then Inr [] else queue_loop eng a d (queue_rows eng a d))"

text \<open>\<open>holders\<close> is the result of the join of active users with their groups: (email, group).\<close>

fun recipients_loop :: "desk \<Rightarrow> string \<Rightarrow> string list \<Rightarrow> (string \<times> string) list \<Rightarrow> string list" where
  "recipients_loop dk ex seen [] = []"
| "recipients_loop dk ex seen ((email, grp) # rows) =
     (if \<not> Matches dk grp then recipients_loop dk ex seen rows
      else if equal_fold (trim_space email) (trim_space ex) then recipients_loop dk ex seen rows
      else if email \<in> set seen then recipients_loop dk ex seen rows
      else email # recipients_loop dk ex (email # seen) rows)"

definition DeskRecipients ::
  "registry \<Rightarrow> string \<Rightarrow> string \<Rightarrow> string \<Rightarrow> (string \<times> string) list \<Rightarrow> repo_error + string list" where
  "DeskRecipients eng chainKey dk excludeRequester holders =
     (case registry_Get eng chainKey of
        None \<Rightarrow> Inl ErrNotFound
      | Some c \<Rightarrow> (case chain_Desk c dk of
            None \<Rightarrow> Inl ErrNotFound
          | Some desk \<Rightarrow> Inr (recipients_loop desk excludeRequester [] holders)))"

definition DeskProgress :: "registry \<Rightarrow> string \<Rightarrow> db \<Rightarrow> repo_error + state \<times> progress" where
  "DeskProgress eng i d =
     res_bind (LoadDeskState i d) (\<lambda>s.
     res_bind (map_err (Progress eng s)) (\<lambda>p. Inr (s, p)))"

section \<open>The store implements the engine\<close>

definition desk_ok :: "db \<Rightarrow> bool" where
  "desk_ok d \<longleftrightarrow>
     (\<forall>i r. tbl_get (db_chain_state d) i = Some r \<longrightarrow> cloneScope (cs_scope r) = cs_scope r) \<and>
     (\<forall>i. tbl_get (db_chain_state d) i = None \<longrightarrow> steps_of i d = []) \<and>
     (\<forall>i. map sr_seq (steps_of i d) = [0..<length (steps_of i d)])"

lemma steps_sorted: "map sr_seq xs = [0..<n] \<Longrightarrow> sort_key sr_seq xs = xs"
  by (rule sort_key_id_if_sorted) simp

lemma load_state_of_row:
  "loadDeskStateTx i d = Inr s \<longleftrightarrow> (\<exists>r. tbl_get (db_chain_state d) i = Some r \<and> s = state_of_row i r d)"
  by (auto simp: loadDeskStateTx_def state_of_row_def split: option.splits)

lemma insert_step_ok:
  assumes "map sr_seq (steps_of i d) = [0..<n]" and "reason_check st"
  shows "insertDeskStep i n st d =
    Inr (d\<lparr>db_steps := db_steps d @ [\<lparr>sr_requisition_id = i, sr_seq = n, sr_step = st\<rparr>]\<rparr>)"
proof -
  have "sr_seq s \<noteq> n" if "s \<in> set (steps_of i d)" for s
  proof -
    have "sr_seq s \<in> set (map sr_seq (steps_of i d))" using that by simp
    then show ?thesis unfolding assms(1) by simp
  qed
  then show ?thesis using assms(2) by (auto simp: insertDeskStep_def list_ex_iff)
qed

lemma insert_one_step:
  assumes "insert_steps i n [st] d = Inr d1"
  shows "d1 = d\<lparr>db_steps := db_steps d @ [\<lparr>sr_requisition_id = i, sr_seq = n, sr_step = st\<rparr>]\<rparr>"
  using assms by (auto simp: insertDeskStep_def split: if_splits)

lemma requisitionScope_clean [simp]: "cloneScope (requisitionScope r) = requisitionScope r"
  by (rule ext) (auto simp: cloneScope_def requisitionScope_def Let_def split: option.splits if_splits)

lemma openDeskChainTx_Inr:
  assumes "openDeskChainTx e i key who skip d = Inr (s, d1)" and "desk_ok d"
  shows "loadDeskStateTx i d1 = Inr s" and "desk_ok d1" and "db_requisitions d1 = db_requisitions d"
    and "db_budgets d1 = db_budgets d" and "db_steps d1 = db_steps d"
    and "tbl_get (db_chain_state d) i = None" and "approved_rows i d = []" and "db_approvals d1 = db_approvals d"
    and "\<exists>opt. s = New key who opt \<and> o_skip opt = skip" and "j \<noteq> i \<Longrightarrow> loadDeskStateTx j d1 = loadDeskStateTx j d"
proof -
  from assms obtain r where r: "tbl_get (db_requisitions d) i = Some r" and no: "tbl_get (db_chain_state d) i = None"
    and ap: "approved_rows i d = []"
    and s: "s = New key who \<lparr>o_amount = rq_total r, o_skip = skip, o_scope = requisitionScope r\<rparr>"
    and d1: "insertDeskState e i s d = Inr d1"
    by (auto simp: openDeskChainTx_def Let_def split: option.splits if_splits)
  have t1: "d1 = d\<lparr>db_chain_state := tbl_ins i \<lparr>cs_chain_key = s_chain_key s, cs_status = s_status s,
      cs_desk = s_desk s, cs_stage_index = s_stage_index s, cs_amount = s_amount s, cs_skip = s_skip s,
      cs_requester = s_requester s, cs_scope = s_scope s, cs_updated_at = e_now e\<rparr> (db_chain_state d)\<rparr>"
    using d1 by (auto simp: insertDeskState_def)
  have nosteps: "steps_of i d = []" using assms(2) no by (simp add: desk_ok_def)
  have st: "steps_of k d1 = steps_of k d" for k by (simp add: t1 steps_of_def)
  show "loadDeskStateTx i d1 = Inr s"
    using no nosteps by (simp add: load_state_of_row t1 tbl_get_ins state_of_row_def steps_of_def New_def s)
  show "desk_ok d1"
    using assms(2) no unfolding desk_ok_def st
    by (auto simp: t1 tbl_get_ins s New_def split: if_splits)
  show "loadDeskStateTx j d1 = loadDeskStateTx j d" if "j \<noteq> i"
  proof -
    have "tbl_get (db_chain_state d1) j = tbl_get (db_chain_state d) j"
      using that no by (simp add: t1 tbl_get_ins)
    then show ?thesis by (simp add: loadDeskStateTx_def st split: option.split)
  qed
  show "\<exists>opt. s = New key who opt \<and> o_skip opt = skip" by (auto simp: s)
  show "db_requisitions d1 = db_requisitions d" "db_budgets d1 = db_budgets d" "db_steps d1 = db_steps d"
    "db_approvals d1 = db_approvals d" by (simp_all add: t1)
  show "tbl_get (db_chain_state d) i = None" "approved_rows i d = []" by (fact no, fact ap)
qed

lemma settle_outcome_frame:
  assumes "settle_outcome cf e i req bid after d = Inr d'"
  shows "db_chain_state d' = db_chain_state d" and "db_steps d' = db_steps d" and "db_approvals d' = db_approvals d"
  using assms applyBudgetCommitment_frame
  by (fastforce simp: settle_outcome_def Let_def split: if_splits)+

lemma settle_outcome_ok:
  "settle_outcome cf e i req bid after d = Inr d' \<Longrightarrow> budgets_ok d \<Longrightarrow> budgets_ok d'"
  by (auto simp: settle_outcome_def Let_def split: if_splits dest!: applyBudgetCommitment_ok)

lemma settle_outcome_requisition:
  assumes "settle_outcome cf e i req bid after d = Inr d'"
  shows "\<exists>g. tbl_get (db_requisitions d') k =
      map_option (\<lambda>r. r\<lparr>rq_budget_committed := g r\<rparr>) (tbl_get (db_requisitions d) k)"
proof (cases "terminalOutcome (s_status after) = ''''")
  case True
  then have "d' = d" using assms by (simp add: settle_outcome_def)
  then show ?thesis by (intro exI [of _ rq_budget_committed]) (cases "tbl_get (db_requisitions d) k"; simp)
next
  case False
  then obtain d1 where "applyBudgetCommitment i (terminalOutcome (s_status after)) (rq_budget_committed req)
      (rq_pre_released req) bid (rq_total req) d = Inr d1" and "db_requisitions d' = db_requisitions d1"
    using assms by (auto simp: settle_outcome_def Let_def)
  then show ?thesis using applyBudgetCommitment_requisition by simp
qed

text \<open>A transition that commits: the stored state, rebased on the requisition's current total, took one
  engine step, and exactly the new step was written.\<close>

lemma load_or_open_Inr:
  assumes "load_or_open e i openedBy d = Inr (before, d0)" and "desk_ok d"
  shows "loadDeskStateTx i d0 = Inr before" and "desk_ok d0" and "db_requisitions d0 = db_requisitions d"
    and "db_budgets d0 = db_budgets d" and "db_approvals d0 = db_approvals d"
    and "loadDeskStateTx i d = Inr before \<or>
      (loadDeskStateTx i d = Inl ErrNotFound \<and> approved_rows i d = [] \<and> openedBy \<noteq> [] \<and>
       (\<exists>opt. before = New ChainRequisition openedBy opt))"
    and "j \<noteq> i \<Longrightarrow> loadDeskStateTx j d0 = loadDeskStateTx j d"
proof -
  consider "loadDeskStateTx i d = Inr before" "d0 = d"
    | "loadDeskStateTx i d = Inl ErrNotFound" "openedBy \<noteq> []"
      "openDeskChainTx e i ChainRequisition openedBy [] d = Inr (before, d0)"
    using assms(1) by (auto simp: load_or_open_def split: sum.splits if_splits)
  note cases = this
  show "loadDeskStateTx i d0 = Inr before"
    by (rule cases) (auto dest: openDeskChainTx_Inr(1) [OF _ assms(2)])
  show "desk_ok d0"
    by (rule cases) (auto simp: assms(2) dest: openDeskChainTx_Inr(2) [OF _ assms(2)])
  show "db_requisitions d0 = db_requisitions d"
    by (rule cases) (auto dest: openDeskChainTx_Inr(3) [OF _ assms(2)])
  show "db_budgets d0 = db_budgets d"
    by (rule cases) (auto dest: openDeskChainTx_Inr(4) [OF _ assms(2)])
  show "db_approvals d0 = db_approvals d"
    by (rule cases) (auto dest: openDeskChainTx_Inr(8) [OF _ assms(2)])
  show "loadDeskStateTx i d = Inr before \<or>
      (loadDeskStateTx i d = Inl ErrNotFound \<and> approved_rows i d = [] \<and> openedBy \<noteq> [] \<and>
       (\<exists>opt. before = New ChainRequisition openedBy opt))"
    by (rule cases) (auto dest: openDeskChainTx_Inr(7,9) [OF _ assms(2)])
  show "loadDeskStateTx j d0 = loadDeskStateTx j d" if "j \<noteq> i"
    by (rule cases) (use that in \<open>auto dest: openDeskChainTx_Inr(10) [OF _ assms(2)]\<close>)
qed

lemma steps_of_snoc:
  "db_steps d' = db_steps d @ [s] \<Longrightarrow>
     steps_of j d' = steps_of j d @ (if sr_requisition_id s = j then [s] else [])"
  by (simp add: steps_of_def)

lemma loadDeskStateTx_cong:
  "tbl_get (db_chain_state d') j = tbl_get (db_chain_state d) j \<Longrightarrow> steps_of j d' = steps_of j d \<Longrightarrow>
     loadDeskStateTx j d' = loadDeskStateTx j d"
  by (simp add: loadDeskStateTx_def split: option.split)

lemma persist_step:
  assumes ok: "desk_ok d0" and before: "loadDeskStateTx i d0 = Inr before"
    and step: "chain_step eng now amt op before = Inr after"
    and new: "insert_steps i (length (s_history before)) (drop (length (s_history before)) (s_history after))
      (updateDeskState e i after d0) = Inr d1"
  shows "loadDeskStateTx i d1 = Inr after" and "desk_ok d1" and "j \<noteq> i \<Longrightarrow> loadDeskStateTx j d1 = loadDeskStateTx j d0"
    and "db_requisitions d1 = db_requisitions d0" and "db_budgets d1 = db_budgets d0" and "db_approvals d1 = db_approvals d0"
proof -
  from step obtain s1 where s1: "Rebase eng before amt = Inr s1" and s2: "run_op eng now op s1 = Inr after"
    by (auto simp: chain_step_def)
  from op_tr.appends [OF s2] Rebase_frame [OF s1] obtain st where h: "s_history after = s_history before @ [st]"
    by auto
  from before obtain r where r: "tbl_get (db_chain_state d0) i = Some r" and b: "before = state_of_row i r d0"
    by (auto simp: load_state_of_row)
  have seq: "map sr_seq (steps_of i d0) = [0..<length (steps_of i d0)]" using ok by (simp add: desk_ok_def)
  have hb: "s_history before = map sr_step (steps_of i d0)"
    by (simp add: b state_of_row_def steps_sorted [OF seq])
  let ?row = "\<lparr>sr_requisition_id = i, sr_seq = length (s_history before), sr_step = st\<rparr>"
  have d1: "d1 = (updateDeskState e i after d0)\<lparr>db_steps := db_steps d0 @ [?row]\<rparr>"
    using new by (auto simp: h insertDeskStep_def updateDeskState_def split: if_splits)
  have st1: "steps_of k d1 = steps_of k d0 @ (if k = i then [?row] else [])" for k
    by (auto simp: d1 steps_of_def)
  have cs1: "tbl_get (db_chain_state d1) k = (if k = i then Some (r\<lparr>cs_status := s_status after, cs_desk := s_desk after,
      cs_stage_index := s_stage_index after, cs_amount := s_amount after, cs_skip := s_skip after,
      cs_updated_at := e_now e\<rparr>) else tbl_get (db_chain_state d0) k)" for k
    by (simp add: d1 updateDeskState_def tbl_get_upd r)
  have seq1: "map sr_seq (steps_of k d1) = [0..<length (steps_of k d1)]" for k
    using ok hb by (auto simp: st1 desk_ok_def)
  have scope: "cloneScope (cs_scope r) = cs_scope r" using ok r by (auto simp: desk_ok_def)
  have "s_scope s1 = cs_scope r"
    using s1 scope by (auto simp: b state_of_row_def Rebase_def Let_def split: if_splits option.splits)
  then have fr: "s_chain_key after = cs_chain_key r" "s_requester after = cs_requester r" "s_scope after = cs_scope r"
    using op_tr.frame [OF s2] Rebase_frame [OF s1] scope by (auto simp: b state_of_row_def)
  show "loadDeskStateTx i d1 = Inr after"
    using fr by (simp add: load_state_of_row cs1 state_of_row_def steps_sorted [OF seq1]) (simp add: st1 h hb)
  show "desk_ok d1" using ok seq1 scope by (auto simp: desk_ok_def cs1 st1 split: if_splits)
  show "loadDeskStateTx j d1 = loadDeskStateTx j d0" if "j \<noteq> i"
    using that by (intro loadDeskStateTx_cong) (simp_all add: cs1 st1)
  show "db_requisitions d1 = db_requisitions d0" "db_budgets d1 = db_budgets d0" "db_approvals d1 = db_approvals d0"
    by (simp_all add: d1 updateDeskState_def)
qed

abbreviation engine_op :: "timestamp \<Rightarrow> chain_op \<Rightarrow> registry \<Rightarrow> state \<Rightarrow> chain_error + state" where
  "engine_op now op r s \<equiv> run_op r now op s"

lemma map_err_Inr [simp]: "map_err x = Inr y \<longleftrightarrow> x = Inr y"
  by (cases x) (auto simp: map_err_def)

lemma applyDeskTransition_E:
  assumes "applyDeskTransition cf e eng i openedBy (engine_op now op) d = Inr (after, d')"
  obtains req bid before d0 d1 d2 where "tbl_get (db_requisitions d) i = Some req" and "rq_budget_id req = Some bid"
    and "load_or_open e i openedBy d = Inr (before, d0)" and "chain_step eng now (rq_total req) op before = Inr after"
    and "insert_steps i (length (s_history before)) (drop (length (s_history before)) (s_history after))
      (updateDeskState e i after d0) = Inr d1"
    and "settle_outcome cf e i req bid after (set_req_status i (requisitionStatusFor (s_status after)) d1) = Inr d2"
    and "d' = auditTx (lastActor after) (deskAuditAction after) i (deskAuditDetail after) d2"
    and "openedBy = [] \<or> registry_Get eng ChainRequisition \<noteq> None"
  using assms by (auto simp: applyDeskTransition_def lock_Inr chain_step_def split: if_splits)

lemma transition_persists:
  assumes "applyDeskTransition cf e eng i openedBy (engine_op now op) d = Inr (after, d')" and "desk_ok d"
  shows "loadDeskStateTx i d' = Inr after" and "desk_ok d'" and "j \<noteq> i \<Longrightarrow> loadDeskStateTx j d' = loadDeskStateTx j d"
    and "\<exists>req before. tbl_get (db_requisitions d) i = Some req \<and> chain_step eng now (rq_total req) op before = Inr after \<and>
      (loadDeskStateTx i d = Inr before \<or>
       loadDeskStateTx i d = Inl ErrNotFound \<and> openedBy \<noteq> [] \<and> approved_rows i d = [] \<and>
       registry_Get eng ChainRequisition \<noteq> None \<and> (\<exists>opt. before = New ChainRequisition openedBy opt))"
    and "\<exists>req'. tbl_get (db_requisitions d') i = Some req' \<and> rq_status req' = requisitionStatusFor (s_status after)"
proof -
  obtain req bid before d0 d1 d2 where q: "tbl_get (db_requisitions d) i = Some req"
    and bid: "rq_budget_id req = Some bid"
    and open': "load_or_open e i openedBy d = Inr (before, d0)"
    and step: "chain_step eng now (rq_total req) op before = Inr after"
    and new: "insert_steps i (length (s_history before)) (drop (length (s_history before)) (s_history after))
      (updateDeskState e i after d0) = Inr d1"
    and settle: "settle_outcome cf e i req bid after (set_req_status i (requisitionStatusFor (s_status after)) d1) = Inr d2"
    and d': "d' = auditTx (lastActor after) (deskAuditAction after) i (deskAuditDetail after) d2"
    and reg: "openedBy = [] \<or> registry_Get eng ChainRequisition \<noteq> None"
    by (rule applyDeskTransition_E [OF assms(1)])
  note lo = load_or_open_Inr [OF open' assms(2)]
  note ps = persist_step [OF lo(2) lo(1) step new]
  have cs: "db_chain_state d' = db_chain_state d1" and st: "db_steps d' = db_steps d1"
    using settle_outcome_frame [OF settle] by (simp_all add: d')
  have sto: "steps_of k d' = steps_of k d1" for k by (simp add: steps_of_def st)
  have ld: "loadDeskStateTx k d' = loadDeskStateTx k d1" for k
    by (rule loadDeskStateTx_cong) (simp_all add: cs sto)
  show "loadDeskStateTx i d' = Inr after" using ps(1) by (simp add: ld)
  show "desk_ok d'" using ps(2) by (simp add: desk_ok_def cs sto)
  show "loadDeskStateTx j d' = loadDeskStateTx j d" if "j \<noteq> i"
    using ps(3) [OF that] lo(7) [OF that] by (simp add: ld)
  show "\<exists>req before. tbl_get (db_requisitions d) i = Some req \<and> chain_step eng now (rq_total req) op before = Inr after \<and>
      (loadDeskStateTx i d = Inr before \<or>
       loadDeskStateTx i d = Inl ErrNotFound \<and> openedBy \<noteq> [] \<and> approved_rows i d = [] \<and>
       registry_Get eng ChainRequisition \<noteq> None \<and> (\<exists>opt. before = New ChainRequisition openedBy opt))"
    using lo(6) q step reg by blast
  show "\<exists>req'. tbl_get (db_requisitions d') i = Some req' \<and> rq_status req' = requisitionStatusFor (s_status after)"
    using settle_outcome_requisition [OF settle, of i] lo(3) ps(4) q by (auto simp: d')
qed

section \<open>Histories of the store\<close>

text \<open>
  What happens to the chain tables under one published engine: the operations the handlers of
  \<^verbatim>\<open>/requisitions/{id}/desk\<close> run, where \<open>ok\<close> restricts the acting users and a chain is opened under
  the trimmed key of the request body; edits of requisitions, which move the amount a later step
  rebases on; deletions, which cascade to both chain tables; and any other write, which leaves them
  alone.
\<close>

inductive desk_step :: "registry \<Rightarrow> (actor \<Rightarrow> bool) \<Rightarrow> db \<Rightarrow> db \<Rightarrow> bool" for eng ok where
  opened: "OpenDeskChain e eng i (trim_space key) who skip d = Inr (s, d') \<Longrightarrow> desk_step eng ok d d'"
| moved: "ApplyDeskTransition cf e eng i (engine_op now op) d = Inr (s, d') \<Longrightarrow> ok (op_actor op) \<Longrightarrow>
    desk_step eng ok d d'"
| self_opened: "ApplyDeskTransitionSelfOpening cf e eng i who (engine_op now op) d = Inr (s, d') \<Longrightarrow>
    ok (op_actor op) \<Longrightarrow> desk_step eng ok d d'"
| edited: "UpdateRequisition cf e i t dp pr st c b nb tot n u d = Inr (r, d') \<Longrightarrow> desk_step eng ok d d'"
| deleted: "DeleteRequisition i u d = Inr (y, d') \<Longrightarrow> desk_step eng ok d d'"
| other: "db_chain_state d' = db_chain_state d \<Longrightarrow> db_steps d' = db_steps d \<Longrightarrow> desk_step eng ok d d'"

inductive_cases desk_stepE: "desk_step eng ok d d'"

definition desk_reachable :: "registry \<Rightarrow> (actor \<Rightarrow> bool) \<Rightarrow> db \<Rightarrow> bool" where
  "desk_reachable eng ok d \<longleftrightarrow>
     desk_ok d \<and> (\<forall>i s. loadDeskStateTx i d = Inr s \<longrightarrow> chain_reach eng ok s)"

lemma applied_reachable:
  assumes "applyDeskTransition cf e eng i who (engine_op now op) d = Inr (s, d')" and "ok (op_actor op)"
    and "desk_reachable eng ok d"
  shows "desk_reachable eng ok d'"
proof -
  have ok: "desk_ok d" using assms(3) by (simp add: desk_reachable_def)
  note tp = transition_persists [OF assms(1) ok]
  obtain before amt where step: "chain_step eng now amt op before = Inr s" and b: "loadDeskStateTx i d = Inr before \<or>
      registry_Get eng ChainRequisition \<noteq> None \<and> (\<exists>opt. before = New ChainRequisition who opt)"
    using tp(4) by blast
  have "chain_reach eng ok before"
    using b assms(3) by (auto simp: desk_reachable_def intro: chain_reach.opened)
  then have r: "chain_reach eng ok s" using assms(2) step by (rule chain_reach.stepped)
  have "chain_reach eng ok t" if "loadDeskStateTx j d' = Inr t" for j t
    using that tp(1) tp(3) [of j] r assms(3) by (cases "j = i") (auto simp: desk_reachable_def)
  then show ?thesis using tp(2) by (simp add: desk_reachable_def)
qed

lemma UpdateRequisition_chain_tables:
  assumes "UpdateRequisition cf e i t dp pr st c b nb tot n u d = Inr (r, d')"
  shows "db_chain_state d' = db_chain_state d" and "db_steps d' = db_steps d"
  using assms by (auto simp: UpdateRequisition_def Let_def split: if_split_asm option.splits)

lemma DeleteRequisition_chain_tables:
  assumes "DeleteRequisition i u d = Inr (y, d')"
  obtains k where "db_chain_state d' = tbl_del k (db_chain_state d)"
    and "db_steps d' = filter (\<lambda>s. sr_requisition_id s \<noteq> k) (db_steps d)"
  using assms by (auto simp: DeleteRequisition_def Let_def split: if_split_asm option.splits)

lemma untouched_reachable:
  assumes "db_chain_state d' = db_chain_state d" and "db_steps d' = db_steps d" and "desk_reachable eng ok d"
  shows "desk_reachable eng ok d'"
proof -
  have st: "steps_of j d' = steps_of j d" for j by (simp add: steps_of_def assms(2))
  then have "loadDeskStateTx j d' = loadDeskStateTx j d" for j
    by (intro loadDeskStateTx_cong) (simp_all add: assms(1))
  then show ?thesis using assms(3) by (simp add: desk_reachable_def desk_ok_def assms(1) st)
qed

lemma deleted_reachable:
  assumes "DeleteRequisition i u d = Inr (y, d')" and "desk_reachable eng ok d"
  shows "desk_reachable eng ok d'"
proof -
  obtain k where cs: "db_chain_state d' = tbl_del k (db_chain_state d)"
    and st: "db_steps d' = filter (\<lambda>s. sr_requisition_id s \<noteq> k) (db_steps d)"
    using DeleteRequisition_chain_tables [OF assms(1)] .
  have so: "steps_of j d' = (if j = k then [] else steps_of j d)" for j
    by (auto simp: steps_of_def st filter_empty_conv intro: filter_cong)
  have "chain_reach eng ok t" if "loadDeskStateTx j d' = Inr t" for j t
  proof -
    from that have "j \<noteq> k" by (auto simp: load_state_of_row cs tbl_get_del)
    then have "loadDeskStateTx j d' = loadDeskStateTx j d"
      by (intro loadDeskStateTx_cong) (simp_all add: cs so tbl_get_del)
    with that assms(2) show ?thesis by (simp add: desk_reachable_def)
  qed
  moreover have "desk_ok d'" using assms(2) by (simp add: desk_reachable_def desk_ok_def cs so tbl_get_del)
  ultimately show ?thesis by (simp add: desk_reachable_def)
qed

lemma opened_reachable:
  assumes "OpenDeskChain e eng i key who skip d = Inr (s, d')" and "desk_reachable eng ok d"
  shows "desk_reachable eng ok d'"
proof -
  from assms(1) obtain k where k: "openDeskChainTx e k key who skip d = Inr (s, d')" and reg: "registry_Get eng key \<noteq> None"
    by (auto simp: OpenDeskChain_def Let_def split: if_splits)
  have ok: "desk_ok d" using assms(2) by (simp add: desk_reachable_def)
  note op = openDeskChainTx_Inr [OF k ok]
  obtain opt where "s = New key who opt" using op(9) by blast
  then have r: "chain_reach eng ok s" using reg by (auto intro: chain_reach.opened)
  have "chain_reach eng ok t" if "loadDeskStateTx j d' = Inr t" for j t
    using that op(1) op(10) [of j] r assms(2) by (cases "j = k") (auto simp: desk_reachable_def)
  then show ?thesis using op(2) by (simp add: desk_reachable_def)
qed

lemma desk_step_reachable:
  assumes "desk_step eng ok d d'" and "desk_reachable eng ok d"
  shows "desk_reachable eng ok d'"
  using assms(1)
proof cases
  case (opened e i key who skip s)
  then show ?thesis using opened_reachable assms(2) by blast
next
  case (moved cf e i now op s)
  then show ?thesis using applied_reachable assms(2) by (fastforce simp: ApplyDeskTransition_def)
next
  case (self_opened cf e i who now op s)
  then show ?thesis
    using applied_reachable assms(2) by (fastforce simp: ApplyDeskTransitionSelfOpening_def split: if_splits)
next
  case edited
  then show ?thesis using untouched_reachable UpdateRequisition_chain_tables assms(2) by metis
next
  case deleted
  then show ?thesis using deleted_reachable assms(2) by blast
next
  case other
  then show ?thesis using untouched_reachable assms(2) by blast
qed

lemma desk_run_reachable:
  "(desk_step eng ok)\<^sup>*\<^sup>* d d' \<Longrightarrow> desk_reachable eng ok d \<Longrightarrow> desk_reachable eng ok d'"
  by (induction rule: rtranclp_induct) (auto intro: desk_step_reachable)

lemma fresh_reachable: "db_chain_state d = [] \<Longrightarrow> db_steps d = [] \<Longrightarrow> desk_reachable eng ok d"
  by (simp add: desk_reachable_def desk_ok_def steps_of_def loadDeskStateTx_def tbl_get_def)

text \<open>The rows themselves: one per requisition, each under a trimmed chain key.\<close>

definition chain_rows_ok :: "chain_state_row table \<Rightarrow> bool" where
  "chain_rows_ok t \<longleftrightarrow>
     distinct (map fst t) \<and> (\<forall>(i, r) \<in> set t. trim_space (cs_chain_key r) = cs_chain_key r)"

lemma chain_rows_upd:
  "(\<And>r. cs_chain_key (f r) = cs_chain_key r) \<Longrightarrow> chain_rows_ok t \<Longrightarrow> chain_rows_ok (tbl_upd i f t)"
  by (auto simp: chain_rows_ok_def tbl_upd_def tbl_where_def o_def case_prod_beta)

lemma chain_rows_ins:
  "chain_rows_ok t \<Longrightarrow> tbl_get t i = None \<Longrightarrow> trim_space (cs_chain_key r) = cs_chain_key r \<Longrightarrow>
   chain_rows_ok (tbl_ins i r t)"
  by (auto simp: chain_rows_ok_def tbl_ins_def tbl_get_def map_of_eq_None_iff)

lemma chain_rows_del: "chain_rows_ok t \<Longrightarrow> chain_rows_ok (tbl_del i t)"
  by (auto simp: chain_rows_ok_def tbl_del_def distinct_map inj_on_def)

lemma openDeskChainTx_rows:
  "openDeskChainTx e i key who skip d = Inr (s, d') \<Longrightarrow> trim_space key = key \<Longrightarrow>
   chain_rows_ok (db_chain_state d) \<Longrightarrow> chain_rows_ok (db_chain_state d')"
  by (auto simp: openDeskChainTx_def insertDeskState_def New_def Let_def intro!: chain_rows_ins
      split: option.splits if_splits)

lemma insert_steps_chain_state:
  "insert_steps i sq sts d = Inr d' \<Longrightarrow> db_chain_state d' = db_chain_state d"
  by (induction sts arbitrary: sq d) (fastforce simp: insertDeskStep_def split: if_splits)+

lemma trim_ChainRequisition: "trim_space ChainRequisition = ChainRequisition"
  by code_simp

lemma applied_rows:
  assumes "applyDeskTransition cf e eng i who (engine_op now op) d = Inr (s, d')"
    and "chain_rows_ok (db_chain_state d)"
  shows "chain_rows_ok (db_chain_state d')"
proof (rule applyDeskTransition_E [OF assms(1)])
  fix req bid before d0 d1 d2
  assume "load_or_open e i who d = Inr (before, d0)"
    and new: "insert_steps i (length (s_history before)) (drop (length (s_history before)) (s_history s))
      (updateDeskState e i s d0) = Inr d1"
    and settle: "settle_outcome cf e i req bid s (set_req_status i (requisitionStatusFor (s_status s)) d1) = Inr d2"
    and d': "d' = auditTx (lastActor s) (deskAuditAction s) i (deskAuditDetail s) d2"
  then have "chain_rows_ok (db_chain_state d0)"
    using assms(2) openDeskChainTx_rows [OF _ trim_ChainRequisition]
    by (auto simp: load_or_open_def split: sum.splits if_splits)
  then have "chain_rows_ok (db_chain_state (updateDeskState e i s d0))"
    by (auto simp: updateDeskState_def intro!: chain_rows_upd)
  then show ?thesis
    using insert_steps_chain_state [OF new] settle_outcome_frame(1) [OF settle] by (simp add: d')
qed

lemma desk_step_rows:
  assumes "desk_step eng ok d d'" and "chain_rows_ok (db_chain_state d)"
  shows "chain_rows_ok (db_chain_state d')"
  using assms(1)
proof cases
  case (opened e i key who skip s)
  then show ?thesis
    using assms(2) by (auto simp: OpenDeskChain_def Let_def intro: openDeskChainTx_rows split: if_splits)
next
  case (moved cf e i now op s)
  then show ?thesis using applied_rows assms(2) by (fastforce simp: ApplyDeskTransition_def)
next
  case (self_opened cf e i who now op s)
  then show ?thesis
    using applied_rows assms(2) by (fastforce simp: ApplyDeskTransitionSelfOpening_def split: if_splits)
next
  case edited
  then show ?thesis using UpdateRequisition_chain_tables(1) assms(2) by metis
next
  case (deleted i u y)
  then show ?thesis using DeleteRequisition_chain_tables [OF deleted] chain_rows_del assms(2) by metis
next
  case other
  then show ?thesis using assms(2) by simp
qed

lemma desk_run_rows:
  "(desk_step eng ok)\<^sup>*\<^sup>* d d' \<Longrightarrow> chain_rows_ok (db_chain_state d) \<Longrightarrow> chain_rows_ok (db_chain_state d')"
  by (induction rule: rtranclp_induct) (auto intro: desk_step_rows)

section \<open>Budget, queue and recipients\<close>

lemma transition_budgets:
  assumes "applyDeskTransition cf e eng i openedBy (engine_op now op) d = Inr (after, d')" and "desk_ok d"
  shows "\<exists>req bid d1 d2. tbl_get (db_requisitions d) i = Some req \<and> rq_budget_id req = Some bid \<and>
    db_budgets d1 = db_budgets d \<and> db_budgets d' = db_budgets d2 \<and>
    (if terminalOutcome (s_status after) = [] then db_budgets d2 = db_budgets d1
     else applyBudgetCommitment i (terminalOutcome (s_status after)) (rq_budget_committed req) (rq_pre_released req)
            bid (rq_total req) d1 = Inr d2)"
proof -
  obtain req bid before d0 d1 d2 where q: "tbl_get (db_requisitions d) i = Some req"
    and bid: "rq_budget_id req = Some bid"
    and open': "load_or_open e i openedBy d = Inr (before, d0)"
    and step: "chain_step eng now (rq_total req) op before = Inr after"
    and new: "insert_steps i (length (s_history before)) (drop (length (s_history before)) (s_history after))
      (updateDeskState e i after d0) = Inr d1"
    and settle: "settle_outcome cf e i req bid after (set_req_status i (requisitionStatusFor (s_status after)) d1) = Inr d2"
    and d': "d' = auditTx (lastActor after) (deskAuditAction after) i (deskAuditDetail after) d2"
    and reg: "openedBy = [] \<or> registry_Get eng ChainRequisition \<noteq> None"
    by (rule applyDeskTransition_E [OF assms(1)])
  note lo = load_or_open_Inr [OF open' assms(2)]
  note ps = persist_step [OF lo(2) lo(1) step new]
  let ?d1 = "set_req_status i (requisitionStatusFor (s_status after)) d1"
  have b1: "db_budgets ?d1 = db_budgets d" using ps(5) lo(4) by simp
  show ?thesis
  proof (cases "terminalOutcome (s_status after) = []")
    case True
    then have "d2 = ?d1" using settle by (simp add: settle_outcome_def)
    then show ?thesis using q bid b1 True by (intro exI [of _ req] exI [of _ bid] exI [of _ ?d1]) (simp add: d')
  next
    case False
    then obtain d3 where "applyBudgetCommitment i (terminalOutcome (s_status after)) (rq_budget_committed req)
        (rq_pre_released req) bid (rq_total req) ?d1 = Inr d3" and "db_budgets d2 = db_budgets d3"
      using settle by (auto simp: settle_outcome_def Let_def)
    then show ?thesis
      using q bid b1 False by (intro exI [of _ req] exI [of _ bid] exI [of _ ?d1] exI [of _ d3]) (simp add: d')
  qed
qed

lemma applyDeskTransition_budgets_ok [budget_safe]:
  assumes "applyDeskTransition cf e eng i openedBy (engine_op now op) d = Inr (after, d')" and "desk_ok d" and "budgets_ok d"
  shows "budgets_ok d'"
  using transition_budgets [OF assms(1,2)] assms(3) by (auto split: if_splits dest: applyBudgetCommitment_ok)

lemma set_recipients:
  "set (recipients_loop dk ex seen rows) =
     {email. email \<notin> set seen \<and> (\<exists>grp. (email, grp) \<in> set rows \<and> Matches dk grp) \<and>
        \<not> equal_fold (trim_space email) (trim_space ex)}"
  by (induction dk ex seen rows rule: recipients_loop.induct) auto

lemma distinct_recipients: "distinct (recipients_loop dk ex seen rows)"
  by (induction dk ex seen rows rule: recipients_loop.induct) (auto simp: set_recipients)

lemma queue_loop_items:
  assumes "\<And>i s r. (i, s, r) \<in> set rows \<Longrightarrow> Actionable eng (state_of_row i s d) a \<Longrightarrow>
    \<exists>p. Progress eng (state_of_row i s d) = Inr p"
  shows "\<exists>items. queue_loop eng a d rows = Inr items \<and>
    map qi_requisition_id items = map fst (filter (\<lambda>(i, s, r). Actionable eng (state_of_row i s d) a) rows)"
  using assms
proof (induction rows)
  case Nil
  then show ?case by simp
next
  case (Cons x rows)
  obtain i s r where x: "x = (i, s, r)" by (cases x)
  have "\<exists>items. queue_loop eng a d rows = Inr items \<and>
      map qi_requisition_id items = map fst (filter (\<lambda>(i, s, r). Actionable eng (state_of_row i s d) a) rows)"
    by (rule Cons.IH, rule Cons.prems, rule list.set_intros(2), assumption, assumption)
  moreover have "\<exists>p. Progress eng (state_of_row i s d) = Inr p" if "Actionable eng (state_of_row i s d) a"
    using Cons.prems [of i s r] that x by simp
  ultimately show ?case by (auto simp: x)
qed

lemma Actionable_Progress: "Actionable eng s a \<Longrightarrow> \<exists>p. Progress eng s = Inr p"
  by (auto simp: Actionable_iff WaitingOn_Some chainFor_Inr intro: Progress_total)

lemma set_queue_rows:
  "(i, s, r) \<in> set (queue_rows eng a d) \<longleftrightarrow>
     (i, s) \<in> set (db_chain_state d) \<and> tbl_get (db_requisitions d) i = Some r \<and> cs_status s = StatusInFlight \<and>
     cs_chain_key s \<in> set (queue_chains eng a) \<and> cs_desk s \<in> set (queue_desks eng a)"
  by (auto simp: queue_rows_def split: option.splits if_splits)

lemma wf_Get_order:
  "wf_registry r \<Longrightarrow> registry_DesksForActor r a k = Some ks \<Longrightarrow> k \<in> set (reg_order r)"
proof -
  have "registry_desks_loop f r ks' k = Some ks \<Longrightarrow> k \<in> set ks'" for f ks'
    by (induction ks') (auto split: option.splits if_splits)
  then show "registry_DesksForActor r a k = Some ks \<Longrightarrow> k \<in> set (reg_order r)"
    by (simp add: registry_DesksForActor_def)
qed

text \<open>
  The SQL filter of the queue loses nothing: with trimmed chain keys and a desk stored for every request
  in flight, whatever the engine calls actionable passes it.
\<close>

definition queue_keys_ok :: "db \<Rightarrow> bool" where
  "queue_keys_ok d \<longleftrightarrow> distinct (map fst (db_chain_state d)) \<and>
     (\<forall>(i, s) \<in> set (db_chain_state d). trim_space (cs_chain_key s) = cs_chain_key s \<and>
        (cs_status s = StatusInFlight \<longrightarrow> cs_desk s \<noteq> ''''))"

lemma actionable_passes_filter:
  assumes "wf_registry eng" and "queue_keys_ok d" and "(i, s) \<in> set (db_chain_state d)"
    and "tbl_get (db_requisitions d) i = Some r" and act: "Actionable eng (state_of_row i s d) a"
  shows "(i, s, r) \<in> set (queue_rows eng a d)"
proof -
  have fl: "cs_status s = StatusInFlight"
    using act by (auto simp: Actionable_iff WaitingOn_Some state_of_row_def)
  then have "trim_space (cs_chain_key s) = cs_chain_key s" "cs_desk s \<noteq> ''''"
    using assms(2,3) by (auto simp: queue_keys_ok_def)
  then obtain ks where ks: "registry_DesksForActor eng a (cs_chain_key s) = Some ks" "cs_desk s \<in> set ks"
    using Actionable_in_queue [OF assms(1) act] by (auto simp: state_of_row_def)
  then have "cs_chain_key s \<in> set (queue_chains eng a)"
    using wf_Get_order [OF assms(1)] by (auto simp: queue_chains_def)
  moreover from this have "cs_desk s \<in> set (queue_desks eng a)"
    using ks by (auto simp: queue_desks_def intro!: bexI [of _ "cs_chain_key s"])
  ultimately show ?thesis using assms(3,4) fl by (simp add: set_queue_rows)
qed

lemma in_table_get: "distinct (map fst t) \<Longrightarrow> (i, s) \<in> set t \<longleftrightarrow> tbl_get t i = Some s"
  by (auto simp: tbl_get_def)

lemma DeskQueue_exact:
  assumes "wf_registry eng" and "queue_keys_ok d"
  shows "\<exists>items. DeskQueue eng a d = Inr items \<and>
    set (map qi_requisition_id items) =
      {i. \<exists>s. loadDeskStateTx i d = Inr s \<and> tbl_get (db_requisitions d) i \<noteq> None \<and> Actionable eng s a}"
proof -
  let ?act = "\<lambda>(i, s, r). Actionable eng (state_of_row i s d) a"
  have dist: "distinct (map fst (db_chain_state d))" using assms(2) by (simp add: queue_keys_ok_def)
  have mem: "fst ` set (filter ?act (queue_rows eng a d)) =
      {i. \<exists>s. loadDeskStateTx i d = Inr s \<and> tbl_get (db_requisitions d) i \<noteq> None \<and> Actionable eng s a}"
  proof (intro set_eqI iffI)
    fix i
    assume "i \<in> fst ` set (filter ?act (queue_rows eng a d))"
    then obtain s r where "(i, s, r) \<in> set (queue_rows eng a d)" "Actionable eng (state_of_row i s d) a" by auto
    then show "i \<in> {i. \<exists>s. loadDeskStateTx i d = Inr s \<and> tbl_get (db_requisitions d) i \<noteq> None \<and> Actionable eng s a}"
      by (auto simp: set_queue_rows in_table_get [OF dist] load_state_of_row)
  next
    fix i
    assume "i \<in> {i. \<exists>s. loadDeskStateTx i d = Inr s \<and> tbl_get (db_requisitions d) i \<noteq> None \<and> Actionable eng s a}"
    then obtain s r where s: "tbl_get (db_chain_state d) i = Some s" and r: "tbl_get (db_requisitions d) i = Some r"
      and act: "Actionable eng (state_of_row i s d) a" by (auto simp: load_state_of_row)
    from s have "(i, s) \<in> set (db_chain_state d)" by (simp add: in_table_get [OF dist])
    then have "(i, s, r) \<in> set (queue_rows eng a d)" using actionable_passes_filter [OF assms] r act by blast
    with act show "i \<in> fst ` set (filter ?act (queue_rows eng a d))" by force
  qed
  obtain items where items: "queue_loop eng a d (queue_rows eng a d) = Inr items"
    "map qi_requisition_id items = map fst (filter ?act (queue_rows eng a d))"
    using queue_loop_items [of "queue_rows eng a d" eng d a] Actionable_Progress by blast
  show ?thesis
  proof (cases "queue_chains eng a = []")
    case True
    then have "x \<notin> set (queue_rows eng a d)" for x by (cases x) (simp add: set_queue_rows)
    then have "queue_rows eng a d = []" by (metis last_in_set)
    then have "{i. \<exists>s. loadDeskStateTx i d = Inr s \<and> tbl_get (db_requisitions d) i \<noteq> None \<and> Actionable eng s a} = {}"
      using mem by simp
    then show ?thesis using True by (simp add: DeskQueue_def)
  next
    case False
    have "set (map qi_requisition_id items) = fst ` set (filter ?act (queue_rows eng a d))"
      by (simp add: items(2))
    with False items(1) mem show ?thesis by (simp add: DeskQueue_def)
  qed
qed

text \<open>The conditions of the filter hold after any run from empty chain tables.\<close>

lemma run_queue_keys_ok:
  assumes "wf_registry eng" and "db_chain_state d0 = []" and "db_steps d0 = []" and run: "(desk_step eng ok)\<^sup>*\<^sup>* d0 d"
  shows "queue_keys_ok d"
proof -
  have reach: "desk_reachable eng ok d"
    using desk_run_reachable [OF run] fresh_reachable [OF assms(2,3)] by blast
  have rows: "chain_rows_ok (db_chain_state d)"
    using desk_run_rows [OF run] by (simp add: assms(2) chain_rows_ok_def)
  have "cs_desk r \<noteq> ''''" if mem: "(i, r) \<in> set (db_chain_state d)" and fl: "cs_status r = StatusInFlight" for i r
  proof -
    have "loadDeskStateTx i d = Inr (state_of_row i r d)"
      using mem rows by (auto simp: load_state_of_row chain_rows_ok_def in_table_get)
    then have "chain_reach eng ok (state_of_row i r d)" using reach by (simp add: desk_reachable_def)
    then obtain c where wc: "wf_chain c" and cur: "cursor_ok c (state_of_row i r d)"
      using reach_cursor assms(1) by blast
    let ?eng = "Engaged c (state_Options (state_of_row i r d))" and ?j = "nat (cs_stage_index r)"
    have "?j < length ?eng" and desk: "cs_desk r = d_key (?eng ! ?j)"
      using cur fl by (auto simp: cursor_ok_def state_of_row_def)
    then have "?eng ! ?j \<in> set (c_desks c)" using Engaged_subset nth_mem by blast
    then show ?thesis using wc desk by (auto simp: wf_chain_def wf_desk_def)
  qed
  with rows show ?thesis by (auto simp: queue_keys_ok_def chain_rows_ok_def)
qed

section \<open>Editing the matrix\<close>

text \<open>The loader, per chain: the desks in row order, the first stated terminal, the flag of any row.\<close>

lemma load_loop_desks:
  "la_by_chain (load_loop rs acc) k =
     (if filter (\<lambda>r. dr_chain_key r = k) rs = [] then la_by_chain acc k
      else Some ((case la_by_chain acc k of None \<Rightarrow> [] | Some ds \<Rightarrow> ds) @
             map desk_of_row (filter (\<lambda>r. dr_chain_key r = k) rs)))"
  by (induction rs arbitrary: acc) (auto simp: Let_def split: option.splits)

lemma load_loop_terminal:
  "la_terminal (load_loop rs acc) k =
     (if la_terminal acc k \<noteq> '''' then la_terminal acc k else first_terminal (filter (\<lambda>r. dr_chain_key r = k) rs))"
  by (induction rs arbitrary: acc) (auto simp: Let_def)

lemma load_loop_repeat:
  "la_no_repeat (load_loop rs acc) k \<longleftrightarrow>
     la_no_repeat acc k \<or> (\<exists>r \<in> set rs. dr_chain_key r = k \<and> dr_no_repeat_approver r)"
  by (induction rs arbitrary: acc) (auto simp: Let_def)

lemma load_loop_order:
  assumes "\<And>k. k \<in> set (la_order acc) \<longleftrightarrow> la_by_chain acc k \<noteq> None"
  shows "set (la_order (load_loop rs acc)) = set (la_order acc) \<union> dr_chain_key ` set rs"
  using assms
proof (induction rs arbitrary: acc)
  case Nil
  then show ?case by simp
next
  case (Cons r rs)
  let ?k = "dr_chain_key r"
  let ?acc = "\<lparr>la_by_chain = (la_by_chain acc)(?k \<mapsto> (case la_by_chain acc ?k of None \<Rightarrow> [] | Some ds \<Rightarrow> ds) @ [desk_of_row r]),
       la_no_repeat = (if dr_no_repeat_approver r then (la_no_repeat acc)(?k := True) else la_no_repeat acc),
       la_terminal = (if la_terminal acc ?k = '''' then (la_terminal acc)(?k := trim_space (dr_terminal_label r))
                      else la_terminal acc),
       la_order = (if la_by_chain acc ?k = None then la_order acc @ [?k] else la_order acc)\<rparr>"
  have "set (la_order (load_loop rs ?acc)) = set (la_order ?acc) \<union> dr_chain_key ` set rs"
    by (rule Cons.IH) (use Cons.prems in auto)
  then show ?case using Cons.prems [of ?k] by (auto simp: Let_def)
qed

lemma replace_rows_desks: "map desk_of_row (replace_rows key t i rs) = map trimmed_desk rs"
  by (induction rs arbitrary: i) (auto simp: desk_of_row_def trimmed_desk_def)

lemma replace_rows_repeat: "map dr_no_repeat_approver (replace_rows key t i rs) = map dr_no_repeat_approver rs"
  by (induction rs arbitrary: i) auto

lemma replace_rows_fields:
  "r \<in> set (replace_rows key t i rs) \<Longrightarrow> dr_chain_key r = key \<and> dr_terminal_label r = t \<and> i < dr_position r"
  by (induction rs arbitrary: i) (auto, force)

lemma replace_rows_sorted: "sorted (map (\<lambda>r. (dr_chain_key r, dr_position r)) (replace_rows key t i rs))"
  by (induction rs arbitrary: i) (auto dest!: replace_rows_fields)

lemma first_terminal_trimmed: "trim_space (first_terminal rs) = first_terminal rs"
  by (induction rs) (auto simp: Let_def)

lemma first_terminal_const:
  "\<forall>r \<in> set rs. dr_terminal_label r = t \<Longrightarrow> rs \<noteq> [] \<Longrightarrow> first_terminal rs = trim_space t"
  by (induction rs) (auto simp: Let_def, metis first_terminal.simps(1) list.exhaust)

text \<open>What the loader reads back for a chain that was just rewritten.\<close>

lemma loaded_after_replace:
  assumes rows: "db_desks d' = filter (\<lambda>r. dr_chain_key r \<noteq> key) (db_desks d) @ replace_rows key t 0 desks"
    and ne: "desks \<noteq> []" and t: "trim_space t = t"
    and c: "c \<in> set (loadDeskChains d')" and k: "c_key c = key"
  shows "c = mk_chain key (map trimmed_desk desks) t (list_ex dr_no_repeat_approver desks)"
proof -
  let ?rows = "ListDeskMatrix d'" and ?new = "replace_rows key t 0 desks"
  have none: "filter (\<lambda>r. dr_chain_key r = key) (filter (\<lambda>r. dr_chain_key r \<noteq> key) (db_desks d)) = []"
    by (simp add: filter_empty_conv)
  have all: "filter (\<lambda>r. dr_chain_key r = key) ?new = ?new"
    by (rule filter_True) (auto dest: replace_rows_fields)
  have f: "filter (\<lambda>r. dr_chain_key r = key) ?rows = ?new"
    by (simp add: ListDeskMatrix_def rows filter_sort all none del: filter_filter)
      (rule sort_key_id_if_sorted [OF replace_rows_sorted])
  have nn: "?new \<noteq> []" using ne by (cases desks) auto
  have rep: "(\<exists>r \<in> set ?rows. dr_chain_key r = key \<and> dr_no_repeat_approver r) \<longleftrightarrow> list_ex dr_no_repeat_approver desks"
  proof -
    have "(\<exists>r \<in> set ?rows. dr_chain_key r = key \<and> dr_no_repeat_approver r) \<longleftrightarrow>
        True \<in> set (map dr_no_repeat_approver (filter (\<lambda>r. dr_chain_key r = key) ?rows))" by auto
    then show ?thesis unfolding f replace_rows_repeat by (auto simp: list_ex_iff)
  qed
  have "first_terminal ?new = t" using first_terminal_const [OF _ nn, of t] t replace_rows_fields by fastforce
  moreover define acc where "acc = load_loop ?rows
    \<lparr>la_by_chain = Map.empty, la_no_repeat = (\<lambda>_. False), la_terminal = (\<lambda>_. ''''), la_order = []\<rparr>"
  ultimately have "la_by_chain acc key = Some (map trimmed_desk desks)" "la_terminal acc key = t"
    "la_no_repeat acc key \<longleftrightarrow> list_ex dr_no_repeat_approver desks"
    using nn by (simp_all add: load_loop_desks load_loop_terminal load_loop_repeat f rep replace_rows_desks)
  moreover have "c = mk_chain key (case la_by_chain acc key of None \<Rightarrow> [] | Some ds \<Rightarrow> ds) (la_terminal acc key)
      (la_no_repeat acc key)"
    using c k unfolding loadDeskChains_def Let_def acc_def [symmetric] by (auto simp: mk_chain_def)
  ultimately show ?thesis by simp
qed

lemma ReplaceDeskChain_E:
  assumes "ReplaceDeskChain rx cache chainKey desks d = (Inr rows, d', cache')"
  obtains eng where "cache' = Some eng" and "desks \<noteq> []" and "\<not> blank chainKey"
    and "chain_status_in [StatusInFlight, StatusReturned] (trim_space chainKey) d = 0"
    and "db_desks d' = filter (\<lambda>r. dr_chain_key r \<noteq> trim_space chainKey) (db_desks d) @
      replace_rows (trim_space chainKey) (first_terminal desks) 0 desks"
    and "NewRegistry rx (loadDeskChains d') = Inr eng" and "rows = ListDeskMatrix d'"
    and "db_chain_state d' = db_chain_state d"
  using assms
  by (auto simp: ReplaceDeskChain_def Let_def ReloadDeskChains_def split: if_splits sum.splits)

lemma loaded_keys: "set (map c_key (loadDeskChains d)) = dr_chain_key ` set (db_desks d)"
proof -
  have "set (la_order (load_loop (ListDeskMatrix d) \<lparr>la_by_chain = Map.empty, la_no_repeat = (\<lambda>_. False),
      la_terminal = (\<lambda>_. ''''), la_order = []\<rparr>)) = dr_chain_key ` set (db_desks d)"
    by (subst load_loop_order) (auto simp: ListDeskMatrix_def)
  then show ?thesis by (auto simp: loadDeskChains_def Let_def mk_chain_def)
qed

lemma replaced_chain_loaded:
  assumes "ReplaceDeskChain rx cache chainKey desks d = (Inr rows, d', Some eng)"
  shows "\<exists>c. registry_Get eng chainKey = Some c \<and>
    compile rx (mk_chain (trim_space chainKey) (map trimmed_desk desks) (first_terminal desks)
      (list_ex dr_no_repeat_approver desks)) = Inr c"
proof -
  let ?k = "trim_space chainKey"
  obtain eng' where eng': "Some eng = Some eng'" and ne: "desks \<noteq> []" and nb: "\<not> blank chainKey"
    and "chain_status_in [StatusInFlight, StatusReturned] ?k d = 0"
    and rows: "db_desks d' = filter (\<lambda>r. dr_chain_key r \<noteq> ?k) (db_desks d) @
      replace_rows ?k (first_terminal desks) 0 desks"
    and reg: "NewRegistry rx (loadDeskChains d') = Inr eng'" and "rows = ListDeskMatrix d'"
    and "db_chain_state d' = db_chain_state d"
    by (rule ReplaceDeskChain_E [OF assms])
  have wf: "wf_registry eng" and ord: "reg_order eng = map c_key (loadDeskChains d')"
    using NewRegistry_wf_registry [OF reg] eng' by auto
  have "replace_rows ?k (first_terminal desks) 0 desks \<noteq> []" using ne by (cases desks) auto
  then obtain r where "r \<in> set (replace_rows ?k (first_terminal desks) 0 desks)" by (meson last_in_set)
  then have "?k \<in> dr_chain_key ` set (db_desks d')" using replace_rows_fields rows by force
  then have "?k \<in> set (reg_order eng)" unfolding ord loaded_keys .
  then have "?k \<in> dom (reg_chains eng)" using wf by (simp add: wf_registry_def)
  then obtain c where c: "reg_chains eng ?k = Some c" by blast
  have ck: "c_key c = ?k" using wf c by (simp add: wf_registry_def)
  from c obtain c0 where c0: "c0 \<in> set (loadDeskChains d')" "compile rx c0 = Inr c"
    using NewRegistry_compiled [OF reg] eng' by auto
  then have "c_key c0 = ?k" using ck by (auto simp: compile_def split: if_splits)
  with loaded_after_replace [OF rows ne first_terminal_trimmed c0(1)] c c0(2) show ?thesis
    by (auto simp: registry_Get_def)
qed

end
