(* ===== verification/Desk_Properties.thy ===== *)
theory Desk_Properties
  imports Desk_Chain
begin

text \<open>
  The properties of the persisted desk chain, with runs of the shipped requisition chain against a
  store holding one requisition and one budget.
\<close>


definition desk_db :: db where
  "desk_db = empty_db\<lparr>db_budgets := [(''b1'', sample_budget 9000000)],
     db_requisitions := [(''r1'', sample_requisition 6000000)]\<rparr>"

definition desk_engine :: registry where
  "desk_engine = shipped_registry requisition_chain"

definition submit_desk :: "db \<Rightarrow> state tx" where
  "submit_desk d = ApplyDeskTransitionSelfOpening sample_config sample_env desk_engine ''r1'' ''ann''
     (engine_op 1 (OpSubmit (staff ''ann'' ''staff''))) d"

definition sign_desk :: "string \<Rightarrow> string \<Rightarrow> db \<Rightarrow> state tx" where
  "sign_desk who role d = ApplyDeskTransition sample_config sample_env desk_engine ''r1''
     (engine_op 2 (OpAdvance (staff who role) '''')) d"

definition desk_db_at :: "(string \<times> string) list \<Rightarrow> db" where
  "desk_db_at signs = fold (\<lambda>(who, role) d. snd (projr (sign_desk who role d))) signs (snd (projr (submit_desk desk_db)))"

text \<open>
  C5. The persisted transition refines the engine: when applyDeskTransition commits, the stored
  chain state and history of the requisition load back as the state the rebase-then-act step of
  the engine computes from what was loaded (or from a freshly opened request), no other request
  changes, and the requisition carries the status of that state.
\<close>

theorem desk_transition_refines_engine:
  assumes "desk_ok d" and "applyDeskTransition cf e eng i openedBy (engine_op now op) d = Inr (after, d')"
  shows "\<exists>req req' before.
    tbl_get (db_requisitions d) i = Some req \<and>
    (loadDeskStateTx i d = Inr before \<or>
     loadDeskStateTx i d = Inl ErrNotFound \<and> openedBy \<noteq> '''' \<and> (\<exists>opt. before = New ChainRequisition openedBy opt)) \<and>
    chain_step eng now (rq_total req) op before = Inr after \<and>
    loadDeskStateTx i d' = Inr after \<and> (\<forall>j. j \<noteq> i \<longrightarrow> loadDeskStateTx j d' = loadDeskStateTx j d) \<and> desk_ok d' \<and>
    tbl_get (db_requisitions d') i = Some req' \<and> rq_status req' = requisitionStatusFor (s_status after)"
proof -
  note tp = transition_persists [OF assms(2,1)]
  obtain req before where req: "tbl_get (db_requisitions d) i = Some req"
    and step: "chain_step eng now (rq_total req) op before = Inr after"
    and b: "loadDeskStateTx i d = Inr before \<or> loadDeskStateTx i d = Inl ErrNotFound \<and> openedBy \<noteq> [] \<and>
      (\<exists>opt. before = New ChainRequisition openedBy opt)"
    using tp(4) by blast
  obtain req' where "tbl_get (db_requisitions d') i = Some req' \<and> rq_status req' = requisitionStatusFor (s_status after)"
    using tp(5) by blast
  then show ?thesis using req step b tp(1-3) by (intro exI [of _ req] exI [of _ req'] exI [of _ before]) auto
qed

lemma desk_db_ok: "desk_ok desk_db"
  by (simp add: desk_db_def desk_ok_def empty_db_def steps_of_def tbl_get_def)

theorem desk_transition_refines_engine_witness:
  "\<exists>after d'. submit_desk desk_db = Inr (after, d') \<and> loadDeskStateTx ''r1'' desk_db = Inl ErrNotFound \<and>
     loadDeskStateTx ''r1'' d' = Inr after \<and> s_desk after = ''pm'' \<and> desk_ok d'"
proof -
  have "is_ok (submit_desk desk_db)" by code_simp
  then obtain after d' where run: "submit_desk desk_db = Inr (after, d')" by (auto simp: is_ok_iff)
  have "s_desk (fst (projr (submit_desk desk_db))) = ''pm''" by code_simp
  then have pm: "s_desk after = ''pm''" by (simp add: run)
  have none: "loadDeskStateTx ''r1'' desk_db = Inl ErrNotFound"
    by (simp add: loadDeskStateTx_def desk_db_def empty_db_def tbl_get_def)
  have nb: "\<not> blank ''ann''" by code_simp
  have app: "applyDeskTransition sample_config sample_env desk_engine ''r1'' ''ann''
      (engine_op 1 (OpSubmit (staff ''ann'' ''staff''))) desk_db = Inr (after, d')"
    using run nb by (simp add: submit_desk_def ApplyDeskTransitionSelfOpening_def)
  show ?thesis using desk_transition_refines_engine [OF desk_db_ok app] run none pm by auto
qed

text \<open>
  C2. End to end on the database, under one published engine whose chains have amount bands that
  never decrease along the desks: starting from empty chain tables, after any sequence of
  committed desk operations, edits and deletions of requisitions and other writes that leave the
  chain tables alone, a stored approved request carries a recorded signature of every desk its
  amount engages, in chain order. (On the shipped material.procurement chain, whose bands do
  decrease, this fails after an amount edit; see the findings.)
\<close>

theorem stored_approval_has_every_signature:
  assumes "NewRegistry rx cs = Inr eng" and "\<forall>c \<in> set cs. ascending_bands c"
    and "db_chain_state d0 = []" and "db_steps d0 = []" and "(desk_step eng ok)\<^sup>*\<^sup>* d0 d"
    and "loadDeskStateTx i d = Inr s" and "s_status s = StatusApproved"
  shows "\<exists>c. registry_Get eng (s_chain_key s) = Some c \<and> signed_desks s = map d_key (Engaged c (state_Options s))"
proof -
  have "desk_reachable eng ok d"
    using desk_run_reachable [OF assms(5)] fresh_reachable [OF assms(3,4)] by blast
  then have "chain_reach eng ok s" using assms(6) by (simp add: desk_reachable_def)
  then obtain c where "registry_Get eng (s_chain_key s) = Some c" "walk_ok c s"
    using reach_walk_compiled [OF assms(1,2)] by blast
  then show ?thesis using assms(7) by (auto simp: walk_ok_def Let_def)
qed

lemma submit_desk_step:
  assumes "is_ok (submit_desk d)"
  shows "desk_step desk_engine (\<lambda>_. True) d (snd (projr (submit_desk d)))"
proof -
  obtain s d' where "submit_desk d = Inr (s, d')" using assms by (auto simp: is_ok_iff)
  then show ?thesis unfolding submit_desk_def by (auto intro: desk_step.self_opened)
qed

lemma sign_desk_step:
  assumes "is_ok (sign_desk who role d)"
  shows "desk_step desk_engine (\<lambda>_. True) d (snd (projr (sign_desk who role d)))"
proof -
  obtain s d' where "sign_desk who role d = Inr (s, d')" using assms by (auto simp: is_ok_iff)
  then show ?thesis unfolding sign_desk_def by (auto intro: desk_step.moved)
qed

lemma desk_run_oks:
  "is_ok (submit_desk desk_db)" "is_ok (sign_desk ''bob'' ''pm'' (desk_db_at []))"
  "is_ok (sign_desk ''cid'' ''accounts'' (desk_db_at [(''bob'', ''pm'')]))"
  "is_ok (sign_desk ''dee'' ''gm'' (desk_db_at [(''bob'', ''pm''), (''cid'', ''accounts'')]))"
  by code_simp+

theorem stored_approval_has_every_signature_witness:
  "\<exists>s c. loadDeskStateTx ''r1'' (desk_db_at [(''bob'', ''pm''), (''cid'', ''accounts''), (''dee'', ''gm'')]) = Inr s \<and>
     s_status s = StatusApproved \<and> signed_desks s = [''pm'', ''accounts'', ''gm''] \<and>
     registry_Get desk_engine (s_chain_key s) = Some c \<and> signed_desks s = map d_key (Engaged c (state_Options s))"
proof -
  let ?d = "desk_db_at [(''bob'', ''pm''), (''cid'', ''accounts''), (''dee'', ''gm'')]"
  note oks = desk_run_oks
  have run: "(desk_step desk_engine (\<lambda>_. True))\<^sup>*\<^sup>* desk_db ?d"
    using submit_desk_step [OF oks(1)] sign_desk_step [OF oks(2)] sign_desk_step [OF oks(3)] sign_desk_step [OF oks(4)]
    by (simp add: desk_db_at_def)
  have loaded: "is_ok (loadDeskStateTx ''r1'' ?d) \<and> s_status (projr (loadDeskStateTx ''r1'' ?d)) = StatusApproved \<and>
      signed_desks (projr (loadDeskStateTx ''r1'' ?d)) = [''pm'', ''accounts'', ''gm'']" by code_simp
  then obtain s where s: "loadDeskStateTx ''r1'' ?d = Inr s" by (auto simp: is_ok_iff)
  with loaded have st: "s_status s = StatusApproved" "signed_desks s = [''pm'', ''accounts'', ''gm'']" by simp_all
  have asc: "\<forall>c \<in> set [requisition_chain]. ascending_bands c" by code_simp
  have fresh: "db_chain_state desk_db = []" "db_steps desk_db = []" by (simp_all add: desk_db_def empty_db_def)
  show ?thesis
    using stored_approval_has_every_signature [OF registry_requisition asc fresh run [unfolded desk_engine_def] s st(1)] s st
    by (auto simp: desk_engine_def)
qed

text \<open>
  C18. A desk transition moves the requisition's envelope exactly when it approves: the approval
  reserves the total, and only while the reserved, committed and spent amounts stay within the
  allocation (to half a cent); any other transition of an unreserved requisition leaves the
  envelope as it was.
\<close>

theorem desk_approval_reserves_budget:
  assumes "desk_ok d" and "applyDeskTransition cf e eng i openedBy (engine_op now op) d = Inr (after, d')"
    and "tbl_get (db_requisitions d) i = Some req" and "rq_budget_id req = Some bid" and "\<not> blank bid"
    and "\<not> rq_budget_committed req" and "0 < rq_total req" and "tbl_get (db_budgets d) bid = Some b"
  shows "\<exists>b'. tbl_get (db_budgets d') bid = Some b' \<and>
    (if s_status after = StatusApproved
     then b_pre_committed b' = b_pre_committed b + rq_total req \<and>
       b_pre_committed b' + b_committed b' + b_spent b' \<le> b_allocated b' + 5 / 1000
     else b' = b)"
proof -
  obtain d1 d2 where b1: "db_budgets d1 = db_budgets d" and b2: "db_budgets d' = db_budgets d2"
    and eff: "if terminalOutcome (s_status after) = [] then db_budgets d2 = db_budgets d1
      else applyBudgetCommitment i (terminalOutcome (s_status after)) (rq_budget_committed req) (rq_pre_released req)
        bid (rq_total req) d1 = Inr d2"
    using transition_budgets [OF assms(2,1)] unfolding assms(3) option.inject by (metis assms(4) option.inject)
  have b: "tbl_get (db_budgets d1) bid = Some b" using b1 assms(8) by simp
  show ?thesis
  proof (cases "s_status after = StatusApproved")
    case True
    then have "applyBudgetCommitment i ''approved'' False (rq_pre_released req) bid (rq_total req) d1 = Inr d2"
      using eff assms(6) by simp
    from approval_within_headroom [OF this assms(5,7) b] True b2 show ?thesis by auto
  next
    case False
    then have "terminalOutcome (s_status after) \<in> {[], ''rejected''}" by (cases "s_status after") auto
    then have "db_budgets d2 = db_budgets d1"
      using eff assms(5-7) by (auto simp: applyBudgetCommitment_def split: if_splits)
    then show ?thesis using False b b2 by simp
  qed
qed

theorem desk_approval_reserves_budget_witness:
  "\<exists>after d' b'. sign_desk ''dee'' ''gm'' (desk_db_at [(''bob'', ''pm''), (''cid'', ''accounts'')]) = Inr (after, d') \<and>
     s_status after = StatusApproved \<and> tbl_get (db_budgets d') ''b1'' = Some b' \<and> b_pre_committed b' = 6000000"
proof -
  let ?d = "desk_db_at [(''bob'', ''pm''), (''cid'', ''accounts'')]"
  let ?x = "sign_desk ''dee'' ''gm'' ?d"
  note oks = desk_run_oks
  have "(desk_step desk_engine (\<lambda>_. True))\<^sup>*\<^sup>* desk_db ?d"
    using submit_desk_step [OF oks(1)] sign_desk_step [OF oks(2)] sign_desk_step [OF oks(3)]
    by (simp add: desk_db_at_def)
  then have ok: "desk_ok ?d"
    using desk_run_reachable fresh_reachable [of desk_db]
    by (fastforce simp: desk_reachable_def desk_db_def empty_db_def)
  from oks(4) obtain after d' where run: "?x = Inr (after, d')" by (auto simp: is_ok_iff)
  have "s_status (fst (projr ?x)) = StatusApproved" by code_simp
  then have st: "s_status after = StatusApproved" by (simp add: run)
  have "tbl_get (db_requisitions ?d) ''r1'' \<noteq> None \<and> tbl_get (db_budgets ?d) ''b1'' = Some (sample_budget 9000000) \<and>
      rq_budget_id (the (tbl_get (db_requisitions ?d) ''r1'')) = Some ''b1'' \<and>
      \<not> rq_budget_committed (the (tbl_get (db_requisitions ?d) ''r1'')) \<and>
      rq_total (the (tbl_get (db_requisitions ?d) ''r1'')) = 6000000" by code_simp
  then obtain req where q: "tbl_get (db_requisitions ?d) ''r1'' = Some req" "rq_budget_id req = Some ''b1''"
      "\<not> rq_budget_committed req" "rq_total req = 6000000" and b: "tbl_get (db_budgets ?d) ''b1'' = Some (sample_budget 9000000)"
    by auto
  have nb: "\<not> blank ''b1''" by code_simp
  have app: "applyDeskTransition sample_config sample_env desk_engine ''r1'' [] (engine_op 2 (OpAdvance (staff ''dee'' ''gm'') [])) ?d =
      Inr (after, d')"
    using run by (simp add: sign_desk_def ApplyDeskTransition_def)
  have pos: "0 < rq_total req" by (simp add: q(4))
  show ?thesis
    using desk_approval_reserves_budget [OF ok app q(1,2) nb q(3) pos b] run st q(4)
    by (auto simp: sample_budget_def)
qed

text \<open>
  C28. Under one published engine, after any run from empty chain tables of desk operations (a
  chain is opened under the trimmed key the handler passes), edits and deletions of requisitions
  and other writes that leave the chain tables alone: the queue, computed by an SQL prefilter on
  chains and desks followed by the engine check, does not fail and lists exactly the stored
  requests the engine reports actionable for the actor.
\<close>

theorem desk_queue_is_exact:
  assumes "NewRegistry rx cs = Inr eng"
    and "db_chain_state d0 = []" and "db_steps d0 = []" and "(desk_step eng ok)\<^sup>*\<^sup>* d0 d"
  shows "\<exists>items. DeskQueue eng a d = Inr items \<and>
    set (map qi_requisition_id items) =
      {i. \<exists>s. loadDeskStateTx i d = Inr s \<and> tbl_get (db_requisitions d) i \<noteq> None \<and> Actionable eng s a}"
proof -
  have "wf_registry eng" using NewRegistry_wf_registry [OF assms(1)] by simp
  then show ?thesis using DeskQueue_exact run_queue_keys_ok [OF _ assms(2-4)] by blast
qed

theorem desk_queue_is_exact_witness:
  "\<exists>items. DeskQueue desk_engine (staff ''bob'' ''pm'') (desk_db_at []) = Inr items \<and>
     set (map qi_requisition_id items) = {i. \<exists>s. loadDeskStateTx i (desk_db_at []) = Inr s \<and>
       tbl_get (db_requisitions (desk_db_at [])) i \<noteq> None \<and> Actionable desk_engine s (staff ''bob'' ''pm'')} \<and>
     map qi_requisition_id items = [''r1'']"
proof -
  let ?q = "DeskQueue desk_engine (staff ''bob'' ''pm'') (desk_db_at [])"
  have fresh: "db_chain_state desk_db = []" "db_steps desk_db = []" by (simp_all add: desk_db_def empty_db_def)
  have run: "(desk_step desk_engine (\<lambda>_. True))\<^sup>*\<^sup>* desk_db (desk_db_at [])"
    using submit_desk_step [OF desk_run_oks(1)] by (simp add: desk_db_at_def)
  have "is_ok ?q" "map qi_requisition_id (projr ?q) = [''r1'']" by code_simp+
  then show ?thesis
    using desk_queue_is_exact [OF registry_requisition fresh run [unfolded desk_engine_def], of "staff ''bob'' ''pm''"]
    by (auto simp: is_ok_iff desk_engine_def)
qed

text \<open>
  A notification goes, once each, to exactly the holders of a role the desk matches, and
  never to the requester.
\<close>

lemma recipients_hold_the_desk:
  assumes "DeskRecipients eng key dk requester holders = Inr emails"
  shows "\<exists>c desk. registry_Get eng key = Some c \<and> chain_Desk c dk = Some desk \<and> distinct emails \<and>
    set emails = {email. (\<exists>grp. (email, grp) \<in> set holders \<and> Matches desk grp) \<and>
      \<not> equal_fold (trim_space email) (trim_space requester)}"
  using assms by (auto simp: DeskRecipients_def set_recipients distinct_recipients split: option.splits)

text \<open>
  The HTTP status of every engine error after mapChainErr and mapProcurementErr: three
  refusals are 403, three are 400, two are 409, and every other one (the missing permission, the
  successive and the repeated approver and the changed amount among them) is 500.
\<close>

lemma chain_error_status:
  "mapProcurementErr (mapChainErr er) =
     (if er \<in> {ErrForbidden, ErrSelfApproval, ErrNotRequester} then 403
      else if er \<in> {ErrReasonRequired, ErrUnknownChain, ErrNoEngagedDesks} then 400
      else if er \<in> {ErrNotWaiting, ErrWrongDesk} then 409 else 500)"
  by (cases er) auto


definition matrix_row :: "string \<Rightarrow> string \<Rightarrow> amount \<Rightarrow> desk_row" where
  "matrix_row key desk m =
     \<lparr>dr_chain_key = key, dr_position = 9, dr_desk = desk, dr_label = desk, dr_role_patterns = [desk],
      dr_min_amount = m, dr_required_perm = '''', dr_action_label = '''', dr_status_label = '''',
      dr_scope_by = '''', dr_no_repeat_approver = True, dr_terminal_label = ''''\<rparr>"

text \<open>
  C27. Write then read of the desk matrix: after a successful ReplaceDeskChain the reloaded
  registry serves, under the chain's key, the compiled form of exactly the trimmed desks that
  were sent; no request of that chain was in flight or returned, and the rows of every other
  chain are untouched.
\<close>

theorem replaced_chain_is_published:
  assumes "ReplaceDeskChain rx cache chainKey desks d = (Inr rows, d', Some eng)"
  shows "(\<exists>c. registry_Get eng chainKey = Some c \<and>
      compile rx (mk_chain (trim_space chainKey) (map trimmed_desk desks) (first_terminal desks)
        (list_ex dr_no_repeat_approver desks)) = Inr c) \<and>
    (\<forall>(i, s) \<in> set (db_chain_state d'). cs_chain_key s = trim_space chainKey \<longrightarrow>
      cs_status s \<noteq> StatusInFlight \<and> cs_status s \<noteq> StatusReturned) \<and>
    (\<forall>r. dr_chain_key r \<noteq> trim_space chainKey \<longrightarrow> r \<in> set (db_desks d') \<longleftrightarrow> r \<in> set (db_desks d))"
proof (intro conjI)
  obtain eng' where "Some eng = Some eng'" and "desks \<noteq> []" and "\<not> blank chainKey"
    and quiet: "chain_status_in [StatusInFlight, StatusReturned] (trim_space chainKey) d = 0"
    and rows: "db_desks d' = filter (\<lambda>r. dr_chain_key r \<noteq> trim_space chainKey) (db_desks d) @
      replace_rows (trim_space chainKey) (first_terminal desks) 0 desks"
    and "NewRegistry rx (loadDeskChains d') = Inr eng'" and "rows = ListDeskMatrix d'"
    and cs: "db_chain_state d' = db_chain_state d"
    by (rule ReplaceDeskChain_E [OF assms])
  show "\<exists>c. registry_Get eng chainKey = Some c \<and>
      compile rx (mk_chain (trim_space chainKey) (map trimmed_desk desks) (first_terminal desks)
        (list_ex dr_no_repeat_approver desks)) = Inr c"
    using assms by (rule replaced_chain_loaded)
  show "\<forall>(i, s) \<in> set (db_chain_state d'). cs_chain_key s = trim_space chainKey \<longrightarrow>
      cs_status s \<noteq> StatusInFlight \<and> cs_status s \<noteq> StatusReturned"
    using quiet by (fastforce simp: cs chain_status_in_def filter_empty_conv)
  show "\<forall>r. dr_chain_key r \<noteq> trim_space chainKey \<longrightarrow> r \<in> set (db_desks d') \<longleftrightarrow> r \<in> set (db_desks d)"
    by (auto simp: rows dest: replace_rows_fields)
qed

definition replace_run :: "(repo_error + desk_row list) \<times> db \<times> registry option" where
  "replace_run = ReplaceDeskChain literal_rx None '' petty '' [matrix_row '''' '' cash '' 0, matrix_row '''' ''gm'' 500]
     (empty_db\<lparr>db_desks := [matrix_row ''requisition'' ''pm'' 0]\<rparr>)"

theorem replaced_chain_is_published_witness:
  "\<exists>rows d' eng c. replace_run = (Inr rows, d', Some eng) \<and> registry_Get eng '' petty '' = Some c \<and>
     map d_key (c_desks c) = [''cash'', ''gm'']"
proof -
  have "is_ok (fst replace_run)" "snd (snd replace_run) \<noteq> None" by code_simp+
  then obtain rows d' eng where run: "replace_run = (Inr rows, d', Some eng)"
    by (metis is_ok_iff option.exhaust prod.collapse)
  have "map_option (\<lambda>c. map d_key (c_desks c)) (registry_Get (the (snd (snd replace_run))) '' petty '') = Some [''cash'', ''gm'']"
    by code_simp
  then have keys: "map_option (\<lambda>c. map d_key (c_desks c)) (registry_Get eng '' petty '') = Some [''cash'', ''gm'']"
    by (simp add: run)
  obtain c where "registry_Get eng '' petty '' = Some c"
    using replaced_chain_is_published [OF run [unfolded replace_run_def]] by blast
  with keys have "registry_Get eng '' petty '' = Some c \<and> map d_key (c_desks c) = [''cash'', ''gm'']" by simp
  with run show ?thesis by (intro exI [of _ rows] exI [of _ d'] exI [of _ eng] exI [of _ c] conjI) simp_all
qed

end
