(* ===== verification/Intake.thy ===== *)
theory Intake
  imports Desk_Chain
begin

text \<open>
  Requisitions that arrive as events: project-management imports
  (\<^verbatim>\<open>internal/repo/pm_import.go\<close>), generic procurement requests
  (\<^verbatim>\<open>requisition_intake.go\<close>), and the record of handled events
  (\<^verbatim>\<open>processed_events.go\<close>, \<^verbatim>\<open>party_sync.go\<close>).

  \<^verbatim>\<open>ILIKE\<close> folds ASCII case and reads \<^verbatim>\<open>%\<close> and \<^verbatim>\<open>_\<close> in the
  department as wildcards and a backslash as the escape; a pattern ending in a lone backslash, which
  PostgreSQL refuses, matches nothing here. \<^verbatim>\<open>ORDER BY id\<close> is the byte order. The environment
  variable \<^verbatim>\<open>PROCUREMENT_DEFAULT_BUDGET_ID\<close> is the argument \<open>def\<close>. A unique violation
  of a generated key or document number is not distinguished from the origin index.
\<close>

section \<open>Departments and budgets\<close>

fun like :: "string \<Rightarrow> string \<Rightarrow> bool" where
  "like [] s \<longleftrightarrow> s = []"
| "like (c # p) s \<longleftrightarrow>
     (if c = CHR ''%'' then like p s \<or> (case s of [] \<Rightarrow> False | _ # s' \<Rightarrow> like (c # p) s')
      else if c = CHR ''_'' then (case s of [] \<Rightarrow> False | _ # s' \<Rightarrow> like p s')
      else if c = CHR 0x5C then
        (case p of [] \<Rightarrow> False | c' # p' \<Rightarrow> (case s of [] \<Rightarrow> False | x # s' \<Rightarrow> x = c' \<and> like p' s'))
      else (case s of [] \<Rightarrow> False | x # s' \<Rightarrow> x = c \<and> like p s'))"

definition ilike :: "string \<Rightarrow> string \<Rightarrow> bool" where
  "ilike s p = like (to_lower p) (to_lower s)"

definition dept_budgets :: "string \<Rightarrow> db \<Rightarrow> string list" where
  "dept_budgets dept d =
     sort (map fst (filter (\<lambda>(_, b). dept \<noteq> '''' \<and> ilike (b_dept b) dept) (db_budgets d)))"

definition ResolveBudgetForDept :: "string \<Rightarrow> string \<Rightarrow> db \<Rightarrow> repo_error + string" where
  "ResolveBudgetForDept def dept d =
     (case dept_budgets (trim_space dept) d of
        i # _ \<Rightarrow> Inr i
      | [] \<Rightarrow>
          (let df = trim_space def in
           if df \<noteq> '''' \<and> tbl_get (db_budgets d) df \<noteq> None then Inr df else Inl ErrNoBudget))"

section \<open>Imports\<close>

definition imported_row ::
  "env \<Rightarrow> string \<Rightarrow> string \<Rightarrow> string \<Rightarrow> string \<Rightarrow> string \<Rightarrow> amount \<Rightarrow> string \<Rightarrow> string option \<Rightarrow> requisition_row" where
  "imported_row e title dept requester priority st tot currency bid =
     \<lparr>rq_doc_no = Some (e_doc_no e), rq_title = title, rq_dept = dept, rq_requester = requester,
      rq_priority = (if priority = '''' then ''Medium'' else priority), rq_status = st, rq_created_at = e_today e,
      rq_needed_by = None, rq_total = tot, rq_currency = (if currency = '''' then ''USD'' else currency),
      rq_budget_id = bid, rq_notes = '''', rq_pm_requisition_id = None, rq_pm_workspace_owner = None,
      rq_payee = '''', rq_justification = '''', rq_budget_committed = False, rq_pre_released = False,
      rq_origin_system = '''', rq_origin_ref = ''''\<rparr>"

definition pm_imported :: "string \<Rightarrow> db \<Rightarrow> bool" where
  "pm_imported pmID d \<longleftrightarrow> tbl_ex (\<lambda>_ r. rq_pm_requisition_id r = Some pmID) (db_requisitions d)"

definition ImportPMRequisition ::
  "env \<Rightarrow> string \<Rightarrow> string \<Rightarrow> string \<Rightarrow> string \<Rightarrow> string \<Rightarrow> string \<Rightarrow> string \<Rightarrow> amount \<Rightarrow> string \<Rightarrow> string \<Rightarrow>
   string \<Rightarrow> string \<Rightarrow> string \<Rightarrow> db \<Rightarrow> (string \<times> requisition_row) tx" where
  "ImportPMRequisition e pmID pmOwner title dept requester priority st tot currency budgetID payee justification
     sourceEventID d =
     (let pmID = trim_space pmID in
      if pmID = '''' then Inl ErrPlain
      else if pm_imported pmID d then Inl ErrPMRequisitionExists
      else if blank budgetID then Inl ErrNoBudget
      else
        let st = (if st = '''' then ''Pending Approval'' else st);
            r = (imported_row e title dept requester priority st tot currency (Some budgetID))
                  \<lparr>rq_pm_requisition_id := Some pmID, rq_pm_workspace_owner := nullif_blank (trim_space pmOwner),
                   rq_payee := trim_space payee, rq_justification := trim_space justification\<rparr>
        in res_bind (fk (db_budgets d) budgetID) (\<lambda>_.
           res_bind (insert_row (e_id e) r (db_requisitions d)) (\<lambda>t.
           Inr ((e_id e, r),
             insert_audit ''pm-integration'' ''pm.import'' (e_id e)
               (''pmId='' @ pmID @ '' event='' @ sourceEventID @ '' total='' @ fmt_2f tot @ '' '' @ rq_currency r @
                '' budget='' @ budgetID) (d\<lparr>db_requisitions := t\<rparr>)))))"

definition GetPMLink :: "string \<Rightarrow> db \<Rightarrow> repo_error + string \<times> string" where
  "GetPMLink requisitionID d =
     (let i = trim_space requisitionID in
      if i = '''' then Inl ErrPlain
      else case tbl_get (db_requisitions d) i of
          None \<Rightarrow> Inl ErrNotFound
        | Some r \<Rightarrow> Inr (deref (rq_pm_requisition_id r), deref (rq_pm_workspace_owner r)))"

definition origin_is :: "string \<Rightarrow> string \<Rightarrow> requisition_row \<Rightarrow> bool" where
  "origin_is sys ref r \<longleftrightarrow> rq_origin_system r = sys \<and> rq_origin_ref r = ref"

definition ImportProcurementRequest ::
  "env \<Rightarrow> string \<Rightarrow> string \<Rightarrow> string \<Rightarrow> string \<Rightarrow> string \<Rightarrow> string \<Rightarrow> amount \<Rightarrow> string \<Rightarrow> string \<Rightarrow> string \<Rightarrow>
   string \<Rightarrow> db \<Rightarrow> (string \<times> requisition_row) tx" where
  "ImportProcurementRequest e originSystem originRef title dept requester priority tot currency budgetID justification
     sourceEventID d =
     (let sys = trim_space originSystem; ref = trim_space originRef; title = trim_space title in
      if sys = '''' \<or> ref = '''' then Inl ErrInvalidArgument
      else if title = '''' then Inl ErrInvalidArgument
      else if tbl_ex (\<lambda>_. origin_is sys ref) (db_requisitions d) then Inl ErrProcurementRequestExists
      else
        let bid = nullif_blank (trim_space budgetID);
            r = (imported_row e title (trim_space dept) (trim_space requester) priority ''Pending Approval'' tot currency bid)
                  \<lparr>rq_justification := trim_space justification, rq_origin_system := sys, rq_origin_ref := ref\<rparr>
        in res_bind (fk_opt (db_budgets d) bid) (\<lambda>_.
           case insert_row (e_id e) r (db_requisitions d) of
             Inl _ \<Rightarrow> Inl ErrProcurementRequestExists
           | Inr t \<Rightarrow>
               Inr ((e_id e, r),
                 insert_audit sys ''procurement.request.import'' (e_id e)
                   (''origin='' @ sys @ '' ref='' @ ref @ '' event='' @ sourceEventID @ '' total='' @ fmt_2f tot @
                    '' '' @ rq_currency r) (d\<lparr>db_requisitions := t\<rparr>))))"

definition GetRequisitionByOrigin :: "string \<Rightarrow> string \<Rightarrow> db \<Rightarrow> repo_error + string \<times> requisition_row" where
  "GetRequisitionByOrigin originSystem originRef d =
     (let sys = trim_space originSystem; ref = trim_space originRef in
      if sys = '''' \<or> ref = '''' then Inl ErrInvalidArgument
      else case find (\<lambda>(_, r). origin_is sys ref r) (db_requisitions d) of
          None \<Rightarrow> Inl ErrNotFound | Some x \<Rightarrow> Inr x)"

section \<open>Handled events\<close>

definition IsEventProcessed :: "string \<Rightarrow> db \<Rightarrow> bool" where
  "IsEventProcessed eventID d = (if eventID = '''' then False else eventID \<in> set (db_processed d))"

definition MarkEventProcessed :: "string \<Rightarrow> db \<Rightarrow> db" where
  "MarkEventProcessed eventID d =
     (if eventID = '''' \<or> eventID \<in> set (db_processed d) then d
      else d\<lparr>db_processed := db_processed d @ [eventID]\<rparr>)"

definition MarkKafkaEventProcessed :: "string \<Rightarrow> string \<Rightarrow> db \<Rightarrow> bool \<times> db" where
  "MarkKafkaEventProcessed eventID topic d =
     (if eventID = '''' then (True, d)
      else if eventID \<in> fst ` set (db_kafka_dedupe d) then (False, d)
      else (True, d\<lparr>db_kafka_dedupe := db_kafka_dedupe d @ [(eventID, topic)]\<rparr>))"

end
