(* ===== verification/Purchasing.thy ===== *)
theory Purchasing
  imports Requisitions "HOL-Library.List_Lexorder" "HOL-Library.Char_ord" "HOL-Library.Product_Lexorder"
begin

text \<open>
  Purchase orders and requests for quotation (\<^verbatim>\<open>internal/repo/procurement.go\<close>,
  \<^verbatim>\<open>procurement_update_delete_more.go\<close>, \<^verbatim>\<open>rfq_quotes.go\<close> and
  \<^verbatim>\<open>supplierSuspended\<close> of \<^verbatim>\<open>vendor_quality.go\<close>).

  An order line of a request is \<open>order_line\<close>; a stored line carries the running received quantity,
  which an insert starts at the column's default 0. A \<^verbatim>\<open>time.Time\<close> of a quote orders before its
  key in \<^verbatim>\<open>ORDER BY created_at DESC, id DESC\<close>. \<^verbatim>\<open>grns.po_id\<close> and
  \<^verbatim>\<open>invoices.po_id\<close> carry no foreign key, so only the order's own lines go with it.
\<close>

section \<open>Orders\<close>

record order_line =
  ol_item_id :: string
  ol_qty :: amount
  ol_price :: amount

definition poInitialStatus :: "config \<Rightarrow> amount \<Rightarrow> string" where
  "poInitialStatus cf tot =
     (if cf_approval_threshold cf > 0 \<and> tot < cf_approval_threshold cf then ''Approved'' else ''Pending Approval'')"

definition supplierSuspended :: "string \<Rightarrow> db \<Rightarrow> bool" where
  "supplierSuspended vendorID d =
     (case tbl_get (db_vendors d) (trim_space vendorID) of
        None \<Rightarrow> False | Some v \<Rightarrow> vd_quality_status v = ''suspended'')"

text \<open>The validating sum over the requested lines; the two callers differ in what they reject and how.\<close>

fun lines_total :: "(order_line \<Rightarrow> bool) \<Rightarrow> repo_error \<Rightarrow> order_line list \<Rightarrow> amount \<Rightarrow> repo_error + amount" where
  "lines_total bad er [] acc = Inr acc"
| "lines_total bad er (l # ls) acc =
     (if bad l then Inl er else lines_total bad er ls (acc + ol_qty l * ol_price l))"

fun insert_po_lines :: "string \<Rightarrow> order_line list \<Rightarrow> db \<Rightarrow> repo_error + db" where
  "insert_po_lines poID [] d = Inr d"
| "insert_po_lines poID (l # ls) d =
     res_bind (uuid_param (ol_item_id l)) (\<lambda>item.
     res_bind (fk (db_items d) item) (\<lambda>_.
     insert_po_lines poID ls
       (d\<lparr>db_po_lines := db_po_lines d @
           [\<lparr>pl_po_id = poID, pl_item_id = item, pl_qty = ol_qty l, pl_unit_price = ol_price l,
             pl_received_qty = 0\<rparr>]\<rparr>)))"

definition bump_open_pos :: "string \<Rightarrow> db \<Rightarrow> db" where
  "bump_open_pos v d = d\<lparr>db_vendors := tbl_upd v (\<lambda>r. r\<lparr>vd_open_pos := vd_open_pos r + 1\<rparr>) (db_vendors d)\<rparr>"

definition drop_open_pos :: "string \<Rightarrow> db \<Rightarrow> db" where
  "drop_open_pos v d =
     d\<lparr>db_vendors := tbl_upd v (\<lambda>r. r\<lparr>vd_open_pos := max (vd_open_pos r - 1) 0\<rparr>) (db_vendors d)\<rparr>"

definition mark_ordered :: "string \<Rightarrow> db \<Rightarrow> db" where
  "mark_ordered rid d =
     (if rid = '''' then d
      else d\<lparr>db_requisitions := tbl_upd rid (\<lambda>r. r\<lparr>rq_status := ''Ordered''\<rparr>) (db_requisitions d)\<rparr>)"

text \<open>The row both \<^verbatim>\<open>INSERT INTO purchase_orders\<close> statements write, with the columns' defaults.\<close>

definition new_po ::
  "config \<Rightarrow> env \<Rightarrow> string \<Rightarrow> string \<Rightarrow> amount \<Rightarrow> string \<Rightarrow> int option \<Rightarrow> string option \<Rightarrow> string option \<Rightarrow>
   string \<Rightarrow> po_row" where
  "new_po cf e vendorID title tot currency expectedDate budgetID reqID auditUser =
     \<lparr>po_doc_no = Some (e_doc_no e), po_vendor_id = vendorID, po_title = title, po_total = tot,
      po_currency = currency, po_status = poInitialStatus cf tot, po_payment_status = ''Not Issued'',
      po_created_at = e_today e, po_expected_date = expectedDate, po_budget_id = budgetID,
      po_requisition_id = reqID, po_created_by = auditUser, po_budget_committed = False,
      po_spent_recognized = 0\<rparr>"

definition CreatePurchaseOrder ::
  "config \<Rightarrow> env \<Rightarrow> string \<Rightarrow> string \<Rightarrow> string \<Rightarrow> string \<Rightarrow> string \<Rightarrow> int option \<Rightarrow> order_line list \<Rightarrow> string \<Rightarrow>
   db \<Rightarrow> (string \<times> po_row) tx" where
  "CreatePurchaseOrder cf e vendorID title currency budgetID requisitionID expectedDate lines auditUser d =
     (if lines = [] then Inl ErrPlain
      else
        let currency = (if currency = '''' then ''USD'' else currency);
            rid = trim_space requisitionID
        in res_bind (lines_total (\<lambda>l. ol_qty l \<le> 0 \<or> ol_price l < 0) ErrPlain lines 0) (\<lambda>tot.
           if supplierSuspended vendorID d then Inl ErrSupplierSuspended
           else
             res_bind (uuid_ref vendorID) (\<lambda>vid.
             let r = new_po cf e vid title tot currency expectedDate (Some budgetID) (nullif_blank rid) auditUser
             in res_bind (uuid_param budgetID) (\<lambda>_.
                res_bind (fk (db_vendors d) vid) (\<lambda>_.
                res_bind (fk (db_budgets d) budgetID) (\<lambda>_.
                res_bind (fk_opt (db_requisitions d) (nullif_blank rid)) (\<lambda>_.
                res_bind (insert_row (e_id e) r (db_purchase_orders d)) (\<lambda>t.
                res_bind (insert_po_lines (e_id e) lines (mark_ordered rid (d\<lparr>db_purchase_orders := t\<rparr>))) (\<lambda>d1.
                res_bind (applyPOEncumbrance (e_id e) budgetID requisitionID tot
                   (insert_audit (audit_user auditUser) ''create'' (e_id e)
                      (''vendor='' @ vendorID @ '' lines='' @ fmt_nat (length lines) @ '' total='' @ fmt_2f tot @
                       '' '' @ currency) (bump_open_pos vid d1))) (\<lambda>d2.
                Inr ((e_id e, r\<lparr>po_vendor_id := vendorID\<rparr>), d2)))))))))))"

text \<open>The part of \<^verbatim>\<open>UpdatePurchaseOrder\<close> that keeps the firm encumbrance in step with the edit.\<close>

definition sync_encumbrance ::
  "string \<Rightarrow> string \<Rightarrow> po_row \<Rightarrow> amount option \<Rightarrow> string option \<Rightarrow> db \<Rightarrow> repo_error + db" where
  "sync_encumbrance i poBudgetID cur newTot st d =
     (if \<not> po_budget_committed cur \<or> blank poBudgetID then Inr d
      else
        let ls = to_lower (case st of None \<Rightarrow> po_status cur | Some s \<Rightarrow> trim_space s) in
        if ls = ''rejected'' \<or> ls = ''cancelled'' then
          Inr ((releasePOEncumbrance poBudgetID (po_total cur) (po_spent_recognized cur) d)
                 \<lparr>db_purchase_orders := tbl_upd i (\<lambda>p. p\<lparr>po_budget_committed := False\<rparr>) (db_purchase_orders d)\<rparr>)
        else case newTot of
            None \<Rightarrow> Inr d
          | Some t \<Rightarrow>
              if t = po_total cur then Inr d
              else if t < po_spent_recognized cur - 5 / 1000 then Inl ErrInvalidArgument
              else let delta = t - po_total cur in
                if delta > 0 \<and>
                   (case tbl_get (db_budgets d) poBudgetID of
                      None \<Rightarrow> False
                    | Some b \<Rightarrow> b_committed b + delta + b_spent b - b_allocated b > 5 / 1000)
                then Inl ErrInvalidArgument
                else Inr (d\<lparr>db_budgets := tbl_upd poBudgetID (adjust_committed delta) (db_budgets d)\<rparr>))"

definition replace_po_lines :: "string \<Rightarrow> order_line list option \<Rightarrow> db \<Rightarrow> repo_error + amount option \<times> db" where
  "replace_po_lines i lines d =
     (case lines of
        None \<Rightarrow> Inr (None, d)
      | Some ls \<Rightarrow>
          res_bind (lines_total (\<lambda>l. ol_qty l \<le> 0 \<or> ol_price l < 0 \<or> blank (ol_item_id l)) ErrInvalidArgument ls 0)
            (\<lambda>tot.
          res_bind (insert_po_lines i (map (\<lambda>l. l\<lparr>ol_item_id := trim_space (ol_item_id l)\<rparr>) ls)
                     (d\<lparr>db_po_lines := filter (\<lambda>l. pl_po_id l \<noteq> i) (db_po_lines d)\<rparr>)) (\<lambda>d1.
          Inr (Some tot, d1))))"

definition move_vendor :: "string \<Rightarrow> string \<Rightarrow> db \<Rightarrow> repo_error + db" where
  "move_vendor cur new d =
     (if new = cur then Inr d
      else if supplierSuspended new d then Inl ErrSupplierSuspended
      else res_bind (uuid_ref new) (\<lambda>vid. Inr (bump_open_pos vid (drop_open_pos cur d))))"

text \<open>The \<^verbatim>\<open>SET\<close> list of the order's \<^verbatim>\<open>UPDATE\<close>.\<close>

definition po_edit ::
  "string option \<Rightarrow> string option \<Rightarrow> amount option \<Rightarrow> string option \<Rightarrow> string option \<Rightarrow> int option option \<Rightarrow>
   string option \<Rightarrow> string option \<Rightarrow> po_row \<Rightarrow> po_row" where
  "po_edit vendorID title newTot currency st expectedDate budgetID requisitionID p =
     p\<lparr>po_vendor_id := coalesce vendorID (po_vendor_id p), po_title := coalesce title (po_title p),
       po_total := coalesce newTot (po_total p), po_currency := coalesce currency (po_currency p),
       po_status := coalesce st (po_status p), po_expected_date := coalesce expectedDate (po_expected_date p),
       po_budget_id := (case budgetID of None \<Rightarrow> po_budget_id p | Some b \<Rightarrow> Some b),
       po_requisition_id := (case requisitionID of None \<Rightarrow> po_requisition_id p
                             | Some s \<Rightarrow> nullif_blank (trim_space s))\<rparr>"

definition UpdatePurchaseOrder ::
  "string \<Rightarrow> string option \<Rightarrow> string option \<Rightarrow> string option \<Rightarrow> string option \<Rightarrow> int option option \<Rightarrow>
   string option \<Rightarrow> order_line list option \<Rightarrow> string option \<Rightarrow> string \<Rightarrow> db \<Rightarrow> (po_row \<times> po_line_row list) tx" where
  "UpdatePurchaseOrder i vendorID title currency st expectedDate budgetID lines requisitionID auditUser d =
     (let i = trim_space i;
          absent_or_filled = (\<lambda>x. case x of None \<Rightarrow> True | Some s \<Rightarrow> \<not> blank s) in
      if i = '''' \<or> \<not> absent_or_filled vendorID \<or> \<not> absent_or_filled title \<or> \<not> absent_or_filled budgetID \<or>
         lines = Some [] then Inl ErrInvalidArgument
      else case tbl_get (db_purchase_orders d) i of
          None \<Rightarrow> Inl ErrNotFound
        | Some cur \<Rightarrow>
            if (case st of None \<Rightarrow> False | Some s \<Rightarrow> equal_fold (trim_space s) ''approved'') \<and>
               sameActor_repo auditUser (po_created_by cur) then Inl ErrForbiddenRepo
            else
              res_bind (replace_po_lines i lines d) (\<lambda>(newTot, d1).
              res_bind (uuid_ref_opt vendorID) (\<lambda>vid.
              res_bind (fk_opt (db_vendors d1) vid) (\<lambda>_.
              res_bind (fk_opt (db_budgets d1) budgetID) (\<lambda>_.
              res_bind (case requisitionID of None \<Rightarrow> Inr ()
                        | Some s \<Rightarrow> fk_opt (db_requisitions d1) (nullif_blank (trim_space s))) (\<lambda>_.
              let f = po_edit vid title newTot currency st expectedDate budgetID requisitionID;
                  d2 = d1\<lparr>db_purchase_orders := tbl_upd i f (db_purchase_orders d1)\<rparr>
              in res_bind (move_vendor (po_vendor_id cur)
                             (case vendorID of None \<Rightarrow> po_vendor_id cur | Some v \<Rightarrow> trim_space v) d2) (\<lambda>d3.
                 res_bind (sync_encumbrance i (deref (po_budget_id cur)) cur newTot st d3) (\<lambda>d4.
                 Inr ((f cur, filter (\<lambda>l. pl_po_id l = i) (db_po_lines d4)),
                   insert_audit (audit_user auditUser) ''update'' i ''purchase order updated'' d4)))))))))"

definition DeletePurchaseOrder :: "string \<Rightarrow> string \<Rightarrow> db \<Rightarrow> unit tx" where
  "DeletePurchaseOrder i auditUser d =
     (let i = trim_space i in
      if i = '''' then Inl ErrInvalidArgument
      else case tbl_get (db_purchase_orders d) i of
          None \<Rightarrow> Inl ErrNotFound
        | Some p \<Rightarrow>
            let d1 = (if po_budget_committed p
                      then releasePOEncumbrance (deref (po_budget_id p)) (po_total p) (po_spent_recognized p) d else d);
                d2 = d1\<lparr>db_purchase_orders := tbl_del i (db_purchase_orders d1),
                        db_po_lines := filter (\<lambda>l. pl_po_id l \<noteq> i) (db_po_lines d1)\<rparr>;
                d3 = (if po_vendor_id p \<noteq> '''' then drop_open_pos (po_vendor_id p) d2 else d2)
            in Inr ((), insert_audit (audit_user auditUser) ''delete'' i ''purchase order deleted'' d3))"

section \<open>Requests for quotation\<close>

definition CreateRfq ::
  "env \<Rightarrow> string \<Rightarrow> int option \<Rightarrow> string list \<Rightarrow> string \<Rightarrow> string \<Rightarrow> db \<Rightarrow> (string \<times> rfq_row) tx" where
  "CreateRfq e title dueDate invited requisitionID auditUser d =
     (let title = trim_space title; rid = trim_space requisitionID in
      if title = '''' then Inl ErrInvalidArgument
      else
        let r = \<lparr>rf_doc_no = Some (e_doc_no e), rf_title = title, rf_status = ''Open'', rf_due_date = dueDate,
                 rf_created_at = e_today e, rf_winner_vendor_id = None, rf_invited_vendor_ids = invited,
                 rf_requisition_id = nullif_blank rid, rf_awarded_at = None\<rparr>
        in res_bind (fk_opt (db_requisitions d) (nullif_blank rid)) (\<lambda>_.
           res_bind (insert_row (e_id e) r (db_rfqs d)) (\<lambda>t.
           Inr ((e_id e, r),
             insert_audit (audit_user auditUser) ''create'' (e_id e) (''invited='' @ fmt_nat (length invited))
               (d\<lparr>db_rfqs := t\<rparr>)))))"

text \<open>A blank winner is passed as a typed nil, which the statement reads as \<^verbatim>\<open>NULL\<close>: no change.\<close>

definition UpdateRfq ::
  "string \<Rightarrow> string option \<Rightarrow> string option \<Rightarrow> int option option \<Rightarrow> string option \<Rightarrow> string list option \<Rightarrow>
   string option \<Rightarrow> string \<Rightarrow> db \<Rightarrow> rfq_row tx" where
  "UpdateRfq i title st dueDate winner invited requisitionID auditUser d =
     (let i = trim_space i in
      if i = '''' \<or> (case title of None \<Rightarrow> False | Some t \<Rightarrow> blank t) then Inl ErrInvalidArgument
      else case tbl_get (db_rfqs d) i of
          None \<Rightarrow> Inl ErrNotFound
        | Some r0 \<Rightarrow>
            let w = (case winner of None \<Rightarrow> None | Some v \<Rightarrow> nullif_blank (trim_space v));
                f = (\<lambda>r. r\<lparr>rf_title := coalesce title (rf_title r), rf_status := coalesce st (rf_status r),
                           rf_due_date := coalesce dueDate (rf_due_date r),
                           rf_winner_vendor_id := (case w of None \<Rightarrow> rf_winner_vendor_id r | Some v \<Rightarrow> Some v),
                           rf_invited_vendor_ids := coalesce invited (rf_invited_vendor_ids r),
                           rf_requisition_id := (case requisitionID of None \<Rightarrow> rf_requisition_id r
                                                 | Some s \<Rightarrow> nullif_blank (trim_space s))\<rparr>)
            in res_bind (fk_opt (db_vendors d) w) (\<lambda>_.
               res_bind (case requisitionID of None \<Rightarrow> Inr ()
                         | Some s \<Rightarrow> fk_opt (db_requisitions d) (nullif_blank (trim_space s))) (\<lambda>_.
               Inr (f r0, insert_audit (audit_user auditUser) ''update'' i ''rfq updated''
                 (d\<lparr>db_rfqs := tbl_upd i f (db_rfqs d)\<rparr>)))))"

definition DeleteRfq :: "string \<Rightarrow> string \<Rightarrow> db \<Rightarrow> unit tx" where
  "DeleteRfq i auditUser d =
     (let i = trim_space i in
      if i = '''' then Inl ErrInvalidArgument
      else if tbl_get (db_rfqs d) i = None then Inl ErrNotFound
      else Inr ((), insert_audit (audit_user auditUser) ''delete'' i ''rfq deleted''
             (d\<lparr>db_rfqs := tbl_del i (db_rfqs d),
                db_rfq_quotes := filter (\<lambda>(_, q). qt_rfq_id q \<noteq> i) (db_rfq_quotes d)\<rparr>)))"

definition rfq_settled :: "rfq_row \<Rightarrow> bool" where
  "rfq_settled r \<longleftrightarrow> to_lower (trim_space (rf_status r)) \<in> {''awarded'', ''closed''}"

definition CreateRfqQuote ::
  "env \<Rightarrow> string \<Rightarrow> string \<Rightarrow> amount \<Rightarrow> string \<Rightarrow> string \<Rightarrow> string \<Rightarrow> db \<Rightarrow> (string \<times> quote_row) tx" where
  "CreateRfqQuote e rfqID vendorID amt currency notes auditUser d =
     (let rfqID = trim_space rfqID; vendorID = trim_space vendorID;
          currency' = (if currency = '''' then ''USD'' else currency) in
      if rfqID = '''' \<or> vendorID = '''' then Inl ErrInvalidArgument
      else if amt < 0 then Inl ErrInvalidArgument
      else case tbl_get (db_rfqs d) rfqID of
          None \<Rightarrow> Inl ErrNotFound
        | Some rf \<Rightarrow>
            if rfq_settled rf then Inl ErrInvalidArgument
            else
              let q = \<lparr>qt_rfq_id = rfqID, qt_vendor_id = vendorID, qt_amount = amt, qt_currency = currency',
                       qt_notes = trim_space notes, qt_created_at = e_now e, qt_created_by = auditUser\<rparr>
              in res_bind (fk (db_vendors d) vendorID) (\<lambda>_.
                 res_bind (insert_row (e_id e) q (db_rfq_quotes d)) (\<lambda>t.
                 Inr ((e_id e, q\<lparr>qt_created_by := audit_user auditUser\<rparr>),
                   insert_audit (audit_user auditUser) ''create'' (e_id e)
                     (''rfq='' @ rfqID @ '' vendor='' @ vendorID @ '' amount='' @ fmt_2f amt @ '' '' @ currency')
                     (d\<lparr>db_rfq_quotes := t\<rparr>)))))"

definition ListRfqQuotes :: "string \<Rightarrow> db \<Rightarrow> repo_error + (string \<times> quote_row) list" where
  "ListRfqQuotes rfqID d =
     (let rfqID = trim_space rfqID in
      if rfqID = '''' then Inl ErrInvalidArgument
      else Inr (rev (sort_key (\<lambda>(k, q). (qt_created_at q, k))
             (filter (\<lambda>(_, q). qt_rfq_id q = rfqID) (db_rfq_quotes d)))))"

text \<open>The quote an award names, or the vendor's latest.\<close>

definition winning_quote :: "string \<Rightarrow> string \<Rightarrow> string \<Rightarrow> db \<Rightarrow> quote_row option" where
  "winning_quote rfqID quoteID vendorID d =
     (if quoteID \<noteq> '''' then
        (case tbl_get (db_rfq_quotes d) quoteID of
           None \<Rightarrow> None | Some q \<Rightarrow> if qt_rfq_id q = rfqID then Some q else None)
      else
        (case rev (sort_key (\<lambda>(k, q). (qt_created_at q, k))
               (filter (\<lambda>(_, q). qt_rfq_id q = rfqID \<and> qt_vendor_id q = vendorID) (db_rfq_quotes d))) of
           [] \<Rightarrow> None | (_, q) # _ \<Rightarrow> Some q))"

definition award_budget :: "string \<Rightarrow> string option \<Rightarrow> db \<Rightarrow> string" where
  "award_budget budgetID reqID d =
     (let budgetID = trim_space budgetID in
      if budgetID \<noteq> '''' then budgetID
      else case reqID of
          None \<Rightarrow> ''''
        | Some rid \<Rightarrow>
            (case tbl_get (db_requisitions d) rid of
               None \<Rightarrow> '''' | Some r \<Rightarrow> (case rq_budget_id r of None \<Rightarrow> '''' | Some b \<Rightarrow> trim_space b)))"

definition AwardRfq ::
  "config \<Rightarrow> env \<Rightarrow> string \<Rightarrow> string \<Rightarrow> string \<Rightarrow> string \<Rightarrow> int option \<Rightarrow> string \<Rightarrow> db \<Rightarrow> (string \<times> po_row) tx" where
  "AwardRfq cf e rfqID quoteID vendorID budgetID expectedDate auditUser d =
     (let rfqID = trim_space rfqID; quoteID = trim_space quoteID; vendorID = trim_space vendorID in
      if rfqID = '''' \<or> (quoteID = '''' \<and> vendorID = '''') then Inl ErrInvalidArgument
      else case tbl_get (db_rfqs d) rfqID of
          None \<Rightarrow> Inl ErrNotFound
        | Some rf \<Rightarrow>
            if rfq_settled rf then Inl ErrInvalidArgument
            else case winning_quote rfqID quoteID vendorID d of
                None \<Rightarrow> Inl ErrNotFound
              | Some q \<Rightarrow>
                  let bid = award_budget budgetID (rf_requisition_id rf) d;
                      reqID = rf_requisition_id rf;
                      title = trim_space (rf_title rf);
                      r = new_po cf e (qt_vendor_id q) (if title = '''' then ''Awarded from '' @ rfqID else title)
                            (qt_amount q) (qt_currency q) expectedDate (nullif_blank bid) reqID auditUser
                  in res_bind (fk (db_vendors d) (qt_vendor_id q)) (\<lambda>_.
                     res_bind (fk_opt (db_budgets d) (nullif_blank bid)) (\<lambda>_.
                     res_bind (fk_opt (db_requisitions d) reqID) (\<lambda>_.
                     res_bind (insert_row (e_id e) r (db_purchase_orders d)) (\<lambda>t.
                     let d1 = bump_open_pos (qt_vendor_id q) (d\<lparr>db_purchase_orders := t\<rparr>);
                         d2 = d1\<lparr>db_rfqs := tbl_upd rfqID (\<lambda>x. x\<lparr>rf_winner_vendor_id := Some (qt_vendor_id q),
                                    rf_status := ''Awarded'', rf_awarded_at := Some (e_now e)\<rparr>) (db_rfqs d1)\<rparr>;
                         d3 = (if blank (deref reqID) then d2 else mark_ordered (deref reqID) d2)
                     in res_bind (applyPOEncumbrance (e_id e) bid (deref reqID) (qt_amount q)
                          (insert_audit (audit_user auditUser) ''award'' rfqID
                             (''winner='' @ qt_vendor_id q @ '' po='' @ e_id e @ '' amount='' @ fmt_2f (qt_amount q) @
                              '' '' @ qt_currency q) d3)) (\<lambda>d4.
                     Inr ((e_id e, r), d4)))))))"

section \<open>What an order operation leaves alone\<close>

lemma insert_po_lines_frame:
  assumes "insert_po_lines i ls d = Inr d'"
  shows "\<exists>t. d' = d\<lparr>db_po_lines := db_po_lines d @ t\<rparr> \<and> (\<forall>l \<in> set t. pl_po_id l = i \<and> pl_received_qty l = 0)"
  using assms
proof (induction ls arbitrary: d)
  case Nil
  then show ?case by (intro exI [of _ "[]"]) auto
next
  case (Cons l ls)
  then obtain item where "insert_po_lines i ls (d\<lparr>db_po_lines := db_po_lines d @ [\<lparr>pl_po_id = i, pl_item_id = item,
      pl_qty = ol_qty l, pl_unit_price = ol_price l, pl_received_qty = 0\<rparr>]\<rparr>) = Inr d'"
    by auto
  from Cons.IH [OF this] obtain t where "d' = d\<lparr>db_po_lines := db_po_lines d @ (\<lparr>pl_po_id = i, pl_item_id = item,
      pl_qty = ol_qty l, pl_unit_price = ol_price l, pl_received_qty = 0\<rparr> # t)\<rparr>" "\<forall>l \<in> set t. pl_po_id l = i \<and> pl_received_qty l = 0"
    by auto
  then show ?case by (intro exI [of _ "_ # t"]) auto
qed

lemma bump_open_pos_simps [simp]:
  "db_budgets (bump_open_pos v d) = db_budgets d" "db_requisitions (bump_open_pos v d) = db_requisitions d"
  "db_purchase_orders (bump_open_pos v d) = db_purchase_orders d" "db_po_lines (bump_open_pos v d) = db_po_lines d"
  "db_grns (bump_open_pos v d) = db_grns d" "db_grn_lines (bump_open_pos v d) = db_grn_lines d"
  "db_budgets (drop_open_pos v d) = db_budgets d" "db_requisitions (drop_open_pos v d) = db_requisitions d"
  "db_purchase_orders (drop_open_pos v d) = db_purchase_orders d" "db_po_lines (drop_open_pos v d) = db_po_lines d"
  "db_grns (drop_open_pos v d) = db_grns d" "db_grn_lines (drop_open_pos v d) = db_grn_lines d"
  "db_rfqs (bump_open_pos v d) = db_rfqs d" "db_rfqs (drop_open_pos v d) = db_rfqs d"
  by (simp_all add: bump_open_pos_def drop_open_pos_def)

lemma mark_ordered_simps [simp]:
  "db_budgets (mark_ordered r d) = db_budgets d" "db_purchase_orders (mark_ordered r d) = db_purchase_orders d"
  "db_po_lines (mark_ordered r d) = db_po_lines d" "db_grns (mark_ordered r d) = db_grns d"
  "db_vendors (mark_ordered r d) = db_vendors d" "db_items (mark_ordered r d) = db_items d"
  "db_rfqs (mark_ordered r d) = db_rfqs d"
  by (simp_all add: mark_ordered_def)

lemma CreatePurchaseOrderE:
  assumes "CreatePurchaseOrder cf e v title c b r x ls u d = Inr (y, d')"
  obtains tot d1 aud cur vid where "ls \<noteq> []" and "uuid_in v = Some vid" and "lines_total (\<lambda>l. ol_qty l \<le> 0 \<or> ol_price l < 0) ErrPlain ls 0 = Inr tot"
    and "\<not> supplierSuspended v d" and "tbl_get (db_vendors d) vid \<noteq> None" and "b \<noteq> ''''" and "tbl_get (db_budgets d) b \<noteq> None"
    and "tbl_get (db_purchase_orders d) (e_id e) = None"
    and "y = (e_id e, (new_po cf e vid title tot cur x (Some b) (nullif_blank (trim_space r)) u)\<lparr>po_vendor_id := v\<rparr>)"
    and "insert_po_lines (e_id e) ls (mark_ordered (trim_space r) (d\<lparr>db_purchase_orders := tbl_ins (e_id e)
      (new_po cf e vid title tot cur x (Some b) (nullif_blank (trim_space r)) u) (db_purchase_orders d)\<rparr>)) = Inr d1"
    and "applyPOEncumbrance (e_id e) b r tot (insert_audit (audit_user u) ''create'' (e_id e) aud (bump_open_pos vid d1)) = Inr d'"
proof -
  from assms have ls: "ls \<noteq> []" by (auto simp: CreatePurchaseOrder_def)
  from assms ls have sus: "\<not> supplierSuspended v d" by (auto simp: CreatePurchaseOrder_def Let_def)
  show ?thesis
    using assms ls sus unfolding CreatePurchaseOrder_def Let_def
    by simp (elim exE conjE, rule that, simp_all only: prod.inject not_None_eq, auto)
qed

lemma replace_po_lines_frame: "replace_po_lines i ls d = Inr (x, d') \<Longrightarrow> \<exists>t. d' = d\<lparr>db_po_lines := t\<rparr>"
  by (cases ls) (auto simp: replace_po_lines_def dest!: insert_po_lines_frame intro: exI [of _ "db_po_lines d"])

lemma move_vendor_frame: "move_vendor a b d = Inr d' \<Longrightarrow> \<exists>t. d' = d\<lparr>db_vendors := t\<rparr>"
  by (auto simp: move_vendor_def bump_open_pos_def drop_open_pos_def intro: exI [of _ "db_vendors d"] split: if_splits)

lemma UpdatePurchaseOrderE:
  assumes "UpdatePurchaseOrder i v t c st x b ls r u d = Inr (y, d')"
  obtains cur nt d1 d3 d4 vid where
    "tbl_get (db_purchase_orders d) (trim_space i) = Some cur" "uuid_ref_opt v = Inr vid"
    "(case st of None \<Rightarrow> False | Some s \<Rightarrow> equal_fold (trim_space s) ''approved'') \<longrightarrow> \<not> sameActor_repo u (po_created_by cur)"
    "replace_po_lines (trim_space i) ls d = Inr (nt, d1)"
    "fk_opt (db_vendors d1) vid = Inr ()" "fk_opt (db_budgets d1) b = Inr ()"
    "move_vendor (po_vendor_id cur) (case v of None \<Rightarrow> po_vendor_id cur | Some v \<Rightarrow> trim_space v)
       (d1\<lparr>db_purchase_orders := tbl_upd (trim_space i) (po_edit vid t nt c st x b r) (db_purchase_orders d1)\<rparr>) = Inr d3"
    "sync_encumbrance (trim_space i) (deref (po_budget_id cur)) cur nt st d3 = Inr d4"
    "d' = insert_audit (audit_user u) ''update'' (trim_space i) ''purchase order updated'' d4"
proof -
  obtain cur where cur: "tbl_get (db_purchase_orders d) (trim_space i) = Some cur"
    using assms by (auto simp: UpdatePurchaseOrder_def Let_def split: if_split_asm option.splits)
  show ?thesis
    using assms cur unfolding UpdatePurchaseOrder_def Let_def
    by (simp split: if_split_asm prod.splits) (elim exE conjE; rule that; (assumption | (rule sym, assumption) | simp | blast)?)
qed

lemma AwardRfqE:
  assumes "AwardRfq cf e i qi vi b x u d = Inr (y, d')"
  obtains rf q d3 aud where "tbl_get (db_rfqs d) (trim_space i) = Some rf" and "\<not> rfq_settled rf"
    and "winning_quote (trim_space i) (trim_space qi) (trim_space vi) d = Some q"
    and "tbl_get (db_purchase_orders d) (e_id e) = None"
    and "db_budgets d3 = db_budgets d" and "db_grns d3 = db_grns d"
    and "db_purchase_orders d3 = tbl_ins (e_id e) (snd y) (db_purchase_orders d)" and "fst y = e_id e"
    and "\<exists>title. snd y = new_po cf e (qt_vendor_id q) title (qt_amount q) (qt_currency q) x
      (nullif_blank (award_budget b (rf_requisition_id rf) d)) (rf_requisition_id rf) u"
    and "db_rfqs d3 = tbl_upd (trim_space i) (\<lambda>x. x\<lparr>rf_winner_vendor_id := Some (qt_vendor_id q), rf_status := ''Awarded'',
      rf_awarded_at := Some (e_now e)\<rparr>) (db_rfqs d)"
    and "applyPOEncumbrance (e_id e) (award_budget b (rf_requisition_id rf) d) (deref (rf_requisition_id rf)) (qt_amount q)
      (insert_audit (audit_user u) ''award'' (trim_space i) aud d3) = Inr d'"
proof -
  obtain rf where rf: "tbl_get (db_rfqs d) (trim_space i) = Some rf"
    using assms by (auto simp: AwardRfq_def Let_def split: if_split_asm option.splits)
  obtain q where q: "winning_quote (trim_space i) (trim_space qi) (trim_space vi) d = Some q" and st: "\<not> rfq_settled rf"
    using assms rf by (auto simp: AwardRfq_def Let_def split: if_split_asm option.splits)
  from assms rf q st have no: "tbl_get (db_purchase_orders d) (e_id e) = None"
    by (simp add: AwardRfq_def Let_def split: if_split_asm)
  show ?thesis
    using assms rf q st unfolding AwardRfq_def Let_def
    by (simp split: if_split_asm) (elim exE conjE; rule that; (assumption | auto)?)+
qed

section \<open>The envelopes stay balanced\<close>

lemma CreatePurchaseOrder_ok [budget_safe]:
  assumes "CreatePurchaseOrder cf e v t c b r x ls u d = Inr (y, d')" and "budgets_ok d"
  shows "budgets_ok d'"
  using assms
  by (auto simp: CreatePurchaseOrder_def Let_def dest!: insert_po_lines_frame elim!: applyPOEncumbrance_ok split: if_splits)

lemma sync_encumbrance_ok [budget_safe]:
  "sync_encumbrance i b cur nt st d = Inr d' \<Longrightarrow> budgets_ok d \<Longrightarrow> budgets_ok d'"
  by (auto simp: sync_encumbrance_def Let_def intro!: releasePOEncumbrance_ok tbl_all_upd adjust_ok split: if_splits option.splits)

lemma UpdatePurchaseOrder_ok [budget_safe]:
  assumes "UpdatePurchaseOrder i v t c st x b ls r u d = Inr (y, d')" and "budgets_ok d"
  shows "budgets_ok d'"
proof -
  from assms(1) obtain cur nt d1 d3 d4 vid where
    "replace_po_lines (trim_space i) ls d = Inr (nt, d1)" and
    "move_vendor (po_vendor_id cur) (case v of None \<Rightarrow> po_vendor_id cur | Some v \<Rightarrow> trim_space v)
       (d1\<lparr>db_purchase_orders := tbl_upd (trim_space i) (po_edit vid t nt c st x b r) (db_purchase_orders d1)\<rparr>) = Inr d3" and
    s: "sync_encumbrance (trim_space i) (deref (po_budget_id cur)) cur nt st d3 = Inr d4" and
    d': "d' = insert_audit (audit_user u) ''update'' (trim_space i) ''purchase order updated'' d4"
    by (rule UpdatePurchaseOrderE)
  then have "budgets_ok d3" using assms(2) by (auto dest!: replace_po_lines_frame move_vendor_frame)
  from sync_encumbrance_ok [OF s this] show ?thesis by (simp add: d')
qed

lemma DeletePurchaseOrder_ok [budget_safe]:
  "DeletePurchaseOrder i u d = Inr (x, d') \<Longrightarrow> budgets_ok d \<Longrightarrow> budgets_ok d'"
  by (auto simp: DeletePurchaseOrder_def Let_def intro!: releasePOEncumbrance_ok split: if_splits option.splits)

lemma AwardRfq_ok [budget_safe]:
  "AwardRfq cf e i q v b x u d = Inr (y, d') \<Longrightarrow> budgets_ok d \<Longrightarrow> budgets_ok d'"
  by (auto simp: AwardRfq_def Let_def elim!: applyPOEncumbrance_ok split: if_splits option.splits)

lemma CreateRfq_ok [budget_safe]: "CreateRfq e t x vs r u d = Inr (y, d') \<Longrightarrow> budgets_ok d \<Longrightarrow> budgets_ok d'"
  by (auto simp: CreateRfq_def Let_def split: if_splits)
lemma UpdateRfq_ok [budget_safe]: "UpdateRfq i t s x w vs r u d = Inr (y, d') \<Longrightarrow> budgets_ok d \<Longrightarrow> budgets_ok d'"
  by (auto simp: UpdateRfq_def Let_def split: if_splits option.splits)
lemma DeleteRfq_ok [budget_safe]: "DeleteRfq i u d = Inr (y, d') \<Longrightarrow> budgets_ok d \<Longrightarrow> budgets_ok d'"
  by (auto simp: DeleteRfq_def Let_def split: if_splits)
lemma CreateRfqQuote_ok [budget_safe]: "CreateRfqQuote e r v a c n u d = Inr (y, d') \<Longrightarrow> budgets_ok d \<Longrightarrow> budgets_ok d'"
  by (auto simp: CreateRfqQuote_def Let_def split: if_splits option.splits)

end
