(* ===== verification/Vendors.thy ===== *)
theory Vendors
  imports Purchasing
begin

text \<open>
  The master data: vendors with their quality standing and the party mesh, catalogue items and
  contracts (\<^verbatim>\<open>internal/repo/procurement_more.go\<close>, \<^verbatim>\<open>procurement_update_delete.go\<close>,
  \<^verbatim>\<open>procurement_update_delete_more.go\<close>, \<^verbatim>\<open>vendor_quality.go\<close>,
  \<^verbatim>\<open>vendor_sync.go\<close>, \<^verbatim>\<open>party_sync.go\<close> and \<^verbatim>\<open>portal_link.go\<close>).

  The id \<^verbatim>\<open>SyncSCMParty\<close> derives with \<^verbatim>\<open>md5\<close> from a business id is the parameter
  \<open>scm_id\<close>. Comparisons of an id with a business id are comparisons of text. An attribute bag is
  its JSON text, empty when the request carries none.
\<close>

section \<open>Vendors\<close>

definition new_vendor ::
  "string \<Rightarrow> string \<Rightarrow> string \<Rightarrow> string \<Rightarrow> string \<Rightarrow> string \<Rightarrow> string \<Rightarrow> string \<Rightarrow> amount \<Rightarrow> string \<Rightarrow>
   string \<Rightarrow> string option \<Rightarrow> vendor_row" where
  "new_vendor name logo category contact email phone country terms rating st partyID scm =
     \<lparr>vd_name = name, vd_logo = logo, vd_category = category, vd_contact = contact, vd_email = email,
      vd_phone = phone, vd_country = country, vd_terms = terms, vd_rating = rating, vd_status = st,
      vd_total_spend = 0, vd_open_pos = 0, vd_party_id = Some partyID, vd_platform_user_id = None,
      vd_scm_business_id = scm, vd_quality_status = '''', vd_quality_status_reason = '''',
      vd_quality_status_by = '''', vd_quality_status_at = None, vd_qc_recommendation = '''',
      vd_qc_acceptance_rate = None, vd_qc_reasons = [], vd_qc_recommended_at = None\<rparr>"

definition upsert_event :: "string \<Rightarrow> vendor_row \<Rightarrow> vendor_upsert" where
  "upsert_event i v =
     \<lparr>vu_party_id = deref (vd_party_id v), vu_code = i, vu_name = vd_name v, vu_category = vd_category v,
      vu_email = vd_email v, vu_phone = vd_phone v, vu_country = vd_country v, vu_currency = '''',
      vu_status = vd_status v\<rparr>"

definition CreateVendor ::
  "config \<Rightarrow> env \<Rightarrow> string \<Rightarrow> string \<Rightarrow> string \<Rightarrow> string \<Rightarrow> string \<Rightarrow> string \<Rightarrow> string \<Rightarrow> string \<Rightarrow> amount \<Rightarrow>
   string \<Rightarrow> string \<Rightarrow> db \<Rightarrow> (string \<times> vendor_row) tx" where
  "CreateVendor cf e name logo category contact email phone country terms rating st auditUser d =
     (if blank name then Inl ErrInvalidArgument
      else
        let st = (if st = '''' then ''Active'' else st);
            v = new_vendor name logo category contact email phone country terms rating st (e_uuid e) None
        in res_bind (insert_row (e_id e) v (db_vendors d)) (\<lambda>t.
           Inr ((e_id e, v),
             enqueueVendorUpsertedTx cf e (upsert_event (e_id e) v)
               (insert_audit (audit_user auditUser) ''create'' (e_id e) (''vendor '' @ name) (d\<lparr>db_vendors := t\<rparr>)))))"

definition UpdateVendor ::
  "config \<Rightarrow> env \<Rightarrow> string \<Rightarrow> string option \<Rightarrow> string option \<Rightarrow> string option \<Rightarrow> string option \<Rightarrow> string option \<Rightarrow>
   string option \<Rightarrow> string option \<Rightarrow> string option \<Rightarrow> amount option \<Rightarrow> string option \<Rightarrow> string \<Rightarrow> db \<Rightarrow> vendor_row tx" where
  "UpdateVendor cf e i name logo category contact email phone country terms rating st auditUser d =
     (let i = trim_space i in
      if i = '''' \<or> (case name of None \<Rightarrow> False | Some n \<Rightarrow> blank n) then Inl ErrInvalidArgument
      else
        let f = (\<lambda>v. v\<lparr>vd_name := coalesce name (vd_name v), vd_logo := coalesce logo (vd_logo v),
                       vd_category := coalesce category (vd_category v), vd_contact := coalesce contact (vd_contact v),
                       vd_email := coalesce email (vd_email v), vd_phone := coalesce phone (vd_phone v),
                       vd_country := coalesce country (vd_country v), vd_terms := coalesce terms (vd_terms v),
                       vd_rating := coalesce rating (vd_rating v), vd_status := coalesce st (vd_status v),
                       vd_party_id := Some (coalesce (vd_party_id v) (e_uuid e))\<rparr>)
        in case tbl_get (db_vendors d) i of
             None \<Rightarrow> Inl ErrNotFound
           | Some v \<Rightarrow>
               Inr (f v, enqueueVendorUpsertedTx cf e (upsert_event i (f v))
                 (insert_audit (audit_user auditUser) ''update'' i ''vendor updated''
                    (d\<lparr>db_vendors := tbl_upd i f (db_vendors d)\<rparr>))))"

text \<open>The foreign keys that hold a vendor row.\<close>

definition vendor_referenced :: "string \<Rightarrow> db \<Rightarrow> bool" where
  "vendor_referenced i d \<longleftrightarrow>
     tbl_ex (\<lambda>_ x. it_preferred_vendor_id x = Some i) (db_items d) \<or>
     tbl_ex (\<lambda>_ x. rf_winner_vendor_id x = Some i) (db_rfqs d) \<or>
     tbl_ex (\<lambda>_ x. po_vendor_id x = i) (db_purchase_orders d) \<or>
     tbl_ex (\<lambda>_ x. gr_vendor_id x = i) (db_grns d) \<or>
     tbl_ex (\<lambda>_ x. inv_vendor_id x = i) (db_invoices d) \<or>
     tbl_ex (\<lambda>_ x. ct_vendor_id x = i) (db_contracts d) \<or>
     tbl_ex (\<lambda>_ x. pay_vendor_id x = i) (db_payments d) \<or>
     tbl_ex (\<lambda>_ x. qt_vendor_id x = i) (db_rfq_quotes d)"

definition DeleteVendor :: "config \<Rightarrow> env \<Rightarrow> string \<Rightarrow> string \<Rightarrow> db \<Rightarrow> unit tx" where
  "DeleteVendor cf e i auditUser d =
     (let i = trim_space i in
      if i = '''' then Inl ErrInvalidArgument
      else case tbl_get (db_vendors d) i of
          None \<Rightarrow> Inl ErrNotFound
        | Some v \<Rightarrow>
            if vendor_referenced i d then Inl DbForeignKey
            else Inr ((),
              enqueueVendorUpsertedTx cf e
                \<lparr>vu_party_id = deref (vd_party_id v), vu_code = i, vu_name = vd_name v, vu_category = '''',
                 vu_email = '''', vu_phone = '''', vu_country = '''', vu_currency = '''', vu_status = ''Inactive''\<rparr>
                (insert_audit (audit_user auditUser) ''delete'' i ''vendor deleted''
                   (d\<lparr>db_vendors := tbl_del i (db_vendors d)\<rparr>))))"

section \<open>Quality standing\<close>

definition vendorQualityStatuses :: "string list" where
  "vendorQualityStatuses = ['''', ''approved'', ''conditional'', ''suspended'']"

text \<open>\<^verbatim>\<open>%q\<close> on the status, one of four plain words.\<close>

definition SetVendorQualityStatus ::
  "env \<Rightarrow> string \<Rightarrow> string \<Rightarrow> string \<Rightarrow> string \<Rightarrow> db \<Rightarrow> unit tx" where
  "SetVendorQualityStatus e i st reason auditUser d =
     (let i = trim_space i; st = to_lower (trim_space st); reason = trim_space reason; user = audit_user auditUser in
      if st \<notin> set vendorQualityStatuses then Inl ErrInvalidArgument
      else if reason = '''' then Inl ErrInvalidArgument
      else case tbl_get (db_vendors d) i of
          None \<Rightarrow> Inl ErrNotFound
        | Some v \<Rightarrow>
            let advice = (if vd_qc_recommendation v = '''' then ''none'' else vd_qc_recommendation v) in
            Inr ((), insert_audit user ''quality_status'' i
              (''quality status set to '' @ [CHR 0x22] @ st @ [CHR 0x22] @ '' (quality advised '' @ advice @ ''): '' @ reason)
              (d\<lparr>db_vendors := tbl_upd i (\<lambda>v. v\<lparr>vd_quality_status := st, vd_quality_status_reason := reason,
                   vd_quality_status_by := user, vd_quality_status_at := Some (e_now e)\<rparr>) (db_vendors d)\<rparr>)))"

record qc_recommendation =
  qr_supplier_ref :: string
  qr_recommended_status :: string
  qr_acceptance_rate :: "amount option"
  qr_reasons :: "string list"
  qr_at :: timestamp

definition qc_applies :: "qc_recommendation \<Rightarrow> string \<Rightarrow> vendor_row \<Rightarrow> bool" where
  "qc_applies rec k v \<longleftrightarrow>
     (k = trim_space (qr_supplier_ref rec) \<or> vd_scm_business_id v = Some (trim_space (qr_supplier_ref rec))) \<and>
     (case vd_qc_recommended_at v of None \<Rightarrow> True | Some t \<Rightarrow> t \<le> qr_at rec)"

definition ApplyQCRecommendation :: "qc_recommendation \<Rightarrow> db \<Rightarrow> bool \<times> db" where
  "ApplyQCRecommendation rec d =
     (tbl_ex (qc_applies rec) (db_vendors d),
      d\<lparr>db_vendors := tbl_where (qc_applies rec)
          (\<lambda>v. v\<lparr>vd_qc_recommendation := qr_recommended_status rec, vd_qc_acceptance_rate := qr_acceptance_rate rec,
                 vd_qc_reasons := qr_reasons rec, vd_qc_recommended_at := Some (qr_at rec)\<rparr>) (db_vendors d)\<rparr>)"

section \<open>The party mesh\<close>

definition unless_blank :: "string \<Rightarrow> string \<Rightarrow> string" where
  "unless_blank new old = (if new \<noteq> '''' then new else old)"

definition UpsertVendorByParty ::
  "env \<Rightarrow> string \<Rightarrow> string \<Rightarrow> string \<Rightarrow> string \<Rightarrow> string \<Rightarrow> string \<Rightarrow> string \<Rightarrow> string \<Rightarrow> db \<Rightarrow> unit tx" where
  "UpsertVendorByParty e partyID code name category email phone country st d =
     (let partyID = trim_space partyID; name = trim_space name; code = trim_space code;
          st = trim_space (if st = '''' then ''Active'' else st);
          category = (if category = '''' then ''Vendor Sync'' else category);
          email = trim_space email; phone = trim_space phone; country = trim_space country;
          hit = (\<lambda>k v. vd_party_id v = Some partyID \<or> vd_scm_business_id v = Some code \<or> k = code);
          f = (\<lambda>v. v\<lparr>vd_party_id := Some partyID, vd_name := unless_blank name (vd_name v),
                     vd_email := unless_blank email (vd_email v), vd_phone := unless_blank phone (vd_phone v),
                     vd_country := unless_blank country (vd_country v), vd_status := unless_blank st (vd_status v)\<rparr>)
      in if partyID = '''' then Inr ((), d)
         else if tbl_ex hit (db_vendors d) then Inr ((), d\<lparr>db_vendors := tbl_where hit f (db_vendors d)\<rparr>)
         else res_bind (insert_row (e_id e)
                 (new_vendor name '''' category '''' email phone country '''' 0 st partyID (nullif_blank code))
                 (db_vendors d)) (\<lambda>t. Inr ((), d\<lparr>db_vendors := t\<rparr>)))"

text \<open>
  The two statements of \<^verbatim>\<open>party_sync.go\<close> and \<^verbatim>\<open>portal_link.go\<close> compare the business id with
  \<^verbatim>\<open>scm_business_id\<close>, a text, and with \<^verbatim>\<open>id\<close>, a uuid since migration 027.
\<close>

definition SyncSCMParty ::
  "(string \<Rightarrow> string) \<Rightarrow> string \<Rightarrow> string \<Rightarrow> string \<Rightarrow> string \<Rightarrow> db \<Rightarrow> unit tx" where
  "SyncSCMParty scm_id partyID businessID supplierType name d =
     (let partyID = trim_space partyID; businessID = trim_space businessID;
          nm = trim_space name; nm = (if nm = '''' then businessID else nm);
          hit = (\<lambda>k v. vd_scm_business_id v = Some businessID \<or> k = businessID);
          f = (\<lambda>v. v\<lparr>vd_party_id := Some partyID,
                     vd_scm_business_id := Some (coalesce (vd_scm_business_id v) businessID),
                     vd_name := unless_blank nm (vd_name v)\<rparr>)
      in if to_lower (trim_space supplierType) \<notin> {''vendor'', ''cooperative''} then Inr ((), d)
         else if partyID = '''' \<or> businessID = '''' then Inr ((), d)
         else res_bind (one_type [SqlText, SqlUuid]) (\<lambda>_.
         if tbl_ex hit (db_vendors d) then Inr ((), d\<lparr>db_vendors := tbl_where hit f (db_vendors d)\<rparr>)
         else case tbl_get (db_vendors d) (scm_id businessID) of
             None \<Rightarrow> Inr ((), d\<lparr>db_vendors := tbl_ins (scm_id businessID)
               (new_vendor nm '''' ''SCM Sync'' '''' '''' '''' '''' '''' 0 ''Active'' partyID (Some businessID))
               (db_vendors d)\<rparr>)
           | Some _ \<Rightarrow> Inr ((), d\<lparr>db_vendors := tbl_upd (scm_id businessID)
               (\<lambda>v. v\<lparr>vd_party_id := Some partyID, vd_scm_business_id := Some businessID, vd_name := nm\<rparr>)
               (db_vendors d)\<rparr>)))"

definition LinkPortalUser :: "string \<Rightarrow> string \<Rightarrow> string \<Rightarrow> db \<Rightarrow> repo_error + db" where
  "LinkPortalUser partyID businessID platformUserID d =
     (let partyID = trim_space partyID; businessID = trim_space businessID; u = trim_space platformUserID in
      if partyID = '''' \<or> u = '''' then Inr d
      else res_bind (one_type [SqlText, SqlUuid]) (\<lambda>_.
        Inr (d\<lparr>db_vendors := tbl_where
             (\<lambda>k v. vd_party_id v = Some partyID \<or> vd_scm_business_id v = Some businessID \<or> k = businessID)
             (\<lambda>v. v\<lparr>vd_platform_user_id := Some u\<rparr>) (db_vendors d)\<rparr>)))"

text \<open>So neither ever changes a vendor.\<close>

lemma SyncSCMParty_never_syncs:
  "SyncSCMParty f p b ty n d =
     (if to_lower (trim_space ty) \<notin> {''vendor'', ''cooperative''} \<or> blank p \<or> blank b then Inr ((), d)
      else Inl DbUndefinedOperator)"
  by (simp add: SyncSCMParty_def one_type_def check_def Let_def)

lemma LinkPortalUser_never_links:
  "LinkPortalUser p b u d = (if blank p \<or> blank u then Inr d else Inl DbUndefinedOperator)"
  by (simp add: LinkPortalUser_def one_type_def check_def Let_def)

end
