(* ===== verification/Receiving.thy ===== *)
theory Receiving
  imports Purchasing
begin

text \<open>
  Goods receipts: spend recognition, received quantities and the order status derived from them
  (\<^verbatim>\<open>internal/repo/requisition_outcome.go\<close>), and the receipt's create, update and delete
  (\<^verbatim>\<open>procurement_more.go\<close>, \<^verbatim>\<open>procurement_update_delete_more.go\<close>).

  \<^verbatim>\<open>recognizePOSpendOnReceipt\<close> takes the id, order reference and status of the
  \<^verbatim>\<open>models.Grn\<close> it is passed; its two branches are \<open>recognize_posted\<close> and
  \<open>reverse_posted\<close>.
\<close>

section \<open>Gates\<close>

definition poPreApprovalStatuses :: "string list" where
  "poPreApprovalStatuses = [''draft'', ''pending approval'', ''rejected'', ''cancelled'']"

definition assertPOReceivable :: "string \<Rightarrow> db \<Rightarrow> repo_error + unit" where
  "assertPOReceivable poID d =
     (let poID = trim_space poID in
      if poID = '''' then Inr ()
      else case tbl_get (db_purchase_orders d) poID of
          None \<Rightarrow> Inr ()
        | Some p \<Rightarrow> check (to_lower (trim_space (po_status p)) \<notin> set poPreApprovalStatuses) ErrInvalidArgument)"

definition grnQCGate :: "string \<Rightarrow> bool \<Rightarrow> string \<Rightarrow> repo_error + unit" where
  "grnQCGate st qualityCritical qcStatus =
     (if \<not> qualityCritical \<or> \<not> equal_fold (trim_space st) ''Posted'' then Inr ()
      else if equal_fold (trim_space qcStatus) ''Released'' then Inr ()
      else Inl ErrConflict)"

section \<open>Received quantities and order status\<close>

definition grn_lines_of :: "string \<Rightarrow> db \<Rightarrow> grn_line_row list" where
  "grn_lines_of gid d = filter (\<lambda>l. gl_grn_id l = gid) (db_grn_lines d)"

definition received_value :: "string \<Rightarrow> db \<Rightarrow> amount" where
  "received_value gid d = (\<Sum>l \<leftarrow> grn_lines_of gid d. gl_qty l * gl_unit_price l)"

definition received_qty :: "string \<Rightarrow> string \<Rightarrow> db \<Rightarrow> amount" where
  "received_qty gid item d = (\<Sum>l \<leftarrow> filter (\<lambda>l. gl_item_id l = item) (grn_lines_of gid d). gl_qty l)"

definition applyReceivedQty :: "string \<Rightarrow> string \<Rightarrow> amount \<Rightarrow> db \<Rightarrow> db" where
  "applyReceivedQty gid poID sg d =
     (if blank poID then d
      else d\<lparr>db_po_lines := map (\<lambda>l.
             if pl_po_id l = poID \<and> list_ex (\<lambda>g. gl_item_id g = pl_item_id l) (grn_lines_of gid d)
             then l\<lparr>pl_received_qty := greatest0 (pl_received_qty l + sg * received_qty gid (pl_item_id l) d)\<rparr>
             else l) (db_po_lines d)\<rparr>)"

definition po_lines_of :: "string \<Rightarrow> db \<Rightarrow> po_line_row list" where
  "po_lines_of poID d = filter (\<lambda>l. pl_po_id l = poID) (db_po_lines d)"

definition receipt_status :: "po_line_row list \<Rightarrow> string" where
  "receipt_status ls =
     (if length (filter (\<lambda>l. pl_qty l \<le> pl_received_qty l) ls) = length ls then ''Received''
      else if list_ex (\<lambda>l. 0 < pl_received_qty l) ls then ''Partially Received''
      else ''Approved'')"

definition recomputePOReceiptStatus :: "string \<Rightarrow> db \<Rightarrow> db" where
  "recomputePOReceiptStatus poID d =
     (if blank poID \<or> po_lines_of poID d = [] then d
      else d\<lparr>db_purchase_orders := tbl_upd poID (\<lambda>p.
             if to_lower (po_status p) \<in> {''cancelled'', ''rejected'', ''draft'', ''pending approval''} then p
             else p\<lparr>po_status := receipt_status (po_lines_of poID d)\<rparr>) (db_purchase_orders d)\<rparr>)"

section \<open>Spend recognition\<close>

definition mark_recognized :: "string \<Rightarrow> bool \<Rightarrow> amount \<Rightarrow> db \<Rightarrow> db" where
  "mark_recognized gid flag amt d =
     d\<lparr>db_grns := tbl_upd gid (\<lambda>g. g\<lparr>gr_budget_recognized := flag, gr_recognized_amount := amt\<rparr>) (db_grns d)\<rparr>"

definition move_budget :: "string \<Rightarrow> (budget_row \<Rightarrow> budget_row) \<Rightarrow> db \<Rightarrow> db" where
  "move_budget bid f d = (if blank bid then d else d\<lparr>db_budgets := tbl_upd bid f (db_budgets d)\<rparr>)"

definition set_spent_recognized :: "string \<Rightarrow> (amount \<Rightarrow> amount) \<Rightarrow> db \<Rightarrow> db" where
  "set_spent_recognized poID f d =
     d\<lparr>db_purchase_orders := tbl_upd poID (\<lambda>p. p\<lparr>po_spent_recognized := f (po_spent_recognized p)\<rparr>)
         (db_purchase_orders d)\<rparr>"

definition recognized_now :: "string \<Rightarrow> po_row \<Rightarrow> db \<Rightarrow> amount" where
  "recognized_now gid p d =
     (let opn = po_total p - po_spent_recognized p;
          v = received_value gid d;
          v = (if v \<le> 0 then opn else v)
      in if v > opn then opn else v)"

definition recognize_posted :: "string \<Rightarrow> string \<Rightarrow> db \<Rightarrow> db" where
  "recognize_posted gid poID d =
     (if poID = '''' then d
      else case tbl_get (db_purchase_orders d) poID of
          None \<Rightarrow> d
        | Some p \<Rightarrow>
            if po_total p - po_spent_recognized p \<le> 0 then mark_recognized gid True 0 d
            else
              let amt = recognized_now gid p d;
                  d1 = (if amt > 0 then move_budget (deref (po_budget_id p)) (recognize_spend amt) d else d);
                  d2 = set_spent_recognized poID (\<lambda>s. s + amt) d1;
                  d3 = recomputePOReceiptStatus poID (applyReceivedQty gid poID 1 d2)
              in mark_recognized gid True amt d3)"

definition reverse_posted :: "string \<Rightarrow> string \<Rightarrow> amount \<Rightarrow> db \<Rightarrow> db" where
  "reverse_posted gid poID amt d =
     (if poID = '''' \<or> amt \<le> 0 then mark_recognized gid False 0 d
      else
        let d1 = (case tbl_get (db_purchase_orders d) poID of
                    None \<Rightarrow> d
                  | Some p \<Rightarrow> set_spent_recognized poID (\<lambda>s. greatest0 (s - amt))
                                (move_budget (deref (po_budget_id p)) (reverse_spend amt) d));
            d2 = recomputePOReceiptStatus poID (applyReceivedQty gid poID (- 1) d1)
        in mark_recognized gid False 0 d2)"

definition recognizePOSpendOnReceipt :: "string \<Rightarrow> string option \<Rightarrow> string \<Rightarrow> db \<Rightarrow> db" where
  "recognizePOSpendOnReceipt gid poID st d =
     (case tbl_get (db_grns d) gid of
        None \<Rightarrow> d
      | Some g \<Rightarrow>
          let posted = (trim_space st = ''Posted''); po = trim_space (deref poID) in
          if posted \<and> \<not> gr_budget_recognized g then recognize_posted gid po d
          else if \<not> posted \<and> gr_budget_recognized g then reverse_posted gid po (gr_recognized_amount g) d
          else d)"

section \<open>The posted event\<close>

definition posted_lines :: "string \<Rightarrow> db \<Rightarrow> grn_posted_line list" where
  "posted_lines poID d =
     concat (map (\<lambda>l. case tbl_get (db_items d) (pl_item_id l) of
                        None \<Rightarrow> []
                      | Some it \<Rightarrow> [\<lparr>gpl_sku = it_sku it, gpl_qty = pl_qty l, gpl_uom = it_uom it,
                                     gpl_unit_price = pl_unit_price l\<rparr>]) (po_lines_of poID d))"

definition joined_value :: "(item_row \<Rightarrow> bool) \<Rightarrow> string \<Rightarrow> db \<Rightarrow> amount" where
  "joined_value p gid d =
     (\<Sum>l \<leftarrow> grn_lines_of gid d.
        case tbl_get (db_items d) (gl_item_id l) of
          None \<Rightarrow> 0 | Some it \<Rightarrow> if p it then gl_qty l * gl_unit_price l else 0)"

definition enqueueGrnPosted :: "config \<Rightarrow> env \<Rightarrow> string \<Rightarrow> grn_row \<Rightarrow> db \<Rightarrow> db" where
  "enqueueGrnPosted cf e gid g d =
     (if \<not> cf_outbox cf \<or> trim_space (gr_status g) \<noteq> ''Posted'' then d
      else
        let poID = trim_space (deref (gr_po_id g));
            lines = (if poID \<noteq> '''' then posted_lines poID d else []);
            recv = joined_value (\<lambda>_. True) gid d;
            stock = joined_value it_stockable gid d;
            kp = BuildGrnPosted e gid poID (gr_vendor_id g) (gr_received_by g)
                   (if recv > 0 then fmt_2f recv else '''') (if recv > 0 then fmt_2f stock else '''') lines
        in enqueue e TypeGrnPosted (fst kp) (snd kp) d)"

section \<open>Create, update, delete\<close>

fun insert_grn_lines :: "string \<Rightarrow> order_line list \<Rightarrow> db \<Rightarrow> repo_error + db" where
  "insert_grn_lines gid [] d = Inr d"
| "insert_grn_lines gid (l # ls) d =
     (let item = trim_space (ol_item_id l) in
      if item = '''' \<or> ol_qty l \<le> 0 \<or> ol_price l < 0 then Inl ErrInvalidArgument
      else res_bind (fk (db_items d) item) (\<lambda>_.
           insert_grn_lines gid ls
             (d\<lparr>db_grn_lines := db_grn_lines d @
                 [\<lparr>gl_grn_id = gid, gl_item_id = item, gl_qty = ol_qty l, gl_unit_price = ol_price l\<rparr>]\<rparr>)))"

text \<open>The inserted row with the columns' defaults, and the \<^verbatim>\<open>SET\<close> list of the update.\<close>

definition new_grn ::
  "env \<Rightarrow> string \<Rightarrow> string option \<Rightarrow> int option \<Rightarrow> string \<Rightarrow> string \<Rightarrow> bool \<Rightarrow> string \<Rightarrow> string \<Rightarrow> string \<Rightarrow> grn_row" where
  "new_grn e vendorID poID receivedDate receivedBy st qualityCritical qcStatus warehouse notes =
     \<lparr>gr_doc_no = Some (e_doc_no e), gr_po_id = poID, gr_vendor_id = vendorID,
      gr_received_date = Some (coalesce receivedDate (e_today e)), gr_received_by = receivedBy, gr_status = st,
      gr_quality_critical = qualityCritical, gr_qc_status = qcStatus, gr_warehouse = trim_space warehouse,
      gr_notes = trim_space notes, gr_budget_recognized = False, gr_recognized_amount = 0\<rparr>"

definition grn_edit ::
  "string option \<Rightarrow> string option \<Rightarrow> int option option \<Rightarrow> string option \<Rightarrow> string option \<Rightarrow> bool option \<Rightarrow>
   string option \<Rightarrow> string option \<Rightarrow> string option \<Rightarrow> grn_row \<Rightarrow> grn_row" where
  "grn_edit vendorID po receivedDate receivedBy st qualityCritical qcStatus warehouse notes g =
     g\<lparr>gr_po_id := (case po of None \<Rightarrow> gr_po_id g | Some p \<Rightarrow> Some p),
       gr_vendor_id := coalesce vendorID (gr_vendor_id g),
       gr_received_date := coalesce receivedDate (gr_received_date g),
       gr_received_by := coalesce receivedBy (gr_received_by g), gr_status := coalesce st (gr_status g),
       gr_quality_critical := coalesce qualityCritical (gr_quality_critical g),
       gr_qc_status := coalesce (trimPtr qcStatus) (gr_qc_status g),
       gr_warehouse := coalesce (trimPtr warehouse) (gr_warehouse g),
       gr_notes := coalesce (trimPtr notes) (gr_notes g)\<rparr>"

definition CreateGrn ::
  "config \<Rightarrow> env \<Rightarrow> string \<Rightarrow> string option \<Rightarrow> string \<Rightarrow> string \<Rightarrow> int option \<Rightarrow> order_line list \<Rightarrow> bool \<Rightarrow>
   string \<Rightarrow> string \<Rightarrow> string \<Rightarrow> string \<Rightarrow> db \<Rightarrow> (string \<times> grn_row) tx" where
  "CreateGrn cf e vendorID poID receivedBy st receivedDate lines qualityCritical qcStatus warehouse notes auditUser d =
     (let vendorID = trim_space vendorID;
          st = (if st = '''' then ''Draft'' else st);
          qcStatus = trim_space qcStatus;
          by' = (if blank receivedBy then auditUser else receivedBy);
          g = new_grn e vendorID poID receivedDate by' st qualityCritical qcStatus warehouse notes
      in if vendorID = '''' then Inl ErrInvalidArgument
         else res_bind (grnQCGate st qualityCritical qcStatus) (\<lambda>_.
              res_bind (case poID of None \<Rightarrow> Inr () | Some p \<Rightarrow> assertPOReceivable p d) (\<lambda>_.
              res_bind (case poID of None \<Rightarrow> Inr () | Some p \<Rightarrow> res_bind (uuid_param p) (\<lambda>_. Inr ())) (\<lambda>_.
              res_bind (fk (db_vendors d) vendorID) (\<lambda>_.
              res_bind (insert_row (e_id e) g (db_grns d)) (\<lambda>t.
              res_bind (insert_grn_lines (e_id e) lines (d\<lparr>db_grns := t\<rparr>)) (\<lambda>d1.
              let d2 = insert_audit (audit_user auditUser) ''create'' (e_id e)
                         (''vendor='' @ vendorID @ (case poID of None \<Rightarrow> '''' | Some p \<Rightarrow>
                            if p \<noteq> '''' then '' po='' @ p else '''')) d1;
                  d3 = recognizePOSpendOnReceipt (e_id e) poID st d2
              in Inr ((e_id e, g), enqueueGrnPosted cf e (e_id e) g d3))))))))"

text \<open>A blank order reference arrives as a typed nil, which the statement reads as \<^verbatim>\<open>NULL\<close>: no change.\<close>

definition replace_grn_lines :: "string \<Rightarrow> order_line list option \<Rightarrow> db \<Rightarrow> repo_error + db" where
  "replace_grn_lines gid lines d =
     (case lines of
        None \<Rightarrow> Inr d
      | Some ls \<Rightarrow>
          if (case tbl_get (db_grns d) gid of None \<Rightarrow> False | Some g \<Rightarrow> gr_budget_recognized g)
          then Inl ErrInvalidArgument
          else insert_grn_lines gid ls (d\<lparr>db_grn_lines := filter (\<lambda>l. gl_grn_id l \<noteq> gid) (db_grn_lines d)\<rparr>))"

definition UpdateGrn ::
  "config \<Rightarrow> env \<Rightarrow> string \<Rightarrow> string option \<Rightarrow> string option \<Rightarrow> int option option \<Rightarrow> string option \<Rightarrow>
   string option \<Rightarrow> order_line list option \<Rightarrow> bool option \<Rightarrow> string option \<Rightarrow> string option \<Rightarrow> string option \<Rightarrow>
   string \<Rightarrow> db \<Rightarrow> grn_row tx" where
  "UpdateGrn cf e i vendorID poID receivedDate receivedBy st lines qualityCritical qcStatus warehouse notes auditUser d =
     (let i = trim_space i in
      if i = '''' \<or> (case vendorID of None \<Rightarrow> False | Some v \<Rightarrow> blank v) then Inl ErrInvalidArgument
      else case tbl_get (db_grns d) i of
          None \<Rightarrow> Inl ErrNotFound
        | Some g0 \<Rightarrow>
            let po = (case poID of None \<Rightarrow> None | Some p \<Rightarrow> nullif_blank (trim_space p));
                f = grn_edit vendorID po receivedDate receivedBy st qualityCritical qcStatus warehouse notes;
                g = f g0
            in res_bind (fk_opt (db_vendors d) vendorID) (\<lambda>_.
               res_bind (grnQCGate (gr_status g) (gr_quality_critical g) (gr_qc_status g)) (\<lambda>_.
               res_bind (replace_grn_lines i lines (d\<lparr>db_grns := tbl_upd i f (db_grns d)\<rparr>)) (\<lambda>d1.
               let d2 = insert_audit (audit_user auditUser) ''update'' i ''grn updated'' d1;
                   d3 = recognizePOSpendOnReceipt i (gr_po_id g) (gr_status g) d2
               in Inr (g, enqueueGrnPosted cf e i g d3)))))"

definition DeleteGrn :: "string \<Rightarrow> string \<Rightarrow> db \<Rightarrow> unit tx" where
  "DeleteGrn i auditUser d =
     (let i = trim_space i in
      if i = '''' then Inl ErrInvalidArgument
      else case tbl_get (db_grns d) i of
          None \<Rightarrow> Inl ErrNotFound
        | Some g \<Rightarrow>
            let d1 = recognizePOSpendOnReceipt i (gr_po_id g) ''Deleted'' d in
            if tbl_ex (\<lambda>_ v. inv_grn_id v = Some i) (db_invoices d) then Inl DbForeignKey
            else Inr ((), insert_audit (audit_user auditUser) ''delete'' i ''grn deleted''
                   (d1\<lparr>db_grns := tbl_del i (db_grns d1),
                       db_grn_lines := filter (\<lambda>l. gl_grn_id l \<noteq> i) (db_grn_lines d1)\<rparr>)))"

section \<open>Successful receipts, decomposed\<close>

lemma CreateGrnE:
  assumes "CreateGrn cf e v po by' st x ls qc qs w n u d = Inr (y, d')"
  obtains st' by2 d1 aud where
    "grnQCGate st' qc (trim_space qs) = Inr ()" and "st' = (if st = '''' then ''Draft'' else st)"
    and "case po of None \<Rightarrow> True | Some p \<Rightarrow> assertPOReceivable p d = Inr ()"
    and "tbl_get (db_grns d) (e_id e) = None"
    and "y = (e_id e, new_grn e (trim_space v) po x by2 st' qc (trim_space qs) w n)"
    and "insert_grn_lines (e_id e) ls (d\<lparr>db_grns := tbl_ins (e_id e) (new_grn e (trim_space v) po x by2 st' qc (trim_space qs) w n)
      (db_grns d)\<rparr>) = Inr d1"
    and "d' = enqueueGrnPosted cf e (e_id e) (new_grn e (trim_space v) po x by2 st' qc (trim_space qs) w n)
      (recognizePOSpendOnReceipt (e_id e) po st' (insert_audit (audit_user u) ''create'' (e_id e) aud d1))"
proof -
  have "(case po of None \<Rightarrow> Inr () | Some p \<Rightarrow> assertPOReceivable p d) = Inr () \<Longrightarrow>
      case po of None \<Rightarrow> True | Some p \<Rightarrow> assertPOReceivable p d = Inr ()" by (cases po) auto
  then show ?thesis
    using assms unfolding CreateGrn_def Let_def
    by (simp split: if_split_asm) (elim exE conjE; rule that; (assumption | erule sym | simp)?)+
qed

lemma UpdateGrnE:
  assumes "UpdateGrn cf e i v po x by' st ls qc qs w n u d = Inr (g, d')"
  obtains po' g0 d1 where "tbl_get (db_grns d) (trim_space i) = Some g0"
    and "po' = (case po of None \<Rightarrow> None | Some p \<Rightarrow> nullif_blank (trim_space p))"
    and "g = grn_edit v po' x by' st qc qs w n g0"
    and "grnQCGate (gr_status g) (gr_quality_critical g) (gr_qc_status g) = Inr ()"
    and "replace_grn_lines (trim_space i) ls
      (d\<lparr>db_grns := tbl_upd (trim_space i) (grn_edit v po' x by' st qc qs w n) (db_grns d)\<rparr>) = Inr d1"
    and "d' = enqueueGrnPosted cf e (trim_space i) g (recognizePOSpendOnReceipt (trim_space i) (gr_po_id g) (gr_status g)
      (insert_audit (audit_user u) ''update'' (trim_space i) ''grn updated'' d1))"
proof -
  obtain g0 where g0: "tbl_get (db_grns d) (trim_space i) = Some g0"
    using assms by (auto simp: UpdateGrn_def Let_def split: if_split_asm option.splits)
  show ?thesis
    using assms g0 unfolding UpdateGrn_def Let_def
    by (simp split: if_split_asm) (elim exE conjE; rule that [OF g0 refl]; (assumption | rule sym, assumption | rule sym, simp))
qed

section \<open>The envelopes stay balanced\<close>

lemma applyReceivedQty_simps [simp]:
  "db_budgets (applyReceivedQty g p s d) = db_budgets d" "db_purchase_orders (applyReceivedQty g p s d) = db_purchase_orders d"
  "db_grns (applyReceivedQty g p s d) = db_grns d" "db_grn_lines (applyReceivedQty g p s d) = db_grn_lines d"
  "db_requisitions (applyReceivedQty g p s d) = db_requisitions d"
  by (simp_all add: applyReceivedQty_def)

lemma recomputePOReceiptStatus_simps [simp]:
  "db_budgets (recomputePOReceiptStatus p d) = db_budgets d" "db_po_lines (recomputePOReceiptStatus p d) = db_po_lines d"
  "db_grns (recomputePOReceiptStatus p d) = db_grns d" "db_grn_lines (recomputePOReceiptStatus p d) = db_grn_lines d"
  "db_requisitions (recomputePOReceiptStatus p d) = db_requisitions d"
  by (simp_all add: recomputePOReceiptStatus_def)

lemma mark_recognized_simps [simp]:
  "db_budgets (mark_recognized g b a d) = db_budgets d" "db_purchase_orders (mark_recognized g b a d) = db_purchase_orders d"
  "db_po_lines (mark_recognized g b a d) = db_po_lines d" "db_grn_lines (mark_recognized g b a d) = db_grn_lines d"
  "db_requisitions (mark_recognized g b a d) = db_requisitions d"
  by (simp_all add: mark_recognized_def)

lemma set_spent_recognized_simps [simp]:
  "db_budgets (set_spent_recognized p f d) = db_budgets d" "db_po_lines (set_spent_recognized p f d) = db_po_lines d"
  "db_grns (set_spent_recognized p f d) = db_grns d" "db_grn_lines (set_spent_recognized p f d) = db_grn_lines d"
  "db_requisitions (set_spent_recognized p f d) = db_requisitions d"
  by (simp_all add: set_spent_recognized_def)

lemma move_budget_simps [simp]:
  "db_purchase_orders (move_budget b f d) = db_purchase_orders d" "db_po_lines (move_budget b f d) = db_po_lines d"
  "db_grns (move_budget b f d) = db_grns d" "db_grn_lines (move_budget b f d) = db_grn_lines d"
  "db_requisitions (move_budget b f d) = db_requisitions d"
  "db_budgets (move_budget b f d) = (if blank b then db_budgets d else tbl_upd b f (db_budgets d))"
  by (simp_all add: move_budget_def)

lemma enqueueGrnPosted_simps [simp]:
  "db_budgets (enqueueGrnPosted cf e i g d) = db_budgets d" "db_purchase_orders (enqueueGrnPosted cf e i g d) = db_purchase_orders d"
  "db_po_lines (enqueueGrnPosted cf e i g d) = db_po_lines d" "db_grns (enqueueGrnPosted cf e i g d) = db_grns d"
  "db_grn_lines (enqueueGrnPosted cf e i g d) = db_grn_lines d" "db_requisitions (enqueueGrnPosted cf e i g d) = db_requisitions d"
  by (simp_all add: enqueueGrnPosted_def Let_def)

lemma recognizePOSpendOnReceipt_ok [budget_safe]:
  "budgets_ok d \<Longrightarrow> budgets_ok (recognizePOSpendOnReceipt g po st d)"
  by (auto simp: recognizePOSpendOnReceipt_def recognize_posted_def reverse_posted_def Let_def
      intro!: spend_mv.table_ok unspend_mv.table_ok split: option.splits if_splits)

lemma insert_grn_lines_frame:
  assumes "insert_grn_lines i ls d = Inr d'"
  shows "\<exists>t. d' = d\<lparr>db_grn_lines := db_grn_lines d @ t\<rparr> \<and> (\<forall>l \<in> set t. gl_grn_id l = i \<and> 0 < gl_qty l \<and> 0 \<le> gl_unit_price l)"
  using assms
proof (induction ls arbitrary: d)
  case Nil
  then show ?case by (intro exI [of _ "[]"]) auto
next
  case (Cons l ls)
  let ?r = "\<lparr>gl_grn_id = i, gl_item_id = trim_space (ol_item_id l), gl_qty = ol_qty l, gl_unit_price = ol_price l\<rparr>"
  from Cons.prems have "insert_grn_lines i ls (d\<lparr>db_grn_lines := db_grn_lines d @ [?r]\<rparr>) = Inr d'"
    and "0 < ol_qty l" "0 \<le> ol_price l"
    by (auto simp: Let_def split: if_splits)
  with Cons.IH [OF this(1)] obtain t where "d' = d\<lparr>db_grn_lines := db_grn_lines d @ (?r # t)\<rparr>"
      "\<forall>l \<in> set (?r # t). gl_grn_id l = i \<and> 0 < gl_qty l \<and> 0 \<le> gl_unit_price l"
    by auto
  then show ?case by blast
qed

lemma replace_grn_lines_frame: "replace_grn_lines i ls d = Inr d' \<Longrightarrow> \<exists>t. d' = d\<lparr>db_grn_lines := t\<rparr>"
  by (cases ls) (auto simp: replace_grn_lines_def dest!: insert_grn_lines_frame intro: exI [of _ "db_grn_lines d"] split: if_splits)

lemma CreateGrn_ok [budget_safe]:
  "CreateGrn cf e v po by' st x ls qc qs w n u d = Inr (y, d') \<Longrightarrow> budgets_ok d \<Longrightarrow> budgets_ok d'"
  by (auto simp: CreateGrn_def Let_def dest!: insert_grn_lines_frame intro!: recognizePOSpendOnReceipt_ok split: if_splits)

lemma UpdateGrn_ok [budget_safe]:
  "UpdateGrn cf e i v po x by' st ls qc qs w n u d = Inr (y, d') \<Longrightarrow> budgets_ok d \<Longrightarrow> budgets_ok d'"
  by (auto simp: UpdateGrn_def Let_def dest!: replace_grn_lines_frame intro!: recognizePOSpendOnReceipt_ok split: if_splits option.splits)

lemma DeleteGrn_ok [budget_safe]: "DeleteGrn i u d = Inr (y, d') \<Longrightarrow> budgets_ok d \<Longrightarrow> budgets_ok d'"
  by (auto simp: DeleteGrn_def Let_def intro!: recognizePOSpendOnReceipt_ok split: if_splits option.splits)

end
