(* ===== verification/Payables.thy ===== *)
theory Payables
  imports Receiving
begin

text \<open>
  Supplier invoices, the three-way match and the payment write-back
  (\<^verbatim>\<open>internal/repo/procurement_more.go\<close>, \<^verbatim>\<open>procurement_update_delete_more.go\<close>,
  \<^verbatim>\<open>payment_writeback.go\<close> and \<^verbatim>\<open>enqueueInvoiceReceived\<close>).

  \<^verbatim>\<open>RecordVendorPayment\<close> compares one parameter with the id, a uuid since migration 027, and with
  the invoice number, a text: the statement fails on every call, and what follows it never runs. A day rendered as \<^verbatim>\<open>YYYY-MM-DD\<close> and parsed back is the same day.
\<close>

section \<open>Three-way match\<close>

text \<open>\<^verbatim>\<open>ORDER BY received_date DESC NULLS LAST, id DESC LIMIT 1\<close>: the last row of the ascending order
  with the missing dates first.\<close>

definition grn_order :: "string \<times> grn_row \<Rightarrow> (int \<times> int) \<times> string" where
  "grn_order x =
     (case x of (k, g) \<Rightarrow> (case gr_received_date g of None \<Rightarrow> (0, 0) | Some t \<Rightarrow> (1, t), k))"

definition posted_grns :: "string \<Rightarrow> db \<Rightarrow> (string \<times> grn_row) list" where
  "posted_grns pid d =
     filter (\<lambda>(_, g). gr_po_id g = Some pid \<and> to_lower (gr_status g) \<in> {''posted'', ''received''}) (db_grns d)"

definition deriveInvoiceMatchStatus :: "string option \<Rightarrow> amount \<Rightarrow> db \<Rightarrow> string \<times> string option" where
  "deriveInvoiceMatchStatus poID amt d =
     (let pid = trim_space (deref poID) in
      if pid = '''' then (''No PO'', None)
      else case tbl_get (db_purchase_orders d) pid of
          None \<Rightarrow> (''No PO'', None)
        | Some p \<Rightarrow>
            (case rev (sort_key grn_order (posted_grns pid d)) of
               [] \<Rightarrow> (''Pending GRN'', None)
             | (gid, _) # _ \<Rightarrow>
                 if \<bar>amt - po_total p\<bar> \<le> 1 / 100 then (''Matched'', Some gid)
                 else (''Amount variance'', Some gid)))"

definition invoiceVarianceGate :: "amount \<Rightarrow> amount \<Rightarrow> amount \<Rightarrow> string \<Rightarrow> repo_error + unit" where
  "invoiceVarianceGate amt poTotal tolerancePct resolution =
     (if poTotal = 0 then Inr ()
      else let pct = \<bar>amt - poTotal\<bar> / \<bar>poTotal\<bar> * 100 in
        if pct \<le> tolerancePct \<or> \<not> blank resolution then Inr () else Inl ErrConflict)"

section \<open>Invoices\<close>

definition enqueueInvoiceReceived :: "config \<Rightarrow> env \<Rightarrow> string \<Rightarrow> invoice_row \<Rightarrow> db \<Rightarrow> db" where
  "enqueueInvoiceReceived cf e i v d =
     (if \<not> cf_outbox cf then d
      else
        let docRef = (case inv_invoice_no v of None \<Rightarrow> i | Some s \<Rightarrow> if blank s then i else trim_space s);
            currency = (if inv_currency v = '''' then ''UGX'' else inv_currency v);
            kp = BuildInvoiceReceived e docRef (inv_vendor_id v) (fmt_2f (inv_amount v)) currency
                   (trim_space (deref (inv_po_id v))) (inv_invoice_date v)
        in enqueue e TypeInvoiceReceived (fst kp) (snd kp) d)"

definition GetInvoice :: "string \<Rightarrow> db \<Rightarrow> repo_error + invoice_row" where
  "GetInvoice i d =
     (let i = trim_space i in
      if i = '''' then Inl ErrInvalidArgument
      else case tbl_get (db_invoices d) i of None \<Rightarrow> Inl ErrNotFound | Some v \<Rightarrow> Inr v)"

text \<open>The returned invoice leaves \<^verbatim>\<open>InvoiceNo\<close> unset when the number was generated, so the event then
  carries the id.\<close>

definition CreateInvoice ::
  "config \<Rightarrow> env \<Rightarrow> string \<Rightarrow> string option \<Rightarrow> amount \<Rightarrow> string \<Rightarrow> int option \<Rightarrow> string option \<Rightarrow> string \<Rightarrow>
   int option \<Rightarrow> string \<Rightarrow> db \<Rightarrow> (string \<times> invoice_row) tx" where
  "CreateInvoice cf e vendorID poID amt currency invoiceDate invoiceNo varianceResolution dueDate auditUser d =
     (let vendorID = trim_space vendorID;
          currency = (if currency = '''' then ''USD'' else currency);
          given = (case invoiceNo of None \<Rightarrow> None | Some s \<Rightarrow> nullif_blank (trim_space s));
          mg = deriveInvoiceMatchStatus poID amt d;
          v = \<lparr>inv_invoice_no = Some (coalesce given (e_doc_no e)), inv_vendor_id = vendorID, inv_po_id = poID,
               inv_grn_id = snd mg, inv_amount = amt, inv_currency = currency, inv_status = ''Pending Approval'',
               inv_match_status = fst mg, inv_invoice_date = Some (coalesce invoiceDate (e_today e)),
               inv_payment_date = None, inv_payment_method = '''',
               inv_variance_resolution = trim_space varianceResolution, inv_due_date = dueDate\<rparr>
      in if vendorID = '''' then Inl ErrInvalidArgument
         else res_bind (case poID of None \<Rightarrow> Inr () | Some p \<Rightarrow> res_bind (uuid_param p) (\<lambda>_. Inr ())) (\<lambda>_.
              res_bind (fk (db_vendors d) vendorID) (\<lambda>_.
              res_bind (insert_row (e_id e) v (db_invoices d)) (\<lambda>t.
              let out = v\<lparr>inv_invoice_no := given\<rparr> in
              Inr ((e_id e, out),
                enqueueInvoiceReceived cf e (e_id e) out
                  (insert_audit (audit_user auditUser) ''create'' (e_id e)
                     (''vendor='' @ vendorID @ '' amount='' @ fmt_2f amt @ '' '' @ currency @ '' match='' @ fst mg)
                     (d\<lparr>db_invoices := t\<rparr>)))))))"

definition ApproveInvoice :: "config \<Rightarrow> string \<Rightarrow> string \<Rightarrow> db \<Rightarrow> invoice_row tx" where
  "ApproveInvoice cf i auditUser d =
     (let i = trim_space i in
      if i = '''' then Inl ErrInvalidArgument
      else case tbl_get (db_invoices d) i of
          None \<Rightarrow> Inl ErrNotFound
        | Some v \<Rightarrow>
            if equal_fold (trim_space (inv_status v)) ''Paid'' then Inl ErrConflict
            else
              let pid = trim_space (deref (inv_po_id v)) in
              res_bind (if pid = '''' then Inr ()
                        else case tbl_get (db_purchase_orders d) pid of
                            None \<Rightarrow> Inr ()
                          | Some p \<Rightarrow> invoiceVarianceGate (inv_amount v) (po_total p) (cf_invoice_variance_pct cf)
                                        (inv_variance_resolution v)) (\<lambda>_.
              let mg = deriveInvoiceMatchStatus (inv_po_id v) (inv_amount v) d in
              if fst mg \<noteq> ''Matched'' then Inl ErrConflict
              else
                let d1 = insert_audit (audit_user auditUser) ''approve'' i ''invoice approved (three-way match cleared)''
                       (d\<lparr>db_invoices := tbl_upd i (\<lambda>v. v\<lparr>inv_status := ''Approved'', inv_match_status := fst mg,
                            inv_grn_id := (case inv_grn_id v of None \<Rightarrow> snd mg | Some g \<Rightarrow> Some g)\<rparr>)
                            (db_invoices d)\<rparr>)
                in res_bind (GetInvoice i d1) (\<lambda>out. Inr (out, d1))))"

text \<open>Blank invoice numbers and order references arrive as typed nils, hence as "no change".\<close>

definition UpdateInvoice ::
  "string \<Rightarrow> string option \<Rightarrow> string option \<Rightarrow> string option \<Rightarrow> amount option \<Rightarrow> string option \<Rightarrow> string option \<Rightarrow>
   string option \<Rightarrow> int option option \<Rightarrow> string option \<Rightarrow> int option option \<Rightarrow> string \<Rightarrow> db \<Rightarrow> invoice_row tx" where
  "UpdateInvoice i invoiceNo vendorID poID amt currency st matchStatus invoiceDate varianceResolution dueDate auditUser d =
     (let i = trim_space i in
      if i = '''' \<or> (case vendorID of None \<Rightarrow> False | Some v \<Rightarrow> blank v) then Inl ErrInvalidArgument
      else case tbl_get (db_invoices d) i of
          None \<Rightarrow> Inl ErrNotFound
        | Some v0 \<Rightarrow>
            let no = (case invoiceNo of None \<Rightarrow> None | Some s \<Rightarrow> nullif_blank (trim_space s));
                po = (case poID of None \<Rightarrow> None | Some s \<Rightarrow> nullif_blank (trim_space s));
                f = (\<lambda>v. v\<lparr>inv_invoice_no := (case no of None \<Rightarrow> inv_invoice_no v | Some s \<Rightarrow> Some s),
                           inv_vendor_id := coalesce vendorID (inv_vendor_id v),
                           inv_po_id := (case po of None \<Rightarrow> inv_po_id v | Some s \<Rightarrow> Some s),
                           inv_amount := coalesce amt (inv_amount v), inv_currency := coalesce currency (inv_currency v),
                           inv_status := coalesce st (inv_status v),
                           inv_match_status := coalesce matchStatus (inv_match_status v),
                           inv_invoice_date := coalesce invoiceDate (inv_invoice_date v),
                           inv_variance_resolution := coalesce (trimPtr varianceResolution) (inv_variance_resolution v),
                           inv_due_date := coalesce dueDate (inv_due_date v)\<rparr>)
            in res_bind (fk_opt (db_vendors d) vendorID) (\<lambda>_.
               Inr (f v0, insert_audit (audit_user auditUser) ''update'' i ''invoice updated''
                 (d\<lparr>db_invoices := tbl_upd i f (db_invoices d)\<rparr>))))"

definition DeleteInvoice :: "string \<Rightarrow> string \<Rightarrow> db \<Rightarrow> unit tx" where
  "DeleteInvoice i auditUser d =
     (let i = trim_space i in
      if i = '''' then Inl ErrInvalidArgument
      else if tbl_ex (\<lambda>_ p. pay_invoice_id p = i) (db_payments d) then Inl DbForeignKey
      else if tbl_get (db_invoices d) i = None then Inl ErrNotFound
      else Inr ((), insert_audit (audit_user auditUser) ''delete'' i ''invoice deleted''
             (d\<lparr>db_invoices := tbl_del i (db_invoices d)\<rparr>)))"

section \<open>Payments\<close>

text \<open>\<^verbatim>\<open>WHERE id = $1 OR invoice_no = $1 ORDER BY (id = $1) DESC LIMIT 1\<close>.\<close>

definition find_invoice :: "string \<Rightarrow> db \<Rightarrow> repo_error + (string \<times> invoice_row) option" where
  "find_invoice ref d =
     res_bind (one_type [SqlUuid, SqlText]) (\<lambda>_.
     Inr (case tbl_get (db_invoices d) ref of
            Some v \<Rightarrow> Some (ref, v)
          | None \<Rightarrow> find (\<lambda>(_, v). inv_invoice_no v = Some ref) (db_invoices d)))"

definition RecordVendorPayment ::
  "env \<Rightarrow> string \<Rightarrow> string \<Rightarrow> amount \<Rightarrow> string \<Rightarrow> string \<Rightarrow> int option \<Rightarrow> db \<Rightarrow> unit tx" where
  "RecordVendorPayment e invoiceRef paymentRef amt currency method payDate d =
     (let ref = trim_space invoiceRef;
          method = (if method = '''' then ''Bank Transfer'' else method);
          day = coalesce payDate (e_today e)
      in if ref = '''' then Inr ((), d)
         else res_bind (find_invoice ref d) (\<lambda>hit. case hit of
             None \<Rightarrow> Inr ((), d)
           | Some (iid, v) \<Rightarrow>
               let currency = (if currency = '''' then ''USD'' else currency);
                   pref = (if paymentRef = '''' then e_doc_no e else paymentRef);
                   row = \<lparr>pay_invoice_id = iid, pay_vendor_id = inv_vendor_id v, pay_amount = amt,
                          pay_currency = currency, pay_date = day, pay_method = method, pay_reference = pref,
                          pay_status = ''Cleared'', pay_initiated_by = ''finance''\<rparr>
               in if pref \<noteq> '''' \<and> tbl_ex (\<lambda>_ p. pay_reference p = pref) (db_payments d) then Inr ((), d)
                  else res_bind (insert_row (e_id e) row (db_payments d)) (\<lambda>t.
                    let d1 = d\<lparr>db_payments := t,
                               db_invoices := tbl_upd iid (\<lambda>v. v\<lparr>inv_status := ''Paid'', inv_payment_date := Some day,
                                 inv_payment_method := method\<rparr>) (db_invoices d)\<rparr>;
                        d2 = (if blank (deref (inv_po_id v)) then d1
                              else d1\<lparr>db_purchase_orders := tbl_upd (deref (inv_po_id v))
                                     (\<lambda>p. p\<lparr>po_payment_status := ''Issued''\<rparr>) (db_purchase_orders d1)\<rparr>)
                    in Inr ((), insert_audit ''finance'' ''payment'' iid
                         (''vendor payment '' @ pref @ '' settled in finance'') d2))))"

lemma RecordVendorPayment_never_settles:
  "RecordVendorPayment e ref pref amt c m x d =
     (if blank ref then Inr ((), d) else Inl DbUndefinedOperator)"
  by (simp add: RecordVendorPayment_def find_invoice_def one_type_def check_def Let_def)

end
