(* ===== verification/Catalogue.thy ===== *)
theory Catalogue
  imports Purchasing
begin

text \<open>
  Catalogue items and contracts (\<^verbatim>\<open>internal/repo/procurement_more.go\<close>,
  \<^verbatim>\<open>procurement_update_delete_more.go\<close>) and the warehouse's low-stock signal
  (\<^verbatim>\<open>low_stock.go\<close>).

  An attribute bag is its JSON text, empty when the request carries none. A blank preferred vendor
  arrives as a typed nil, hence as "no change". The fields of a low-stock signal are those of its
  map after the type assertions, so a missing one is the zero value.
\<close>

definition CreateItem ::
  "env \<Rightarrow> string \<Rightarrow> string \<Rightarrow> string \<Rightarrow> string \<Rightarrow> amount \<Rightarrow> amount \<Rightarrow> amount \<Rightarrow> string \<Rightarrow> string \<Rightarrow> string \<Rightarrow>
   string \<Rightarrow> db \<Rightarrow> (string \<times> item_row) tx" where
  "CreateItem e sku name category uom stock reorder lastPrice currency preferredVendorID attrs auditUser d =
     (let sku = trim_space sku; name = trim_space name;
          currency = (if currency = '''' then ''USD'' else currency);
          pref = nullif_blank (trim_space preferredVendorID)
      in if sku = '''' \<or> name = '''' then Inl ErrInvalidArgument
         else
           let r = \<lparr>it_sku = sku, it_name = name, it_category = category, it_uom = uom, it_stock = stock,
                    it_reorder = reorder, it_last_price = lastPrice, it_currency = currency,
                    it_preferred_vendor_id = pref, it_stockable = True,
                    it_attrs = (if attrs = '''' then ''{}'' else attrs)\<rparr>
           in res_bind (fk_opt (db_vendors d) pref) (\<lambda>_.
              res_bind (insert_row (e_id e) r (db_items d)) (\<lambda>t.
              Inr ((e_id e, r),
                insert_audit (audit_user auditUser) ''create'' (e_id e) (''sku='' @ sku) (d\<lparr>db_items := t\<rparr>)))))"

definition UpdateItem ::
  "string \<Rightarrow> string option \<Rightarrow> string option \<Rightarrow> string option \<Rightarrow> string option \<Rightarrow> amount option \<Rightarrow> amount option \<Rightarrow>
   amount option \<Rightarrow> string option \<Rightarrow> string option \<Rightarrow> string \<Rightarrow> string \<Rightarrow> db \<Rightarrow> item_row tx" where
  "UpdateItem i sku name category uom stock reorder lastPrice currency preferredVendorID attrs auditUser d =
     (let i = trim_space i in
      if i = '''' \<or> (case sku of None \<Rightarrow> False | Some s \<Rightarrow> blank s) \<or> (case name of None \<Rightarrow> False | Some s \<Rightarrow> blank s)
      then Inl ErrInvalidArgument
      else case tbl_get (db_items d) i of
          None \<Rightarrow> Inl ErrNotFound
        | Some r0 \<Rightarrow>
            let pref = (case preferredVendorID of None \<Rightarrow> None | Some s \<Rightarrow> nullif_blank (trim_space s));
                f = (\<lambda>r. r\<lparr>it_sku := coalesce sku (it_sku r), it_name := coalesce name (it_name r),
                           it_category := coalesce category (it_category r), it_uom := coalesce uom (it_uom r),
                           it_stock := coalesce stock (it_stock r), it_reorder := coalesce reorder (it_reorder r),
                           it_last_price := coalesce lastPrice (it_last_price r),
                           it_currency := coalesce currency (it_currency r),
                           it_preferred_vendor_id := (case pref of None \<Rightarrow> it_preferred_vendor_id r | Some v \<Rightarrow> Some v),
                           it_attrs := (if attrs = '''' then it_attrs r else attrs)\<rparr>)
            in res_bind (fk_opt (db_vendors d) pref) (\<lambda>_.
               Inr (f r0, insert_audit (audit_user auditUser) ''update'' i ''item updated''
                 (d\<lparr>db_items := tbl_upd i f (db_items d)\<rparr>))))"

definition DeleteItem :: "string \<Rightarrow> string \<Rightarrow> db \<Rightarrow> unit tx" where
  "DeleteItem i auditUser d =
     (let i = trim_space i in
      if i = '''' then Inl ErrInvalidArgument
      else if list_ex (\<lambda>l. pl_item_id l = i) (db_po_lines d) \<or> list_ex (\<lambda>l. gl_item_id l = i) (db_grn_lines d)
        then Inl DbForeignKey
      else if tbl_get (db_items d) i = None then Inl ErrNotFound
      else Inr ((), insert_audit (audit_user auditUser) ''delete'' i ''item deleted''
             (d\<lparr>db_items := tbl_del i (db_items d)\<rparr>)))"

definition CreateContract ::
  "env \<Rightarrow> string \<Rightarrow> string \<Rightarrow> int option \<Rightarrow> int option \<Rightarrow> amount \<Rightarrow> string \<Rightarrow> string \<Rightarrow> amount \<Rightarrow> string \<Rightarrow> db \<Rightarrow>
   (string \<times> contract_row) tx" where
  "CreateContract e vendorID title startDate endDate value currency st committedVolume auditUser d =
     (let vendorID = trim_space vendorID; title = trim_space title;
          currency = (if currency = '''' then ''USD'' else currency);
          st = (if st = '''' then ''Draft'' else st)
      in if vendorID = '''' \<or> title = '''' then Inl ErrInvalidArgument
         else
           let r = \<lparr>ct_doc_no = Some (e_doc_no e), ct_vendor_id = vendorID, ct_title = title, ct_start_date = startDate,
                    ct_end_date = endDate, ct_value = value, ct_currency = currency, ct_status = st,
                    ct_committed_volume = committedVolume\<rparr>
           in res_bind (fk (db_vendors d) vendorID) (\<lambda>_.
              res_bind (insert_row (e_id e) r (db_contracts d)) (\<lambda>t.
              Inr ((e_id e, r),
                insert_audit (audit_user auditUser) ''create'' (e_id e)
                  (''vendor='' @ vendorID @ '' value='' @ fmt_2f value @ '' '' @ currency) (d\<lparr>db_contracts := t\<rparr>)))))"

definition UpdateContract ::
  "string \<Rightarrow> string option \<Rightarrow> string option \<Rightarrow> int option option \<Rightarrow> int option option \<Rightarrow> amount option \<Rightarrow>
   string option \<Rightarrow> string option \<Rightarrow> amount option \<Rightarrow> string \<Rightarrow> db \<Rightarrow> contract_row tx" where
  "UpdateContract i vendorID title startDate endDate value currency st committedVolume auditUser d =
     (let i = trim_space i in
      if i = '''' \<or> (case vendorID of None \<Rightarrow> False | Some s \<Rightarrow> blank s) \<or> (case title of None \<Rightarrow> False | Some s \<Rightarrow> blank s)
      then Inl ErrInvalidArgument
      else case tbl_get (db_contracts d) i of
          None \<Rightarrow> Inl ErrNotFound
        | Some r0 \<Rightarrow>
            let f = (\<lambda>r. r\<lparr>ct_vendor_id := coalesce vendorID (ct_vendor_id r), ct_title := coalesce title (ct_title r),
                           ct_start_date := coalesce startDate (ct_start_date r),
                           ct_end_date := coalesce endDate (ct_end_date r), ct_value := coalesce value (ct_value r),
                           ct_currency := coalesce currency (ct_currency r), ct_status := coalesce st (ct_status r),
                           ct_committed_volume := coalesce committedVolume (ct_committed_volume r)\<rparr>)
            in res_bind (fk_opt (db_vendors d) vendorID) (\<lambda>_.
               Inr (f r0, insert_audit (audit_user auditUser) ''update'' i ''contract updated''
                 (d\<lparr>db_contracts := tbl_upd i f (db_contracts d)\<rparr>))))"

definition DeleteContract :: "string \<Rightarrow> string \<Rightarrow> db \<Rightarrow> unit tx" where
  "DeleteContract i auditUser d =
     (let i = trim_space i in
      if i = '''' then Inl ErrInvalidArgument
      else if tbl_get (db_contracts d) i = None then Inl ErrNotFound
      else Inr ((), insert_audit (audit_user auditUser) ''delete'' i ''contract deleted''
             (d\<lparr>db_contracts := tbl_del i (db_contracts d)\<rparr>)))"

definition RecordLowStockSignal :: "string \<Rightarrow> amount \<Rightarrow> amount \<Rightarrow> db \<Rightarrow> db" where
  "RecordLowStockSignal sku qty minQty d =
     insert_audit ''iag-warehouse'' ''warehouse.stock.below_minimum'' sku
       (''Low stock signal sku='' @ sku @ '' qty='' @ fmt_2f qty @ '' min='' @ fmt_2f minQty) d"

end
