(* ===== verification/Consumers.thy ===== *)
theory Consumers
  imports Intake Vendors Payables Catalogue
begin

text \<open>
  The event consumers (\<^verbatim>\<open>internal/consumer\<close>): what each message does to the store.

  A message is its decoded envelope (\<open>None\<close> when \<^verbatim>\<open>json.Unmarshal\<close> fails) and, for
  each struct a handler decodes the envelope's data into, the result of that decoding. A handler
  returns its error or success, the ids for which the in-process signal
  \<^verbatim>\<open>RequisitionPending\<close> is raised, and the store, because the repository calls of one message
  commit one by one. \<^verbatim>\<open>strconv.ParseFloat\<close> with its error dropped is the parameter \<open>pf\<close>.
\<close>

section \<open>Imports from project management and governance\<close>

definition pmRequisitionSubmitted :: string where
  "pmRequisitionSubmitted = ''pm.requisition.submitted''"

definition pmPurchaseRequisitionSubmitted :: string where
  "pmPurchaseRequisitionSubmitted = ''pm.purchase_requisition.submitted''"

definition govRequisitionApproved :: string where
  "govRequisitionApproved = ''contracts.requisition.approved''"

text \<open>The fields the two project-management structs share; a material request has no payee.\<close>

record pm_request =
  pr_id :: string
  pr_owner :: string
  pr_title :: string
  pr_amount :: string
  pr_currency :: string
  pr_status :: string
  pr_requester :: string
  pr_dept :: string
  pr_urgency :: string
  pr_payee :: string
  pr_justification :: string

record gov_request =
  gv_requisition_id :: string
  gv_no :: string
  gv_title :: string
  gv_estimate :: amount
  gv_supplier :: string
  gv_department :: string

record commercial_event =
  ce_id :: string
  ce_type :: string
  ce_pm :: "pm_request option"
  ce_purchase :: "pm_request option"
  ce_gov :: "gov_request option"

definition mapPMUrgency :: "string \<Rightarrow> string" where
  "mapPMUrgency u =
     (let u = to_lower (trim_space u) in if u = ''high'' then ''High'' else if u = ''low'' then ''Low'' else ''Medium'')"

definition mapPMStatus :: "string \<Rightarrow> string" where
  "mapPMStatus s =
     (let s = to_lower (trim_space s) in
      if s = ''approved'' then ''Approved'' else if s = ''draft'' then ''Draft'' else ''Pending Approval'')"

type_synonym event_id = string
type_synonym handled = "(repo_error + unit) \<times> string list \<times> db"

definition marked :: "string \<Rightarrow> string list \<Rightarrow> db \<Rightarrow> handled" where
  "marked eid sigs d = (Inr (), sigs, MarkEventProcessed eid d)"

text \<open>From the resolved budget on, the three imports share their steps.\<close>

definition import_pm ::
  "env \<Rightarrow> string \<Rightarrow> event_id \<Rightarrow> string \<Rightarrow> string \<Rightarrow> string \<Rightarrow> string \<Rightarrow> string \<Rightarrow> string \<Rightarrow> string \<Rightarrow> amount \<Rightarrow>
   string \<Rightarrow> string \<Rightarrow> string \<Rightarrow> bool \<Rightarrow> db \<Rightarrow> handled" where
  "import_pm e def eid pmID owner title dept requester priority st tot currency payee justification signal d =
     (case ResolveBudgetForDept def dept d of
        Inl er \<Rightarrow> if er = ErrNoBudget then (Inr (), [], d) else (Inl er, [], d)
      | Inr bid \<Rightarrow>
          (case ImportPMRequisition e pmID owner title dept requester priority st tot currency bid payee
                  justification eid d of
             Inl er \<Rightarrow> if er = ErrPMRequisitionExists then marked eid [] d else (Inl er, [], d)
           | Inr ((i, _), d1) \<Rightarrow> marked eid (if signal then [i] else []) d1))"

definition handlePMRequisition ::
  "(string \<Rightarrow> amount) \<Rightarrow> env \<Rightarrow> string \<Rightarrow> string \<Rightarrow> pm_request option \<Rightarrow> db \<Rightarrow> handled" where
  "handlePMRequisition pf e def eid data d =
     (if eid \<noteq> '''' \<and> IsEventProcessed eid d then (Inr (), [], d)
      else case data of
          None \<Rightarrow> (Inl ErrPlain, [], d)
        | Some r \<Rightarrow>
            let pmID = trim_space (pr_id r); title = trim_space (pr_title r); tot = pf (trim_space (pr_amount r)) in
            if pmID = '''' \<or> title = '''' then marked eid [] d
            else if tot \<le> 0 then (Inr (), [], d)
            else import_pm e def eid pmID (trim_space (pr_owner r)) title (trim_space (pr_dept r))
                   (trim_space (pr_requester r)) (mapPMUrgency (pr_urgency r)) (mapPMStatus (pr_status r)) tot
                   (trim_space (pr_currency r)) (trim_space (pr_payee r)) (trim_space (pr_justification r)) True d)"

definition handlePMPurchaseRequisition ::
  "(string \<Rightarrow> amount) \<Rightarrow> env \<Rightarrow> string \<Rightarrow> string \<Rightarrow> pm_request option \<Rightarrow> db \<Rightarrow> handled" where
  "handlePMPurchaseRequisition pf e def eid data d =
     (if eid \<noteq> '''' \<and> IsEventProcessed eid d then (Inr (), [], d)
      else case data of
          None \<Rightarrow> (Inl ErrPlain, [], d)
        | Some r \<Rightarrow>
            let pmID = trim_space (pr_id r); title = trim_space (pr_title r); tot = pf (trim_space (pr_amount r)) in
            if pmID = '''' \<or> title = '''' then marked eid [] d
            else if tot \<le> 0 then marked eid [] d
            else import_pm e def eid pmID (trim_space (pr_owner r)) title (trim_space (pr_dept r))
                   (trim_space (pr_requester r)) (mapPMUrgency (pr_urgency r)) (mapPMStatus (pr_status r)) tot
                   (trim_space (pr_currency r)) '''' (trim_space (pr_justification r)) True d)"

definition handleGovRequisitionApproved ::
  "env \<Rightarrow> string \<Rightarrow> string \<Rightarrow> gov_request option \<Rightarrow> db \<Rightarrow> handled" where
  "handleGovRequisitionApproved e def eid data d =
     (if eid \<noteq> '''' \<and> IsEventProcessed eid d then (Inr (), [], d)
      else case data of
          None \<Rightarrow> (Inl ErrPlain, [], d)
        | Some r \<Rightarrow>
            let key = trim_space (gv_no r);
                key = (if key = '''' then trim_space (gv_requisition_id r) else key);
                title = trim_space (gv_title r) in
            if key = '''' \<or> title = '''' \<or> gv_estimate r \<le> 0 then marked eid [] d
            else import_pm e def eid key '''' title (trim_space (gv_department r)) '''' ''Medium'' ''Approved''
                   (gv_estimate r) ''UGX'' (trim_space (gv_supplier r)) '''' False d)"

definition commercial_handleMessage ::
  "(string \<Rightarrow> amount) \<Rightarrow> env \<Rightarrow> string \<Rightarrow> commercial_event option \<Rightarrow> db \<Rightarrow> handled" where
  "commercial_handleMessage pf e def payload d =
     (case payload of
        None \<Rightarrow> (Inl ErrPlain, [], d)
      | Some ev \<Rightarrow>
          if ce_type ev = pmRequisitionSubmitted then handlePMRequisition pf e def (ce_id ev) (ce_pm ev) d
          else if ce_type ev = pmPurchaseRequisitionSubmitted
            then handlePMPurchaseRequisition pf e def (ce_id ev) (ce_purchase ev) d
          else if ce_type ev = govRequisitionApproved then handleGovRequisitionApproved e def (ce_id ev) (ce_gov ev) d
          else (Inr (), [], d))"

text \<open>
  The retry of \<^verbatim>\<open>Commercial.Run\<close>: up to five attempts, each against the store the last one
  left; \<open>handle n\<close> is the handler of attempt \<open>n\<close>, which sees the clock and keys of that attempt.
\<close>

definition maxHandleAttempts :: nat where
  "maxHandleAttempts = 5"

fun handle_attempts :: "(nat \<Rightarrow> db \<Rightarrow> handled) \<Rightarrow> nat \<Rightarrow> nat \<Rightarrow> string list \<Rightarrow> db \<Rightarrow> handled" where
  "handle_attempts handle n 0 sigs d = (Inl ErrPlain, sigs, d)"
| "handle_attempts handle n (Suc left) sigs d =
     (case handle n d of
        (Inr u, s, d1) \<Rightarrow> (Inr u, sigs @ s, d1)
      | (Inl er, s, d1) \<Rightarrow>
          if left = 0 then (Inl er, sigs @ s, d1) else handle_attempts handle (Suc n) left (sigs @ s) d1)"

section \<open>Payments from finance\<close>

definition financePaymentMade :: string where
  "financePaymentMade = ''finance.payment.made''"

record payment_made =
  pm_direction :: string
  pm_document_ref :: string
  pm_amount :: string
  pm_currency :: string
  pm_payment_ref :: string

record finance_event =
  fe_type :: string
  fe_id :: string
  fe_data :: "payment_made option"

definition finance_handle :: "(string \<Rightarrow> amount) \<Rightarrow> env \<Rightarrow> finance_event option \<Rightarrow> db \<Rightarrow> (repo_error + unit) \<times> db" where
  "finance_handle pf e payload d =
     (case payload of
        None \<Rightarrow> (Inl ErrPlain, d)
      | Some ev \<Rightarrow>
          if fe_type ev \<noteq> financePaymentMade then (Inr (), d)
          else if fe_id ev \<noteq> '''' \<and> IsEventProcessed (fe_id ev) d then (Inr (), d)
          else case fe_data ev of
              None \<Rightarrow> (Inl ErrPlain, d)
            | Some p \<Rightarrow>
                let ref = trim_space (pm_document_ref p) in
                if \<not> equal_fold (trim_space (pm_direction p)) ''ap'' then (Inr (), MarkEventProcessed (fe_id ev) d)
                else if ref = '''' then (Inr (), MarkEventProcessed (fe_id ev) d)
                else case RecordVendorPayment e ref (trim_space (pm_payment_ref p)) (pf (trim_space (pm_amount p)))
                            (trim_space (pm_currency p)) '''' None d of
                    Inl er \<Rightarrow> (Inl er, d)
                  | Inr (_, d1) \<Rightarrow> (Inr (), MarkEventProcessed (fe_id ev) d1))"

section \<open>Requests from fleet and operations\<close>

definition fuelRequestApproved :: string where
  "fuelRequestApproved = ''fleet.fuel.request_approved''"

record fuel_request =
  fr_request_id :: string
  fr_vehicle_id :: string
  fr_status :: string
  fr_approved_by :: string
  fr_litres :: string
  fr_est_total :: string
  fr_currency :: string
  fr_requester :: string
  fr_dept :: string
  fr_purpose :: string

definition fuelRequisitionTitle :: "fuel_request \<Rightarrow> string" where
  "fuelRequisitionTitle r =
     (let litres = trim_space (fr_litres r); veh = trim_space (fr_vehicle_id r) in
      if litres \<noteq> '''' \<and> veh \<noteq> '''' then ''Fuel'' @ em_dash @ litres @ ''L ('' @ veh @ '')''
      else if veh \<noteq> '''' then ''Fuel'' @ em_dash @ veh
      else ''Fuel request '' @ trim_space (fr_request_id r))"

definition import_request ::
  "env \<Rightarrow> string \<Rightarrow> string \<Rightarrow> string \<Rightarrow> string \<Rightarrow> string \<Rightarrow> string \<Rightarrow> string \<Rightarrow> amount \<Rightarrow> string \<Rightarrow> string \<Rightarrow>
   string \<Rightarrow> db \<Rightarrow> (repo_error + unit) \<times> db" where
  "import_request e def sys ref title dept requester priority tot currency justification eid d =
     (case ResolveBudgetForDept def dept d of
        Inl er \<Rightarrow> if er = ErrNoBudget then (Inr (), d) else (Inl er, d)
      | Inr bid \<Rightarrow>
          (case ImportProcurementRequest e sys ref title dept requester priority tot currency bid justification eid d of
             Inl er \<Rightarrow> if er = ErrProcurementRequestExists then (Inr (), d) else (Inl er, d)
           | Inr (_, d1) \<Rightarrow> (Inr (), d1)))"

definition handleFuelRequestApproved ::
  "(string \<Rightarrow> amount) \<Rightarrow> env \<Rightarrow> string \<Rightarrow> string \<Rightarrow> fuel_request option \<Rightarrow> db \<Rightarrow> (repo_error + unit) \<times> db" where
  "handleFuelRequestApproved pf e def eid data d =
     (case data of
        None \<Rightarrow> (Inl ErrPlain, d)
      | Some r \<Rightarrow>
          let ref = trim_space (fr_request_id r); just = trim_space (fr_purpose r) in
          if \<not> equal_fold (trim_space (fr_status r)) ''approved'' then (Inr (), d)
          else if ref = '''' then (Inr (), d)
          else import_request e def ''fleet'' ref (fuelRequisitionTitle r) (trim_space (fr_dept r))
                 (trim_space (fr_requester r)) ''Medium'' (pf (trim_space (fr_est_total r))) (trim_space (fr_currency r))
                 (if just = '''' then ''Fleet fuel request '' @ ref @ '' approved by '' @ trim_space (fr_approved_by r)
                  else just) eid d)"

record procurement_request =
  rqd_source_service :: string
  rqd_request_id :: string
  rqd_title :: string
  rqd_department :: string
  rqd_requested_by :: string
  rqd_amount :: string
  rqd_currency :: string
  rqd_urgency :: string
  rqd_justification :: string

definition handleProcurementRequest ::
  "(string \<Rightarrow> amount) \<Rightarrow> env \<Rightarrow> string \<Rightarrow> string \<Rightarrow> string \<Rightarrow> procurement_request option \<Rightarrow> db \<Rightarrow>
   (repo_error + unit) \<times> db" where
  "handleProcurementRequest pf e def eid source data d =
     (case data of
        None \<Rightarrow> (Inl ErrPlain, d)
      | Some r \<Rightarrow>
          let title = trim_space (rqd_title r);
              sys = trim_space (rqd_source_service r); sys = (if sys = '''' then trim_space source else sys);
              ref = trim_space (rqd_request_id r); ref = (if ref = '''' then trim_space eid else ref) in
          if title = '''' \<or> sys = '''' \<or> ref = '''' then (Inr (), d)
          else import_request e def sys ref title (trim_space (rqd_department r)) (trim_space (rqd_requested_by r))
                 (mapPMUrgency (rqd_urgency r)) (pf (trim_space (rqd_amount r))) (trim_space (rqd_currency r))
                 (trim_space (rqd_justification r)) eid d)"

section \<open>Parties and quality advice\<close>

record party_data =
  pd_party_id :: string
  pd_business_id :: string
  pd_supplier_type :: string
  pd_name :: string
  pd_platform_user_id :: string

record party_event =
  pe_id :: string
  pe_type :: string
  pe_key :: string
  pe_topic :: string
  pe_data :: "party_data option"

definition event_key :: "string \<Rightarrow> string \<Rightarrow> string" where
  "event_key eid key = (if eid = '''' then key else eid)"

definition supplychain_handleMessage ::
  "(string \<Rightarrow> string) \<Rightarrow> party_event option \<Rightarrow> db \<Rightarrow> (repo_error + unit) \<times> db" where
  "supplychain_handleMessage scm_id payload d =
     (case payload of
        None \<Rightarrow> (Inl ErrPlain, d)
      | Some ev \<Rightarrow>
          if pe_type ev \<notin> {''scm.party.created'', ''scm.party.updated'', ''scm.party.portal_linked''} then (Inr (), d)
          else
            let (fresh, d1) = MarkKafkaEventProcessed (event_key (pe_id ev) (pe_key ev)) (pe_topic ev) d in
            if \<not> fresh then (Inr (), d1)
            else case pe_data ev of
                None \<Rightarrow> (Inl ErrPlain, d1)
              | Some p \<Rightarrow>
                  if pe_type ev = ''scm.party.portal_linked''
                  then (case LinkPortalUser (pd_party_id p) (pd_business_id p) (pd_platform_user_id p) d1 of
                          Inl er \<Rightarrow> (Inl er, d1) | Inr d2 \<Rightarrow> (Inr (), d2))
                  else
                    let b = trim_space (pd_business_id p); b = (if b = '''' then trim_space (pd_party_id p) else b) in
                    case SyncSCMParty scm_id (pd_party_id p) b (pd_supplier_type p) (pd_name p) d1 of
                      Inl er \<Rightarrow> (Inl er, d1) | Inr (_, d2) \<Rightarrow> (Inr (), d2))"

record vendor_event =
  ve_id :: string
  ve_type :: string
  ve_source :: string
  ve_key :: string
  ve_topic :: string
  ve_data :: "vendor_upsert option"

definition vendorsync_handleMessage :: "env \<Rightarrow> vendor_event option \<Rightarrow> db \<Rightarrow> (repo_error + unit) \<times> db" where
  "vendorsync_handleMessage e payload d =
     (case payload of
        None \<Rightarrow> (Inl ErrPlain, d)
      | Some ev \<Rightarrow>
          if ve_type ev \<noteq> ''party.vendor.upserted'' then (Inr (), d)
          else if equal_fold (trim_space (ve_source ev)) ''iag.procurement'' then (Inr (), d)
          else
            let (fresh, d1) = MarkKafkaEventProcessed (event_key (ve_id ev) (ve_key ev)) (ve_topic ev) d in
            if \<not> fresh then (Inr (), d1)
            else case ve_data ev of
                None \<Rightarrow> (Inl ErrPlain, d1)
              | Some v \<Rightarrow>
                  (case UpsertVendorByParty e (vu_party_id v) (vu_code v) (vu_name v) (vu_category v) (vu_email v)
                          (vu_phone v) (vu_country v) (vu_status v) d1 of
                     Inl er \<Rightarrow> (Inl er, d1) | Inr (_, d2) \<Rightarrow> (Inr (), d2)))"

record scorecard =
  sc_supplier_ref :: string
  sc_recommended_status :: string
  sc_acceptance_rate :: "amount option"
  sc_reasons :: "string list"

record quality_event =
  qe_id :: string
  qe_type :: string
  qe_time :: "timestamp option"
  qe_key :: string
  qe_topic :: string
  qe_data :: "scorecard option"

text \<open>\<^verbatim>\<open>parseScorecard\<close>: an error, nothing usable, or a recommendation.\<close>

definition parseScorecard :: "env \<Rightarrow> quality_event option \<Rightarrow> repo_error + qc_recommendation option" where
  "parseScorecard e payload =
     (case payload of
        None \<Rightarrow> Inl ErrPlain
      | Some ev \<Rightarrow>
          if qe_type ev \<noteq> ''qc.supplier.scorecard'' then Inr None
          else case qe_data ev of
              None \<Rightarrow> Inl ErrPlain
            | Some s \<Rightarrow>
                if blank (sc_supplier_ref s) \<or> blank (sc_recommended_status s) then Inr None
                else Inr (Some \<lparr>qr_supplier_ref = sc_supplier_ref s, qr_recommended_status = sc_recommended_status s,
                       qr_acceptance_rate = sc_acceptance_rate s, qr_reasons = sc_reasons s,
                       qr_at = coalesce (qe_time ev) (e_now e)\<rparr>))"

definition quality_handleMessage :: "env \<Rightarrow> quality_event option \<Rightarrow> db \<Rightarrow> (repo_error + unit) \<times> db" where
  "quality_handleMessage e payload d =
     (case parseScorecard e payload of
        Inl _ \<Rightarrow> (Inr (), d)
      | Inr None \<Rightarrow> (Inr (), d)
      | Inr (Some rec) \<Rightarrow>
          let d1 = snd (ApplyQCRecommendation rec d);
              key = (case payload of None \<Rightarrow> '''' | Some ev \<Rightarrow> event_key (qe_id ev) (qe_key ev));
              topic = (case payload of None \<Rightarrow> '''' | Some ev \<Rightarrow> qe_topic ev)
          in (Inr (), if key \<noteq> '''' then snd (MarkKafkaEventProcessed key topic d1) else d1))"

record operations_event =
  oe_type :: string
  oe_id :: string
  oe_source :: string
  oe_stock :: "(string \<times> amount \<times> amount) option"
  oe_request :: "procurement_request option"

definition operations_handle ::
  "(string \<Rightarrow> amount) \<Rightarrow> env \<Rightarrow> string \<Rightarrow> operations_event option \<Rightarrow> db \<Rightarrow> (repo_error + unit) \<times> db" where
  "operations_handle pf e def payload d =
     (case payload of
        None \<Rightarrow> (Inl ErrPlain, d)
      | Some ev \<Rightarrow>
          if oe_type ev = ''warehouse.stock.below_minimum'' then
            (case oe_stock ev of
               None \<Rightarrow> (Inl ErrPlain, d)
             | Some (sku, qty, minQty) \<Rightarrow> (Inr (), RecordLowStockSignal sku qty minQty d))
          else if oe_type ev = ''procurement.requested''
            then handleProcurementRequest pf e def (oe_id ev) (oe_source ev) (oe_request ev) d
          else (Inr (), d))"

record fleet_event =
  fl_type :: string
  fl_id :: string
  fl_data :: "fuel_request option"

definition fleet_handle ::
  "(string \<Rightarrow> amount) \<Rightarrow> env \<Rightarrow> string \<Rightarrow> fleet_event option \<Rightarrow> db \<Rightarrow> (repo_error + unit) \<times> db" where
  "fleet_handle pf e def payload d =
     (case payload of
        None \<Rightarrow> (Inl ErrPlain, d)
      | Some ev \<Rightarrow>
          if fl_type ev = fuelRequestApproved then handleFuelRequestApproved pf e def (fl_id ev) (fl_data ev) d
          else (Inr (), d))"

end
