(* ===== verification/Ledger.thy ===== *)
theory Ledger
  imports Consumers
begin

text \<open>
  The money side of the whole repository: the envelopes of \<^verbatim>\<open>budgets\<close>, the orders that encumber
  them and the receipts that turn an encumbrance into spend.

  \<open>commitments\<close>, \<open>order_book\<close> and \<open>receipt_book\<close> are the columns the three tables keep of it. The
  operations outside ordering and receiving satisfy \<open>ledger_frame\<close>: they leave the three books as
  they are and keep every envelope balanced.
\<close>

section \<open>The three books\<close>

definition commitments :: "db \<Rightarrow> amount table" where
  "commitments d = map (\<lambda>(k, b). (k, b_committed b)) (db_budgets d)"

record order_entry =
  oe_total :: amount
  oe_spent :: amount
  oe_committed :: bool
  oe_budget :: "string option"

definition order_entry_of :: "po_row \<Rightarrow> order_entry" where
  "order_entry_of p =
     \<lparr>oe_total = po_total p, oe_spent = po_spent_recognized p, oe_committed = po_budget_committed p,
      oe_budget = po_budget_id p\<rparr>"

definition order_book :: "db \<Rightarrow> order_entry table" where
  "order_book d = map (\<lambda>(k, p). (k, order_entry_of p)) (db_purchase_orders d)"

record receipt_entry =
  re_order :: string
  re_recognized :: bool
  re_amount :: amount

definition receipt_entry_of :: "grn_row \<Rightarrow> receipt_entry" where
  "receipt_entry_of g =
     \<lparr>re_order = trim_space (deref (gr_po_id g)), re_recognized = gr_budget_recognized g,
      re_amount = gr_recognized_amount g\<rparr>"

definition receipt_book :: "db \<Rightarrow> receipt_entry table" where
  "receipt_book d = map (\<lambda>(k, g). (k, receipt_entry_of g)) (db_grns d)"

definition ledger_frame :: "db \<Rightarrow> db \<Rightarrow> bool" where
  "ledger_frame d d' \<longleftrightarrow>
     (budgets_ok d \<longrightarrow> budgets_ok d') \<and> commitments d' = commitments d \<and> order_book d' = order_book d \<and>
     receipt_book d' = receipt_book d"

named_theorems frames "operations that leave the books alone"

lemma ledger_frame_refl [simp]: "ledger_frame d d"
  by (simp add: ledger_frame_def)

lemma ledger_frame_trans: "ledger_frame d d1 \<Longrightarrow> ledger_frame d1 d2 \<Longrightarrow> ledger_frame d d2"
  by (simp add: ledger_frame_def)

lemma ledger_frame_same:
  "db_budgets d' = db_budgets d \<Longrightarrow> db_purchase_orders d' = db_purchase_orders d \<Longrightarrow> db_grns d' = db_grns d \<Longrightarrow>
   ledger_frame d d'"
  by (simp add: ledger_frame_def commitments_def order_book_def receipt_book_def)

text \<open>A view of a table commutes with the table operations.\<close>

lemma view_get: "tbl_get (map (\<lambda>(k, r). (k, f r)) t) k = map_option f (tbl_get t k)"
  by (induction t) (auto simp: tbl_get_def)

lemma view_upd:
  "(\<And>r. h (f r) = g (h r)) \<Longrightarrow>
   map (\<lambda>(k, r). (k, h r)) (tbl_upd i f t) = tbl_upd i g (map (\<lambda>(k, r). (k, h r)) t)"
  by (auto simp: tbl_upd_def tbl_where_def)

lemma tbl_upd_id: "(\<And>r. f r = r) \<Longrightarrow> tbl_upd i f t = t"
  by (induction t) (auto simp: tbl_upd_def tbl_where_def)

lemma view_upd_same: "(\<And>r. h (f r) = h r) \<Longrightarrow> map (\<lambda>(k, r). (k, h r)) (tbl_upd i f t) = map (\<lambda>(k, r). (k, h r)) t"
  by (auto simp: tbl_upd_def tbl_where_def)

lemma view_where_same:
  "(\<And>k r. h (f r) = h r) \<Longrightarrow> map (\<lambda>(k, r). (k, h r)) (tbl_where p f t) = map (\<lambda>(k, r). (k, h r)) t"
  by (auto simp: tbl_where_def)

lemma view_ins: "map (\<lambda>(k, r). (k, h r)) (tbl_ins i r t) = tbl_ins i (h r) (map (\<lambda>(k, r). (k, h r)) t)"
  by (simp add: tbl_ins_def)

lemma view_del: "map (\<lambda>(k, r). (k, h r)) (tbl_del i t) = tbl_del i (map (\<lambda>(k, r). (k, h r)) t)"
  by (induction t) (auto simp: tbl_del_def)

section \<open>Operations that leave the books alone\<close>

lemma frame_pre:
  assumes "budgets_ok d \<longrightarrow> budgets_ok d'" and "commitments d' = commitments d"
    and "db_purchase_orders d' = db_purchase_orders d" and "db_grns d' = db_grns d"
  shows "ledger_frame d d'"
  using assms by (simp add: ledger_frame_def order_book_def receipt_book_def)

lemma applyBudgetCommitment_frames [frames]:
  assumes "applyBudgetCommitment reqID out ac pr bid tot d = Inr d'"
  shows "ledger_frame d d'"
proof (rule frame_pre)
  show "budgets_ok d \<longrightarrow> budgets_ok d'" using applyBudgetCommitment_ok [OF assms] by blast
  show "commitments d' = commitments d"
    using assms by (auto simp: applyBudgetCommitment_def commitments_def view_upd_same pre_encumber_def release_pre_def
      split: if_splits option.splits)
qed (use applyBudgetCommitment_frame [OF assms] in simp_all)

lemma CreateRequisition_frames [frames]:
  "CreateRequisition e t dp rq pr st nb tot c b n u d = Inr (y, d') \<Longrightarrow> ledger_frame d d'"
  by (auto simp: CreateRequisition_def Let_def intro!: ledger_frame_same)

lemma UpdateRequisition_frames [frames]:
  "UpdateRequisition cf e i t dp pr st c b nb tot n u d = Inr (y, d') \<Longrightarrow> ledger_frame d d'"
  by (auto simp: UpdateRequisition_def Let_def intro!: ledger_frame_same split: if_split_asm option.splits)

lemma DeleteRequisition_frames [frames]: "DeleteRequisition i u d = Inr (y, d') \<Longrightarrow> ledger_frame d d'"
  by (auto simp: DeleteRequisition_def Let_def ledger_frame_def commitments_def order_book_def receipt_book_def
      view_upd_same release_pre_def intro!: rel_pre_mv.table_ok split: if_split_asm option.splits)

lemma sign_next_tier_frames [frames]: "sign_next_tier p i a n rq ap d = Inr (f, c, ap', d') \<Longrightarrow> ledger_frame d d'"
  by (auto simp: sign_next_tier_def insertApprovalRow_def Let_def intro!: ledger_frame_same split: option.splits if_splits)

lemma set_req_status_frames: "ledger_frame d (set_req_status i st d)"
  by (rule ledger_frame_same) (simp_all add: set_req_status_def)

lemma enqueueRequisitionOutcome_frames: "ledger_frame d (enqueueRequisitionOutcome cf e o' i pm ow a b d)"
  by (rule ledger_frame_same) (simp_all add: enqueueRequisitionOutcome_def Let_def enqueue_def)

lemma auditTx_frames: "ledger_frame d (auditTx a b c x d)"
  by (rule ledger_frame_same) (simp_all add: auditTx_def)

lemmas frame_chain = ledger_frame_trans [OF set_req_status_frames] ledger_frame_trans [OF _ auditTx_frames]
  ledger_frame_trans [OF _ enqueueRequisitionOutcome_frames]

lemma settle_approval_frames [frames]:
  "settle_approval cf e i a rq b fin d = Inr (r, d') \<Longrightarrow> ledger_frame d d'"
  by (auto simp: settle_approval_def intro!: frame_chain(3) set_req_status_frames
      intro: ledger_frame_trans [OF set_req_status_frames] dest!: applyBudgetCommitment_frames split: if_splits)

lemma ApproveRequisitionTier_frames [frames]:
  assumes "ApproveRequisitionTier cf e i a hp n d = Inr (y, d')"
  shows "ledger_frame d d'"
proof -
  obtain req bid where lock: "lockRequisitionForApproval (trim_space i) d = Inr (req, bid)"
    using assms by (cases "lockRequisitionForApproval (trim_space i) d")
      (auto simp: ApproveRequisitionTier_def Let_def split: if_splits)
  from assms lock show ?thesis
    by (auto simp: ApproveRequisitionTier_def Let_def split: if_split_asm
        dest!: sign_next_tier_frames settle_approval_frames intro!: frame_chain(2) elim: ledger_frame_trans)
qed

lemma RejectRequisitionTiered_frames [frames]:
  assumes "RejectRequisitionTiered cf e i a hp n d = Inr (y, d')"
  shows "ledger_frame d d'"
proof -
  obtain req bid where lock: "lockRequisitionForApproval (trim_space i) d = Inr (req, bid)"
    using assms by (cases "lockRequisitionForApproval (trim_space i) d")
      (auto simp: RejectRequisitionTiered_def Let_def split: if_splits)
  have ins: "insertApprovalRow j t a x n d = Inr d1 \<Longrightarrow> ledger_frame d d1" for j t x d1
    by (auto simp: insertApprovalRow_def intro!: ledger_frame_same split: if_splits)
  from assms lock show ?thesis
    by (auto simp: RejectRequisitionTiered_def Let_def split: if_split_asm
        dest!: ins applyBudgetCommitment_frames intro!: frame_chain(2,3) elim!: ledger_frame_trans
        intro: ledger_frame_trans [OF set_req_status_frames])
qed

lemma insert_steps_frames [frames]: "insert_steps i sq sts d = Inr d' \<Longrightarrow> ledger_frame d d'"
proof (induction sts arbitrary: sq d)
  case (Cons st sts)
  then obtain d1 where "insertDeskStep i sq st d = Inr d1" "insert_steps i (Suc sq) sts d1 = Inr d'" by auto
  moreover from this(1) have "ledger_frame d d1"
    by (auto simp: insertDeskStep_def intro!: ledger_frame_same split: if_splits)
  ultimately show ?case using Cons.IH ledger_frame_trans by blast
qed simp

lemma openDeskChainTx_frames [frames]: "openDeskChainTx e i k rq sk d = Inr (s, d') \<Longrightarrow> ledger_frame d d'"
  by (auto simp: openDeskChainTx_def insertDeskState_def Let_def intro!: ledger_frame_same split: option.splits if_splits)

lemma load_or_open_frames [frames]: "load_or_open e i o' d = Inr (s, d') \<Longrightarrow> ledger_frame d d'"
  by (auto simp: load_or_open_def split: sum.splits if_splits dest: openDeskChainTx_frames)

lemma settle_outcome_frames [frames]: "settle_outcome cf e i rq b s d = Inr d' \<Longrightarrow> ledger_frame d d'"
  by (auto simp: settle_outcome_def Let_def intro!: frame_chain(3) dest!: applyBudgetCommitment_frames split: if_splits)

lemma OpenDeskChain_frames [frames]: "OpenDeskChain e eng i k rq sk d = Inr (s, d') \<Longrightarrow> ledger_frame d d'"
  by (auto simp: OpenDeskChain_def Let_def split: if_splits dest: openDeskChainTx_frames)

lemma applyDeskTransition_frames [frames]:
  assumes "applyDeskTransition cf e eng i o' fn d = Inr (s, d')"
  shows "ledger_frame d d'"
proof -
  from assms obtain req bid before d0 d1 d2 where
    "load_or_open e i o' d = Inr (before, d0)" and
    st: "insert_steps i (length (s_history before)) (drop (length (s_history before)) (s_history s))
      (updateDeskState e i s d0) = Inr d1" and
    se: "settle_outcome cf e i req bid s (set_req_status i (requisitionStatusFor (s_status s)) d1) = Inr d2" and
    d': "d' = auditTx (lastActor s) (deskAuditAction s) i (deskAuditDetail s) d2"
    by (auto simp: applyDeskTransition_def split: if_splits)
  have u: "ledger_frame d0 (updateDeskState e i s d0)"
    by (rule ledger_frame_same) (simp_all add: updateDeskState_def)
  have "ledger_frame d d0" by (rule load_or_open_frames) fact
  from this u have "ledger_frame d (updateDeskState e i s d0)" by (rule ledger_frame_trans)
  from ledger_frame_trans [OF this insert_steps_frames [OF st]] have "ledger_frame d d1" .
  from ledger_frame_trans [OF this ledger_frame_trans [OF set_req_status_frames settle_outcome_frames [OF se]]]
  have "ledger_frame d d2" .
  then show ?thesis unfolding d' by (rule frame_chain(2))
qed

lemma ApplyDeskTransition_frames [frames]:
  "ApplyDeskTransition cf e eng i fn d = Inr (s, d') \<Longrightarrow> ledger_frame d d'"
  by (auto simp: ApplyDeskTransition_def dest: applyDeskTransition_frames)

lemma ApplyDeskTransitionSelfOpening_frames [frames]:
  "ApplyDeskTransitionSelfOpening cf e eng i o' fn d = Inr (s, d') \<Longrightarrow> ledger_frame d d'"
  by (auto simp: ApplyDeskTransitionSelfOpening_def dest: applyDeskTransition_frames split: if_splits)

lemma CreateRfq_frames [frames]: "CreateRfq e t x vs r u d = Inr (y, d') \<Longrightarrow> ledger_frame d d'"
  by (auto simp: CreateRfq_def Let_def intro!: ledger_frame_same split: if_splits)

lemma UpdateRfq_frames [frames]: "UpdateRfq i t s x w vs r u d = Inr (y, d') \<Longrightarrow> ledger_frame d d'"
  by (auto simp: UpdateRfq_def Let_def intro!: ledger_frame_same split: if_splits option.splits)

lemma DeleteRfq_frames [frames]: "DeleteRfq i u d = Inr (y, d') \<Longrightarrow> ledger_frame d d'"
  by (auto simp: DeleteRfq_def Let_def intro!: ledger_frame_same split: if_splits)

lemma CreateRfqQuote_frames [frames]: "CreateRfqQuote e r v a c n u d = Inr (y, d') \<Longrightarrow> ledger_frame d d'"
  by (auto simp: CreateRfqQuote_def Let_def intro!: ledger_frame_same split: if_splits option.splits)

lemma CreateInvoice_frames [frames]: "CreateInvoice cf e v p a c x n r y u d = Inr (z, d') \<Longrightarrow> ledger_frame d d'"
  by (auto simp: CreateInvoice_def Let_def enqueueInvoiceReceived_def intro!: ledger_frame_same split: if_split_asm)

lemma ApproveInvoice_frames [frames]: "ApproveInvoice cf i u d = Inr (y, d') \<Longrightarrow> ledger_frame d d'"
  by (auto simp: ApproveInvoice_def Let_def intro!: ledger_frame_same split: if_split_asm option.splits)

lemma UpdateInvoice_frames [frames]: "UpdateInvoice i n v p a c st m x r y u d = Inr (z, d') \<Longrightarrow> ledger_frame d d'"
  by (auto simp: UpdateInvoice_def Let_def intro!: ledger_frame_same split: if_split_asm option.splits)

lemma DeleteInvoice_frames [frames]: "DeleteInvoice i u d = Inr (y, d') \<Longrightarrow> ledger_frame d d'"
  by (auto simp: DeleteInvoice_def Let_def intro!: ledger_frame_same split: if_splits)

lemma RecordVendorPayment_frames [frames]: "RecordVendorPayment e r p a c m x d = Inr (y, d') \<Longrightarrow> ledger_frame d d'"
  by (auto simp: RecordVendorPayment_never_settles split: if_splits)

lemma enqueueVendorUpsertedTx_frames: "ledger_frame d (enqueueVendorUpsertedTx cf e v d)"
  by (rule ledger_frame_same) (simp_all add: enqueueVendorUpsertedTx_def Let_def)

lemma CreateVendor_frames [frames]:
  "CreateVendor cf e n l ca co em ph cn te ra st u d = Inr (y, d') \<Longrightarrow> ledger_frame d d'"
  by (auto simp: CreateVendor_def Let_def intro!: ledger_frame_trans [OF ledger_frame_same enqueueVendorUpsertedTx_frames]
      split: if_splits)

lemma UpdateVendor_frames [frames]:
  "UpdateVendor cf e i n l ca co em ph cn te ra st u d = Inr (y, d') \<Longrightarrow> ledger_frame d d'"
  by (auto simp: UpdateVendor_def Let_def intro!: ledger_frame_trans [OF ledger_frame_same enqueueVendorUpsertedTx_frames]
      split: if_splits option.splits)

lemma DeleteVendor_frames [frames]: "DeleteVendor cf e i u d = Inr (y, d') \<Longrightarrow> ledger_frame d d'"
  by (auto simp: DeleteVendor_def Let_def intro!: ledger_frame_trans [OF ledger_frame_same enqueueVendorUpsertedTx_frames]
      split: if_splits option.splits)

lemma SetVendorQualityStatus_frames [frames]: "SetVendorQualityStatus e i st r u d = Inr (y, d') \<Longrightarrow> ledger_frame d d'"
  by (auto simp: SetVendorQualityStatus_def Let_def intro!: ledger_frame_same split: if_splits option.splits)

lemma ApplyQCRecommendation_frames: "ledger_frame d (snd (ApplyQCRecommendation r d))"
  by (rule ledger_frame_same) (simp_all add: ApplyQCRecommendation_def)

lemma UpsertVendorByParty_frames [frames]: "UpsertVendorByParty e p c n ca em ph cn st d = Inr (y, d') \<Longrightarrow> ledger_frame d d'"
  by (auto simp: UpsertVendorByParty_def Let_def intro!: ledger_frame_same split: if_splits)

lemma SyncSCMParty_frames [frames]: "SyncSCMParty f p b s n d = Inr (y, d') \<Longrightarrow> ledger_frame d d'"
  by (auto simp: SyncSCMParty_never_syncs split: if_splits)

lemma LinkPortalUser_frames: "LinkPortalUser p b u d = Inr d' \<Longrightarrow> ledger_frame d d'"
  by (auto simp: LinkPortalUser_never_links split: if_splits)

lemma CreateItem_frames [frames]: "CreateItem e s n ca uo st ro lp c pv ats u d = Inr (y, d') \<Longrightarrow> ledger_frame d d'"
  by (auto simp: CreateItem_def Let_def intro!: ledger_frame_same split: if_splits)

lemma UpdateItem_frames [frames]: "UpdateItem i s n ca uo st ro lp c pv ats u d = Inr (y, d') \<Longrightarrow> ledger_frame d d'"
  by (auto simp: UpdateItem_def Let_def intro!: ledger_frame_same split: if_split_asm option.splits)

lemma DeleteItem_frames [frames]: "DeleteItem i u d = Inr (y, d') \<Longrightarrow> ledger_frame d d'"
  by (auto simp: DeleteItem_def Let_def intro!: ledger_frame_same split: if_splits)

lemma CreateContract_frames [frames]: "CreateContract e v t x y va c st cv u d = Inr (z, d') \<Longrightarrow> ledger_frame d d'"
  by (auto simp: CreateContract_def Let_def intro!: ledger_frame_same split: if_splits)

lemma UpdateContract_frames [frames]: "UpdateContract i v t x y va c st cv u d = Inr (z, d') \<Longrightarrow> ledger_frame d d'"
  by (auto simp: UpdateContract_def Let_def intro!: ledger_frame_same split: if_split_asm option.splits)

lemma DeleteContract_frames [frames]: "DeleteContract i u d = Inr (y, d') \<Longrightarrow> ledger_frame d d'"
  by (auto simp: DeleteContract_def Let_def intro!: ledger_frame_same split: if_splits)

lemma RecordLowStockSignal_frames: "ledger_frame d (RecordLowStockSignal s q m d)"
  by (rule ledger_frame_same) (simp_all add: RecordLowStockSignal_def)

lemma ImportPMRequisition_frames [frames]:
  "ImportPMRequisition e p po t dp rq pr st tot c b pa ju ev d = Inr (y, d') \<Longrightarrow> ledger_frame d d'"
  by (auto simp: ImportPMRequisition_def Let_def intro!: ledger_frame_same split: if_split_asm)

lemma ImportProcurementRequest_frames [frames]:
  "ImportProcurementRequest e s r t dp rq pr tot c b ju ev d = Inr (y, d') \<Longrightarrow> ledger_frame d d'"
  by (auto simp: ImportProcurementRequest_def Let_def intro!: ledger_frame_same split: if_split_asm sum.splits)

lemma MarkEventProcessed_frames: "ledger_frame d (MarkEventProcessed ev d)"
  by (rule ledger_frame_same) (simp_all add: MarkEventProcessed_def)

lemma MarkKafkaEventProcessed_frames: "MarkKafkaEventProcessed ev t d = (b, d') \<Longrightarrow> ledger_frame d d'"
  by (auto simp: MarkKafkaEventProcessed_def intro!: ledger_frame_same split: if_splits)

lemma import_pm_frames: "import_pm e df ev p ow t dp rq pr st tot c pa ju sg d = (r, ss, d') \<Longrightarrow> ledger_frame d d'"
  by (auto simp: import_pm_def marked_def intro!: ledger_frame_trans [OF _ MarkEventProcessed_frames]
      dest: ImportPMRequisition_frames split: sum.splits if_splits)

lemma commercial_frames: "commercial_handleMessage pf e df p d = (r, ss, d') \<Longrightarrow> ledger_frame d d'"
  by (auto simp: commercial_handleMessage_def handlePMRequisition_def handlePMPurchaseRequisition_def
      handleGovRequisitionApproved_def marked_def Let_def MarkEventProcessed_frames
      dest: import_pm_frames split: option.splits if_split_asm)

lemma handle_attempts_frames:
  assumes "\<And>n d r ss d'. h n d = (r, ss, d') \<Longrightarrow> ledger_frame d d'" and "handle_attempts h n k ss d = (r, ss', d')"
  shows "ledger_frame d d'"
  using assms(2)
proof (induction k arbitrary: n ss d)
  case (Suc k)
  obtain r1 s1 d1 where h: "h n d = (r1, s1, d1)" by (cases "h n d")
  show ?case
    using Suc assms(1) [OF h] h by (auto split: sum.splits if_splits elim: ledger_frame_trans)
qed simp

lemma commercial_attempts_frames:
  "handle_attempts (\<lambda>n. commercial_handleMessage pf (es n) df msg) n k ss d = (r, ss', d') \<Longrightarrow> ledger_frame d d'"
  by (erule handle_attempts_frames [rotated]) (rule commercial_frames)

lemma finance_frames: "finance_handle pf e p d = (r, d') \<Longrightarrow> ledger_frame d d'"
  by (auto simp: finance_handle_def Let_def MarkEventProcessed_frames
      intro!: ledger_frame_trans [OF _ MarkEventProcessed_frames]
      dest: RecordVendorPayment_frames split: option.splits sum.splits if_split_asm)

lemma import_request_frames: "import_request e df s rf t dp rq pr tot c ju ev d = (r, d') \<Longrightarrow> ledger_frame d d'"
  by (auto simp: import_request_def dest: ImportProcurementRequest_frames split: sum.splits if_splits)

lemma fleet_frames: "fleet_handle pf e df p d = (r, d') \<Longrightarrow> ledger_frame d d'"
  by (auto simp: fleet_handle_def handleFuelRequestApproved_def Let_def dest: import_request_frames
      split: option.splits if_split_asm)

lemma operations_frames: "operations_handle pf e df p d = (r, d') \<Longrightarrow> ledger_frame d d'"
  by (auto simp: operations_handle_def handleProcurementRequest_def Let_def RecordLowStockSignal_frames
      dest: import_request_frames split: option.splits if_split_asm)

lemma supplychain_frames: "supplychain_handleMessage f p d = (r, d') \<Longrightarrow> ledger_frame d d'"
  by (auto simp: supplychain_handleMessage_def Let_def
      dest!: MarkKafkaEventProcessed_frames SyncSCMParty_frames LinkPortalUser_frames elim: ledger_frame_trans
      split: option.splits sum.splits if_split_asm prod.splits)

lemma vendorsync_frames: "vendorsync_handleMessage e p d = (r, d') \<Longrightarrow> ledger_frame d d'"
  by (auto simp: vendorsync_handleMessage_def Let_def
      dest!: MarkKafkaEventProcessed_frames UpsertVendorByParty_frames elim: ledger_frame_trans
      split: option.splits sum.splits if_split_asm prod.splits)

lemma quality_frames: "quality_handleMessage e p d = (r, d') \<Longrightarrow> ledger_frame d d'"
proof -
  have m: "ledger_frame x (snd (MarkKafkaEventProcessed k t x))" for k t x
    using MarkKafkaEventProcessed_frames [OF prod.collapse [symmetric]] .
  show "quality_handleMessage e p d = (r, d') \<Longrightarrow> ledger_frame d d'"
    by (auto simp: quality_handleMessage_def Let_def ApplyQCRecommendation_frames
        intro!: ledger_frame_trans [OF _ m] split: sum.splits option.splits if_split_asm)
qed

lemma UpdateBudget_frames [frames]: "UpdateBudget i c p a dp u d = Inr (y, d') \<Longrightarrow> ledger_frame d d'"
  using UpdateBudget_ok [of i c p a dp u d y d']
  by (auto simp: UpdateBudget_def Let_def ledger_frame_def commitments_def order_book_def receipt_book_def
      view_upd_same split: if_split_asm option.splits)

section \<open>Steps of the repository\<close>

text \<open>
  \<open>side_step\<close> is a successful operation outside ordering and receiving, a delivered message of one
  of the consumers included; \<open>repo_step\<close> is any successful operation that changes the store, the
  desk matrix and the outbox apart, which hold no amounts.
\<close>

inductive side_step :: "db \<Rightarrow> db \<Rightarrow> bool" where
  "UpdateBudget i c p a dp u d = Inr (y, d') \<Longrightarrow> side_step d d'"
| "CreateRequisition e t dp rq pr st nb tot c b n u d = Inr (y, d') \<Longrightarrow> side_step d d'"
| "UpdateRequisition cf e i t dp pr st c b nb tot n u d = Inr (y, d') \<Longrightarrow> side_step d d'"
| "DeleteRequisition i u d = Inr (y, d') \<Longrightarrow> side_step d d'"
| "ApproveRequisitionTier cf e i a hp n d = Inr (y, d') \<Longrightarrow> side_step d d'"
| "RejectRequisitionTiered cf e i a hp n d = Inr (y, d') \<Longrightarrow> side_step d d'"
| "OpenDeskChain e eng i k rq sk d = Inr (y, d') \<Longrightarrow> side_step d d'"
| "ApplyDeskTransition cf e eng i fn d = Inr (y, d') \<Longrightarrow> side_step d d'"
| "ApplyDeskTransitionSelfOpening cf e eng i o' fn d = Inr (y, d') \<Longrightarrow> side_step d d'"
| "CreateRfq e t x vs r u d = Inr (y, d') \<Longrightarrow> side_step d d'"
| "UpdateRfq i t s x w vs r u d = Inr (y, d') \<Longrightarrow> side_step d d'"
| "DeleteRfq i u d = Inr (y, d') \<Longrightarrow> side_step d d'"
| "CreateRfqQuote e r v am c n u d = Inr (y, d') \<Longrightarrow> side_step d d'"
| "CreateInvoice cf e v p am c x n rs dd u d = Inr (y, d') \<Longrightarrow> side_step d d'"
| "ApproveInvoice cf i u d = Inr (y, d') \<Longrightarrow> side_step d d'"
| "UpdateInvoice i n v p am c st m x rs dd u d = Inr (y, d') \<Longrightarrow> side_step d d'"
| "DeleteInvoice i u d = Inr (y, d') \<Longrightarrow> side_step d d'"
| "RecordVendorPayment e r p am c m x d = Inr (y, d') \<Longrightarrow> side_step d d'"
| "CreateVendor cf e n l ca co em ph cn te ra st u d = Inr (y, d') \<Longrightarrow> side_step d d'"
| "UpdateVendor cf e i n l ca co em ph cn te ra st u d = Inr (y, d') \<Longrightarrow> side_step d d'"
| "DeleteVendor cf e i u d = Inr (y, d') \<Longrightarrow> side_step d d'"
| "SetVendorQualityStatus e i st rs u d = Inr (y, d') \<Longrightarrow> side_step d d'"
| "CreateItem e s n ca uo sk ro lp c pv ats u d = Inr (y, d') \<Longrightarrow> side_step d d'"
| "UpdateItem i s n ca uo sk ro lp c pv ats u d = Inr (y, d') \<Longrightarrow> side_step d d'"
| "DeleteItem i u d = Inr (y, d') \<Longrightarrow> side_step d d'"
| "CreateContract e v t x z va c st cv u d = Inr (y, d') \<Longrightarrow> side_step d d'"
| "UpdateContract i v t x z va c st cv u d = Inr (y, d') \<Longrightarrow> side_step d d'"
| "DeleteContract i u d = Inr (y, d') \<Longrightarrow> side_step d d'"
| "handle_attempts (\<lambda>n. commercial_handleMessage pf (es n) df msg) n k [] d = (r, ss, d') \<Longrightarrow> side_step d d'"
| "finance_handle pf e msg d = (r, d') \<Longrightarrow> side_step d d'"
| "fleet_handle pf e df msg d = (r, d') \<Longrightarrow> side_step d d'"
| "operations_handle pf e df msg d = (r, d') \<Longrightarrow> side_step d d'"
| "supplychain_handleMessage scm_id msg d = (r, d') \<Longrightarrow> side_step d d'"
| "vendorsync_handleMessage e msg d = (r, d') \<Longrightarrow> side_step d d'"
| "quality_handleMessage e msg d = (r, d') \<Longrightarrow> side_step d d'"

lemma side_step_frame: "side_step d d' \<Longrightarrow> ledger_frame d d'"
  by (induction rule: side_step.induct)
    (erule frames finance_frames fleet_frames operations_frames supplychain_frames vendorsync_frames quality_frames
       commercial_attempts_frames)+

inductive repo_step :: "db \<Rightarrow> db \<Rightarrow> bool" where
  "side_step d d' \<Longrightarrow> repo_step d d'"
| "CreateBudget e c p a dp u d = Inr (y, d') \<Longrightarrow> repo_step d d'"
| "DeleteBudget i u d = Inr (y, d') \<Longrightarrow> repo_step d d'"
| "CloseBudgetPeriod e pol f u d = Inr (y, d') \<Longrightarrow> repo_step d d'"
| "CreatePurchaseOrder cf e v t c b r x ls u d = Inr (y, d') \<Longrightarrow> repo_step d d'"
| "UpdatePurchaseOrder i v t c st x b ls r u d = Inr (y, d') \<Longrightarrow> repo_step d d'"
| "DeletePurchaseOrder i u d = Inr (y, d') \<Longrightarrow> repo_step d d'"
| "AwardRfq cf e i q v b x u d = Inr (y, d') \<Longrightarrow> repo_step d d'"
| "CreateGrn cf e v po by' st x ls qc qs w n u d = Inr (y, d') \<Longrightarrow> repo_step d d'"
| "UpdateGrn cf e i v po x by' st ls qc qs w n u d = Inr (y, d') \<Longrightarrow> repo_step d d'"
| "DeleteGrn i u d = Inr (y, d') \<Longrightarrow> repo_step d d'"

lemma repo_step_ok:
  assumes "repo_step d d'" and "budgets_ok d"
  shows "budgets_ok d'"
  using assms
proof (induction rule: repo_step.induct)
  case (1 d d')
  then show ?case using side_step_frame by (auto simp: ledger_frame_def)
qed (erule (1) budget_safe)+

lemma repo_steps_ok: "repo_step\<^sup>*\<^sup>* d0 d \<Longrightarrow> budgets_ok d0 \<Longrightarrow> budgets_ok d"
  by (induction rule: rtranclp_induct) (auto intro: repo_step_ok)

end
