(* ===== verification/Order_Books.thy ===== *)
theory Order_Books
  imports Ledger
begin

text \<open>
  The arithmetic of the sub-ledger, on the three books alone.

  \<open>books_ok\<close> says that an envelope's commitment is the open value of the orders encumbering it and
  that an order's recognised spend is the sum of its recognised receipts. The lemmas \<open>books_...\<close> are
  the movements that keep it: a new envelope, a new order, an edit of one order, a receipt that
  starts or stops counting.
\<close>

section \<open>Sums over a table\<close>

definition tsum :: "(string \<Rightarrow> 'r \<Rightarrow> amount) \<Rightarrow> 'r table \<Rightarrow> amount" where
  "tsum h t = (\<Sum>(k, r) \<leftarrow> t. h k r)"

abbreviation keys_ok :: "'r table \<Rightarrow> bool" where
  "keys_ok t \<equiv> distinct (map fst t)"

lemma tsum_ins [simp]: "tsum h (tbl_ins k r t) = tsum h t + h k r"
  by (simp add: tsum_def tbl_ins_def)

lemma keys_ok_ins [simp]: "tbl_get t k = None \<Longrightarrow> keys_ok (tbl_ins k r t) \<longleftrightarrow> keys_ok t"
  by (auto simp: tbl_ins_def tbl_get_def map_of_eq_None_iff)

lemma keys_where [simp]: "map fst (tbl_where p f t) = map fst t"
  by (simp add: tbl_where_def case_prod_beta)

lemma keys_upd [simp]: "map fst (tbl_upd k f t) = map fst t"
  by (simp add: tbl_upd_def)

lemma keys_ok_del [simp]: "keys_ok t \<Longrightarrow> keys_ok (tbl_del k t)"
  by (auto simp: tbl_del_def distinct_map inj_on_def)

lemma tbl_upd_absent: "tbl_get t k = None \<Longrightarrow> tbl_upd k f t = t"
  by (induction t) (auto simp: tbl_get_def tbl_upd_def tbl_where_def split: if_splits)

lemma tbl_del_absent: "tbl_get t k = None \<Longrightarrow> tbl_del k t = t"
  by (induction t) (auto simp: tbl_get_def tbl_del_def split: if_splits)

lemma tsum_upd:
  assumes "keys_ok t" and "tbl_get t k = Some r"
  shows "tsum h (tbl_upd k f t) = tsum h t - h k r + h k (f r)"
  using assms
proof (induction t)
  case (Cons x t)
  obtain j q where x: "x = (j, q)" by (cases x)
  show ?case
  proof (cases "j = k")
    case True
    then have "tbl_upd k f t = t" using Cons.prems(1) x by (intro tbl_upd_absent) (auto simp: tbl_get_def map_of_eq_None_iff)
    with True Cons.prems x show ?thesis by (simp add: tsum_def tbl_upd_def tbl_where_def tbl_get_def)
  next
    case False
    with Cons x show ?thesis by (simp add: tsum_def tbl_upd_def tbl_where_def tbl_get_def)
  qed
qed (simp add: tbl_get_def)

lemma tsum_del:
  assumes "keys_ok t" and "tbl_get t k = Some r"
  shows "tsum h (tbl_del k t) = tsum h t - h k r"
  using assms
proof (induction t)
  case (Cons x t)
  obtain j q where x: "x = (j, q)" by (cases x)
  show ?case
  proof (cases "j = k")
    case True
    then have "tbl_del k t = t" using Cons.prems(1) x by (intro tbl_del_absent) (auto simp: tbl_get_def map_of_eq_None_iff)
    with True Cons.prems x show ?thesis by (simp add: tsum_def tbl_del_def tbl_get_def)
  next
    case False
    with Cons x show ?thesis by (simp add: tsum_def tbl_del_def tbl_get_def)
  qed
qed (simp add: tbl_get_def)

lemma tsum_nonneg:
  assumes "keys_ok t" and "\<And>k r. tbl_get t k = Some r \<Longrightarrow> 0 \<le> h k r"
  shows "0 \<le> tsum h t"
proof -
  have "0 \<le> h k r" if "(k, r) \<in> set t" for k r
    using that assms by (simp add: tbl_get_def)
  then show ?thesis unfolding tsum_def by (intro sum_list_nonneg) auto
qed

lemma tsum_member_le:
  assumes "keys_ok t" and "\<And>k r. tbl_get t k = Some r \<Longrightarrow> 0 \<le> h k r" and "tbl_get t k = Some r"
  shows "h k r \<le> tsum h t"
proof -
  have "0 \<le> tsum h (tbl_del k t)"
    using assms(1,2) by (intro tsum_nonneg) (auto simp: tbl_get_del split: if_splits)
  with tsum_del [OF assms(1,3)] show ?thesis by simp
qed

lemma tsum_view: "tsum h (map (\<lambda>(k, r). (k, f r)) t) = tsum (\<lambda>k r. h k (f r)) t"
  by (induction t) (auto simp: tsum_def)

lemma tsum_zero: "(\<And>k r. (k, r) \<in> set t \<Longrightarrow> h k r = 0) \<Longrightarrow> tsum h t = 0"
  unfolding tsum_def by (induction t) (auto simp: case_prod_beta)

section \<open>The books\<close>

definition open_on :: "string \<Rightarrow> order_entry \<Rightarrow> amount" where
  "open_on b o' = (if oe_committed o' \<and> oe_budget o' = Some b then oe_total o' - oe_spent o' else 0)"

definition encumbered :: "string \<Rightarrow> order_entry table \<Rightarrow> amount" where
  "encumbered b = tsum (\<lambda>_. open_on b)"

definition booked_on :: "string \<Rightarrow> receipt_entry \<Rightarrow> amount" where
  "booked_on i r = (if re_recognized r \<and> re_order r = i then re_amount r else 0)"

definition recognized :: "string \<Rightarrow> receipt_entry table \<Rightarrow> amount" where
  "recognized i = tsum (\<lambda>_. booked_on i)"

definition order_ok :: "amount table \<Rightarrow> receipt_entry table \<Rightarrow> string \<Rightarrow> order_entry \<Rightarrow> bool" where
  "order_ok cm rb k o' \<longleftrightarrow>
     k \<noteq> '''' \<and> oe_spent o' = recognized k rb \<and>
     (oe_committed o' \<longrightarrow> recognized k rb \<le> oe_total o' \<and> (\<forall>b. oe_budget o' = Some b \<longrightarrow> tbl_get cm b \<noteq> None))"

definition books_ok :: "amount table \<Rightarrow> order_entry table \<Rightarrow> receipt_entry table \<Rightarrow> bool" where
  "books_ok cm ob rb \<longleftrightarrow>
     keys_ok ob \<and> keys_ok rb \<and>
     (\<forall>k c. tbl_get cm k = Some c \<longrightarrow> trim_space k = k \<and> k \<noteq> '''' \<and> c = encumbered k ob) \<and>
     (\<forall>k o'. tbl_get ob k = Some o' \<longrightarrow> order_ok cm rb k o') \<and>
     (\<forall>k r. tbl_get rb k = Some r \<longrightarrow> 0 \<le> re_amount r)"

definition ledger_ok :: "db \<Rightarrow> bool" where
  "ledger_ok d \<longleftrightarrow> books_ok (commitments d) (order_book d) (receipt_book d)"

lemma books_orderD: "books_ok cm ob rb \<Longrightarrow> tbl_get ob k = Some o' \<Longrightarrow> order_ok cm rb k o'"
  by (simp add: books_ok_def)

lemma books_receiptD: "books_ok cm ob rb \<Longrightarrow> tbl_get rb k = Some r \<Longrightarrow> 0 \<le> re_amount r"
  by (simp add: books_ok_def)

lemma open_on_nonneg: "books_ok cm ob rb \<Longrightarrow> tbl_get ob k = Some o' \<Longrightarrow> 0 \<le> open_on b o'"
  by (auto simp: books_ok_def order_ok_def open_on_def)

lemma open_on_le:
  assumes "books_ok cm ob rb" and "tbl_get ob k = Some o'"
  shows "open_on b o' \<le> encumbered b ob"
  unfolding encumbered_def
  using assms tsum_member_le [of ob "\<lambda>_. open_on b" k o'] open_on_nonneg [OF assms(1)]
  by (auto simp: books_ok_def)

lemma booked_le:
  assumes "books_ok cm ob rb" and "tbl_get rb k = Some r"
  shows "booked_on i r \<le> recognized i rb"
  unfolding recognized_def
  using assms tsum_member_le [of rb "\<lambda>_. booked_on i" k r]
  by (auto simp: books_ok_def booked_on_def)

lemma recognized_nonneg: "books_ok cm ob rb \<Longrightarrow> 0 \<le> recognized i rb"
  unfolding recognized_def by (rule tsum_nonneg) (auto simp: books_ok_def booked_on_def)

lemma encumbered_upd:
  "books_ok cm ob rb \<Longrightarrow> tbl_get ob k = Some o' \<Longrightarrow>
   encumbered b (tbl_upd k f ob) = encumbered b ob - open_on b o' + open_on b (f o')"
  by (simp add: encumbered_def tsum_upd books_ok_def)

lemma recognized_upd:
  "books_ok cm ob rb \<Longrightarrow> tbl_get rb k = Some r \<Longrightarrow>
   recognized i (tbl_upd k f rb) = recognized i rb - booked_on i r + booked_on i (f r)"
  by (simp add: recognized_def tsum_upd books_ok_def)

text \<open>Envelopes and orders.\<close>

lemma books_new_budget:
  assumes "books_ok cm ob rb" and "tbl_get cm k = None" and "trim_space k = k" and "k \<noteq> ''''"
  shows "books_ok (tbl_ins k 0 cm) ob rb"
proof -
  have "encumbered k ob = 0"
    unfolding encumbered_def
  proof (rule tsum_zero)
    fix j o' assume "(j, o') \<in> set ob"
    then have "tbl_get ob j = Some o'" using assms(1) by (simp add: tbl_get_def books_ok_def)
    then show "open_on k o' = 0" using assms(1,2) by (fastforce simp: books_ok_def order_ok_def open_on_def)
  qed
  with assms show ?thesis by (auto simp: books_ok_def order_ok_def tbl_get_ins split: if_splits)
qed

lemma books_new_order:
  assumes "books_ok cm ob rb" and "tbl_get ob i = None" and "i \<noteq> ''''" and "recognized i rb = 0" and "oe_spent o' = 0"
    and "\<not> oe_committed o'"
  shows "books_ok cm (tbl_ins i o' ob) rb"
  using assms by (auto simp: books_ok_def order_ok_def tbl_get_ins encumbered_def open_on_def split: if_splits)

lemma books_new_commitment:
  assumes "books_ok cm ob rb" and "tbl_get ob i = None" and "i \<noteq> ''''" and "recognized i rb = 0" and "oe_spent o' = 0"
    and "oe_committed o'" and "oe_budget o' = Some b" and "tbl_get cm b \<noteq> None" and "0 \<le> oe_total o'"
  shows "books_ok (tbl_upd b (\<lambda>c. c + oe_total o') cm) (tbl_ins i o' ob) rb"
  using assms by (auto simp: books_ok_def order_ok_def tbl_get_ins tbl_get_upd encumbered_def open_on_def split: if_splits)

text \<open>An edit of one order: its total and whether it is committed. The envelope moves by the difference.\<close>

lemma books_edit_order:
  assumes ok: "books_ok cm ob rb" and o': "tbl_get ob i = Some o'" and "oe_spent (f o') = oe_spent o'"
    and "oe_budget (f o') = oe_budget o'" and "oe_committed (f o') \<Longrightarrow> oe_committed o' \<and> oe_spent o' \<le> oe_total (f o')"
    and cm': "\<And>k. tbl_get cm' k = map_option (\<lambda>c. c - open_on k o' + open_on k (f o')) (tbl_get cm k)"
  shows "books_ok cm' (tbl_upd i f ob) rb"
  using assms encumbered_upd [OF ok o'] unfolding books_ok_def order_ok_def
  by (auto simp: tbl_get_upd split: if_splits)

lemma books_delete_order:
  assumes ok: "books_ok cm ob rb" and o': "tbl_get ob i = Some o'"
    and cm': "\<And>k. tbl_get cm' k = map_option (\<lambda>c. c - open_on k o') (tbl_get cm k)"
  shows "books_ok cm' (tbl_del i ob) rb"
proof -
  have "encumbered k (tbl_del i ob) = encumbered k ob - open_on k o'" for k
    using ok o' by (simp add: encumbered_def tsum_del books_ok_def)
  with assms show ?thesis unfolding books_ok_def order_ok_def by (auto simp: tbl_get_del split: if_splits)
qed

text \<open>A receipt that starts or stops counting for order \<open>i\<close>: the order's spend moves with it.\<close>

lemma books_receipt:
  assumes ok: "books_ok cm ob rb" and r: "tbl_get rb g = Some r" and "re_order r = i" and "re_order (fr r) = i"
    and "0 \<le> re_amount (fr r)" and o': "tbl_get ob i = Some o'"
    and sp: "oe_spent (f o') = oe_spent o' - booked_on i r + booked_on i (fr r)"
    and "oe_budget (f o') = oe_budget o'" and "oe_committed (f o') = oe_committed o'" and "oe_total (f o') = oe_total o'"
    and "oe_committed o' \<Longrightarrow> oe_spent (f o') \<le> oe_total o'"
    and cm': "\<And>k. tbl_get cm' k = map_option (\<lambda>c. c - open_on k o' + open_on k (f o')) (tbl_get cm k)"
  shows "books_ok cm' (tbl_upd i f ob) (tbl_upd g fr rb)"
proof -
  have other: "recognized j (tbl_upd g fr rb) = recognized j rb" if "j \<noteq> i" for j
    using recognized_upd [OF ok r, of j fr] that assms(3,4) by (simp add: booked_on_def)
  have own: "recognized i (tbl_upd g fr rb) = recognized i rb - booked_on i r + booked_on i (fr r)"
    by (rule recognized_upd [OF ok r])
  from assms encumbered_upd [OF ok o'] other own show ?thesis
    unfolding books_ok_def order_ok_def by (auto simp: tbl_get_upd split: if_splits)
qed

text \<open>Receipts that count for nothing come, change and go freely.\<close>

lemma books_idle_receipt:
  assumes "books_ok cm ob rb" and "keys_ok rb'" and "\<And>i. tbl_get ob i \<noteq> None \<Longrightarrow> recognized i rb' = recognized i rb"
    and "\<And>k r. tbl_get rb' k = Some r \<Longrightarrow> 0 \<le> re_amount r"
  shows "books_ok cm ob rb'"
  using assms by (fastforce simp: books_ok_def order_ok_def)

end
