(* ===== verification/Order_Ledger.thy ===== *)
theory Order_Ledger
  imports Order_Books
begin

text \<open>
  The sub-ledger behind \<^verbatim>\<open>budgets.committed\<close> and \<^verbatim>\<open>purchase_orders.spent_recognized\<close>:
  every operation of ordering and receiving is one of the movements of \<open>Order_Books\<close>.

  \<open>order_step\<close> states what each operation needs: an edit keeps the order's envelope and covers its
  spend, a receipt is booked against an order that still holds its encumbrance and keeps its order
  once recognised.
\<close>

section \<open>What the operations do to the books\<close>

lemma book_get:
  "tbl_get (commitments d) k = map_option b_committed (tbl_get (db_budgets d) k)"
  "tbl_get (order_book d) k = map_option order_entry_of (tbl_get (db_purchase_orders d) k)"
  "tbl_get (receipt_book d) k = map_option receipt_entry_of (tbl_get (db_grns d) k)"
  by (simp_all add: commitments_def order_book_def receipt_book_def view_get)

lemma order_book_upd:
  "(\<And>p. order_entry_of (f p) = g (order_entry_of p)) \<Longrightarrow> db_purchase_orders d' = tbl_upd i f (db_purchase_orders d) \<Longrightarrow>
   order_book d' = tbl_upd i g (order_book d)"
  by (simp add: order_book_def view_upd)

lemma receipt_book_upd:
  "(\<And>p. receipt_entry_of (f p) = g (receipt_entry_of p)) \<Longrightarrow> db_grns d' = tbl_upd i f (db_grns d) \<Longrightarrow>
   receipt_book d' = tbl_upd i g (receipt_book d)"
  by (simp add: receipt_book_def view_upd)

lemma commitments_upd:
  "(\<And>p. b_committed (f p) = g (b_committed p)) \<Longrightarrow> db_budgets d' = tbl_upd i f (db_budgets d) \<Longrightarrow>
   commitments d' = tbl_upd i g (commitments d)"
  by (simp add: commitments_def view_upd)

lemma commitments_cong: "db_budgets d' = db_budgets d \<Longrightarrow> commitments d' = commitments d"
  by (simp add: commitments_def)

lemma order_book_cong: "db_purchase_orders d' = db_purchase_orders d \<Longrightarrow> order_book d' = order_book d"
  by (simp add: order_book_def)

lemma receipt_book_cong: "db_grns d' = db_grns d \<Longrightarrow> receipt_book d' = receipt_book d"
  by (simp add: receipt_book_def)

lemmas books_cong = commitments_cong order_book_cong receipt_book_cong

lemma tbl_upd_ins: "tbl_get t k = None \<Longrightarrow> tbl_upd k f (tbl_ins k r t) = tbl_ins k (f r) t"
  using tbl_upd_absent [of t k f] by (simp add: tbl_ins_def tbl_upd_def tbl_where_def)

lemma liquidate_requisition_books:
  "commitments (liquidate_requisition r d) = commitments d" "order_book (liquidate_requisition r d) = order_book d"
  "receipt_book (liquidate_requisition r d) = receipt_book d"
  "db_purchase_orders (liquidate_requisition r d) = db_purchase_orders d"
  by (auto simp: liquidate_requisition_def Let_def commitments_def order_book_def receipt_book_def view_upd_same release_pre_def
      split: option.splits)

lemma applyPOEncumbrance_books:
  assumes "applyPOEncumbrance i b r tot d = Inr d'"
  shows "receipt_book d' = receipt_book d"
    and "commitments d' = commitments d \<and> order_book d' = order_book d \<or>
      0 < tot \<and> tbl_get (commitments d) (trim_space b) \<noteq> None \<and>
      commitments d' = tbl_upd (trim_space b) (\<lambda>c. c + tot) (commitments d) \<and>
      order_book d' = tbl_upd i (\<lambda>o'. o'\<lparr>oe_committed := True\<rparr>) (order_book d)"
proof -
  let ?d = "liquidate_requisition r d"
  show "receipt_book d' = receipt_book d"
    using assms by (auto simp: applyPOEncumbrance_def Let_def liquidate_requisition_books receipt_book_def [of "_\<lparr>db_purchase_orders := _\<rparr>"]
        receipt_book_def [symmetric] split: if_splits option.splits)
  show "commitments d' = commitments d \<and> order_book d' = order_book d \<or>
      0 < tot \<and> tbl_get (commitments d) (trim_space b) \<noteq> None \<and>
      commitments d' = tbl_upd (trim_space b) (\<lambda>c. c + tot) (commitments d) \<and>
      order_book d' = tbl_upd i (\<lambda>o'. o'\<lparr>oe_committed := True\<rparr>) (order_book d)"
  proof (cases "blank b \<or> tot \<le> 0 \<or> tbl_get (db_budgets ?d) (trim_space b) = None")
    case True
    then show ?thesis
      using assms by (auto simp: applyPOEncumbrance_def Let_def liquidate_requisition_books split: option.splits if_splits)
  next
    case False
    then obtain x where x: "tbl_get (db_budgets ?d) (trim_space b) = Some x" by auto
    with False assms have d': "d' = ?d\<lparr>db_budgets := tbl_upd (trim_space b) (encumber tot) (db_budgets ?d),
        db_purchase_orders := tbl_upd i (\<lambda>p. p\<lparr>po_budget_committed := True\<rparr>) (db_purchase_orders ?d)\<rparr>"
      by (auto simp: applyPOEncumbrance_def Let_def split: if_splits)
    have "commitments d' = tbl_upd (trim_space b) (\<lambda>c. c + tot) (commitments ?d)"
      by (rule commitments_upd) (simp_all add: d' encumber_def)
    moreover have "order_book d' = tbl_upd i (\<lambda>o'. o'\<lparr>oe_committed := True\<rparr>) (order_book ?d)"
      by (rule order_book_upd [where f = "\<lambda>p. p\<lparr>po_budget_committed := True\<rparr>"]) (simp_all add: d' order_entry_of_def)
    moreover have "tbl_get (commitments ?d) (trim_space b) \<noteq> None" by (simp add: book_get x)
    ultimately show ?thesis using False by (simp add: liquidate_requisition_books)
  qed
qed

lemma ledger_frame_ok: "ledger_frame d d' \<Longrightarrow> ledger_ok d \<Longrightarrow> ledger_ok d'"
  by (simp add: ledger_frame_def ledger_ok_def)

text \<open>An order id that no receipt names yet.\<close>

definition fresh_order :: "string \<Rightarrow> db \<Rightarrow> bool" where
  "fresh_order i d \<longleftrightarrow> i \<noteq> '''' \<and> list_all (\<lambda>(_, g). trim_space (deref (gr_po_id g)) \<noteq> i) (db_grns d)"

lemma fresh_recognized: "fresh_order i d \<Longrightarrow> recognized i (receipt_book d) = 0"
  unfolding recognized_def
  by (rule tsum_zero) (auto simp: fresh_order_def receipt_book_def list_all_iff booked_on_def receipt_entry_of_def)

text \<open>A new order, encumbered or not.\<close>

lemma new_order_ledger:
  assumes ok: "ledger_ok d" and fr: "fresh_order i d" and no: "tbl_get (db_purchase_orders d) i = None"
    and p: "po_spent_recognized p = 0" "\<not> po_budget_committed p" "po_total p = tot"
    and b: "\<not> blank b \<Longrightarrow> tot > 0 \<Longrightarrow> po_budget_id p = Some (trim_space b)"
    and d1: "db_budgets d1 = db_budgets d" "db_grns d1 = db_grns d"
      "db_purchase_orders d1 = tbl_ins i p (db_purchase_orders d)"
    and enc: "applyPOEncumbrance i b r tot d1 = Inr d'"
  shows "ledger_ok d'"
proof -
  have ob: "order_book d1 = tbl_ins i (order_entry_of p) (order_book d)" by (simp add: order_book_def d1(3) view_ins)
  have no': "tbl_get (order_book d) i = None" by (simp add: book_get no)
  note cm = commitments_cong [OF d1(1)] and rb = receipt_book_cong [OF d1(2)]
  have bk: "books_ok (commitments d) (order_book d) (receipt_book d)" using ok by (simp add: ledger_ok_def)
  note new = no' _ fresh_recognized [OF fr]
  have i: "i \<noteq> ''''" using fr by (simp add: fresh_order_def)
  from applyPOEncumbrance_books(2) [OF enc] show ?thesis
  proof (elim disjE conjE)
    assume "commitments d' = commitments d1" "order_book d' = order_book d1"
    then show ?thesis
      unfolding ledger_ok_def applyPOEncumbrance_books(1) [OF enc] cm rb ob
      using books_new_order [OF bk no' i fresh_recognized [OF fr], of "order_entry_of p"] p
      by (simp add: cm ob order_entry_of_def)
  next
    assume tot: "0 < tot" and "tbl_get (commitments d1) (trim_space b) \<noteq> None"
      and eqs: "commitments d' = tbl_upd (trim_space b) (\<lambda>c. c + tot) (commitments d1)"
        "order_book d' = tbl_upd i (\<lambda>o'. o'\<lparr>oe_committed := True\<rparr>) (order_book d1)"
    then have ex: "tbl_get (commitments d) (trim_space b) \<noteq> None" by (simp add: cm)
    then have "\<not> blank b" using bk by (auto simp: books_ok_def)
    with b tot have bp: "po_budget_id p = Some (trim_space b)" by simp
    show ?thesis
      unfolding ledger_ok_def applyPOEncumbrance_books(1) [OF enc] eqs cm rb ob tbl_upd_ins [OF no']
      using books_new_commitment [OF bk no' i fresh_recognized [OF fr], of "(order_entry_of p)\<lparr>oe_committed := True\<rparr>" "trim_space b"]
        p tot bp ex by (simp add: order_entry_of_def)
  qed
qed

lemma CreatePurchaseOrder_ledger:
  assumes "CreatePurchaseOrder cf e v t c b r x ls u d = Inr (y, d')" and "ledger_ok d" and "fresh_order (e_id e) d"
  shows "ledger_ok d'"
  using assms(1)
proof (rule CreatePurchaseOrderE)
  fix tot d1 aud cur vid
  assume b: "tbl_get (db_budgets d) b \<noteq> None" and no: "tbl_get (db_purchase_orders d) (e_id e) = None"
    and ins: "insert_po_lines (e_id e) ls (mark_ordered (trim_space r) (d\<lparr>db_purchase_orders := tbl_ins (e_id e)
      (new_po cf e vid t tot cur x (Some b) (nullif_blank (trim_space r)) u) (db_purchase_orders d)\<rparr>)) = Inr d1"
    and enc: "applyPOEncumbrance (e_id e) b r tot (insert_audit (audit_user u) ''create'' (e_id e) aud (bump_open_pos vid d1)) = Inr d'"
  have "trim_space b = b" using b assms(2) by (auto simp: ledger_ok_def books_ok_def book_get)
  moreover from insert_po_lines_frame [OF ins] have "db_budgets d1 = db_budgets d" "db_grns d1 = db_grns d"
      "db_purchase_orders d1 = tbl_ins (e_id e) (new_po cf e vid t tot cur x (Some b) (nullif_blank (trim_space r)) u)
        (db_purchase_orders d)" by auto
  ultimately show ?thesis
    by (intro new_order_ledger [OF assms(2,3) no _ _ _ _ _ _ _ enc]) (auto simp: new_po_def)
qed

lemma award_budget_trimmed [simp]: "trim_space (award_budget b r d) = award_budget b r d"
  by (simp add: award_budget_def Let_def split: option.splits)

lemma AwardRfq_ledger:
  assumes "AwardRfq cf e i qi vi b x u d = Inr (y, d')" and "ledger_ok d" and "fresh_order (e_id e) d"
  shows "ledger_ok d'"
  using assms(1)
proof (rule AwardRfqE)
  fix rf q d3 aud
  assume no: "tbl_get (db_purchase_orders d) (e_id e) = None"
    and d3: "db_budgets d3 = db_budgets d" "db_grns d3 = db_grns d"
    "db_purchase_orders d3 = tbl_ins (e_id e) (snd y) (db_purchase_orders d)"
    and y: "\<exists>title. snd y = new_po cf e (qt_vendor_id q) title (qt_amount q) (qt_currency q) x
      (nullif_blank (award_budget b (rf_requisition_id rf) d)) (rf_requisition_id rf) u"
    and enc: "applyPOEncumbrance (e_id e) (award_budget b (rf_requisition_id rf) d) (deref (rf_requisition_id rf)) (qt_amount q)
      (insert_audit (audit_user u) ''award'' (trim_space i) aud d3) = Inr d'"
  show ?thesis
    using d3 y by (intro new_order_ledger [OF assms(2,3) no _ _ _ _ _ _ _ enc]) (auto simp: new_po_def)
qed

text \<open>The envelope of a committed order is a row under its trimmed key.\<close>

lemma committed_budget:
  assumes "ledger_ok d" and "tbl_get (db_purchase_orders d) i = Some p" and "po_budget_committed p"
    and "po_budget_id p = Some b"
  shows "trim_space b = b" and "b \<noteq> ''''" and "\<exists>x. tbl_get (db_budgets d) b = Some x"
proof -
  from assms have "tbl_get (commitments d) b \<noteq> None"
    unfolding ledger_ok_def books_ok_def by (fastforce simp: order_ok_def book_get order_entry_of_def)
  with assms(1) show "trim_space b = b" "b \<noteq> ''''" "\<exists>x. tbl_get (db_budgets d) b = Some x"
    by (auto simp: ledger_ok_def books_ok_def book_get)
qed

lemma committed_open:
  assumes "ledger_ok d" and "tbl_get (db_purchase_orders d) i = Some p" and "po_budget_committed p"
  shows "0 \<le> po_total p - po_spent_recognized p"
    and "po_budget_id p = Some b \<Longrightarrow> tbl_get (db_budgets d) b = Some x \<Longrightarrow>
      po_total p - po_spent_recognized p \<le> b_committed x"
proof -
  have bk: "books_ok (commitments d) (order_book d) (receipt_book d)" using assms(1) by (simp add: ledger_ok_def)
  have o': "tbl_get (order_book d) i = Some (order_entry_of p)" by (simp add: book_get assms(2))
  show "0 \<le> po_total p - po_spent_recognized p"
    using books_orderD [OF bk o'] assms(3) by (simp add: order_ok_def order_entry_of_def)
  assume b: "po_budget_id p = Some b" and x: "tbl_get (db_budgets d) b = Some x"
  have "b_committed x = encumbered b (order_book d)"
    using bk x by (auto simp: books_ok_def book_get)
  with open_on_le [OF bk o', of b] b assms(3) show "po_total p - po_spent_recognized p \<le> b_committed x"
    by (simp add: open_on_def order_entry_of_def)
qed

lemma releasePOEncumbrance_books:
  assumes ok: "ledger_ok d" and p: "tbl_get (db_purchase_orders d) i = Some p" "po_budget_committed p"
    and same: "db_budgets d1 = db_budgets d"
  shows "tbl_get (commitments (releasePOEncumbrance (deref (po_budget_id p)) (po_total p) (po_spent_recognized p) d1)) k =
    map_option (\<lambda>c. c - open_on k (order_entry_of p)) (tbl_get (commitments d) k)"
proof (cases "po_budget_id p")
  case None
  then show ?thesis
    by (simp add: releasePOEncumbrance_def book_get open_on_def order_entry_of_def same option.map_comp o_def)
next
  case (Some b)
  from committed_budget [OF ok p this] obtain x where b: "trim_space b = b" "b \<noteq> ''''" and x: "tbl_get (db_budgets d) b = Some x"
    by auto
  note op = committed_open(1) [OF ok p] committed_open(2) [OF ok p Some x]
  show ?thesis
    using b x op Some p(2)
    by (auto simp: releasePOEncumbrance_def Let_def book_get tbl_get_upd same release_committed_def open_on_def
        order_entry_of_def option.map_comp o_def)
qed

lemma releasePOEncumbrance_simps [simp]:
  "db_purchase_orders (releasePOEncumbrance b t s d) = db_purchase_orders d"
  "db_grns (releasePOEncumbrance b t s d) = db_grns d" "db_po_lines (releasePOEncumbrance b t s d) = db_po_lines d"
  by (simp_all add: releasePOEncumbrance_def Let_def)

lemma DeletePurchaseOrder_ledger:
  assumes "DeletePurchaseOrder i u d = Inr (y, d')" and ok: "ledger_ok d"
  shows "ledger_ok d'"
proof -
  from assms(1) obtain p where p: "tbl_get (db_purchase_orders d) (trim_space i) = Some p"
    by (auto simp: DeletePurchaseOrder_def Let_def split: if_splits option.splits)
  let ?d1 = "if po_budget_committed p
    then releasePOEncumbrance (deref (po_budget_id p)) (po_total p) (po_spent_recognized p) d else d"
  from assms(1) p have d': "db_budgets d' = db_budgets ?d1" "db_grns d' = db_grns d"
      "db_purchase_orders d' = tbl_del (trim_space i) (db_purchase_orders d)"
    by (auto simp: DeletePurchaseOrder_def Let_def split: if_splits)
  have cm: "tbl_get (commitments d') k = map_option (\<lambda>c. c - open_on k (order_entry_of p)) (tbl_get (commitments d) k)" for k
    unfolding commitments_cong [OF d'(1)]
    using releasePOEncumbrance_books [OF ok p, of d k]
    by (cases "po_budget_committed p") (simp_all add: open_on_def order_entry_of_def option.map_ident)
  have "order_book d' = tbl_del (trim_space i) (order_book d)" by (simp add: order_book_def d'(3) view_del)
  with books_delete_order [OF _ _ cm] ok p receipt_book_cong [OF d'(2)] show ?thesis
    by (simp add: ledger_ok_def book_get)
qed

lemma tbl_upd_upd: "tbl_upd i g (tbl_upd i f t) = tbl_upd i (\<lambda>r. g (f r)) t"
  by (auto simp: tbl_upd_def tbl_where_def)

text \<open>The four ways an edit keeps the envelope in step.\<close>

lemma sync_encumbrance_cases:
  assumes "sync_encumbrance i b cur nt st d = Inr d'"
  obtains (same) "d' = d" "po_budget_committed cur \<Longrightarrow> \<not> blank b \<Longrightarrow> coalesce nt (po_total cur) = po_total cur"
  | (cancelled) "po_budget_committed cur" "\<not> blank b"
      "d' = (releasePOEncumbrance b (po_total cur) (po_spent_recognized cur) d)
         \<lparr>db_purchase_orders := tbl_upd i (\<lambda>p. p\<lparr>po_budget_committed := False\<rparr>) (db_purchase_orders d)\<rparr>"
  | (moved) t where "po_budget_committed cur" "\<not> blank b" "nt = Some t"
      "d' = d\<lparr>db_budgets := tbl_upd b (adjust_committed (t - po_total cur)) (db_budgets d)\<rparr>"
proof (cases "\<not> po_budget_committed cur \<or> blank b")
  case True
  with assms show ?thesis by (intro same) (auto simp: sync_encumbrance_def)
next
  case False
  show ?thesis
  proof (cases "to_lower (case st of None \<Rightarrow> po_status cur | Some s \<Rightarrow> trim_space s) \<in> {''rejected'', ''cancelled''}")
    case True
    with assms False show ?thesis by (intro cancelled) (auto simp: sync_encumbrance_def Let_def)
  next
    case live: False
    with False assms show ?thesis
      by (cases nt) (auto simp: sync_encumbrance_def Let_def intro: same moved split: if_split_asm)
  qed
qed

lemma UpdatePurchaseOrder_ledger:
  assumes up: "UpdatePurchaseOrder i v t c st x None ls r u d = Inr (y, d')" and ok: "ledger_ok d"
    and within: "\<forall>p. tbl_get (db_purchase_orders d') (trim_space i) = Some p \<and> po_budget_committed p \<longrightarrow>
      po_spent_recognized p \<le> po_total p"
  shows "ledger_ok d'"
  using up
proof (rule UpdatePurchaseOrderE)
  let ?i = "trim_space i"
  fix cur nt d1 d3 d4 vid
  assume cur: "tbl_get (db_purchase_orders d) ?i = Some cur"
    and "replace_po_lines ?i ls d = Inr (nt, d1)"
    and "move_vendor (po_vendor_id cur) (case v of None \<Rightarrow> po_vendor_id cur | Some v \<Rightarrow> trim_space v)
       (d1\<lparr>db_purchase_orders := tbl_upd ?i (po_edit vid t nt c st x None r) (db_purchase_orders d1)\<rparr>) = Inr d3"
    and sync: "sync_encumbrance ?i (deref (po_budget_id cur)) cur nt st d3 = Inr d4"
    and d': "d' = insert_audit (audit_user u) ''update'' ?i ''purchase order updated'' d4"
  then have d3: "db_budgets d3 = db_budgets d" "db_grns d3 = db_grns d"
      "db_purchase_orders d3 = tbl_upd ?i (po_edit vid t nt c st x None r) (db_purchase_orders d)"
    by (auto dest!: replace_po_lines_frame move_vendor_frame)
  let ?o = "order_entry_of cur" and ?f = "\<lambda>o'. o'\<lparr>oe_total := coalesce nt (oe_total o')\<rparr>"
  have bk: "books_ok (commitments d) (order_book d) (receipt_book d)" using ok by (simp add: ledger_ok_def)
  have o': "tbl_get (order_book d) ?i = Some ?o" by (simp add: book_get cur)
  have ob3: "order_book d3 = tbl_upd ?i ?f (order_book d)"
    by (rule order_book_upd [OF _ d3(3)]) (simp add: order_entry_of_def po_edit_def)
  have rb: "receipt_book d' = receipt_book d"
    using sync by (cases rule: sync_encumbrance_cases) (simp_all add: d' receipt_book_def d3(2))
  have edit: "ledger_ok d'" if "order_book d' = tbl_upd ?i g (order_book d)" and "oe_spent (g ?o) = oe_spent ?o"
      and "oe_budget (g ?o) = oe_budget ?o" and "oe_committed (g ?o) \<Longrightarrow> oe_committed ?o \<and> oe_spent ?o \<le> oe_total (g ?o)"
      and "\<And>k. tbl_get (commitments d') k = map_option (\<lambda>c. c - open_on k ?o + open_on k (g ?o)) (tbl_get (commitments d) k)"
    for g
    unfolding ledger_ok_def that(1) rb by (rule books_edit_order [OF bk o']) (use that(2-5) in auto)
  have bid: "\<exists>b z. po_budget_id cur = Some b \<and> trim_space b = b \<and> tbl_get (db_budgets d) b = Some z"
    if "po_budget_committed cur" "\<not> blank (deref (po_budget_id cur))"
    using that committed_budget [OF ok cur that(1)] by (cases "po_budget_id cur") auto
  from sync show ?thesis
  proof (cases rule: sync_encumbrance_cases)
    case same
    show ?thesis
    proof (rule edit [of ?f])
      show "order_book d' = tbl_upd ?i ?f (order_book d)" unfolding ob3 [symmetric] by (rule order_book_cong) (simp add: d' same(1))
      show "oe_committed (?f ?o) \<Longrightarrow> oe_committed ?o \<and> oe_spent ?o \<le> oe_total (?f ?o)"
        using within cur by (auto simp: d' same(1) d3(3) tbl_get_upd order_entry_of_def po_edit_def)
      show "tbl_get (commitments d') k = map_option (\<lambda>c. c - open_on k ?o + open_on k (?f ?o)) (tbl_get (commitments d) k)" for k
      proof (cases "tbl_get (commitments d) k")
        case (Some z)
        have "open_on k ?o = open_on k (?f ?o)"
          using same(2) committed_budget [OF ok cur] by (auto simp: open_on_def order_entry_of_def)
        with Some show ?thesis by (auto simp: d' same(1) book_get d3(1))
      qed (simp add: d' same(1) book_get d3(1))
    qed simp_all
  next
    case cancelled
    let ?g = "\<lambda>o'. (?f o')\<lparr>oe_committed := False\<rparr>"
    show ?thesis
    proof (rule edit [of ?g])
      have "order_book d' = tbl_upd ?i (\<lambda>o'. o'\<lparr>oe_committed := False\<rparr>) (order_book d3)"
        by (rule order_book_upd [where f = "\<lambda>p. p\<lparr>po_budget_committed := False\<rparr>"]) (simp_all add: d' cancelled(3) order_entry_of_def)
      then show "order_book d' = tbl_upd ?i ?g (order_book d)" by (simp add: ob3 tbl_upd_upd)
      show "tbl_get (commitments d') k = map_option (\<lambda>c. c - open_on k ?o + open_on k (?g ?o)) (tbl_get (commitments d) k)" for k
        using releasePOEncumbrance_books [OF ok cur cancelled(1) d3(1), of k]
        by (simp add: d' cancelled(3) book_get open_on_def)
    qed simp_all
  next
    case (moved tt)
    obtain b z where b: "po_budget_id cur = Some b" "trim_space b = b" "tbl_get (db_budgets d) b = Some z"
      using bid [OF moved(1,2)] by blast
    have le: "po_spent_recognized cur \<le> tt"
      using within cur moved(1) by (auto simp: d' moved(3,4) d3(3) tbl_get_upd po_edit_def)
    show ?thesis
    proof (rule edit [of ?f])
      show "order_book d' = tbl_upd ?i ?f (order_book d)" unfolding ob3 [symmetric] by (rule order_book_cong) (simp add: d' moved(4))
      show "oe_committed (?f ?o) \<Longrightarrow> oe_committed ?o \<and> oe_spent ?o \<le> oe_total (?f ?o)"
        using le moved(3) by (simp add: order_entry_of_def)
      show "tbl_get (commitments d') k = map_option (\<lambda>c. c - open_on k ?o + open_on k (?f ?o)) (tbl_get (commitments d) k)" for k
        using committed_open(2) [OF ok cur moved(1) b(1,3)] b le moved(1)
        by (auto simp: d' moved(3,4) book_get tbl_get_upd d3(1) open_on_def order_entry_of_def adjust_committed_def
            option.map_comp o_def)
    qed simp_all
  qed
qed

section \<open>Receipts\<close>

text \<open>Receipts are booked against an order that still holds its encumbrance, or has no envelope.\<close>

definition live_order :: "string option \<Rightarrow> db \<Rightarrow> bool" where
  "live_order poID d \<longleftrightarrow>
     (case tbl_get (db_purchase_orders d) (trim_space (deref poID)) of
        None \<Rightarrow> True | Some p \<Rightarrow> po_budget_committed p \<or> blank (deref (po_budget_id p)))"

lemma receipt_status_order_book [simp]: "order_book (recomputePOReceiptStatus i d) = order_book d"
  by (simp add: recomputePOReceiptStatus_def order_book_def view_upd_same order_entry_of_def)

lemma received_qty_order_book [simp]: "order_book (applyReceivedQty g i s d) = order_book d"
  by (simp add: order_book_def)

lemma receipt_parts_books [simp]:
  "order_book (move_budget b h d) = order_book d" "receipt_book (move_budget b h d) = receipt_book d"
  "receipt_book (recomputePOReceiptStatus i d) = receipt_book d" "receipt_book (applyReceivedQty g i s d) = receipt_book d"
  "receipt_book (set_spent_recognized i f d) = receipt_book d"
  "commitments (recomputePOReceiptStatus i d) = commitments d" "commitments (applyReceivedQty g i s d) = commitments d"
  "commitments (set_spent_recognized i f d) = commitments d"
  by (simp_all add: order_book_def receipt_book_def commitments_def)

lemma mark_recognized_books [simp]:
  "commitments (mark_recognized g b a d) = commitments d" "order_book (mark_recognized g b a d) = order_book d"
  "receipt_book (mark_recognized g b a d) = tbl_upd g (\<lambda>r. r\<lparr>re_recognized := b, re_amount := a\<rparr>) (receipt_book d)"
proof -
  show "receipt_book (mark_recognized g b a d) = tbl_upd g (\<lambda>r. r\<lparr>re_recognized := b, re_amount := a\<rparr>) (receipt_book d)"
    by (rule receipt_book_upd [where f = "\<lambda>x. x\<lparr>gr_budget_recognized := b, gr_recognized_amount := a\<rparr>"])
      (simp_all add: mark_recognized_def receipt_entry_of_def)
qed (simp_all add: commitments_def order_book_def)

lemma set_spent_recognized_book [simp]:
  "order_book (set_spent_recognized i f d) = tbl_upd i (\<lambda>o'. o'\<lparr>oe_spent := f (oe_spent o')\<rparr>) (order_book d)"
  by (rule order_book_upd [where f = "\<lambda>p. p\<lparr>po_spent_recognized := f (po_spent_recognized p)\<rparr>"])
    (simp_all add: set_spent_recognized_def order_entry_of_def)

text \<open>Posting or reversing a receipt moves the order's spend and its envelope together.\<close>

lemma spend_ledger:
  assumes ok: "ledger_ok d" and g: "tbl_get (db_grns d) gid = Some g" and po: "trim_space (deref (gr_po_id g)) = i"
    and p: "tbl_get (db_purchase_orders d) i = Some p" and live: "po_budget_committed p \<or> blank (deref (po_budget_id p))"
    and amt: "0 \<le> (if flag then amt else 0)"
    and sp: "spent' = po_spent_recognized p - booked_on i (receipt_entry_of g) + (if flag then amt else 0)"
    and le: "po_budget_committed p \<Longrightarrow> spent' \<le> po_total p"
    and cm: "\<And>k. tbl_get (commitments d') k =
      map_option (\<lambda>c. if \<not> blank (deref (po_budget_id p)) \<and> k = deref (po_budget_id p)
        then c + po_spent_recognized p - spent' else c) (tbl_get (commitments d) k)"
    and ob: "order_book d' = tbl_upd i (\<lambda>o'. o'\<lparr>oe_spent := f (oe_spent o')\<rparr>) (order_book d)"
    and f: "f (po_spent_recognized p) = spent'"
    and rb: "receipt_book d' = tbl_upd gid (\<lambda>r. r\<lparr>re_recognized := flag, re_amount := (if flag then amt else 0)\<rparr>) (receipt_book d)"
  shows "ledger_ok d'"
  unfolding ledger_ok_def ob rb
proof (rule books_receipt [where r = "receipt_entry_of g" and o' = "order_entry_of p"])
  show "books_ok (commitments d) (order_book d) (receipt_book d)" using ok by (simp add: ledger_ok_def)
  show "tbl_get (commitments d') k = map_option (\<lambda>c. c - open_on k (order_entry_of p) +
      open_on k ((order_entry_of p)\<lparr>oe_spent := f (oe_spent (order_entry_of p))\<rparr>)) (tbl_get (commitments d) k)" for k
  proof (cases "po_budget_committed p \<and> po_budget_id p = Some k")
    case True
    with committed_budget [OF ok p] have "\<not> blank k" by auto
    with True f show ?thesis unfolding cm
      by (cases "tbl_get (commitments d) k") (auto simp: open_on_def order_entry_of_def)
  next
    case False
    have "k \<noteq> deref (po_budget_id p) \<or> blank (deref (po_budget_id p))"
      using False live by (cases "po_budget_id p") auto
    with False show ?thesis unfolding cm
      by (cases "tbl_get (commitments d) k") (auto simp: open_on_def order_entry_of_def)
  qed
qed (use assms in \<open>auto simp: book_get receipt_entry_of_def order_entry_of_def booked_on_def\<close>)

lemma recognized_now_bounds:
  "0 < po_total p - po_spent_recognized p \<Longrightarrow>
   0 < recognized_now g p d \<and> recognized_now g p d \<le> po_total p - po_spent_recognized p"
  by (auto simp: recognized_now_def Let_def)

lemma recognize_posted_ledger:
  assumes ok: "ledger_ok d" and g: "tbl_get (db_grns d) gid = Some g" "\<not> gr_budget_recognized g"
    and po: "trim_space (deref (gr_po_id g)) = i" and live: "live_order (gr_po_id g) d"
  shows "ledger_ok (recognize_posted gid i d)"
proof (cases "tbl_get (db_purchase_orders d) i")
  case None
  then show ?thesis using ok by (simp add: recognize_posted_def)
next
  case (Some p)
  have bk: "books_ok (commitments d) (order_book d) (receipt_book d)" using ok by (simp add: ledger_ok_def)
  have live': "po_budget_committed p \<or> blank (deref (po_budget_id p))" using live Some po by (simp add: live_order_def)
  have unb: "booked_on i (receipt_entry_of g) = 0" using g(2) by (simp add: booked_on_def receipt_entry_of_def)
  let ?op = "po_total p - po_spent_recognized p"
  consider "i = ''''" | "i \<noteq> ''''" "?op \<le> 0" | "i \<noteq> ''''" "0 < ?op" by linarith
  then show ?thesis
  proof cases
    case 1
    then show ?thesis using ok by (simp add: recognize_posted_def)
  next
    case 2
    have "tbl_upd i (\<lambda>o'. o'\<lparr>oe_spent := oe_spent o'\<rparr>) (order_book d) = order_book d" by (rule tbl_upd_id) simp
    with 2 show ?thesis
      using committed_open(1) [OF ok Some]
      by (intro spend_ledger [OF ok g(1) po Some live', where flag = True and amt = 0 and f = "\<lambda>x. x" and spent' = "po_spent_recognized p"])
        (auto simp: recognize_posted_def Some unb option.map_ident cong: if_cong)
  next
    case 3
    let ?a = "recognized_now gid p d"
    note b = recognized_now_bounds [OF 3(2), of gid d]
    have bud: "\<exists>z. tbl_get (db_budgets d) (deref (po_budget_id p)) = Some z \<and> ?a \<le> b_committed z"
      if nb: "\<not> blank (deref (po_budget_id p))"
    proof -
      from nb live' obtain k where k: "po_budget_id p = Some k" and c: "po_budget_committed p" by (cases "po_budget_id p") auto
      from committed_budget [OF ok Some c k] obtain z where z: "tbl_get (db_budgets d) k = Some z" by blast
      from committed_open(2) [OF ok Some c k z] z k b show ?thesis by auto
    qed
    have d': "commitments (recognize_posted gid i d) = commitments (move_budget (deref (po_budget_id p)) (recognize_spend ?a) d)"
      using 3 b by (simp add: recognize_posted_def Some Let_def commitments_def)
    show ?thesis
    proof (rule spend_ledger [OF ok g(1) po Some live', where flag = True and amt = ?a and f = "\<lambda>x. x + ?a"
          and spent' = "po_spent_recognized p + ?a"])
      show "tbl_get (commitments (recognize_posted gid i d)) k = map_option (\<lambda>c. if \<not> blank (deref (po_budget_id p)) \<and>
          k = deref (po_budget_id p) then c + po_spent_recognized p - (po_spent_recognized p + ?a) else c)
          (tbl_get (commitments d) k)" for k
        unfolding d' using bud
        by (auto simp: book_get tbl_get_upd recognize_spend_def option.map_comp o_def option.map_ident)
    qed (use 3 b in \<open>auto simp: unb recognize_posted_def Some Let_def\<close>)
  qed
qed

lemma reverse_posted_ledger:
  assumes ok: "ledger_ok d" and g: "tbl_get (db_grns d) gid = Some g" "gr_budget_recognized g"
    and po: "trim_space (deref (gr_po_id g)) = i" and live: "live_order (gr_po_id g) d"
  shows "ledger_ok (reverse_posted gid i (gr_recognized_amount g) d)"
proof -
  let ?a = "gr_recognized_amount g" and ?d = "reverse_posted gid i (gr_recognized_amount g) d"
  let ?off = "\<lambda>r. r\<lparr>re_recognized := False, re_amount := 0\<rparr>"
  have bk: "books_ok (commitments d) (order_book d) (receipt_book d)" using ok by (simp add: ledger_ok_def)
  have r: "tbl_get (receipt_book d) gid = Some (receipt_entry_of g)" by (simp add: book_get g)
  have a0: "0 \<le> ?a" using books_receiptD [OF bk r] by (simp add: receipt_entry_of_def)
  have rb: "receipt_book ?d = tbl_upd gid ?off (receipt_book d)"
    by (auto simp: reverse_posted_def Let_def split: option.splits)
  show ?thesis
  proof (cases "i = [] \<or> ?a \<le> 0 \<or> tbl_get (db_purchase_orders d) i = None")
    case True
    have books: "commitments ?d = commitments d" "order_book ?d = order_book d"
      using True by (auto simp: reverse_posted_def Let_def split: option.splits)
    show ?thesis
      unfolding ledger_ok_def books rb
    proof (rule books_idle_receipt [OF bk])
      fix j assume j: "tbl_get (order_book d) j \<noteq> None"
      then have "j \<noteq> []" using bk by (auto simp: books_ok_def order_ok_def)
      with j True a0 have "booked_on j (receipt_entry_of g) = 0"
        using po by (auto simp: booked_on_def receipt_entry_of_def book_get)
      then show "recognized j (tbl_upd gid ?off (receipt_book d)) = recognized j (receipt_book d)"
        using recognized_upd [OF bk r, of j ?off] by (simp add: booked_on_def)
    qed (use bk in \<open>auto simp: books_ok_def tbl_get_upd split: if_splits\<close>)
  next
    case False
    then obtain p where p: "tbl_get (db_purchase_orders d) i = Some p" by auto
    have live': "po_budget_committed p \<or> blank (deref (po_budget_id p))" using live p po by (simp add: live_order_def)
    have bo: "booked_on i (receipt_entry_of g) = ?a" using g(2) po by (simp add: booked_on_def receipt_entry_of_def)
    have sp: "po_spent_recognized p = recognized i (receipt_book d)"
      using books_orderD [OF bk, of i "order_entry_of p"] p by (simp add: book_get order_ok_def order_entry_of_def)
    have le: "?a \<le> po_spent_recognized p" using booked_le [OF bk r, of i] by (simp add: bo sp)
    show ?thesis
    proof (rule spend_ledger [OF ok g(1) po p live', where flag = False and amt = 0 and f = "\<lambda>s. greatest0 (s - ?a)"
          and spent' = "po_spent_recognized p - ?a"])
      show "tbl_get (commitments ?d) k = map_option (\<lambda>c. if \<not> blank (deref (po_budget_id p)) \<and>
          k = deref (po_budget_id p) then c + po_spent_recognized p - (po_spent_recognized p - ?a) else c)
          (tbl_get (commitments d) k)" for k
        using False p
        by (auto simp: reverse_posted_def Let_def book_get tbl_get_upd reverse_spend_def option.map_comp o_def option.map_ident)
    qed (use False p bo le rb a0 committed_open(1) [OF ok p] in \<open>auto simp: reverse_posted_def Let_def\<close>)
  qed
qed

lemma recognizePOSpendOnReceipt_ledger:
  assumes "ledger_ok d" and "tbl_get (db_grns d) gid = Some g" and "live_order (gr_po_id g) d"
  shows "ledger_ok (recognizePOSpendOnReceipt gid (gr_po_id g) st d)"
  using assms recognize_posted_ledger [OF assms(1,2) _ refl assms(3)] reverse_posted_ledger [OF assms(1,2) _ refl assms(3)]
  by (simp add: recognizePOSpendOnReceipt_def Let_def)

lemma ledger_cong:
  "db_budgets d' = db_budgets d \<Longrightarrow> db_purchase_orders d' = db_purchase_orders d \<Longrightarrow> db_grns d' = db_grns d \<Longrightarrow>
   ledger_ok d' \<longleftrightarrow> ledger_ok d"
  by (simp add: ledger_ok_def books_cong [of d' d])

lemma idle_receipts_ledger:
  assumes "ledger_ok d" and "db_budgets d' = db_budgets d" and "db_purchase_orders d' = db_purchase_orders d"
    and "keys_ok (receipt_book d')"
    and "\<And>i. tbl_get (order_book d) i \<noteq> None \<Longrightarrow> recognized i (receipt_book d') = recognized i (receipt_book d)"
    and "\<And>k r. tbl_get (receipt_book d') k = Some r \<Longrightarrow> 0 \<le> re_amount r"
  shows "ledger_ok d'"
  using assms(1) unfolding ledger_ok_def commitments_cong [OF assms(2)] order_book_cong [OF assms(3)]
  by (rule books_idle_receipt) (fact assms(4-6))+

lemma CreateGrn_ledger:
  assumes "CreateGrn cf e v po by' st x ls qc qs w n u d = Inr (y, d')" and ok: "ledger_ok d" and live: "live_order po d"
  shows "ledger_ok d'"
  using assms(1)
proof (rule CreateGrnE)
  fix st' by2 d1 aud
  let ?g = "new_grn e (trim_space v) po x by2 st' qc (trim_space qs) w n"
  let ?d0 = "d\<lparr>db_grns := tbl_ins (e_id e) ?g (db_grns d)\<rparr>"
  let ?d2 = "insert_audit (audit_user u) ''create'' (e_id e) aud d1"
  assume no: "tbl_get (db_grns d) (e_id e) = None" and ins: "insert_grn_lines (e_id e) ls ?d0 = Inr d1"
    and d': "d' = enqueueGrnPosted cf e (e_id e) ?g (recognizePOSpendOnReceipt (e_id e) po st' ?d2)"
  have rb: "receipt_book ?d0 = tbl_ins (e_id e) (receipt_entry_of ?g) (receipt_book d)" by (simp add: receipt_book_def view_ins)
  have re: "receipt_entry_of ?g = \<lparr>re_order = trim_space (deref po), re_recognized = False, re_amount = 0\<rparr>"
    by (simp add: receipt_entry_of_def new_grn_def)
  have no': "tbl_get (receipt_book d) (e_id e) = None" by (simp add: book_get no)
  have "ledger_ok ?d0"
    using ok no'
    by (intro idle_receipts_ledger [OF ok])
      (auto simp: rb re recognized_def booked_on_def tbl_get_ins ledger_ok_def books_ok_def split: if_splits)
  moreover from insert_grn_lines_frame [OF ins] have d1: "db_budgets d1 = db_budgets d" "db_grns d1 = db_grns ?d0"
      "db_purchase_orders d1 = db_purchase_orders d" by auto
  ultimately have "ledger_ok ?d2" using ledger_cong [of ?d2 ?d0] by simp
  moreover have "tbl_get (db_grns ?d2) (e_id e) = Some ?g" "live_order (gr_po_id ?g) ?d2"
    using d1 no live by (auto simp: tbl_get_ins live_order_def new_grn_def)
  ultimately have "ledger_ok (recognizePOSpendOnReceipt (e_id e) (gr_po_id ?g) st' ?d2)"
    by (rule recognizePOSpendOnReceipt_ledger)
  moreover have "gr_po_id ?g = po" by (simp add: new_grn_def)
  ultimately show ?thesis by (simp add: d' ledger_cong [of "enqueueGrnPosted cf e (e_id e) ?g _"])
qed

lemma grn_edit_book [simp]:
  "gr_budget_recognized (grn_edit v po x b st qc qs w n g) = gr_budget_recognized g"
  "gr_recognized_amount (grn_edit v po x b st qc qs w n g) = gr_recognized_amount g"
  by (simp_all add: grn_edit_def)

lemma receipt_book_keys: "map fst (receipt_book d) = map fst (db_grns d)"
  by (simp add: receipt_book_def case_prod_beta)

lemma UpdateGrn_ledger:
  assumes "UpdateGrn cf e i v po x by' st ls qc qs w n u d = Inr (g, d')" and ok: "ledger_ok d"
    and stable: "\<And>g0. tbl_get (db_grns d) (trim_space i) = Some g0 \<Longrightarrow> gr_budget_recognized g0 \<Longrightarrow> gr_po_id g = gr_po_id g0"
    and live: "live_order (gr_po_id g) d"
  shows "ledger_ok d'"
  using assms(1)
proof (rule UpdateGrnE)
  let ?i = "trim_space i"
  fix po' g0 d1
  let ?f = "grn_edit v po' x by' st qc qs w n"
  let ?d0 = "d\<lparr>db_grns := tbl_upd ?i ?f (db_grns d)\<rparr>"
  let ?d2 = "insert_audit (audit_user u) ''update'' ?i ''grn updated'' d1"
  assume g0: "tbl_get (db_grns d) ?i = Some g0" and g: "g = ?f g0" and rep: "replace_grn_lines ?i ls ?d0 = Inr d1"
    and d': "d' = enqueueGrnPosted cf e ?i g (recognizePOSpendOnReceipt ?i (gr_po_id g) (gr_status g) ?d2)"
  have bk: "books_ok (commitments d) (order_book d) (receipt_book d)" using ok by (simp add: ledger_ok_def)
  have sum: "recognized k (receipt_book ?d0) = recognized k (receipt_book d)" for k
  proof -
    have "recognized k (receipt_book ?d0) = tsum (\<lambda>_ x. booked_on k (receipt_entry_of x)) (db_grns ?d0)"
      "recognized k (receipt_book d) = tsum (\<lambda>_ x. booked_on k (receipt_entry_of x)) (db_grns d)"
      by (simp_all add: recognized_def receipt_book_def tsum_view)
    moreover have "booked_on k (receipt_entry_of (?f g0)) = booked_on k (receipt_entry_of g0)"
      using stable [OF g0] by (auto simp: booked_on_def receipt_entry_of_def g)
    moreover have "keys_ok (db_grns d)" using bk by (simp add: books_ok_def receipt_book_keys)
    ultimately show ?thesis using g0 by (simp add: tsum_upd)
  qed
  have nn: "0 \<le> gr_recognized_amount z" if "tbl_get (db_grns d) k = Some z" for k z
    using books_receiptD [OF bk, of k "receipt_entry_of z"] that by (simp add: book_get receipt_entry_of_def)
  have "ledger_ok ?d0"
  proof (rule idle_receipts_ledger [OF ok])
    show "keys_ok (receipt_book ?d0)" using bk by (simp add: books_ok_def receipt_book_keys)
    show "\<And>k r. tbl_get (receipt_book ?d0) k = Some r \<Longrightarrow> 0 \<le> re_amount r"
      using nn by (auto simp: book_get tbl_get_upd receipt_entry_of_def split: if_splits)
  qed (simp_all add: sum)
  moreover from replace_grn_lines_frame [OF rep] have d1: "db_budgets d1 = db_budgets d" "db_grns d1 = db_grns ?d0"
      "db_purchase_orders d1 = db_purchase_orders d" by auto
  ultimately have "ledger_ok ?d2" using ledger_cong [of ?d2 ?d0] by simp
  moreover have "tbl_get (db_grns ?d2) ?i = Some g" "live_order (gr_po_id g) ?d2"
    using d1 g0 live by (auto simp: tbl_get_upd live_order_def g)
  ultimately have "ledger_ok (recognizePOSpendOnReceipt ?i (gr_po_id g) (gr_status g) ?d2)"
    by (rule recognizePOSpendOnReceipt_ledger)
  then show ?thesis by (simp add: d' ledger_cong [of "enqueueGrnPosted cf e ?i g _"])
qed

lemma DeleteGrn_ledger:
  assumes "DeleteGrn i u d = Inr (y, d')" and ok: "ledger_ok d"
    and live: "\<And>g. tbl_get (db_grns d) (trim_space i) = Some g \<Longrightarrow> live_order (gr_po_id g) d"
  shows "ledger_ok d'"
proof -
  let ?i = "trim_space i"
  from assms(1) obtain g where g: "tbl_get (db_grns d) ?i = Some g"
    by (auto simp: DeleteGrn_def Let_def split: if_splits option.splits)
  let ?d1 = "recognizePOSpendOnReceipt ?i (gr_po_id g) ''Deleted'' d"
  from assms(1) g have d': "db_budgets d' = db_budgets ?d1" "db_purchase_orders d' = db_purchase_orders ?d1"
      "db_grns d' = tbl_del ?i (db_grns ?d1)"
    by (auto simp: DeleteGrn_def Let_def split: if_splits)
  have ok1: "ledger_ok ?d1" by (rule recognizePOSpendOnReceipt_ledger [OF ok g live [OF g]])
  then have bk: "books_ok (commitments ?d1) (order_book ?d1) (receipt_book ?d1)" by (simp add: ledger_ok_def)
  have "\<exists>g'. tbl_get (db_grns ?d1) ?i = Some g' \<and> \<not> gr_budget_recognized g'"
    using g by (auto simp: recognizePOSpendOnReceipt_def Let_def reverse_posted_def mark_recognized_def tbl_get_upd
        string_simps split: option.splits)
  then obtain r where r: "tbl_get (receipt_book ?d1) ?i = Some r" "\<not> re_recognized r"
    by (auto simp: book_get receipt_entry_of_def)
  have rb: "receipt_book d' = tbl_del ?i (receipt_book ?d1)" by (simp add: receipt_book_def d'(3) view_del)
  show ?thesis
    using bk r
    by (intro idle_receipts_ledger [OF ok1 d'(1,2)])
      (auto simp: rb recognized_def tsum_del books_ok_def tbl_get_del booked_on_def split: if_splits)
qed

lemma CreateBudget_ledger:
  assumes "CreateBudget e c p a dp u d = Inr (y, d')" and ok: "ledger_ok d" and "trim_space (e_id e) = e_id e" and "e_id e \<noteq> ''''"
  shows "ledger_ok d'"
proof -
  let ?b = "snd y"
  from assms(1) have no: "tbl_get (db_budgets d) (e_id e) = None" and b: "b_committed ?b = 0"
    and d': "db_budgets d' = tbl_ins (e_id e) ?b (db_budgets d)" "db_purchase_orders d' = db_purchase_orders d"
      "db_grns d' = db_grns d"
    by (auto simp: CreateBudget_def Let_def split: if_splits)
  have "commitments d' = tbl_ins (e_id e) 0 (commitments d)" by (simp add: commitments_def d'(1) view_ins b)
  then show ?thesis
    using books_new_budget [of "commitments d" "order_book d" "receipt_book d" "e_id e"] ok no assms(3,4)
    by (simp add: ledger_ok_def book_get books_cong(2,3) [of d' d] d'(2,3))
qed

section \<open>Steps that keep the books\<close>

inductive order_step :: "db \<Rightarrow> db \<Rightarrow> bool" where
  side: "side_step d d' \<Longrightarrow> order_step d d'"
| new_budget: "CreateBudget e c p a dp u d = Inr (y, d') \<Longrightarrow> trim_space (e_id e) = e_id e \<Longrightarrow> e_id e \<noteq> '''' \<Longrightarrow>
    order_step d d'"
| new_order: "CreatePurchaseOrder cf e v t c b r x ls u d = Inr (y, d') \<Longrightarrow> fresh_order (e_id e) d \<Longrightarrow> order_step d d'"
| award: "AwardRfq cf e i q v b x u d = Inr (y, d') \<Longrightarrow> fresh_order (e_id e) d \<Longrightarrow> order_step d d'"
| edit: "UpdatePurchaseOrder i v t c st x None ls r u d = Inr (y, d') \<Longrightarrow>
    (\<forall>p. tbl_get (db_purchase_orders d') (trim_space i) = Some p \<and> po_budget_committed p \<longrightarrow>
      po_spent_recognized p \<le> po_total p) \<Longrightarrow> order_step d d'"
| delete: "DeletePurchaseOrder i u d = Inr (y, d') \<Longrightarrow> order_step d d'"
| receive: "CreateGrn cf e v po by' st x ls qc qs w n u d = Inr (y, d') \<Longrightarrow> live_order po d \<Longrightarrow> order_step d d'"
| edit_receipt: "UpdateGrn cf e i v po x by' st ls qc qs w n u d = Inr (g, d') \<Longrightarrow> live_order (gr_po_id g) d \<Longrightarrow>
    (\<forall>g0. tbl_get (db_grns d) (trim_space i) = Some g0 \<and> gr_budget_recognized g0 \<longrightarrow> gr_po_id g = gr_po_id g0) \<Longrightarrow>
    order_step d d'"
| delete_receipt: "DeleteGrn i u d = Inr (y, d') \<Longrightarrow>
    (\<forall>g. tbl_get (db_grns d) (trim_space i) = Some g \<longrightarrow> live_order (gr_po_id g) d) \<Longrightarrow> order_step d d'"

lemma order_step_ledger:
  assumes "order_step d d'" and "ledger_ok d"
  shows "ledger_ok d'"
  using assms
proof (induction rule: order_step.induct)
  case (side d d')
  then show ?case using side_step_frame ledger_frame_ok by blast
next
  case (edit_receipt cf e i v po x by' st ls qc qs w n u d g d')
  then show ?case using UpdateGrn_ledger [OF edit_receipt(1)] by blast
next
  case (delete_receipt i u d y d')
  then show ?case using DeleteGrn_ledger [OF delete_receipt(1)] by blast
qed (blast intro: CreateBudget_ledger CreatePurchaseOrder_ledger AwardRfq_ledger UpdatePurchaseOrder_ledger
       DeletePurchaseOrder_ledger CreateGrn_ledger)+

lemma order_steps_ledger: "order_step\<^sup>*\<^sup>* d0 d \<Longrightarrow> ledger_ok d0 \<Longrightarrow> ledger_ok d"
  by (induction rule: rtranclp_induct) (auto intro: order_step_ledger)

lemma ledger_ok_start:
  assumes "db_purchase_orders d = []" and "db_grns d = []"
    and "\<And>k b. tbl_get (db_budgets d) k = Some b \<Longrightarrow> trim_space k = k \<and> k \<noteq> '''' \<and> b_committed b = 0"
  shows "ledger_ok d"
  using assms
  by (auto simp: ledger_ok_def books_ok_def order_book_def receipt_book_def encumbered_def tsum_def tbl_get_def
      commitments_def view_get [unfolded tbl_get_def])

lemma ledger_ok_columns:
  assumes "ledger_ok d"
  shows "tbl_get (db_budgets d) k = Some b \<Longrightarrow> b_committed b = (\<Sum>(i, p) \<leftarrow> db_purchase_orders d.
      if po_budget_committed p \<and> po_budget_id p = Some k then po_total p - po_spent_recognized p else 0)"
    and "tbl_get (db_purchase_orders d) i = Some p \<Longrightarrow> po_spent_recognized p = (\<Sum>(j, g) \<leftarrow> db_grns d.
      if gr_budget_recognized g \<and> trim_space (deref (gr_po_id g)) = i then gr_recognized_amount g else 0)"
proof -
  have bk: "books_ok (commitments d) (order_book d) (receipt_book d)" using assms by (simp add: ledger_ok_def)
  show "b_committed b = (\<Sum>(i, p) \<leftarrow> db_purchase_orders d.
      if po_budget_committed p \<and> po_budget_id p = Some k then po_total p - po_spent_recognized p else 0)"
    if "tbl_get (db_budgets d) k = Some b"
  proof -
    have "b_committed b = encumbered k (order_book d)" using bk that by (auto simp: books_ok_def book_get)
    then show ?thesis
      unfolding encumbered_def order_book_def tsum_view by (simp add: tsum_def open_on_def order_entry_of_def cong: if_cong)
  qed
  show "tbl_get (db_purchase_orders d) i = Some p \<Longrightarrow> po_spent_recognized p = (\<Sum>(j, g) \<leftarrow> db_grns d.
      if gr_budget_recognized g \<and> trim_space (deref (gr_po_id g)) = i then gr_recognized_amount g else 0)"
    using books_orderD [OF bk, of i "order_entry_of p"]
    unfolding order_ok_def recognized_def receipt_book_def tsum_view
    by (simp add: book_get tsum_def booked_on_def order_entry_of_def receipt_entry_of_def cong: if_cong)
qed

end
