(* ===== verification/Ledger_Properties.thy ===== *)
theory Ledger_Properties
  imports Order_Ledger
begin

text \<open>
  The properties of the money side, and the runs that witness them: a shop with one envelope of
  1000, one vendor and one item, an order of ten pumps at 20 below the approval threshold, a receipt
  of four pumps, and what follows.
\<close>

section \<open>A small shop\<close>

text \<open>The supplier, under an id as the database prints it.\<close>

definition acme :: string where
  "acme = ''0a1b2c3d-0000-4000-8000-00000000000a''"

definition shop_db :: db where
  "shop_db = empty_db\<lparr>db_budgets := [(''b1'', sample_budget 1000)],
     db_vendors := [(acme, new_vendor ''Acme'' '''' '''' '''' '''' '''' '''' '''' 0 ''Active'' ''p1'' None)],
     db_items := [(''i1'', \<lparr>it_sku = ''PUMP'', it_name = ''pump'', it_category = '''', it_uom = ''ea'', it_stock = 0,
       it_reorder = 0, it_last_price = 20, it_currency = ''USD'', it_preferred_vendor_id = None, it_stockable = True,
       it_attrs = ''{}''\<rparr>)]\<rparr>"

definition env_for :: "string \<Rightarrow> env" where
  "env_for i = sample_env\<lparr>e_id := i\<rparr>"

definition pumps :: "amount \<Rightarrow> order_line list" where
  "pumps n = [\<lparr>ol_item_id = ''i1'', ol_qty = n, ol_price = 20\<rparr>]"

definition shop_config :: config where
  "shop_config = sample_config\<lparr>cf_approval_threshold := 1000\<rparr>"

definition order_pumps :: "db \<Rightarrow> (string \<times> po_row) tx" where
  "order_pumps d =
     CreatePurchaseOrder shop_config (env_for ''po1'') acme ''pumps'' ''USD'' ''b1'' '''' None (pumps 10) ''ann'' d"

definition set_order_status :: "string \<Rightarrow> db \<Rightarrow> (po_row \<times> po_line_row list) tx" where
  "set_order_status st d = UpdatePurchaseOrder ''po1'' None None None (Some st) None None None None ''bob'' d"

definition receive_pumps :: "string \<Rightarrow> amount \<Rightarrow> db \<Rightarrow> (string \<times> grn_row) tx" where
  "receive_pumps st n d =
     CreateGrn shop_config (env_for ''g1'') acme (Some ''po1'') ''carl'' st None (pumps n) False '''' '''' '''' ''carl'' d"

definition set_receipt_status :: "string \<Rightarrow> db \<Rightarrow> grn_row tx" where
  "set_receipt_status st d =
     UpdateGrn shop_config (env_for ''g2'') ''g1'' None None None None (Some st) None None None None None ''carl'' d"

abbreviation after :: "'a tx \<Rightarrow> db" where
  "after r \<equiv> snd (projr r)"

definition ordered_db :: db where
  "ordered_db = after (order_pumps shop_db)"

definition received_db :: db where
  "received_db = after (receive_pumps ''Posted'' 4 ordered_db)"

lemma is_ok_after: "is_ok r \<Longrightarrow> \<exists>y. r = Inr (y, after r)"
  by (cases r) (auto simp: is_ok_def)

lemma shop_runs: "is_ok (order_pumps shop_db)" "is_ok (receive_pumps ''Posted'' 4 ordered_db)"
  by code_simp+

lemma shop_budget_ok: "budgets_ok shop_db"
  by (auto simp: tbl_all_def shop_db_def sample_budget_def budget_ok_def tbl_get_def empty_db_def split: if_splits)

lemma shop_eqs:
  "order_pumps shop_db = Inr (fst (projr (order_pumps shop_db)), ordered_db)"
  "receive_pumps ''Posted'' 4 ordered_db = Inr (fst (projr (receive_pumps ''Posted'' 4 ordered_db)), received_db)"
  using shop_runs by (auto simp: is_ok_iff ordered_db_def received_db_def)

lemma shop_steps: "order_step shop_db ordered_db" "order_step ordered_db received_db"
proof -
  have c: "fresh_order (e_id (env_for ''po1'')) shop_db" "live_order (Some ''po1'') ordered_db" by code_simp+
  show "order_step shop_db ordered_db" by (rule new_order [OF shop_eqs(1) [unfolded order_pumps_def] c(1)])
  show "order_step ordered_db received_db" by (rule receive [OF shop_eqs(2) [unfolded receive_pumps_def] c(2)])
qed

section \<open>Properties\<close>

text \<open>
  C4. Along any run of repository operations and consumer messages every budget row satisfies
  remaining = allocated - pre_committed - committed - spent, and the three used columns never go
  negative.
\<close>

theorem books_always_balance:
  assumes "repo_step\<^sup>*\<^sup>* d0 d" and "budgets_ok d0" and "tbl_get (db_budgets d) k = Some b"
  shows "b_remaining b = b_allocated b - b_pre_committed b - b_committed b - b_spent b \<and>
    0 \<le> b_pre_committed b \<and> 0 \<le> b_committed b \<and> 0 \<le> b_spent b"
  using tbl_all_get [OF repo_steps_ok [OF assms(1,2)] assms(3)] by (simp add: budget_ok_def)

theorem books_always_balance_witness:
  "\<exists>d b. repo_step\<^sup>*\<^sup>* shop_db d \<and> tbl_get (db_budgets d) ''b1'' = Some b \<and> b_committed b = 200 \<and> b_remaining b = 800"
proof -
  have s: "repo_step\<^sup>*\<^sup>* shop_db ordered_db"
    using shop_eqs(1) unfolding order_pumps_def by (intro r_into_rtranclp repo_step.intros(5))
  have v: "tbl_get (db_budgets ordered_db) ''b1'' = Some (the (tbl_get (db_budgets ordered_db) ''b1''))"
    "b_committed (the (tbl_get (db_budgets ordered_db) ''b1'')) = 200" "b_spent (the (tbl_get (db_budgets ordered_db) ''b1'')) = 0"
    "b_pre_committed (the (tbl_get (db_budgets ordered_db) ''b1'')) = 0"
    "b_allocated (the (tbl_get (db_budgets ordered_db) ''b1'')) = 1000"
    by code_simp+
  have "b_remaining (the (tbl_get (db_budgets ordered_db) ''b1'')) = 800"
    using books_always_balance [OF s shop_budget_ok v(1)] v(2-5) by simp
  with s v(1,2) show ?thesis by blast
qed

text \<open>
  C3. Starting with no orders, no receipts and nothing committed, after any run of order,
  receipt, budget-create and unrelated operations in which orders keep their envelope and stay
  at or above what was received, receipts are booked and unbooked only while their order is
  committed, and a recognised receipt keeps its order, every envelope's committed column is the
  sum, over the orders committed to it, of what is ordered and not yet received, and every
  order's recognised spend is the sum of what its recognised receipts booked.
\<close>

theorem orders_reconcile:
  assumes "order_step\<^sup>*\<^sup>* d0 d" and "db_purchase_orders d0 = []" and "db_grns d0 = []"
    and "\<forall>k b. tbl_get (db_budgets d0) k = Some b \<longrightarrow> trim_space k = k \<and> k \<noteq> '''' \<and> b_committed b = 0"
  shows "(\<forall>k b. tbl_get (db_budgets d) k = Some b \<longrightarrow> b_committed b = (\<Sum>(i, p) \<leftarrow> db_purchase_orders d.
        if po_budget_committed p \<and> po_budget_id p = Some k then po_total p - po_spent_recognized p else 0)) \<and>
    (\<forall>i p. tbl_get (db_purchase_orders d) i = Some p \<longrightarrow> po_spent_recognized p = (\<Sum>(j, g) \<leftarrow> db_grns d.
        if gr_budget_recognized g \<and> trim_space (deref (gr_po_id g)) = i then gr_recognized_amount g else 0))"
  using ledger_ok_columns [OF order_steps_ledger [OF assms(1) ledger_ok_start]] assms(2-4) by blast

theorem orders_reconcile_witness:
  "order_step\<^sup>*\<^sup>* shop_db received_db \<and>
   (\<exists>b p. tbl_get (db_budgets received_db) ''b1'' = Some b \<and> b_committed b = 120 \<and>
     tbl_get (db_purchase_orders received_db) ''po1'' = Some p \<and> po_spent_recognized p = 80 \<and>
     po_spent_recognized p = (\<Sum>(j, g) \<leftarrow> db_grns received_db.
       if gr_budget_recognized g \<and> trim_space (deref (gr_po_id g)) = ''po1'' then gr_recognized_amount g else 0))"
proof -
  have s: "order_step\<^sup>*\<^sup>* shop_db received_db" using shop_steps by (meson rtranclp.rtrancl_into_rtrancl rtranclp.rtrancl_refl)
  have st: "db_purchase_orders shop_db = []" "db_grns shop_db = []"
    "\<forall>k b. tbl_get (db_budgets shop_db) k = Some b \<longrightarrow> trim_space k = k \<and> k \<noteq> '''' \<and> b_committed b = 0"
    by (auto simp: shop_db_def empty_db_def tbl_get_def sample_budget_def string_simps split: if_splits)
  have "map (\<lambda>(k, b). (k, b_committed b)) (db_budgets received_db) = [(''b1'', 120)] \<and>
      map (\<lambda>(k, p). (k, po_spent_recognized p)) (db_purchase_orders received_db) = [(''po1'', 80)]"
    by code_simp
  then obtain b p where v: "tbl_get (db_budgets received_db) ''b1'' = Some b" "b_committed b = 120"
    "tbl_get (db_purchase_orders received_db) ''po1'' = Some p" "po_spent_recognized p = 80"
    by (auto simp: tbl_get_def)
  from orders_reconcile [OF s st] v(3) have "po_spent_recognized p = (\<Sum>(j, g) \<leftarrow> db_grns received_db.
       if gr_budget_recognized g \<and> trim_space (deref (gr_po_id g)) = ''po1'' then gr_recognized_amount g else 0)" by blast
  with s v show ?thesis by blast
qed

text \<open>
  A run that breaks the reconciliation outside the guarded steps: an order of 200 is partly
  received (80), cancelled, and its receipt then taken back to Draft; the reversal moves the 80
  back into committed although the order is cancelled and no longer committed, so the envelope
  keeps a commitment no order explains.
\<close>

lemma cancelled_order_keeps_a_commitment:
  "(let d1 = after (set_order_status ''cancelled'' received_db); d2 = after (set_receipt_status ''Draft'' d1) in
    is_ok (set_order_status ''cancelled'' received_db) \<and> is_ok (set_receipt_status ''Draft'' d1) \<and>
    map (\<lambda>(_, b). (b_committed b, b_spent b)) (db_budgets d1) = [(0, 80)] \<and>
    map (\<lambda>(_, b). (b_committed b, b_spent b)) (db_budgets d2) = [(80, 0)] \<and>
    map (\<lambda>(_, p). (po_budget_committed p, po_status p)) (db_purchase_orders d2) = [(False, ''cancelled'')])"
  by code_simp

end
