(* ===== verification/Trade_Properties.thy ===== *)
theory Trade_Properties
  imports Ledger_Properties
begin

text \<open>
  Properties of receipts, invoices and payments, with the runs in the small shop that witness them.
\<close>

section \<open>Runs\<close>

definition drafted_db :: db where
  "drafted_db = after (receive_pumps ''Draft'' 4 ordered_db)"

lemma drafted_run: "is_ok (receive_pumps ''Draft'' 4 ordered_db)"
  by code_simp

lemma drafted_eq: "receive_pumps ''Draft'' 4 ordered_db = Inr (fst (projr (receive_pumps ''Draft'' 4 ordered_db)), drafted_db)"
  using drafted_run by (auto simp: is_ok_iff drafted_db_def)

lemma shop_ledger_ok: "ledger_ok shop_db"
  by (rule ledger_ok_start) (auto simp: shop_db_def empty_db_def tbl_get_def sample_budget_def string_simps split: if_splits)

lemma drafted_ok: "ledger_ok drafted_db" "budgets_ok drafted_db"
proof -
  have "live_order (Some ''po1'') ordered_db" by code_simp
  from receive [OF drafted_eq [unfolded receive_pumps_def] this] have "order_step ordered_db drafted_db" .
  with shop_steps(1) show "ledger_ok drafted_db" using shop_ledger_ok order_step_ledger by blast
  have "budgets_ok ordered_db"
    by (rule CreatePurchaseOrder_ok [OF shop_eqs(1) [unfolded order_pumps_def] shop_budget_ok])
  then show "budgets_ok drafted_db" by (rule CreateGrn_ok [OF drafted_eq [unfolded receive_pumps_def]])
qed

lemma drafted_rows:
  obtains g p b where "tbl_get (db_grns drafted_db) ''g1'' = Some g" and "\<not> gr_budget_recognized g"
    and "gr_recognized_amount g = 0" and "gr_po_id g = Some ''po1''"
    and "tbl_get (db_purchase_orders drafted_db) ''po1'' = Some p" and "po_budget_committed p" and "po_budget_id p = Some ''b1''"
    and "po_total p = 200" and "po_spent_recognized p = 0"
    and "tbl_get (db_budgets drafted_db) ''b1'' = Some b" and "b_committed b = 200" and "b_spent b = 0"
proof -
  have "map (\<lambda>(k, g). (k, gr_budget_recognized g, gr_recognized_amount g, gr_po_id g)) (db_grns drafted_db) =
      [(''g1'', False, 0, Some ''po1'')] \<and>
    map (\<lambda>(k, p). (k, po_budget_committed p, po_budget_id p, po_total p, po_spent_recognized p)) (db_purchase_orders drafted_db) =
      [(''po1'', True, Some ''b1'', 200, 0)] \<and>
    map (\<lambda>(k, b). (k, b_committed b, b_spent b)) (db_budgets drafted_db) = [(''b1'', 200, 0)]"
    by code_simp
  then show ?thesis by (auto simp: tbl_get_def intro: that)
qed

section \<open>Receipts\<close>

lemma spend_undone:
  assumes "0 < a" and "a \<le> b_committed b" and "budget_ok b"
  shows "reverse_spend a (recognize_spend a b) = b"
  using reverse_recognize [OF assms] .

lemma received_undone:
  assumes "\<forall>l \<in> set (db_grn_lines d). 0 \<le> gl_qty l" and "\<forall>l \<in> set (db_po_lines d). 0 \<le> pl_received_qty l"
    and "db_grn_lines d' = db_grn_lines d" and "db_po_lines d' = db_po_lines (applyReceivedQty gid i 1 d)"
  shows "db_po_lines (applyReceivedQty gid i (- 1) d') = db_po_lines d"
proof -
  have q: "0 \<le> received_qty gid k d" for k
    using assms(1) unfolding received_qty_def by (intro sum_list_nonneg) (auto simp: grn_lines_of_def)
  have eq: "received_qty gid k d' = received_qty gid k d" "grn_lines_of gid d' = grn_lines_of gid d" for k
    by (simp_all add: received_qty_def grn_lines_of_def assms(3))
  show ?thesis
  proof (cases "blank i")
    case False
    define f where "f sg l = (if pl_po_id l = i \<and> list_ex (\<lambda>g. gl_item_id g = pl_item_id l) (grn_lines_of gid d)
      then l\<lparr>pl_received_qty := greatest0 (pl_received_qty l + sg * received_qty gid (pl_item_id l) d)\<rparr> else l)"
      for sg and l :: po_line_row
    have "db_po_lines (applyReceivedQty gid i 1 d) = map (f 1) (db_po_lines d)"
      "db_po_lines (applyReceivedQty gid i (- 1) d') = map (f (- 1)) (db_po_lines d')"
      using False by (simp_all add: applyReceivedQty_def f_def eq)
    moreover have "f (- 1) (f 1 l) = l" if "l \<in> set (db_po_lines d)" for l
      using assms(2) that q [of "pl_item_id l"] by (auto simp: f_def greatest0_def)
    ultimately show ?thesis by (simp add: assms(4) map_idI)
  qed (simp add: applyReceivedQty_def assms(4))
qed

lemma posted_and_reversed:
  assumes ok: "ledger_ok d" and bud: "budgets_ok d" and g: "tbl_get (db_grns d) gid = Some g"
    and live: "live_order (gr_po_id g) d" and p: "tbl_get (db_purchase_orders d) i = Some p"
    and op: "0 < po_total p - po_spent_recognized p" and i: "i = trim_space (deref (gr_po_id g))" "i \<noteq> []"
    and q: "\<forall>l \<in> set (db_grn_lines d). 0 \<le> gl_qty l" "\<forall>l \<in> set (db_po_lines d). 0 \<le> pl_received_qty l"
  shows "let a = recognized_now gid p d; d1 = recognize_posted gid i d; d' = reverse_posted gid i a d1
    in tbl_get (db_grns d1) gid = Some (g\<lparr>gr_budget_recognized := True, gr_recognized_amount := a\<rparr>) \<and>
       (\<forall>k. tbl_get (db_budgets d') k = tbl_get (db_budgets d) k) \<and> db_po_lines d' = db_po_lines d \<and>
       (\<forall>k. map_option po_spent_recognized (tbl_get (db_purchase_orders d') k) =
         map_option po_spent_recognized (tbl_get (db_purchase_orders d) k)) \<and>
       (\<forall>k. tbl_get (db_grns d') k = map_option (\<lambda>x. if k = gid then x\<lparr>gr_budget_recognized := False, gr_recognized_amount := 0\<rparr> else x)
          (tbl_get (db_grns d) k))"
proof -
  let ?a = "recognized_now gid p d" and ?b = "deref (po_budget_id p)"
  let ?m = "set_spent_recognized i (\<lambda>s. s + ?a) (move_budget ?b (recognize_spend ?a) d)"
  let ?d1 = "recognize_posted gid i d" and ?d' = "reverse_posted gid i ?a (recognize_posted gid i d)"
  note a = recognized_now_bounds [OF op, of gid d]
  have d1: "?d1 = mark_recognized gid True ?a (recomputePOReceiptStatus i (applyReceivedQty gid i 1 ?m))"
    using op i(2) a by (simp add: recognize_posted_def p Let_def)
  have ob1: "order_book ?d1 = tbl_upd i (\<lambda>o'. o'\<lparr>oe_spent := oe_spent o' + ?a\<rparr>) (order_book d)" by (simp add: d1)
  then have "tbl_get (order_book ?d1) i = Some ((order_entry_of p)\<lparr>oe_spent := po_spent_recognized p + ?a\<rparr>)"
    by (simp add: tbl_get_upd) (simp add: book_get p order_entry_of_def)
  then obtain p1 where p1: "tbl_get (db_purchase_orders ?d1) i = Some p1" and "po_budget_id p1 = po_budget_id p"
    by (auto simp: book_get order_entry_of_def)
  then have d': "?d' = mark_recognized gid False 0 (recomputePOReceiptStatus i (applyReceivedQty gid i (- 1)
      (set_spent_recognized i (\<lambda>s. greatest0 (s - ?a)) (move_budget ?b (reverse_spend ?a) ?d1))))"
    using i(2) a by (simp add: reverse_posted_def Let_def)
  have grns: "tbl_get (db_grns ?d1) gid = Some (g\<lparr>gr_budget_recognized := True, gr_recognized_amount := ?a\<rparr>)"
    by (simp add: d1 mark_recognized_def tbl_get_upd g)
  have undo: "map_option (\<lambda>x. reverse_spend ?a (recognize_spend ?a x)) (tbl_get (db_budgets d) ?b) = tbl_get (db_budgets d) ?b"
    if nb: "\<not> blank ?b"
  proof -
    from nb live p i obtain b where b: "po_budget_id p = Some b" and c: "po_budget_committed p"
      by (cases "po_budget_id p") (auto simp: live_order_def)
    from committed_budget [OF ok p c b] obtain x where x: "tbl_get (db_budgets d) b = Some x" by blast
    from committed_open(2) [OF ok p c b x] a have "?a \<le> b_committed x" by simp
    with spend_undone [OF _ this] a tbl_all_get [OF bud x] x b show ?thesis by simp
  qed
  then have buds: "tbl_get (db_budgets ?d') k = tbl_get (db_budgets d) k" for k
    unfolding d' by (auto simp: d1 tbl_get_upd option.map_comp o_def)
  have lines: "db_po_lines ?d' = db_po_lines d"
    using received_undone [OF q, of "set_spent_recognized i (\<lambda>s. greatest0 (s - ?a)) (move_budget ?b (reverse_spend ?a) ?d1)" gid i]
    unfolding d' by (simp add: d1 applyReceivedQty_def received_qty_def grn_lines_of_def)
  have bk: "books_ok (commitments d) (order_book d) (receipt_book d)" using ok by (simp add: ledger_ok_def)
  have "0 \<le> po_spent_recognized p"
    using books_orderD [OF bk, of i "order_entry_of p"] p recognized_nonneg [OF bk, of i]
    by (simp add: book_get order_ok_def order_entry_of_def)
  then have spent: "map_option oe_spent (tbl_get (order_book ?d') k) = map_option oe_spent (tbl_get (order_book d) k)" for k
    unfolding d' by (simp add: ob1 tbl_get_upd tbl_upd_upd) (auto simp: book_get p order_entry_of_def)
  have "map_option po_spent_recognized (tbl_get (db_purchase_orders x) k) = map_option oe_spent (tbl_get (order_book x) k)" for x k
    by (simp add: book_get option.map_comp o_def order_entry_of_def)
  moreover have "tbl_get (db_grns ?d') k = map_option (\<lambda>x. if k = gid
      then x\<lparr>gr_budget_recognized := False, gr_recognized_amount := 0\<rparr> else x) (tbl_get (db_grns d) k)" for k
    unfolding d' mark_recognized_def
    by (auto simp: tbl_get_upd d1 mark_recognized_def option.map_comp o_def option.map_ident)
  ultimately show ?thesis using grns buds lines spent by (simp add: Let_def)
qed

text \<open>
  C7. On books that reconcile and balance, with no negative quantities, and for a receipt not
  yet recognised whose order, if it has one, still holds its commitment or has no envelope (so
  not after the order was cancelled or rejected): recognising the receipt when it is posted and
  taking it back again restores every envelope, the received quantities of the order lines, the
  recognised spend of every order and the receipt itself.
\<close>

theorem post_then_unpost_restores:
  assumes "ledger_ok d" and "budgets_ok d" and "tbl_get (db_grns d) gid = Some g" and "\<not> gr_budget_recognized g"
    and "gr_recognized_amount g = 0" and "live_order (gr_po_id g) d"
    and "trim_space st = ''Posted''" and "trim_space st' \<noteq> ''Posted''"
    and "\<forall>l \<in> set (db_grn_lines d). 0 \<le> gl_qty l" and "\<forall>l \<in> set (db_po_lines d). 0 \<le> pl_received_qty l"
  shows "let d' = recognizePOSpendOnReceipt gid (gr_po_id g) st' (recognizePOSpendOnReceipt gid (gr_po_id g) st d)
    in (\<forall>k. tbl_get (db_budgets d') k = tbl_get (db_budgets d) k) \<and> db_po_lines d' = db_po_lines d \<and>
       (\<forall>k. map_option po_spent_recognized (tbl_get (db_purchase_orders d') k) =
         map_option po_spent_recognized (tbl_get (db_purchase_orders d) k)) \<and>
       (\<forall>k. tbl_get (db_grns d') k = tbl_get (db_grns d) k)"
proof -
  let ?i = "trim_space (deref (gr_po_id g))"
  let ?d1 = "recognizePOSpendOnReceipt gid (gr_po_id g) st d"
  have d1: "?d1 = recognize_posted gid ?i d" using assms(3,4,7) by (simp add: recognizePOSpendOnReceipt_def Let_def)
  have mark: "map_option (\<lambda>x. x\<lparr>gr_budget_recognized := False, gr_recognized_amount := 0\<rparr>)
      (map_option (\<lambda>x. x\<lparr>gr_budget_recognized := True, gr_recognized_amount := a\<rparr>) (tbl_get (db_grns d) gid)) =
      tbl_get (db_grns d) gid" for a
    using assms(3-5) by (cases g) simp
  show ?thesis
  proof (cases "?i = [] \<or> tbl_get (db_purchase_orders d) ?i = None")
    case True
    then have same: "?d1 = d" unfolding d1 by (auto simp: recognize_posted_def)
    then show ?thesis unfolding same using assms(3,4,8) by (simp add: recognizePOSpendOnReceipt_def Let_def)
  next
    case False
    then obtain p where p: "tbl_get (db_purchase_orders d) ?i = Some p" by auto
    show ?thesis
    proof (cases "po_total p - po_spent_recognized p \<le> 0")
      case True
      then have same: "?d1 = mark_recognized gid True 0 d" unfolding d1 using False p by (simp add: recognize_posted_def)
      show ?thesis
        unfolding same Let_def using assms(3,8) mark [of 0] False
        by (simp add: recognizePOSpendOnReceipt_def Let_def mark_recognized_def tbl_get_upd reverse_posted_def)
    next
      case op: False
      let ?a = "recognized_now gid p d"
      from False op have "0 < po_total p - po_spent_recognized p" "?i \<noteq> []" by simp_all
      from posted_and_reversed [OF assms(1-3,6) p this(1) refl this(2) assms(9,10)]
      have rev: "tbl_get (db_grns ?d1) gid = Some (g\<lparr>gr_budget_recognized := True, gr_recognized_amount := ?a\<rparr>)"
        "\<forall>k. tbl_get (db_budgets (reverse_posted gid ?i ?a ?d1)) k = tbl_get (db_budgets d) k"
        "db_po_lines (reverse_posted gid ?i ?a ?d1) = db_po_lines d"
        "\<forall>k. map_option po_spent_recognized (tbl_get (db_purchase_orders (reverse_posted gid ?i ?a ?d1)) k) =
           map_option po_spent_recognized (tbl_get (db_purchase_orders d) k)"
        "\<forall>k. tbl_get (db_grns (reverse_posted gid ?i ?a ?d1)) k =
          map_option (\<lambda>x. if k = gid then x\<lparr>gr_budget_recognized := False, gr_recognized_amount := 0\<rparr> else x) (tbl_get (db_grns d) k)"
        unfolding d1 by (simp_all add: Let_def)
      have "recognizePOSpendOnReceipt gid (gr_po_id g) st' ?d1 = reverse_posted gid ?i ?a ?d1"
        using rev(1) assms(8) by (simp add: recognizePOSpendOnReceipt_def)
      moreover have "g\<lparr>gr_budget_recognized := False, gr_recognized_amount := 0\<rparr> = g" using assms(4,5) by (cases g) simp
      then have "tbl_get (db_grns (reverse_posted gid ?i ?a ?d1)) k = tbl_get (db_grns d) k" for k
        using rev(5) assms(3) by (cases "k = gid") (simp_all add: option.map_ident)
      ultimately show ?thesis using rev(2-4) by (simp add: Let_def)
    qed
  qed
qed

theorem post_then_unpost_restores_witness:
  "\<exists>g. tbl_get (db_grns drafted_db) ''g1'' = Some g \<and>
    (let d1 = recognizePOSpendOnReceipt ''g1'' (gr_po_id g) ''Posted'' drafted_db;
         d' = recognizePOSpendOnReceipt ''g1'' (gr_po_id g) ''Draft'' d1
     in map (\<lambda>(_, b). b_spent b) (db_budgets d1) = [80] \<and>
        (\<forall>k. tbl_get (db_budgets d') k = tbl_get (db_budgets drafted_db) k) \<and> db_po_lines d' = db_po_lines drafted_db)"
proof (rule drafted_rows)
  fix g p b
  assume g: "tbl_get (db_grns drafted_db) ''g1'' = Some g" "\<not> gr_budget_recognized g" "gr_recognized_amount g = 0"
    "gr_po_id g = Some ''po1''"
    and p: "tbl_get (db_purchase_orders drafted_db) ''po1'' = Some p" "po_budget_committed p"
  have live: "live_order (gr_po_id g) drafted_db" using g(4) p by (simp add: live_order_def string_simps)
  have t: "trim_space ''Posted'' = ''Posted''" "trim_space ''Draft'' \<noteq> ''Posted''" by (simp_all add: string_simps)
  have q: "list_all (\<lambda>l. 0 \<le> gl_qty l) (db_grn_lines drafted_db) \<and> list_all (\<lambda>l. 0 \<le> pl_received_qty l) (db_po_lines drafted_db)"
    by code_simp
  have s: "map (\<lambda>(_, b). b_spent b) (db_budgets (recognizePOSpendOnReceipt ''g1'' (Some ''po1'') ''Posted'' drafted_db)) = [80]"
    by code_simp
  show ?thesis
    using post_then_unpost_restores [OF drafted_ok g(1-3) live t] q s g(1,4) by (auto simp: list_all_iff Let_def)
qed

text \<open>
  C8. Posting an unrecognised receipt against an order with an envelope and value left, on
  balanced envelopes, recognises exactly min(received value, value left), or all that is left
  when the receipt has no valued lines: the recognised spend of the order grows by it and never
  exceeds the total, spent grows by it, committed falls by it but not below zero, and the
  remaining budget falls by exactly what committed did not cover. When the books reconcile and
  the order is committed, committed covers it and the remaining budget does not change.
\<close>

theorem posting_moves_value:
  assumes "budgets_ok d" and "tbl_get (db_grns d) gid = Some g" and "\<not> gr_budget_recognized g"
    and "trim_space st = ''Posted''" and "i = trim_space (deref (gr_po_id g))" and "i \<noteq> ''''"
    and "tbl_get (db_purchase_orders d) i = Some p" and "po_budget_id p = Some k" and "\<not> blank k"
    and "po_spent_recognized p < po_total p" and "tbl_get (db_budgets d) k = Some b"
  shows "\<exists>p' b' a. let d' = recognizePOSpendOnReceipt gid (gr_po_id g) st d
    in a = (if received_value gid d \<le> 0 then po_total p - po_spent_recognized p
            else min (received_value gid d) (po_total p - po_spent_recognized p)) \<and> 0 < a \<and>
       tbl_get (db_purchase_orders d') i = Some p' \<and> po_spent_recognized p' = po_spent_recognized p + a \<and>
       po_spent_recognized p' \<le> po_total p' \<and>
       tbl_get (db_budgets d') k = Some b' \<and> b_spent b' = b_spent b + a \<and>
       b_committed b' = max 0 (b_committed b - a) \<and>
       b_remaining b' = b_remaining b - max 0 (a - b_committed b) \<and>
       (ledger_ok d \<and> po_budget_committed p \<longrightarrow>
          b_committed b' = b_committed b - a \<and> b_remaining b' = b_remaining b)"
proof -
  let ?a = "recognized_now gid p d" and ?b' = "recognize_spend (recognized_now gid p d) b"
  have op: "0 < po_total p - po_spent_recognized p" using assms(10) by simp
  note a = recognized_now_bounds [OF op, of gid d]
  let ?d' = "recognizePOSpendOnReceipt gid (gr_po_id g) st d"
  have d': "?d' = mark_recognized gid True ?a (recomputePOReceiptStatus i (applyReceivedQty gid i 1
      (set_spent_recognized i (\<lambda>s. s + ?a) (move_budget k (recognize_spend ?a) d))))"
    using assms(2-8,10) a by (simp add: recognizePOSpendOnReceipt_def recognize_posted_def Let_def)
  have "tbl_get (order_book ?d') i = Some ((order_entry_of p)\<lparr>oe_spent := po_spent_recognized p + ?a\<rparr>)"
    unfolding d' by (simp add: tbl_get_upd) (simp add: book_get assms(7) order_entry_of_def)
  then obtain p' where p': "tbl_get (db_purchase_orders ?d') i = Some p'" "po_spent_recognized p' = po_spent_recognized p + ?a"
    "po_total p' = po_total p"
    by (auto simp: book_get order_entry_of_def)
  have b': "tbl_get (db_budgets ?d') k = Some ?b'"
    unfolding d' using assms(9,11) by (simp add: tbl_get_upd)
  have moved: "b_spent ?b' = b_spent b + ?a" "b_committed ?b' = max 0 (b_committed b - ?a)"
    "b_remaining ?b' = b_remaining b - max 0 (?a - b_committed b)"
    using tbl_all_get [OF assms(1,11)] by (simp_all add: recognize_spend_def budget_ok_def greatest0_def max_def)
  have "?a \<le> b_committed b" if "ledger_ok d" and "po_budget_committed p"
    using committed_open(2) [OF that(1) assms(7) that(2) assms(8,11)] a by simp
  then have "ledger_ok d \<and> po_budget_committed p \<longrightarrow>
      b_committed ?b' = b_committed b - ?a \<and> b_remaining ?b' = b_remaining b"
    using moved by auto
  moreover have "?a = (if received_value gid d \<le> 0 then po_total p - po_spent_recognized p
            else min (received_value gid d) (po_total p - po_spent_recognized p))"
    by (auto simp: recognized_now_def Let_def min_def)
  ultimately show ?thesis using p' b' a moved unfolding Let_def
    by (intro exI [of _ p'] exI [of _ ?b'] exI [of _ ?a]) simp
qed

theorem posting_moves_value_witness:
  "\<exists>g p b. tbl_get (db_grns drafted_db) ''g1'' = Some g \<and> tbl_get (db_purchase_orders drafted_db) ''po1'' = Some p \<and>
     tbl_get (db_budgets drafted_db) ''b1'' = Some b \<and> received_value ''g1'' drafted_db = 80 \<and>
     (\<exists>b'. tbl_get (db_budgets (recognizePOSpendOnReceipt ''g1'' (gr_po_id g) ''Posted'' drafted_db)) ''b1'' = Some b' \<and>
       b_spent b' = b_spent b + 80 \<and> b_committed b' = b_committed b - 80 \<and> b_remaining b' = b_remaining b)"
proof (rule drafted_rows)
  fix g p b
  assume g: "tbl_get (db_grns drafted_db) ''g1'' = Some g" "\<not> gr_budget_recognized g" "gr_po_id g = Some ''po1''"
    and p: "tbl_get (db_purchase_orders drafted_db) ''po1'' = Some p" "po_budget_committed p" "po_budget_id p = Some ''b1''"
      "po_total p = 200" "po_spent_recognized p = 0"
    and b: "tbl_get (db_budgets drafted_db) ''b1'' = Some b"
  have v: "received_value ''g1'' drafted_db = 80" by code_simp
  have t: "trim_space ''Posted'' = ''Posted''" "''po1'' = trim_space (deref (gr_po_id g))" using g(3) by (simp_all add: string_simps)
  have nb: "''po1'' \<noteq> ''''" "\<not> blank ''b1''" by code_simp+
  have lt: "po_spent_recognized p < po_total p" using p by simp
  from posting_moves_value [OF drafted_ok(2) g(1,2) t nb(1) p(1,3) nb(2) lt b] drafted_ok(1) v p(2,4,5) g b p(1) show ?thesis
    by (auto simp: Let_def)
qed

section \<open>Invoices\<close>

text \<open>
  C6. Three-way match: an invoice is approved only if it was not paid, its order exists with a
  total within one cent of the amount, and a posted or received goods receipt of that order
  exists; the approval stores the match and the receipt and leaves the amount and the orders
  alone.
\<close>

theorem approved_invoice_is_matched:
  assumes "ApproveInvoice cf i u d = Inr (v', d')"
  shows "\<exists>v p gid g. tbl_get (db_invoices d) (trim_space i) = Some v \<and> \<not> equal_fold (trim_space (inv_status v)) ''Paid'' \<and>
    tbl_get (db_purchase_orders d) (trim_space (deref (inv_po_id v))) = Some p \<and> \<bar>inv_amount v - po_total p\<bar> \<le> 1 / 100 \<and>
    (gid, g) \<in> set (db_grns d) \<and> gr_po_id g = Some (trim_space (deref (inv_po_id v))) \<and>
    to_lower (gr_status g) \<in> {''posted'', ''received''} \<and>
    tbl_get (db_invoices d') (trim_space i) = Some v' \<and> inv_status v' = ''Approved'' \<and> inv_match_status v' = ''Matched'' \<and>
    inv_amount v' = inv_amount v \<and> inv_grn_id v' \<noteq> None \<and> db_purchase_orders d' = db_purchase_orders d"
proof -
  let ?i = "trim_space i"
  obtain v where v: "tbl_get (db_invoices d) ?i = Some v"
    using assms by (auto simp: ApproveInvoice_def Let_def split: if_split_asm option.splits)
  let ?pid = "trim_space (deref (inv_po_id v))" and ?mg = "deriveInvoiceMatchStatus (inv_po_id v) (inv_amount v) d"
  from assms v have paid: "\<not> equal_fold (trim_space (inv_status v)) ''Paid''" and m: "fst ?mg = ''Matched''"
    and get: "tbl_get (db_invoices d') ?i = Some v'" and po: "db_purchase_orders d' = db_purchase_orders d"
    and inv: "db_invoices d' = tbl_upd ?i (\<lambda>v. v\<lparr>inv_status := ''Approved'', inv_match_status := fst ?mg,
       inv_grn_id := (case inv_grn_id v of None \<Rightarrow> snd ?mg | Some g \<Rightarrow> Some g)\<rparr>) (db_invoices d)"
    by (auto simp: ApproveInvoice_def GetInvoice_def Let_def split: if_split_asm option.splits)
  from m obtain p gid g rest where p: "tbl_get (db_purchase_orders d) ?pid = Some p"
    and s: "rev (sort_key grn_order (posted_grns ?pid d)) = (gid, g) # rest" and am: "\<bar>inv_amount v - po_total p\<bar> \<le> 1 / 100"
    and mg: "?mg = (''Matched'', Some gid)"
    by (auto simp: deriveInvoiceMatchStatus_def Let_def split: if_splits option.splits list.splits)
  have "(gid, g) \<in> set (rev (sort_key grn_order (posted_grns ?pid d)))" unfolding s by simp
  then have "(gid, g) \<in> set (posted_grns ?pid d)" by simp
  with v paid p am get po inv mg show ?thesis
    by (intro exI [of _ v] exI [of _ p] exI [of _ gid] exI [of _ g])
      (auto simp: posted_grns_def tbl_get_upd split: option.splits)
qed

definition invoiced_db :: db where
  "invoiced_db = after (CreateInvoice shop_config (env_for ''n1'') acme (Some ''po1'') 200 ''USD'' None (Some ''INV-1'') [] None
     ''dan'' received_db)"

theorem approved_invoice_is_matched_witness:
  "\<exists>v' d'. ApproveInvoice shop_config ''n1'' ''eve'' invoiced_db = Inr (v', d') \<and> inv_status v' = ''Approved'' \<and>
     (\<exists>p. tbl_get (db_purchase_orders invoiced_db) ''po1'' = Some p \<and> \<bar>inv_amount v' - po_total p\<bar> \<le> 1 / 100)"
proof -
  have run_ok: "is_ok (ApproveInvoice shop_config ''n1'' ''eve'' invoiced_db) \<and>
      map_option inv_po_id (tbl_get (db_invoices invoiced_db) (trim_space ''n1'')) = Some (Some ''po1'')" by code_simp
  then have po: "map_option inv_po_id (tbl_get (db_invoices invoiced_db) (trim_space ''n1'')) = Some (Some ''po1'')" by (rule conjunct2)
  from run_ok obtain v' d' where run: "ApproveInvoice shop_config ''n1'' ''eve'' invoiced_db = Inr (v', d')"
    by (auto simp: is_ok_iff)
  from approved_invoice_is_matched [OF run] po run show ?thesis by (auto simp: string_simps)
qed

section \<open>After the approval\<close>

text \<open>
  The match holds when the invoice is approved and is not looked at again: an edit of the approved invoice
  changes its amount and leaves it approved and matched.
\<close>

definition approved_db :: db where
  "approved_db = after (ApproveInvoice shop_config ''n1'' ''eve'' invoiced_db)"

lemma approved_invoice_can_be_repriced:
  "map_option (\<lambda>v. (inv_status v, inv_match_status v, inv_amount v))
     (tbl_get (db_invoices (after (UpdateInvoice ''n1'' None None None (Some 900) None None None None None None ''eve'' approved_db))) ''n1'') =
   Some (''Approved'', ''Matched'', 900)"
  by code_simp

end
