(* ===== verification/Supplier_Properties.thy ===== *)
theory Supplier_Properties
  imports Ledger_Properties
begin

text \<open>
  Properties of supplier suspension and of awards, the gates that two update paths miss, and the
  reservation an edit leaks, each with a run in the small shop.
\<close>

definition error_of :: "'a tx \<Rightarrow> repo_error option" where
  "error_of r = (case r of Inl e \<Rightarrow> Some e | Inr _ \<Rightarrow> None)"

definition suspended_db :: db where
  "suspended_db = after (SetVendorQualityStatus sample_env acme ''suspended'' ''late'' ''ann'' ordered_db)"

section \<open>Suppliers\<close>

text \<open>
  C21. For a supplier id spelt as the database prints it, neither creating nor updating an order
  puts a suspended supplier on an order: an order of a suspended supplier after the call had
  that supplier before it. (Another spelling of the same uuid passes the check, which compares
  text; see the findings.)
\<close>

theorem suspended_supplier_gets_no_order:
  assumes "CreatePurchaseOrder cf e v t c b r x ls u d = Inr (y, d') \<and> uuid_in v = Some v \<or>
      UpdatePurchaseOrder j nv nt nc st nx nb nls nr u d = Inr (z, d') \<and> (\<forall>w. nv = Some w \<longrightarrow> uuid_in w = Some w)"
    and "tbl_get (db_purchase_orders d') i = Some p'"
    and "tbl_get (db_vendors d) (po_vendor_id p') = Some s" and "vd_quality_status s = ''suspended''"
  shows "\<exists>p. tbl_get (db_purchase_orders d) i = Some p \<and> po_vendor_id p = po_vendor_id p'"
  using assms(1)
proof
  assume "CreatePurchaseOrder cf e v t c b r x ls u d = Inr (y, d') \<and> uuid_in v = Some v"
  then have made: "CreatePurchaseOrder cf e v t c b r x ls u d = Inr (y, d')" and v: "uuid_in v = Some v" by simp_all
  from made show ?thesis
  proof (rule CreatePurchaseOrderE)
    fix tot d1 aud cur vid
    assume "uuid_in v = Some vid" and sus: "\<not> supplierSuspended v d" and no: "tbl_get (db_purchase_orders d) (e_id e) = None"
      and ins: "insert_po_lines (e_id e) ls (mark_ordered (trim_space r) (d\<lparr>db_purchase_orders := tbl_ins (e_id e)
        (new_po cf e vid t tot cur x (Some b) (nullif_blank (trim_space r)) u) (db_purchase_orders d)\<rparr>)) = Inr d1"
      and enc: "applyPOEncumbrance (e_id e) b r tot
        (insert_audit (audit_user u) ''create'' (e_id e) aud (bump_open_pos vid d1)) = Inr d'"
    with v have vid: "vid = v" by simp
    have "db_purchase_orders d' \<in> {db_purchase_orders d1,
        tbl_upd (e_id e) (\<lambda>p. p\<lparr>po_budget_committed := True\<rparr>) (db_purchase_orders d1)}"
      using enc by (auto simp: applyPOEncumbrance_def Let_def liquidate_requisition_books split: option.splits if_splits)
    moreover have "db_purchase_orders d1 = tbl_ins (e_id e)
        (new_po cf e v t tot cur x (Some b) (nullif_blank (trim_space r)) u) (db_purchase_orders d)"
      using insert_po_lines_frame [OF ins] by (auto simp: vid)
    ultimately show ?thesis
      using assms(2-4) no sus uuid_in_trimmed [OF v]
      by (auto simp: tbl_get_upd tbl_get_ins new_po_def supplierSuspended_def split: if_splits)
  qed
next
  assume "UpdatePurchaseOrder j nv nt nc st nx nb nls nr u d = Inr (z, d') \<and> (\<forall>w. nv = Some w \<longrightarrow> uuid_in w = Some w)"
  then have upd: "UpdatePurchaseOrder j nv nt nc st nx nb nls nr u d = Inr (z, d')"
    and w: "nv = Some w \<Longrightarrow> uuid_in w = Some w" for w by simp_all
  from upd show ?thesis
  proof (rule UpdatePurchaseOrderE)
    let ?j = "trim_space j"
    fix cur tt d1 d3 d4 vid
    assume cur: "tbl_get (db_purchase_orders d) ?j = Some cur" and "uuid_ref_opt nv = Inr vid"
      and rep: "replace_po_lines ?j nls d = Inr (tt, d1)"
      and mv: "move_vendor (po_vendor_id cur) (case nv of None \<Rightarrow> po_vendor_id cur | Some v \<Rightarrow> trim_space v)
         (d1\<lparr>db_purchase_orders := tbl_upd ?j (po_edit vid nt tt nc st nx nb nr) (db_purchase_orders d1)\<rparr>) = Inr d3"
      and sync: "sync_encumbrance ?j (deref (po_budget_id cur)) cur tt st d3 = Inr d4"
      and d': "d' = insert_audit (audit_user u) ''update'' ?j ''purchase order updated'' d4"
    with w have vid: "vid = nv" by (auto split: option.splits)
    from rep have d1: "db_vendors d1 = db_vendors d" "db_purchase_orders d1 = db_purchase_orders d"
      by (auto dest: replace_po_lines_frame)
    from mv have d3: "db_purchase_orders d3 = tbl_upd ?j (po_edit nv nt tt nc st nx nb nr) (db_purchase_orders d)"
      by (auto dest!: move_vendor_frame simp: d1 vid)
    from mv have ns: "nv = Some w \<Longrightarrow> w = po_vendor_id cur \<or> \<not> supplierSuspended w d" for w
      using uuid_in_trimmed [OF w] by (auto simp: move_vendor_def supplierSuspended_def d1 split: if_splits)
    have "\<exists>f. db_purchase_orders d' = tbl_upd ?j f (db_purchase_orders d) \<and> (\<forall>p. po_vendor_id (f p) = coalesce nv (po_vendor_id p))"
      using sync by (cases rule: sync_encumbrance_cases)
        (auto simp: d' d3 tbl_upd_upd po_edit_def intro: exI)
    with assms(2-4) cur ns uuid_in_trimmed [OF w] show ?thesis
      by (cases nv) (auto simp: tbl_get_upd supplierSuspended_def coalesce_def split: if_splits)
  qed
qed

theorem suspended_supplier_gets_no_order_witness:
  "\<exists>z d'. set_order_status ''Issued'' suspended_db = Inr (z, d') \<and> error_of (order_pumps suspended_db) = Some ErrSupplierSuspended \<and>
     (\<exists>p'. tbl_get (db_purchase_orders d') ''po1'' = Some p' \<and>
       (\<exists>p. tbl_get (db_purchase_orders suspended_db) ''po1'' = Some p \<and> po_vendor_id p = po_vendor_id p'))"
proof -
  have ok: "is_ok (set_order_status ''Issued'' suspended_db) \<and>
      map (\<lambda>(k, p). (k, po_vendor_id p)) (db_purchase_orders (after (set_order_status ''Issued'' suspended_db))) = [(''po1'', acme)]"
    by code_simp
  have v: "map_option vd_quality_status (tbl_get (db_vendors suspended_db) acme) = Some ''suspended''"
    "error_of (order_pumps suspended_db) = Some ErrSupplierSuspended" by code_simp+
  from ok obtain z d' p' where run: "set_order_status ''Issued'' suspended_db = Inr (z, d')"
    and p': "tbl_get (db_purchase_orders d') ''po1'' = Some p'" "po_vendor_id p' = acme"
    by (auto simp: is_ok_iff tbl_get_def)
  from v(1) p'(2) obtain s where s: "tbl_get (db_vendors suspended_db) (po_vendor_id p') = Some s"
    "vd_quality_status s = ''suspended''" by auto
  have upd: "UpdatePurchaseOrder ''po1'' None None None (Some ''Issued'') None None None None ''bob'' suspended_db = Inr (z, d') \<and>
      (\<forall>w. None = Some w \<longrightarrow> uuid_in w = Some w)"
    using run by (simp add: set_order_status_def)
  from suspended_supplier_gets_no_order [OF disjI2 [OF upd] p'(1) s] run p'(1) v(2)
  show ?thesis by blast
qed

text \<open>
  The check compares the id as text, the insert as a uuid: the id of a suspended supplier written in
  upper case passes the check and the order is stored under the supplier.
\<close>

lemma other_spelling_passes_the_suspension_check:
  "(let spelt = map (\<lambda>c. if c = CHR ''a'' then CHR ''A'' else c) acme;
        made = CreatePurchaseOrder shop_config (env_for ''po8'') spelt ''pumps'' ''USD'' ''b1'' [] None (pumps 1) ''ann'' suspended_db
    in map (\<lambda>(k, v). (k, vd_quality_status v)) (db_vendors suspended_db) = [(acme, ''suspended'')] \<and>
       uuid_in spelt = Some acme \<and> is_ok made \<and>
       map (\<lambda>(k, p). (k, po_vendor_id p)) (db_purchase_orders (after made)) = [(''po1'', acme), (''po8'', acme)])"
  by code_simp

section \<open>Awards\<close>

definition quote :: "string \<Rightarrow> int \<Rightarrow> amount \<Rightarrow> db \<Rightarrow> (string \<times> quote_row) tx" where
  "quote i t amt d = CreateRfqQuote ((env_for i)\<lparr>e_now := t\<rparr>) ''f1'' acme amt ''USD'' [] ''ann'' d"

definition quoted_db :: db where
  "quoted_db = after (quote ''q2'' 20 170 (after (quote ''q1'' 30 190 (after (CreateRfq (env_for ''f1'') ''pumps'' None [acme] [] ''ann'' shop_db)))))"

lemma find_filter_Cons: "filter P xs = y # ys \<Longrightarrow> find P xs = Some y"
  by (induction xs) (auto split: if_splits)

lemma applyPOEncumbrance_rfqs: "applyPOEncumbrance i b r t d = Inr d' \<Longrightarrow> db_rfqs d' = db_rfqs d"
  by (auto simp: applyPOEncumbrance_def liquidate_requisition_def Let_def split: option.splits if_splits)

text \<open>
  An award by vendor turns the vendor's most recent quote, the first of that vendor in the
  listing the user sees, into a new order of the same vendor, amount and currency, and marks the
  RFQ awarded.
\<close>

lemma award_takes_the_latest_quote:
  assumes "AwardRfq cf e r '''' v b x u d = Inr ((i, p), d')"
  shows "\<exists>quotes k q. ListRfqQuotes r d = Inr quotes \<and> find (\<lambda>(_, q). qt_vendor_id q = trim_space v) quotes = Some (k, q) \<and>
    po_vendor_id p = trim_space v \<and> po_total p = qt_amount q \<and> po_currency p = qt_currency q \<and>
    tbl_get (db_purchase_orders d) i = None \<and>
    map_option rf_status (tbl_get (db_rfqs d') (trim_space r)) = Some ''Awarded''"
  using assms
proof (rule AwardRfqE)
  let ?r = "trim_space r" and ?v = "trim_space v"
  let ?key = "\<lambda>(k, q). (qt_created_at q, k)" and ?own = "\<lambda>(_, q). qt_rfq_id q = trim_space r"
  fix rf q d3 aud
  assume rf: "tbl_get (db_rfqs d) ?r = Some rf" and w: "winning_quote ?r (trim_space []) ?v d = Some q"
    and no: "tbl_get (db_purchase_orders d) (e_id e) = None" and i: "fst (i, p) = e_id e"
    and rfqs: "db_rfqs d3 = tbl_upd ?r (\<lambda>x. x\<lparr>rf_winner_vendor_id := Some (qt_vendor_id q), rf_status := ''Awarded'',
      rf_awarded_at := Some (e_now e)\<rparr>) (db_rfqs d)"
    and enc: "applyPOEncumbrance (e_id e) (award_budget b (rf_requisition_id rf) d) (deref (rf_requisition_id rf)) (qt_amount q)
      (insert_audit (audit_user u) ''award'' ?r aud d3) = Inr d'"
    and p: "\<exists>title. snd (i, p) = new_po cf e (qt_vendor_id q) title (qt_amount q) (qt_currency q) x
      (nullif_blank (award_budget b (rf_requisition_id rf) d)) (rf_requisition_id rf) u"
  let ?L = "rev (sort_key ?key (filter ?own (db_rfq_quotes d)))"
  have "rev (sort_key ?key (filter (\<lambda>(_, q). qt_rfq_id q = ?r \<and> qt_vendor_id q = ?v) (db_rfq_quotes d))) =
      filter (\<lambda>(_, q). qt_vendor_id q = ?v) ?L"
    unfolding filter_sort [symmetric] rev_filter [symmetric] by (auto intro!: filter_cong)
  with w obtain k rest where h: "filter (\<lambda>(_, q). qt_vendor_id q = ?v) ?L = (k, q) # rest"
    by (auto simp: winning_quote_def split: list.splits)
  then have f: "find (\<lambda>(_, q). qt_vendor_id q = ?v) ?L = Some (k, q)" by (rule find_filter_Cons)
  have "(k, q) \<in> set (filter (\<lambda>(_, q). qt_vendor_id q = ?v) ?L)" unfolding h by simp
  then have v: "qt_vendor_id q = ?v" by simp
  have "?r \<noteq> []" using assms by (auto simp: AwardRfq_def Let_def)
  then have l: "ListRfqQuotes r d = Inr ?L" by (simp add: ListRfqQuotes_def)
  show ?thesis
    using l f v no i p applyPOEncumbrance_rfqs [OF enc] rfqs rf
    by (intro exI [of _ ?L] exI [of _ k] exI [of _ q]) (auto simp: new_po_def tbl_get_upd)
qed

text \<open>
  The award path lacks the suspension check of order creation: with the vendor suspended,
  CreatePurchaseOrder is refused while AwardRfq creates and commits an order of that vendor.
\<close>

lemma award_ignores_suspension:
  "(let d = after (SetVendorQualityStatus sample_env acme ''suspended'' ''late'' ''ann'' quoted_db);
        award = AwardRfq shop_config (env_for ''po7'') ''f1'' [] acme ''b1'' None ''bob'' d
    in map (\<lambda>(k, v). (k, vd_quality_status v)) (db_vendors d) = [(acme, ''suspended'')] \<and> is_ok award \<and>
       map (\<lambda>(k, p). (k, po_vendor_id p, po_budget_committed p)) (db_purchase_orders (after award)) = [(''po7'', acme, True)] \<and>
       error_of (CreatePurchaseOrder shop_config (env_for ''po8'') acme ''pumps'' ''USD'' ''b1'' [] None (pumps 1) ''ann'' d) =
         Some ErrSupplierSuspended)"
  by code_simp

section \<open>Gates the updates miss\<close>

definition pending_db :: db where
  "pending_db = after (CreatePurchaseOrder sample_config (env_for ''po1'') acme ''pumps'' ''USD'' ''b1'' [] None (pumps 10)
     ''ann'' shop_db)"

definition loose_receipt_db :: db where
  "loose_receipt_db = after (CreateGrn shop_config (env_for ''g1'') acme None ''carl'' ''Draft'' None (pumps 4) False [] [] []
     ''carl'' pending_db)"

text \<open>
  The receivability gate guards only receipt creation: a receipt against an order pending
  approval is refused, but a draft receipt edited to name that order and posted in the same
  update books spend on it.
\<close>

lemma edited_receipt_books_unapproved_order:
  "(let upd = UpdateGrn shop_config (env_for ''g2'') ''g1'' None (Some ''po1'') None None (Some ''Posted'') None None None None None
          ''carl'' loose_receipt_db
    in error_of (receive_pumps ''Posted'' 4 pending_db) = Some ErrInvalidArgument \<and> is_ok upd \<and>
       map (\<lambda>(k, p). (k, po_status p, po_spent_recognized p)) (db_purchase_orders (after upd)) =
         [(''po1'', ''Pending Approval'', 80)])"
  by code_simp

text \<open>
  A requisition approved at 100 reserves 100; edited to 40 and then deleted it releases 40,
  and 60 stays reserved in the envelope with no requisition behind it.
\<close>

lemma edited_total_leaks_reservation:
  "(let d1 = after (sign_tier ''bob'' (tier_db\<lparr>db_requisitions := [(''r1'', sample_requisition 100)]\<rparr>));
        d2 = after (UpdateRequisition sample_config sample_env ''r1'' None None None None None None None (Some 40) None ''ann'' d1);
        d3 = after (DeleteRequisition ''r1'' ''ann'' d2)
    in map (\<lambda>(_, b). b_pre_committed b) (db_budgets d1) = [100] \<and> db_requisitions d3 = [] \<and>
       map (\<lambda>(_, b). b_pre_committed b) (db_budgets d3) = [60])"
  by code_simp

end
