(* ===== verification/Intake_Properties.thy ===== *)
theory Intake_Properties
  imports Ledger_Properties
begin

text \<open>
  Properties of the event intake: redelivery of a commercial message, and quality advice that arrives
  out of order.
\<close>

section \<open>Redelivery\<close>

lemma marked_processed: "marked eid s d = (r, s', d') \<Longrightarrow> eid \<noteq> '''' \<Longrightarrow> IsEventProcessed eid d'"
  by (auto simp: marked_def MarkEventProcessed_def IsEventProcessed_def split: if_splits)

lemma import_pm_settles:
  assumes "import_pm e df eid p ow t dp rq pr st tot c pa ju sg d = (Inr u, s, d')" and "eid \<noteq> []"
    and "\<not> IsEventProcessed eid d'"
  shows "d' = d \<and> s = []"
  using assms by (auto simp: import_pm_def dest: marked_processed split: sum.splits if_splits)

lemma processed_skips:
  assumes "ce_id m \<noteq> ''''" and "IsEventProcessed (ce_id m) d"
  shows "commercial_handleMessage pf e df (Some m) d = (Inr (), [], d)"
  using assms
  by (simp add: commercial_handleMessage_def handlePMRequisition_def handlePMPurchaseRequisition_def
      handleGovRequisitionApproved_def)

lemma delivered_settles:
  assumes "commercial_handleMessage pf e df (Some m) d = (Inr u, s, d1)" and "ce_id m \<noteq> ''''"
    and "\<not> IsEventProcessed (ce_id m) d1"
  shows "d1 = d \<and> s = []"
proof -
  have no: "\<not> IsEventProcessed (ce_id m) d" using assms processed_skips by fastforce
  show ?thesis
  proof (cases "ce_type m = pmRequisitionSubmitted")
    case True
    with assms no show ?thesis
      by (auto simp: commercial_handleMessage_def handlePMRequisition_def Let_def
          dest: marked_processed import_pm_settles split: option.splits if_split_asm)
  next
    case f1: False
    show ?thesis
    proof (cases "ce_type m = pmPurchaseRequisitionSubmitted")
      case True
      with assms no f1 show ?thesis
        by (auto simp: commercial_handleMessage_def handlePMPurchaseRequisition_def Let_def
            dest: marked_processed import_pm_settles split: option.splits if_split_asm)
    next
      case f2: False
      with assms no f1 show ?thesis
        by (auto simp: commercial_handleMessage_def handleGovRequisitionApproved_def Let_def
            dest: marked_processed import_pm_settles split: option.splits if_split_asm)
    qed
  qed
qed

text \<open>
  C19. After a commercial message with an event id was handled without error, one of two holds,
  whichever of the three imports it is. Either the event is marked processed, and then
  redelivering it, at any later clock and configuration and in any later store that still holds
  the processed marks, changes nothing and signals nobody. Or it is not marked (no budget could
  be resolved, a project-management requisition without a positive amount, or a type the
  consumer ignores), and then this handling wrote nothing and signalled nobody, so a redelivery
  may still import it.
\<close>

theorem redelivered_message_changes_nothing:
  assumes "commercial_handleMessage pf e df (Some m) d = (Inr u, s, d1)" and "ce_id m \<noteq> ''''"
  shows "IsEventProcessed (ce_id m) d1 \<and>
      (\<forall>pf' e' df' d2. set (db_processed d1) \<subseteq> set (db_processed d2) \<longrightarrow>
         commercial_handleMessage pf' e' df' (Some m) d2 = (Inr (), [], d2)) \<or>
    \<not> IsEventProcessed (ce_id m) d1 \<and> d1 = d \<and> s = []"
proof (cases "IsEventProcessed (ce_id m) d1")
  case True
  then have "IsEventProcessed (ce_id m) d2" if "set (db_processed d1) \<subseteq> set (db_processed d2)" for d2
    using that assms(2) by (auto simp: IsEventProcessed_def)
  with True show ?thesis using processed_skips [OF assms(2)] by blast
next
  case False
  then show ?thesis using delivered_settles [OF assms] by simp
qed

definition pump_message :: commercial_event where
  "pump_message = \<lparr>ce_id = ''e7'', ce_type = ''pm.requisition.submitted'', ce_pm = Some
     \<lparr>pr_id = ''pm1'', pr_owner = ''olga'', pr_title = ''pumps'', pr_amount = ''400'', pr_currency = ''USD'',
      pr_status = ''submitted'', pr_requester = ''ann'', pr_dept = ''OPS'', pr_urgency = ''high'', pr_payee = [],
      pr_justification = []\<rparr>, ce_purchase = None, ce_gov = None\<rparr>"

definition deliver :: "string \<Rightarrow> db \<Rightarrow> handled" where
  "deliver i d = commercial_handleMessage (\<lambda>_. 400) (env_for i) [] (Some pump_message) d"

text \<open>Delivered to a store with a budget, then again after another budget was added.\<close>

theorem redelivered_message_changes_nothing_witness:
  "\<exists>d1 y d2. deliver ''r9'' shop_db = (Inr (), [''r9''], d1) \<and> map fst (db_requisitions d1) = [''r9''] \<and>
     CreateBudget (env_for ''b9'') ''X'' ''2026'' 50 ''OPS'' ''ann'' d1 = Inr (y, d2) \<and>
     deliver ''r10'' d2 = (Inr (), [], d2)"
proof -
  let ?later = "\<lambda>d. CreateBudget (env_for ''b9'') ''X'' ''2026'' 50 ''OPS'' ''ann'' d"
  have run: "is_ok (fst (deliver ''r9'' shop_db)) \<and> fst (snd (deliver ''r9'' shop_db)) = [''r9''] \<and>
      map fst (db_requisitions (snd (snd (deliver ''r9'' shop_db)))) = [''r9''] \<and>
      IsEventProcessed ''e7'' (snd (snd (deliver ''r9'' shop_db))) \<and> is_ok (?later (snd (snd (deliver ''r9'' shop_db)))) \<and>
      db_processed (snd (projr (?later (snd (snd (deliver ''r9'' shop_db)))))) = db_processed (snd (snd (deliver ''r9'' shop_db)))"
    by code_simp
  then obtain d1 where d1: "deliver ''r9'' shop_db = (Inr (), [''r9''], d1)" "map fst (db_requisitions d1) = [''r9'']"
    by (cases "deliver ''r9'' shop_db") (auto simp: is_ok_iff)
  with run have "is_ok (?later d1)" by simp
  then obtain y d2 where d2: "?later d1 = Inr (y, d2)" by (auto simp: is_ok_iff)
  have k: "IsEventProcessed ''e7'' d1" "db_processed d2 = db_processed d1" using run by (simp_all add: d1 d2)
  have m: "ce_id pump_message = ''e7''" "ce_id pump_message \<noteq> []" by (simp_all add: pump_message_def)
  from redelivered_message_changes_nothing [OF d1(1) [unfolded deliver_def] m(2)] k m(1)
  have "commercial_handleMessage (\<lambda>_. 400) (env_for ''r10'') [] (Some pump_message) d2 = (Inr (), [], d2)" by auto
  then show ?thesis using d1 d2 by (auto simp: deliver_def)
qed

section \<open>Quality advice\<close>

text \<open>
  Two quality recommendations with different times leave the same vendors in whichever
  order they arrive, and advice never changes the standing procurement itself has set.
\<close>

lemma quality_advice_converges:
  assumes "qr_at r1 \<noteq> qr_at r2"
  shows "snd (ApplyQCRecommendation r1 (snd (ApplyQCRecommendation r2 d))) =
      snd (ApplyQCRecommendation r2 (snd (ApplyQCRecommendation r1 d))) \<and>
    map (\<lambda>(k, v). (k, vd_quality_status v)) (db_vendors (snd (ApplyQCRecommendation r1 d))) =
      map (\<lambda>(k, v). (k, vd_quality_status v)) (db_vendors d)"
proof -
  define f where "f r v = v\<lparr>vd_qc_recommendation := qr_recommended_status r, vd_qc_acceptance_rate := qr_acceptance_rate r,
    vd_qc_reasons := qr_reasons r, vd_qc_recommended_at := Some (qr_at r)\<rparr>" for r :: qc_recommendation and v :: vendor_row
  define g where "g r k v = (if qc_applies r k v then f r v else v)" for r k v
  have "g r1 k (g r2 k v) = g r2 k (g r1 k v)" for k v
  proof -
    have f: "vd_scm_business_id (f r v) = vd_scm_business_id v" "vd_qc_recommended_at (f r v) = Some (qr_at r)"
      "f r (f q v) = f r v" for r q v by (simp_all add: f_def)
    from assms consider "qr_at r1 < qr_at r2" | "qr_at r2 < qr_at r1" by linarith
    then show ?thesis
      by cases (cases "vd_qc_recommended_at v"; simp add: g_def qc_applies_def f; linarith)+
  qed
  moreover have "snd (ApplyQCRecommendation r x) = x\<lparr>db_vendors := map (\<lambda>(k, v). (k, g r k v)) (db_vendors x)\<rparr>" for r x
    by (simp add: ApplyQCRecommendation_def tbl_where_def g_def f_def cong: if_cong)
  moreover have "vd_quality_status (g r k v) = vd_quality_status v" for r k v by (simp add: g_def f_def)
  ultimately show ?thesis by (simp add: o_def case_prod_beta)
qed

section \<open>Messages whose statement cannot run\<close>

text \<open>
  Since the ids are uuids, the settlement of a supplier invoice fails whatever the store holds, and
  is not marked; a party event is marked processed, and no vendor ever changes by one.
\<close>

lemma payment_events_always_fail:
  assumes "fe_type ev = financePaymentMade" and "fe_id ev = '''' \<or> \<not> IsEventProcessed (fe_id ev) d"
    and "fe_data ev = Some p" and "equal_fold (trim_space (pm_direction p)) ''ap''" and "\<not> blank (pm_document_ref p)"
  shows "finance_handle pf e (Some ev) d = (Inl DbUndefinedOperator, d)"
  using assms by (auto simp: finance_handle_def RecordVendorPayment_never_settles Let_def)

lemma MarkKafkaEventProcessed_vendors:
  "MarkKafkaEventProcessed k t d = (b, d') \<Longrightarrow> db_vendors d' = db_vendors d"
  by (auto simp: MarkKafkaEventProcessed_def split: if_splits)

lemma party_events_never_apply:
  "supplychain_handleMessage f msg d = (r, d') \<Longrightarrow> db_vendors d' = db_vendors d"
  by (auto simp: supplychain_handleMessage_def LinkPortalUser_never_links SyncSCMParty_never_syncs Let_def
      dest!: MarkKafkaEventProcessed_vendors split: option.splits sum.splits if_split_asm prod.splits)

end
