(* ===== verification/Access.thy ===== *)
theory Access
  imports Go_Parse "HOL-Library.List_Lexorder" "HOL-Library.Char_ord"
begin

text \<open>
  Users, groups and permissions (\<^verbatim>\<open>internal/rbac\<close>), the local login (\<^verbatim>\<open>internal/iam\<close>),
  the authentication and permission middleware (\<^verbatim>\<open>internal/middleware/auth.go\<close>,
  \<^verbatim>\<open>platform_auth.go\<close>, \<^verbatim>\<open>pkg/authclient\<close>) and the user administration handlers
  (\<^verbatim>\<open>internal/handlers/admin_rbac_writes.go\<close>).

  A \<^verbatim>\<open>BIGSERIAL\<close> key comes from the table's counter. Password hashing (bcrypt) and token
  signing (golang-jwt) are parameters: \<open>hash\<close> and \<open>matches\<close>, \<open>sign\<close> and \<open>parse\<close>,
  and \<open>decode\<close> and \<open>uuid\<close> for platform tokens. A gin handler that aborts returns its
  HTTP status.
\<close>

section \<open>Permission codes\<close>

abbreviation perm_ViewUser :: string where
  "perm_ViewUser \<equiv> ''auth.view_user''"

abbreviation perm_ChangeUser :: string where
  "perm_ChangeUser \<equiv> ''auth.change_user''"

abbreviation perm_ViewGroup :: string where
  "perm_ViewGroup \<equiv> ''auth.view_group''"

abbreviation perm_ChangeGroup :: string where
  "perm_ChangeGroup \<equiv> ''auth.change_group''"

abbreviation perm_ViewPermission :: string where
  "perm_ViewPermission \<equiv> ''auth.view_permission''"

abbreviation perm_ViewSeed :: string where
  "perm_ViewSeed \<equiv> ''procurement.view_seed''"

abbreviation perm_AddRequisition :: string where
  "perm_AddRequisition \<equiv> ''procurement.add_requisition''"

abbreviation perm_ChangeRequisition :: string where
  "perm_ChangeRequisition \<equiv> ''procurement.change_requisition''"

abbreviation perm_DeleteRequisition :: string where
  "perm_DeleteRequisition \<equiv> ''procurement.delete_requisition''"

abbreviation perm_ApproveRequisitionTier1 :: string where
  "perm_ApproveRequisitionTier1 \<equiv> ''procurement.approve_requisition_tier1''"

abbreviation perm_ApproveRequisitionTier2 :: string where
  "perm_ApproveRequisitionTier2 \<equiv> ''procurement.approve_requisition_tier2''"

abbreviation perm_ApproveRequisitionTier3 :: string where
  "perm_ApproveRequisitionTier3 \<equiv> ''procurement.approve_requisition_tier3''"

abbreviation perm_ManageApprovalChains :: string where
  "perm_ManageApprovalChains \<equiv> ''procurement.manage_approval_chains''"

abbreviation perm_AddPurchaseOrder :: string where
  "perm_AddPurchaseOrder \<equiv> ''procurement.add_purchase_order''"

abbreviation perm_ChangePurchaseOrder :: string where
  "perm_ChangePurchaseOrder \<equiv> ''procurement.change_purchase_order''"

abbreviation perm_DeletePurchaseOrder :: string where
  "perm_DeletePurchaseOrder \<equiv> ''procurement.delete_purchase_order''"

abbreviation perm_AddVendor :: string where
  "perm_AddVendor \<equiv> ''procurement.add_vendor''"

abbreviation perm_ChangeVendor :: string where
  "perm_ChangeVendor \<equiv> ''procurement.change_vendor''"

abbreviation perm_DeleteVendor :: string where
  "perm_DeleteVendor \<equiv> ''procurement.delete_vendor''"

abbreviation perm_AddItem :: string where
  "perm_AddItem \<equiv> ''procurement.add_item''"

abbreviation perm_ChangeItem :: string where
  "perm_ChangeItem \<equiv> ''procurement.change_item''"

abbreviation perm_DeleteItem :: string where
  "perm_DeleteItem \<equiv> ''procurement.delete_item''"

abbreviation perm_AddBudget :: string where
  "perm_AddBudget \<equiv> ''procurement.add_budget''"

abbreviation perm_ChangeBudget :: string where
  "perm_ChangeBudget \<equiv> ''procurement.change_budget''"

abbreviation perm_DeleteBudget :: string where
  "perm_DeleteBudget \<equiv> ''procurement.delete_budget''"

abbreviation perm_ManageBudgetPeriod :: string where
  "perm_ManageBudgetPeriod \<equiv> ''procurement.manage_budget_period''"

abbreviation perm_AddRfq :: string where
  "perm_AddRfq \<equiv> ''procurement.add_rfq''"

abbreviation perm_ChangeRfq :: string where
  "perm_ChangeRfq \<equiv> ''procurement.change_rfq''"

abbreviation perm_DeleteRfq :: string where
  "perm_DeleteRfq \<equiv> ''procurement.delete_rfq''"

abbreviation perm_AddGrn :: string where
  "perm_AddGrn \<equiv> ''procurement.add_grn''"

abbreviation perm_ChangeGrn :: string where
  "perm_ChangeGrn \<equiv> ''procurement.change_grn''"

abbreviation perm_DeleteGrn :: string where
  "perm_DeleteGrn \<equiv> ''procurement.delete_grn''"

abbreviation perm_AddInvoice :: string where
  "perm_AddInvoice \<equiv> ''procurement.add_invoice''"

abbreviation perm_ChangeInvoice :: string where
  "perm_ChangeInvoice \<equiv> ''procurement.change_invoice''"

abbreviation perm_DeleteInvoice :: string where
  "perm_DeleteInvoice \<equiv> ''procurement.delete_invoice''"

abbreviation perm_ApproveInvoice :: string where
  "perm_ApproveInvoice \<equiv> ''procurement.approve_invoice''"

abbreviation perm_AddContract :: string where
  "perm_AddContract \<equiv> ''procurement.add_contract''"

abbreviation perm_ChangeContract :: string where
  "perm_ChangeContract \<equiv> ''procurement.change_contract''"

abbreviation perm_DeleteContract :: string where
  "perm_DeleteContract \<equiv> ''procurement.delete_contract''"

abbreviation perm_ViewAPIAudit :: string where
  "perm_ViewAPIAudit \<equiv> ''audit.view_api_log''"

abbreviation perm_ViewInbox :: string where
  "perm_ViewInbox \<equiv> ''procurement.view_inbox''"

abbreviation perm_EmitNotification :: string where
  "perm_EmitNotification \<equiv> ''procurement.emit_notification''"

abbreviation perm_ViewOwnPO :: string where
  "perm_ViewOwnPO \<equiv> ''procurement.view_own_po''"

abbreviation perm_ViewOwnInvoice :: string where
  "perm_ViewOwnInvoice \<equiv> ''procurement.view_own_invoice''"

record perm_row =
  pm_code :: string
  pm_name :: string
  pm_desc :: string

definition perm_def :: "string \<Rightarrow> string \<Rightarrow> string \<Rightarrow> perm_row" where
  "perm_def code name desc = \<lparr>pm_code = code, pm_name = name, pm_desc = desc\<rparr>"

definition bootstrapPermissions :: "perm_row list" where
  "bootstrapPermissions =
     [perm_def perm_ViewUser ''Can view user'' ''View user accounts'',
      perm_def perm_ChangeUser ''Can change user'' ''Create or update users'',
      perm_def perm_ViewGroup ''Can view group'' ''View permission groups'',
      perm_def perm_ChangeGroup ''Can change group'' ''Create or update groups'',
      perm_def perm_ViewPermission ''Can view permission'' ''List permission catalog'',
      perm_def perm_ViewSeed ''Can view procurement seed'' ''Read master / seed API payloads'',
      perm_def perm_AddRequisition ''Can add requisition'' ''Create purchase requisitions'',
      perm_def perm_ChangeRequisition ''Can change requisition'' ''Update purchase requisitions'',
      perm_def perm_DeleteRequisition ''Can delete requisition'' ''Delete purchase requisitions'',
      perm_def perm_AddPurchaseOrder ''Can add purchase order'' ''Create purchase orders with lines'',
      perm_def perm_ChangePurchaseOrder ''Can change purchase order'' ''Update purchase orders'',
      perm_def perm_DeletePurchaseOrder ''Can delete purchase order'' ''Delete purchase orders'',
      perm_def perm_AddVendor ''Can add vendor'' ''Create vendor records'',
      perm_def perm_ChangeVendor ''Can change vendor'' ''Update vendor records'',
      perm_def perm_DeleteVendor ''Can delete vendor'' ''Delete vendor records'',
      perm_def perm_AddItem ''Can add item'' ''Create catalog items'',
      perm_def perm_ChangeItem ''Can change item'' ''Update catalog items'',
      perm_def perm_DeleteItem ''Can delete item'' ''Delete catalog items'',
      perm_def perm_AddBudget ''Can add budget'' ''Create budget envelopes'',
      perm_def perm_ChangeBudget ''Can change budget'' ''Update budget envelopes'',
      perm_def perm_DeleteBudget ''Can delete budget'' ''Delete budget envelopes'',
      perm_def perm_ManageBudgetPeriod ''Can manage budget periods'' ''Close budget periods (lapse / carry encumbrances)'',
      perm_def perm_ManageApprovalChains ''Can manage approval chains'' ''Edit the desk matrix: who holds each desk, its order and amount band'',
      perm_def perm_AddRfq ''Can add RFQ'' ''Create requests for quotation'',
      perm_def perm_ChangeRfq ''Can change RFQ'' ''Update requests for quotation'',
      perm_def perm_DeleteRfq ''Can delete RFQ'' ''Delete requests for quotation'',
      perm_def perm_AddGrn ''Can add GRN'' ''Record goods receipts'',
      perm_def perm_ChangeGrn ''Can change GRN'' ''Update goods receipts'',
      perm_def perm_DeleteGrn ''Can delete GRN'' ''Delete goods receipts'',
      perm_def perm_AddInvoice ''Can add invoice'' ''Capture vendor invoices'',
      perm_def perm_ChangeInvoice ''Can change invoice'' ''Update vendor invoices'',
      perm_def perm_ApproveInvoice ''Can approve invoice'' ''Approve matched invoices for payment'',
      perm_def perm_DeleteInvoice ''Can delete invoice'' ''Delete vendor invoices'',
      perm_def perm_AddContract ''Can add contract'' ''Create vendor contracts'',
      perm_def perm_ChangeContract ''Can change contract'' ''Update vendor contracts'',
      perm_def perm_DeleteContract ''Can delete contract'' ''Delete vendor contracts'',
      perm_def perm_ViewAPIAudit ''Can view API audit log'' ''Read HTTP audit entries'',
      perm_def perm_ViewInbox ''Can view notifications'' ''Read in-app notification inbox'',
      perm_def perm_EmitNotification ''Can emit demo notifications'' ''Trigger signal / email demos'']"

definition PermissionDescriptors :: "(string \<times> string) list" where
  "PermissionDescriptors =
     [(''procurement.view_seed'', ''Read master / seed API payloads''),
      (''procurement.add_requisition'', ''Create purchase requisitions''),
      (''procurement.change_requisition'', ''Update purchase requisitions''),
      (''procurement.delete_requisition'', ''Delete purchase requisitions''),
      (''procurement.approve_requisition_tier1'', ''Approve requisitions at tier 1 (lowest amount band)''),
      (''procurement.approve_requisition_tier2'', ''Approve requisitions at tier 2 (mid amount band)''),
      (''procurement.approve_requisition_tier3'', ''Approve requisitions at tier 3 (highest amount band)''),
      (''procurement.add_purchase_order'', ''Create purchase orders with lines''),
      (''procurement.change_purchase_order'', ''Update purchase orders''),
      (''procurement.delete_purchase_order'', ''Delete purchase orders''),
      (''procurement.add_vendor'', ''Create vendor records''),
      (''procurement.change_vendor'', ''Update vendor records''),
      (''procurement.delete_vendor'', ''Delete vendor records''),
      (''procurement.add_item'', ''Create catalog items''),
      (''procurement.change_item'', ''Update catalog items''),
      (''procurement.delete_item'', ''Delete catalog items''),
      (''procurement.add_budget'', ''Create budget envelopes''),
      (''procurement.change_budget'', ''Update budget envelopes''),
      (''procurement.delete_budget'', ''Delete budget envelopes''),
      (''procurement.add_rfq'', ''Create requests for quotation''),
      (''procurement.change_rfq'', ''Update requests for quotation''),
      (''procurement.delete_rfq'', ''Delete requests for quotation''),
      (''procurement.add_grn'', ''Record goods receipts''),
      (''procurement.change_grn'', ''Update goods receipts''),
      (''procurement.delete_grn'', ''Delete goods receipts''),
      (''procurement.add_invoice'', ''Capture vendor invoices''),
      (''procurement.change_invoice'', ''Update vendor invoices''),
      (''procurement.delete_invoice'', ''Delete vendor invoices''),
      (''procurement.add_contract'', ''Create vendor contracts''),
      (''procurement.change_contract'', ''Update vendor contracts''),
      (''procurement.delete_contract'', ''Delete vendor contracts''),
      (''audit.view_api_log'', ''Read HTTP audit entries''),
      (''procurement.view_inbox'', ''Read in-app notification inbox''),
      (''procurement.emit_notification'', ''Trigger signal / email demos''),
      (''procurement.view_own_po'', ''View own purchase orders (vendor portal)''),
      (''procurement.view_own_invoice'', ''View own invoices (vendor portal)'')]"

section \<open>Tables\<close>

record user_row =
  us_email :: string
  us_password_hash :: string
  us_active :: bool
  us_superuser :: bool

record group_row =
  gp_name :: string
  gp_description :: string

record auth_db =
  ad_users :: "(int \<times> user_row) list"
  ad_groups :: "(int \<times> group_row) list"
  ad_permissions :: "(int \<times> perm_row) list"
  ad_group_permissions :: "(int \<times> int) list"
  ad_user_groups :: "(int \<times> int) list"
  ad_user_permissions :: "(int \<times> int) list"
  ad_user_seq :: int
  ad_group_seq :: int
  ad_permission_seq :: int

datatype rbac_error = RbacInvalid | RbacNoRows | RbacForeignKey | RbacDuplicate | RbacPasswordTooLong

text \<open>\<^verbatim>\<open>bcrypt.GenerateFromPassword\<close> refuses more than 72 bytes and otherwise hashes.\<close>

definition bcrypt_hash :: "(string \<Rightarrow> string) \<Rightarrow> string \<Rightarrow> rbac_error + string" where
  "bcrypt_hash hash pw = (if 72 < length pw then Inl RbacPasswordTooLong else Inr (hash pw))"

section \<open>Reading\<close>

definition GetUserByEmail :: "string \<Rightarrow> auth_db \<Rightarrow> (int \<times> user_row) option" where
  "GetUserByEmail email a = find (\<lambda>(_, u). to_lower (us_email u) = to_lower email) (ad_users a)"

definition GetUserByID :: "int \<Rightarrow> auth_db \<Rightarrow> user_row option" where
  "GetUserByID i a = map_of (ad_users a) i"

definition codes_of :: "int list \<Rightarrow> auth_db \<Rightarrow> string list" where
  "codes_of pids a = map (\<lambda>(_, p). pm_code p) (filter (\<lambda>(i, _). i \<in> set pids) (ad_permissions a))"

definition groups_of :: "int \<Rightarrow> auth_db \<Rightarrow> int list" where
  "groups_of uid a = map snd (filter (\<lambda>(u, _). u = uid) (ad_user_groups a))"

definition group_permission_ids :: "int list \<Rightarrow> auth_db \<Rightarrow> int list" where
  "group_permission_ids gids a = map snd (filter (\<lambda>(g, _). g \<in> set gids) (ad_group_permissions a))"

definition ListPermissionCodesForUser :: "int \<Rightarrow> auth_db \<Rightarrow> string list" where
  "ListPermissionCodesForUser uid a =
     sort (remdups (codes_of (group_permission_ids (groups_of uid a) a) a @
       codes_of (map snd (filter (\<lambda>(u, _). u = uid) (ad_user_permissions a))) a))"

definition ListPermissions :: "auth_db \<Rightarrow> (int \<times> perm_row) list" where
  "ListPermissions a = sort_key (\<lambda>(_, p). pm_code p) (ad_permissions a)"

definition ListGroups :: "auth_db \<Rightarrow> (int \<times> group_row \<times> string list) list" where
  "ListGroups a =
     map (\<lambda>(i, g). (i, g, sort (codes_of (group_permission_ids [i] a) a))) (sort_key (\<lambda>(_, g). gp_name g) (ad_groups a))"

definition ListUsers :: "auth_db \<Rightarrow> (int \<times> user_row \<times> string list \<times> string list) list" where
  "ListUsers a =
     map (\<lambda>(i, u). (i, u,
         sort (map (\<lambda>(_, g). gp_name g) (filter (\<lambda>(g, _). g \<in> set (groups_of i a)) (ad_groups a))),
         ListPermissionCodesForUser i a))
       (sort_key (\<lambda>(_, u). us_email u) (ad_users a))"

definition PermissionExists :: "string \<Rightarrow> auth_db \<Rightarrow> bool" where
  "PermissionExists code a \<longleftrightarrow> length (filter (\<lambda>(_, p). pm_code p = code) (ad_permissions a)) > 0"

definition GroupExists :: "int \<Rightarrow> auth_db \<Rightarrow> bool" where
  "GroupExists i a \<longleftrightarrow> length (filter (\<lambda>(g, _). g = i) (ad_groups a)) > 0"

definition GetGroupIDByName :: "string \<Rightarrow> auth_db \<Rightarrow> rbac_error + int" where
  "GetGroupIDByName name a =
     (case find (\<lambda>(_, g). gp_name g = name) (ad_groups a) of None \<Rightarrow> Inl RbacNoRows | Some (i, _) \<Rightarrow> Inr i)"

section \<open>Writing\<close>

fun dedupe_loop :: "int list \<Rightarrow> int list \<Rightarrow> int list" where
  "dedupe_loop seen [] = []"
| "dedupe_loop seen (x # xs) = (if x \<in> set seen then dedupe_loop seen xs else x # dedupe_loop (x # seen) xs)"

definition dedupeInt64 :: "int list \<Rightarrow> int list" where
  "dedupeInt64 xs = dedupe_loop [] xs"

definition insert_user :: "string \<Rightarrow> string \<Rightarrow> bool \<Rightarrow> bool \<Rightarrow> auth_db \<Rightarrow> rbac_error + int \<times> auth_db" where
  "insert_user email h super active a =
     (if list_ex (\<lambda>(_, u). us_email u = email) (ad_users a) then Inl RbacDuplicate
      else let i = ad_user_seq a + 1 in
        Inr (i, a\<lparr>ad_users := ad_users a @ [(i, \<lparr>us_email = email, us_password_hash = h, us_active = active, us_superuser = super\<rparr>)],
                 ad_user_seq := i\<rparr>))"

definition InsertUser :: "string \<Rightarrow> string \<Rightarrow> bool \<Rightarrow> auth_db \<Rightarrow> rbac_error + int \<times> auth_db" where
  "InsertUser email h super a = insert_user email h super True a"

definition insert_user_group :: "int \<Rightarrow> int \<Rightarrow> auth_db \<Rightarrow> rbac_error + auth_db" where
  "insert_user_group uid gid a =
     (if GetUserByID uid a = None \<or> \<not> GroupExists gid a then Inl RbacForeignKey
      else if (uid, gid) \<in> set (ad_user_groups a) then Inl RbacDuplicate
      else Inr (a\<lparr>ad_user_groups := ad_user_groups a @ [(uid, gid)]\<rparr>))"

definition AddUserGroup :: "int \<Rightarrow> int \<Rightarrow> auth_db \<Rightarrow> rbac_error + auth_db" where
  "AddUserGroup uid gid a = (if (uid, gid) \<in> set (ad_user_groups a) then Inr a else insert_user_group uid gid a)"

fun insert_user_groups :: "int \<Rightarrow> int list \<Rightarrow> auth_db \<Rightarrow> rbac_error + auth_db" where
  "insert_user_groups uid [] a = Inr a"
| "insert_user_groups uid (g # gs) a = res_bind (insert_user_group uid g a) (insert_user_groups uid gs)"

definition insert_group_permission :: "int \<Rightarrow> int \<Rightarrow> auth_db \<Rightarrow> rbac_error + auth_db" where
  "insert_group_permission gid pid a =
     (if \<not> GroupExists gid a \<or> map_of (ad_permissions a) pid = None then Inl RbacForeignKey
      else if (gid, pid) \<in> set (ad_group_permissions a) then Inl RbacDuplicate
      else Inr (a\<lparr>ad_group_permissions := ad_group_permissions a @ [(gid, pid)]\<rparr>))"

fun insert_group_permissions :: "int \<Rightarrow> int list \<Rightarrow> auth_db \<Rightarrow> rbac_error + auth_db" where
  "insert_group_permissions gid [] a = Inr a"
| "insert_group_permissions gid (p # ps) a = res_bind (insert_group_permission gid p a) (insert_group_permissions gid ps)"

definition set_user :: "int \<Rightarrow> (user_row \<Rightarrow> user_row) \<Rightarrow> auth_db \<Rightarrow> rbac_error + auth_db" where
  "set_user i f a =
     (if list_all (\<lambda>(k, _). k \<noteq> i) (ad_users a) then Inl RbacNoRows
      else Inr (a\<lparr>ad_users := map (\<lambda>(k, u). (k, if k = i then f u else u)) (ad_users a)\<rparr>))"

definition UpdateUserFlags :: "int \<Rightarrow> bool option \<Rightarrow> bool option \<Rightarrow> auth_db \<Rightarrow> rbac_error + auth_db" where
  "UpdateUserFlags i active super a =
     res_bind (case active of None \<Rightarrow> Inr a | Some b \<Rightarrow> set_user i (\<lambda>u. u\<lparr>us_active := b\<rparr>) a) (\<lambda>a1.
     case super of None \<Rightarrow> Inr a1 | Some b \<Rightarrow> set_user i (\<lambda>u. u\<lparr>us_superuser := b\<rparr>) a1)"

definition UpdateUserPasswordHash :: "int \<Rightarrow> string \<Rightarrow> auth_db \<Rightarrow> rbac_error + auth_db" where
  "UpdateUserPasswordHash i h a = set_user i (\<lambda>u. u\<lparr>us_password_hash := h\<rparr>) a"

definition ReplaceUserGroups :: "int \<Rightarrow> int list \<Rightarrow> auth_db \<Rightarrow> rbac_error + auth_db" where
  "ReplaceUserGroups uid gids a =
     insert_user_groups uid (dedupeInt64 gids) (a\<lparr>ad_user_groups := filter (\<lambda>(u, _). u \<noteq> uid) (ad_user_groups a)\<rparr>)"

definition ReplaceGroupPermissions :: "int \<Rightarrow> int list \<Rightarrow> auth_db \<Rightarrow> rbac_error + auth_db" where
  "ReplaceGroupPermissions gid pids a =
     insert_group_permissions gid (dedupeInt64 pids)
       (a\<lparr>ad_group_permissions := filter (\<lambda>(g, _). g \<noteq> gid) (ad_group_permissions a)\<rparr>)"

definition CreateUserWithGroups ::
  "string \<Rightarrow> string \<Rightarrow> bool \<Rightarrow> bool \<Rightarrow> int list \<Rightarrow> auth_db \<Rightarrow> rbac_error + int \<times> auth_db" where
  "CreateUserWithGroups email h super active gids a =
     res_bind (insert_user email h super active a) (\<lambda>(i, a1).
     res_bind (insert_user_groups i (dedupeInt64 gids) a1) (\<lambda>a2. Inr (i, a2)))"

section \<open>Bootstrap\<close>

text \<open>The \<^verbatim>\<open>ON CONFLICT DO NOTHING\<close> inserts; the counter advances either way.\<close>

definition seed_permission :: "perm_row \<Rightarrow> auth_db \<Rightarrow> auth_db" where
  "seed_permission p a =
     (let i = ad_permission_seq a + 1 in
      a\<lparr>ad_permissions := (if PermissionExists (pm_code p) a then ad_permissions a else ad_permissions a @ [(i, p)]),
        ad_permission_seq := i\<rparr>)"

definition seed_group :: "string \<Rightarrow> string \<Rightarrow> auth_db \<Rightarrow> auth_db" where
  "seed_group name desc a =
     (let i = ad_group_seq a + 1 in
      a\<lparr>ad_groups := (if list_ex (\<lambda>(_, g). gp_name g = name) (ad_groups a) then ad_groups a
                       else ad_groups a @ [(i, \<lparr>gp_name = name, gp_description = desc\<rparr>)]),
        ad_group_seq := i\<rparr>)"

definition grant_code :: "int \<Rightarrow> string \<Rightarrow> auth_db \<Rightarrow> rbac_error + auth_db" where
  "grant_code gid code a =
     (case find (\<lambda>(_, p). pm_code p = code) (ad_permissions a) of
        None \<Rightarrow> Inl RbacNoRows
      | Some (pid, _) \<Rightarrow>
          if (gid, pid) \<in> set (ad_group_permissions a) then Inr a
          else insert_group_permission gid pid a)"

fun grant_codes :: "int \<Rightarrow> string list \<Rightarrow> auth_db \<Rightarrow> rbac_error + auth_db" where
  "grant_codes gid [] a = Inr a"
| "grant_codes gid (c # cs) a = res_bind (grant_code gid c a) (grant_codes gid cs)"

definition rbac_Seed :: "(string \<Rightarrow> string) \<Rightarrow> string \<Rightarrow> auth_db \<Rightarrow> rbac_error + auth_db" where
  "rbac_Seed hash defaultAdminPassword a =
     (if ad_users a \<noteq> [] then Inr a
      else
        let pw = (if defaultAdminPassword = [] then ''admin123'' else defaultAdminPassword);
            a1 = fold seed_permission bootstrapPermissions a;
            a2 = seed_group ''Viewers'' ''Read-only procurement and audit access''
                   (seed_group ''Administrators'' ''Full access (Django-style superuser group)'' a1)
        in res_bind (bcrypt_hash hash pw) (\<lambda>h.
           res_bind (GetGroupIDByName ''Administrators'' a2) (\<lambda>adminGroup.
           res_bind (GetGroupIDByName ''Viewers'' a2) (\<lambda>viewerGroup.
           res_bind (grant_codes adminGroup (map pm_code bootstrapPermissions) a2) (\<lambda>a3.
           res_bind (grant_codes viewerGroup [perm_ViewSeed, perm_ViewAPIAudit, perm_ViewInbox] a3) (\<lambda>a4.
           res_bind (insert_user ''admin@iag.local'' h True True a4) (\<lambda>(uid, a5).
           insert_user_group uid adminGroup a5)))))))"

section \<open>Login\<close>

record local_claims =
  cl_uid :: int
  cl_email :: string
  cl_super :: bool
  cl_perms :: "string list"

definition Login ::
  "(string \<Rightarrow> string \<Rightarrow> bool) \<Rightarrow> (local_claims \<Rightarrow> string) \<Rightarrow> string \<Rightarrow> string \<Rightarrow> auth_db \<Rightarrow> (string \<times> local_claims) option" where
  "Login matches sign email password a =
     (case GetUserByEmail email a of
        None \<Rightarrow> None
      | Some (i, u) \<Rightarrow>
          if \<not> us_active u then None
          else if \<not> matches (us_password_hash u) password then None
          else
            let c = \<lparr>cl_uid = i, cl_email = us_email u, cl_super = us_superuser u,
                     cl_perms = ListPermissionCodesForUser i a\<rparr>
            in Some (sign c, c))"

text \<open>\<^verbatim>\<open>postLogin\<close>: the body is \<open>None\<close> when it does not decode.\<close>

definition postLogin ::
  "(string \<Rightarrow> string \<Rightarrow> bool) \<Rightarrow> (local_claims \<Rightarrow> string) \<Rightarrow> (string \<times> string) option \<Rightarrow> auth_db \<Rightarrow> nat \<times> (string \<times> local_claims) option"
where
  "postLogin matches sign body a =
     (case body of
        None \<Rightarrow> (400, None)
      | Some (email, password) \<Rightarrow>
          if email = [] \<or> password = [] then (400, None)
          else case Login matches sign email password a of None \<Rightarrow> (401, None) | Some r \<Rightarrow> (200, Some r))"

section \<open>Platform tokens\<close>

record platform_claims =
  pc_subject :: string
  pc_email :: string
  pc_super :: bool
  pc_groups :: "string list"
  pc_roles :: "string list"
  pc_perms :: "string list"

text \<open>\<open>decode\<close> is the library's signature, issuer, audience and expiry check.\<close>

definition Verify ::
  "(string \<Rightarrow> platform_claims option) \<Rightarrow> (string \<Rightarrow> string option) \<Rightarrow> string \<Rightarrow> (platform_claims \<times> string) option" where
  "Verify decode uuid tok =
     (case decode tok of
        None \<Rightarrow> None
      | Some c \<Rightarrow>
          let c = (if pc_groups c = [] \<and> pc_roles c \<noteq> [] then c\<lparr>pc_groups := pc_roles c\<rparr> else c)
          in map_option (\<lambda>i. (c, i)) (uuid (pc_subject c)))"

definition HasPermission :: "platform_claims \<Rightarrow> string \<Rightarrow> bool" where
  "HasPermission c code \<longleftrightarrow> pc_super c \<or> list_ex (\<lambda>p. p = code) (pc_perms c)"

section \<open>Middleware\<close>

text \<open>The values the middleware sets on the gin context, \<open>None\<close> when unset.\<close>

record ctx =
  cx_mode :: string
  cx_uid :: "int option"
  cx_email :: "string option"
  cx_super :: "bool option"
  cx_perms :: "string list option"
  cx_platform_uid :: "string option"
  cx_claims :: "platform_claims option"

definition empty_ctx :: ctx where
  "empty_ctx = \<lparr>cx_mode = [], cx_uid = None, cx_email = None, cx_super = None, cx_perms = None,
     cx_platform_uid = None, cx_claims = None\<rparr>"

record http =
  ht_path :: string
  ht_token :: string
  ht_authorization :: string

definition isPublicProbePath :: "string \<Rightarrow> bool" where
  "isPublicProbePath p \<longleftrightarrow> p \<in> set [''/health'', ''/healthz'', ''/ready'']"

definition bearerToken :: "http \<Rightarrow> string" where
  "bearerToken h =
     (let q = trim_space (ht_token h); a = ht_authorization h in
      if q \<noteq> [] then q else if take 7 a = ''Bearer '' then drop 7 a else [])"

definition setPrincipal :: "string \<Rightarrow> platform_claims \<Rightarrow> ctx \<Rightarrow> ctx" where
  "setPrincipal uid c x =
     x\<lparr>cx_platform_uid := Some uid, cx_claims := Some c, cx_email := Some (pc_email c),
       cx_super := Some (pc_super c), cx_perms := Some (pc_perms c)\<rparr>"

text \<open>\<open>None\<close> for a verifier that is not configured.\<close>

definition fromJWT :: "(string \<Rightarrow> (platform_claims \<times> string) option) option \<Rightarrow> http \<Rightarrow> ctx \<Rightarrow> nat + ctx" where
  "fromJWT verifier h x =
     (case verifier of
        None \<Rightarrow> Inl 503
      | Some verify \<Rightarrow>
          if bearerToken h = [] then Inr x
          else case verify (bearerToken h) of None \<Rightarrow> Inl 401 | Some (c, uid) \<Rightarrow> Inr (setPrincipal uid c x))"

definition AttachPrincipal ::
  "string \<Rightarrow> (string \<Rightarrow> (platform_claims \<times> string) option) option \<Rightarrow> http \<Rightarrow> ctx \<Rightarrow> nat + ctx" where
  "AttachPrincipal mode verifier h x =
     (let x = x\<lparr>cx_mode := mode\<rparr> in
      if isPublicProbePath (ht_path h) then Inr x
      else if mode = ''jwt'' then fromJWT verifier h x
      else Inr x)"

definition RequireAuth :: "ctx \<Rightarrow> nat + ctx" where
  "RequireAuth x =
     (if cx_mode x = ''legacy'' \<or> cx_mode x = [] then Inr x
      else if cx_platform_uid x = None then Inl 401 else Inr x)"

text \<open>\<^verbatim>\<open>strings.SplitN(h, " ", 2)\<close>: the part before the first blank, and what follows it if there is one.\<close>

definition split_blank :: "string \<Rightarrow> string \<times> string option" where
  "split_blank h =
     (let p = takeWhile (\<lambda>c. c \<noteq> CHR '' '') h; r = dropWhile (\<lambda>c. c \<noteq> CHR '' '') h in
      (p, if r = [] then None else Some (tl r)))"

definition JWTAuth :: "(string \<Rightarrow> local_claims option) \<Rightarrow> http \<Rightarrow> ctx \<Rightarrow> nat + ctx" where
  "JWTAuth parse h x =
     (case split_blank (ht_authorization h) of
        (_, None) \<Rightarrow> Inl 401
      | (p, Some r) \<Rightarrow>
          if \<not> equal_fold (trim_space p) ''Bearer'' then Inl 401
          else if trim_space r = [] then Inl 401
          else case parse (trim_space r) of
              None \<Rightarrow> Inl 401
            | Some c \<Rightarrow> Inr (x\<lparr>cx_uid := Some (cl_uid c), cx_email := Some (cl_email c), cx_super := Some (cl_super c),
                             cx_perms := Some (cl_perms c)\<rparr>))"

definition HasPerm :: "ctx \<Rightarrow> string \<Rightarrow> bool" where
  "HasPerm x code \<longleftrightarrow>
     (if cx_mode x = ''gateway'' \<or> cx_mode x = ''jwt'' then
        (case cx_claims x of None \<Rightarrow> False | Some c \<Rightarrow> HasPermission c code)
      else if cx_super x = Some True then True
      else list_ex (\<lambda>p. p = code) (case cx_perms x of None \<Rightarrow> [] | Some ps \<Rightarrow> ps))"

definition RequirePermission :: "string \<Rightarrow> ctx \<Rightarrow> nat + ctx" where
  "RequirePermission code x =
     (if cx_mode x = ''gateway'' \<or> cx_mode x = ''jwt'' then
        (case cx_claims x of Some c \<Rightarrow> if HasPermission c code then Inr x else Inl 403 | None \<Rightarrow> Inl 403)
      else if cx_super x = Some True then Inr x
      else if list_ex (\<lambda>p. p = code) (case cx_perms x of None \<Rightarrow> [] | Some ps \<Rightarrow> ps) then Inr x
      else Inl 403)"

definition authActorEmail :: "ctx \<Rightarrow> string" where
  "authActorEmail x = trim_space (case cx_email x of None \<Rightarrow> [] | Some s \<Rightarrow> s)"

section \<open>User administration\<close>

fun mapRBACWriteErr :: "rbac_error \<Rightarrow> nat" where
  "mapRBACWriteErr RbacInvalid = 400"
| "mapRBACWriteErr RbacNoRows = 404"
| "mapRBACWriteErr RbacForeignKey = 400"
| "mapRBACWriteErr RbacDuplicate = 409"
| "mapRBACWriteErr RbacPasswordTooLong = 500"

text \<open>A password of ASCII bytes has as many runes as bytes.\<close>

definition validateAdminPassword :: "string \<Rightarrow> rbac_error + unit" where
  "validateAdminPassword pw =
     (if trim_space pw \<noteq> pw then Inl RbacInvalid else if length pw < 8 then Inl RbacInvalid else Inr ())"

definition path_id :: "string \<Rightarrow> int option" where
  "path_id s = (case parse_int64 s of None \<Rightarrow> None | Some i \<Rightarrow> if i < 1 then None else Some i)"

definition rbac_write :: "rbac_error + auth_db \<Rightarrow> auth_db \<Rightarrow> nat \<times> auth_db" where
  "rbac_write r a = (case r of Inl er \<Rightarrow> (mapRBACWriteErr er, a) | Inr a' \<Rightarrow> (200, a'))"

definition patchAdminUser :: "ctx \<Rightarrow> string \<Rightarrow> (bool option \<times> bool option) option \<Rightarrow> auth_db \<Rightarrow> nat \<times> auth_db" where
  "patchAdminUser x i body a =
     (case (path_id i, body) of
        (None, _) \<Rightarrow> (400, a)
      | (Some i, None) \<Rightarrow> (400, a)
      | (Some i, Some (active, super)) \<Rightarrow>
          if active = None \<and> super = None then (400, a)
          else case GetUserByID i a of
              None \<Rightarrow> (404, a)
            | Some target \<Rightarrow>
                (case cx_uid x of
                   None \<Rightarrow> (401, a)
                 | Some actor \<Rightarrow>
                     if active = Some False \<and> i = actor then (400, a)
                     else if super = Some False \<and> i = actor \<and> us_superuser target then (400, a)
                     else rbac_write (UpdateUserFlags i active super a) a))"

definition putAdminUserGroups :: "string \<Rightarrow> int list option \<Rightarrow> auth_db \<Rightarrow> nat \<times> auth_db" where
  "putAdminUserGroups i body a =
     (case (path_id i, body) of
        (Some i, Some gids) \<Rightarrow>
          if GetUserByID i a = None then (404, a) else rbac_write (ReplaceUserGroups i gids a) a
      | _ \<Rightarrow> (400, a))"

definition putGroupPermissions :: "string \<Rightarrow> int list option \<Rightarrow> auth_db \<Rightarrow> nat \<times> auth_db" where
  "putGroupPermissions i body a =
     (case (path_id i, body) of
        (Some i, Some pids) \<Rightarrow>
          if \<not> GroupExists i a then (404, a) else rbac_write (ReplaceGroupPermissions i pids a) a
      | _ \<Rightarrow> (400, a))"

record create_user_body =
  cu_email :: string
  cu_password :: string
  cu_super :: bool
  cu_active :: "bool option"
  cu_groups :: "int list"

definition postAdminCreateUser :: "(string \<Rightarrow> string) \<Rightarrow> create_user_body option \<Rightarrow> auth_db \<Rightarrow> nat \<times> auth_db" where
  "postAdminCreateUser hash body a =
     (case body of
        None \<Rightarrow> (400, a)
      | Some b \<Rightarrow>
          if cu_email b = [] \<or> cu_password b = [] then (400, a)
          else
            let email = trim_space (to_lower (cu_email b)) in
            if email = [] \<or> CHR ''@'' \<notin> set email then (400, a)
            else case validateAdminPassword (cu_password b) of
                Inl er \<Rightarrow> (mapRBACWriteErr er, a)
              | Inr _ \<Rightarrow>
                  (case res_bind (bcrypt_hash hash (cu_password b)) (\<lambda>h.
                          CreateUserWithGroups email h (cu_super b)
                            (case cu_active b of None \<Rightarrow> True | Some v \<Rightarrow> v) (cu_groups b) a) of
                     Inl er \<Rightarrow> (mapRBACWriteErr er, a)
                   | Inr (_, a') \<Rightarrow> (201, a')))"

definition patchAdminUserPassword :: "(string \<Rightarrow> string) \<Rightarrow> string \<Rightarrow> string option \<Rightarrow> auth_db \<Rightarrow> nat \<times> auth_db" where
  "patchAdminUserPassword hash i body a =
     (case (path_id i, body) of
        (Some i, Some pw) \<Rightarrow>
          if pw = [] then (400, a)
          else (case validateAdminPassword pw of
                  Inl er \<Rightarrow> (mapRBACWriteErr er, a)
                | Inr _ \<Rightarrow>
                    if GetUserByID i a = None then (404, a)
                    else rbac_write (res_bind (bcrypt_hash hash pw) (\<lambda>h. UpdateUserPasswordHash i h a)) a)
      | _ \<Rightarrow> (400, a))"

end
