(* ===== verification/Access_Properties.thy ===== *)
theory Access_Properties
  imports Access
begin

text \<open>
  Properties of access control: the permissions a membership gives, what a login token lets its bearer
  do, and that user administration never removes the last administrator.
\<close>

section \<open>Memberships\<close>

lemma dedupe_loop_props: "set (dedupe_loop seen xs) = set xs - set seen \<and> distinct (dedupe_loop seen xs)"
  by (induction xs arbitrary: seen) auto

lemma dedupeInt64_props [simp]: "set (dedupeInt64 xs) = set xs" "distinct (dedupeInt64 xs)"
  using dedupe_loop_props [of "[]" xs] by (auto simp: dedupeInt64_def)

lemma insert_user_groupsD:
  assumes "insert_user_groups uid gs a = Inr a'"
  shows "a' = a\<lparr>ad_user_groups := ad_user_groups a @ map (Pair uid) gs\<rparr>"
  using assms
proof (induction gs arbitrary: a)
  case (Cons g gs)
  then obtain a1 where a1: "insert_user_group uid g a = Inr a1" "insert_user_groups uid gs a1 = Inr a'" by auto
  then have "a1 = a\<lparr>ad_user_groups := ad_user_groups a @ [(uid, g)]\<rparr>"
    by (auto simp: insert_user_group_def split: if_splits)
  with Cons.IH [OF a1(2)] show ?case by simp
qed simp

lemma insert_group_permissionsD:
  assumes "insert_group_permissions gid ps a = Inr a'"
  shows "a' = a\<lparr>ad_group_permissions := ad_group_permissions a @ map (Pair gid) ps\<rparr>"
  using assms
proof (induction ps arbitrary: a)
  case (Cons p ps)
  then obtain a1 where a1: "insert_group_permission gid p a = Inr a1" "insert_group_permissions gid ps a1 = Inr a'" by auto
  then have "a1 = a\<lparr>ad_group_permissions := ad_group_permissions a @ [(gid, p)]\<rparr>"
    by (auto simp: insert_group_permission_def split: if_splits)
  with Cons.IH [OF a1(2)] show ?case by simp
qed simp

lemma set_codes_of: "c \<in> set (codes_of is a) \<longleftrightarrow> (\<exists>i p. (i, p) \<in> set (ad_permissions a) \<and> i \<in> set is \<and> pm_code p = c)"
  by (force simp: codes_of_def)

lemma set_groups_of: "g \<in> set (groups_of uid a) \<longleftrightarrow> (uid, g) \<in> set (ad_user_groups a)"
  by (force simp: groups_of_def)

lemma set_effective:
  "c \<in> set (ListPermissionCodesForUser uid a) \<longleftrightarrow> (\<exists>i p. (i, p) \<in> set (ad_permissions a) \<and> pm_code p = c \<and>
     ((\<exists>g. (uid, g) \<in> set (ad_user_groups a) \<and> (g, i) \<in> set (ad_group_permissions a)) \<or> (uid, i) \<in> set (ad_user_permissions a)))"
  unfolding ListPermissionCodesForUser_def
  by (auto simp: set_codes_of group_permission_ids_def set_groups_of) (force simp: set_groups_of)+

lemma effective_sorted: "sorted (ListPermissionCodesForUser uid a) \<and> distinct (ListPermissionCodesForUser uid a)"
  by (simp add: ListPermissionCodesForUser_def)

lemma replaced_groups_give_their_permissions:
  assumes "ReplaceUserGroups uid gids a = Inr a'"
  shows "(\<forall>c. c \<in> set (ListPermissionCodesForUser uid a') \<longleftrightarrow> (\<exists>i p. (i, p) \<in> set (ad_permissions a) \<and> pm_code p = c \<and>
        ((\<exists>g \<in> set gids. (g, i) \<in> set (ad_group_permissions a)) \<or> (uid, i) \<in> set (ad_user_permissions a)))) \<and>
    sorted (ListPermissionCodesForUser uid a') \<and> distinct (ListPermissionCodesForUser uid a') \<and>
    (\<forall>v. v \<noteq> uid \<longrightarrow> ListPermissionCodesForUser v a' = ListPermissionCodesForUser v a)"
proof -
  from assms have a': "a' = a\<lparr>ad_user_groups := filter (\<lambda>(u, _). u \<noteq> uid) (ad_user_groups a) @ map (Pair uid) (dedupeInt64 gids)\<rparr>"
    unfolding ReplaceUserGroups_def by (drule_tac insert_user_groupsD) simp
  have own: "(uid, g) \<in> set (ad_user_groups a') \<longleftrightarrow> g \<in> set gids" for g by (auto simp: a')
  have oth: "groups_of v a' = groups_of v a" if "v \<noteq> uid" for v
    using that by (auto simp: a' groups_of_def filter_map o_def intro!: arg_cong [where f = "map snd"] filter_cong)
  have "ListPermissionCodesForUser v a' = ListPermissionCodesForUser v a" if "v \<noteq> uid" for v
    unfolding ListPermissionCodesForUser_def oth [OF that] by (simp add: a' codes_of_def group_permission_ids_def)
  then show ?thesis unfolding set_effective own using effective_sorted by (auto simp: a')
qed

definition small_auth :: auth_db where
  "small_auth =
     \<lparr>ad_users = [(1, \<lparr>us_email = ''ann@iag'', us_password_hash = ''h1'', us_active = True, us_superuser = True\<rparr>),
                  (2, \<lparr>us_email = ''bob@iag'', us_password_hash = ''h2'', us_active = True, us_superuser = True\<rparr>),
                  (3, \<lparr>us_email = ''carl@iag'', us_password_hash = ''h3'', us_active = True, us_superuser = False\<rparr>)],
      ad_groups = [(1, \<lparr>gp_name = ''Buyers'', gp_description = []\<rparr>), (2, \<lparr>gp_name = ''Payables'', gp_description = []\<rparr>)],
      ad_permissions = [(1, perm_def perm_ViewSeed [] []), (2, perm_def perm_AddRfq [] []), (3, perm_def perm_ApproveInvoice [] [])],
      ad_group_permissions = [(1, 1), (1, 2), (2, 1), (2, 3)], ad_user_groups = [(3, 1)], ad_user_permissions = [],
      ad_user_seq = 3, ad_group_seq = 2, ad_permission_seq = 3\<rparr>"

lemma replaced_groups_give_their_permissions_witness:
  "\<exists>a'. ReplaceUserGroups 3 [2, 2] small_auth = Inr a' \<and>
     ListPermissionCodesForUser 3 small_auth = [perm_AddRfq, perm_ViewSeed] \<and>
     ListPermissionCodesForUser 3 a' = [perm_ApproveInvoice, perm_ViewSeed] \<and>
     ListPermissionCodesForUser 1 a' = ListPermissionCodesForUser 1 small_auth"
proof -
  let ?r = "ReplaceUserGroups 3 [2, 2] small_auth"
  have v: "is_ok ?r \<and> ListPermissionCodesForUser 3 small_auth = [perm_AddRfq, perm_ViewSeed] \<and>
     ListPermissionCodesForUser 3 (projr ?r) = [perm_ApproveInvoice, perm_ViewSeed]" by code_simp
  then obtain a' where a': "?r = Inr a'" "ListPermissionCodesForUser 3 a' = [perm_ApproveInvoice, perm_ViewSeed]"
    by (auto simp: is_ok_iff)
  with replaced_groups_give_their_permissions [OF a'(1)] v show ?thesis by auto
qed

section \<open>Login\<close>

lemma split_blank_bearer [simp]: "split_blank (''Bearer '' @ t) = (''Bearer'', Some t)"
  by (simp add: split_blank_def Let_def)

lemma login_token_carries_permissions:
  assumes "Login matches sign email pw a = Some (tok, c)" and "parse tok = Some c"
    and "trim_space tok = tok" and "tok \<noteq> []"
    and "ht_authorization h = ''Bearer '' @ tok" and "cx_mode x = ''legacy''"
  shows "\<exists>i u x'. (i, u) \<in> set (ad_users a) \<and> us_active u \<and> to_lower (us_email u) = to_lower email \<and>
    matches (us_password_hash u) pw \<and> JWTAuth parse h x = Inr x' \<and> cx_uid x' = Some i \<and>
    (\<forall>code. RequirePermission code x' =
      (if us_superuser u \<or> code \<in> set (ListPermissionCodesForUser i a) then Inr x' else Inl 403))"
proof -
  from assms(1) obtain i u where u: "GetUserByEmail email a = Some (i, u)" "us_active u" "matches (us_password_hash u) pw"
    and c: "c = \<lparr>cl_uid = i, cl_email = us_email u, cl_super = us_superuser u, cl_perms = ListPermissionCodesForUser i a\<rparr>"
    by (auto simp: Login_def Let_def split: option.splits if_splits)
  from u(1) have m: "(i, u) \<in> set (ad_users a)" "to_lower (us_email u) = to_lower email"
    by (auto simp: GetUserByEmail_def find_Some_iff in_set_conv_nth)
  let ?x = "x\<lparr>cx_uid := Some i, cx_email := Some (us_email u), cx_super := Some (us_superuser u),
    cx_perms := Some (ListPermissionCodesForUser i a)\<rparr>"
  have t: "trim_space ''Bearer'' = ''Bearer''" by (simp add: string_simps)
  have "JWTAuth parse h x = Inr ?x"
    using assms(2-5) by (simp add: JWTAuth_def t c split_blank_bearer del: append_Cons)
  moreover have "RequirePermission code ?x = (if us_superuser u \<or> code \<in> set (ListPermissionCodesForUser i a) then Inr ?x else Inl 403)" for code
    using assms(6) by (auto simp: RequirePermission_def list_ex_iff)
  ultimately show ?thesis using u m by fastforce
qed

lemma login_token_carries_permissions_witness:
  "\<exists>tok c x'. Login (\<lambda>h p. h = p) (\<lambda>_. ''t1'') ''Carl@iag'' ''h3'' small_auth = Some (tok, c) \<and>
     JWTAuth (\<lambda>t. if t = ''t1'' then Some c else None)
       \<lparr>ht_path = [], ht_token = [], ht_authorization = ''Bearer '' @ tok\<rparr> (empty_ctx\<lparr>cx_mode := ''legacy''\<rparr>) = Inr x' \<and>
     RequirePermission perm_AddRfq x' = Inr x' \<and> RequirePermission perm_ApproveInvoice x' = Inl 403"
proof -
  let ?l = "Login (\<lambda>h p. h = p) (\<lambda>_. ''t1'') ''Carl@iag'' ''h3'' small_auth"
  have v: "?l \<noteq> None \<and> fst (the ?l) = ''t1''" "ListPermissionCodesForUser 3 small_auth = [perm_AddRfq, perm_ViewSeed]" by code_simp+
  then obtain c where l: "?l = Some (''t1'', c)" by auto
  let ?h = "\<lparr>ht_path = [], ht_token = [], ht_authorization = ''Bearer '' @ ''t1''\<rparr>"
  obtain i u x' where u: "(i, u) \<in> set (ad_users small_auth)" "to_lower (us_email u) = to_lower ''Carl@iag''"
    and x': "JWTAuth (\<lambda>t. if t = ''t1'' then Some c else None) ?h (empty_ctx\<lparr>cx_mode := ''legacy''\<rparr>) = Inr x'"
    and p: "\<forall>code. RequirePermission code x' =
      (if us_superuser u \<or> code \<in> set (ListPermissionCodesForUser i small_auth) then Inr x' else Inl 403)"
    using login_token_carries_permissions [OF l, of "\<lambda>t. if t = ''t1'' then Some c else None" ?h "empty_ctx\<lparr>cx_mode := ''legacy''\<rparr>"]
    by (auto simp: string_simps)
  from u have "i = 3" "\<not> us_superuser u" by (auto simp: small_auth_def string_simps)
  with p v(2) have "RequirePermission perm_AddRfq x' = Inr x' \<and> RequirePermission perm_ApproveInvoice x' = Inl 403" by simp
  with l x' show ?thesis by blast
qed

section \<open>Administrators\<close>

definition administrator :: "int \<Rightarrow> auth_db \<Rightarrow> bool" where
  "administrator i a \<longleftrightarrow> (case map_of (ad_users a) i of None \<Rightarrow> False | Some u \<Rightarrow> us_active u \<and> us_superuser u)"

text \<open>The administration requests of an actor who is an administrator when the request is served.\<close>

inductive admin_step :: "auth_db \<Rightarrow> auth_db \<Rightarrow> bool" where
  "cx_uid x = Some i \<Longrightarrow> administrator i a \<Longrightarrow> admin_step a (snd (patchAdminUser x j b a))"
| "admin_step a (snd (putAdminUserGroups j gs a))"
| "admin_step a (snd (putGroupPermissions j ps a))"
| "admin_step a (snd (postAdminCreateUser hash cb a))"
| "admin_step a (snd (patchAdminUserPassword hash j pw a))"

lemma administrator_iff: "administrator i a \<longleftrightarrow> (\<exists>u. map_of (ad_users a) i = Some u \<and> us_active u \<and> us_superuser u)"
  by (auto simp: administrator_def split: option.splits)

lemma map_of_set_user: "map_of (map (\<lambda>(k, u). (k, if k = i then f u else u)) us) j = (if j = i then map_option f (map_of us j) else map_of us j)"
  by (induction us) auto

lemma set_userD: "set_user i f a = Inr a' \<Longrightarrow> map_of (ad_users a') j = (if j = i then map_option f (map_of (ad_users a) j) else map_of (ad_users a) j)"
  by (auto simp: set_user_def map_of_set_user split: if_splits)

lemma administrator_set_user:
  assumes "set_user i f a = Inr a'" and "administrator j a" and "i = j \<Longrightarrow> \<forall>u. us_active u \<and> us_superuser u \<longrightarrow> us_active (f u) \<and> us_superuser (f u)"
  shows "administrator j a'"
  using assms(2,3) set_userD [OF assms(1), of j] by (auto simp: administrator_def split: option.splits if_splits)

lemma patchAdminUser_cases:
  assumes "path_id j = Some k" and "b = Some (active, super)" and "GetUserByID k a = Some t" and "cx_uid x = Some i"
  shows "snd (patchAdminUser x j b a) = a \<or>
    (\<not> (active = Some False \<and> k = i) \<and> \<not> (super = Some False \<and> k = i \<and> us_superuser t) \<and>
     UpdateUserFlags k active super a = Inr (snd (patchAdminUser x j b a)))"
  using assms by (cases "UpdateUserFlags k active super a") (simp_all add: patchAdminUser_def rbac_write_def)

lemma patchAdminUser_keeps_actor:
  assumes "cx_uid x = Some i" and "administrator i a"
  shows "administrator i (snd (patchAdminUser x j b a))"
proof (cases "path_id j = None \<or> b = None \<or> GetUserByID (the (path_id j)) a = None \<or> snd (patchAdminUser x j b a) = a")
  case True
  then have "snd (patchAdminUser x j b a) = a" by (auto simp: patchAdminUser_def split: option.splits)
  with assms show ?thesis by simp
next
  case False
  then obtain k active super t where k: "path_id j = Some k" "b = Some (active, super)" "GetUserByID k a = Some t" by auto
  let ?a = "snd (patchAdminUser x j b a)"
  from patchAdminUser_cases [OF k assms(1)] False
  have g: "\<not> (active = Some False \<and> k = i)" "\<not> (super = Some False \<and> k = i \<and> us_superuser t)"
    and u: "UpdateUserFlags k active super a = Inr ?a" by auto
  from assms(2) g k(3) have n: "k = i \<Longrightarrow> active \<noteq> Some False \<and> super \<noteq> Some False"
    by (auto simp: administrator_iff GetUserByID_def)
  obtain a1 where a1: "(case active of None \<Rightarrow> Inr a | Some v \<Rightarrow> set_user k (\<lambda>u. u\<lparr>us_active := v\<rparr>) a) = Inr a1"
    "(case super of None \<Rightarrow> Inr a1 | Some v \<Rightarrow> set_user k (\<lambda>u. u\<lparr>us_superuser := v\<rparr>) a1) = Inr ?a"
    using u by (auto simp: UpdateUserFlags_def)
  have "administrator i a1"
    using a1(1) assms(2) n by (cases active) (auto elim!: administrator_set_user)
  then show ?thesis
    using a1(2) n by (cases super) (auto elim!: administrator_set_user)
qed

lemma administrator_same_users: "ad_users a' = ad_users a \<Longrightarrow> administrator i a \<Longrightarrow> administrator i a'"
  by (simp add: administrator_def)

lemma admin_step_keeps:
  assumes "admin_step a a'" and "\<exists>i. administrator i a"
  shows "\<exists>i. administrator i a'"
  using assms
proof (induction rule: admin_step.induct)
  case (1 x i a j b)
  then show ?case using patchAdminUser_keeps_actor by blast
next
  case (2 a j gs)
  have "ad_users (snd (putAdminUserGroups j gs a)) = ad_users a"
    by (auto simp: putAdminUserGroups_def rbac_write_def ReplaceUserGroups_def dest: insert_user_groupsD split: option.splits sum.splits)
  with 2 show ?case using administrator_same_users by blast
next
  case (3 a j ps)
  have "ad_users (snd (putGroupPermissions j ps a)) = ad_users a"
    by (auto simp: putGroupPermissions_def rbac_write_def ReplaceGroupPermissions_def dest: insert_group_permissionsD
        split: option.splits sum.splits)
  with 3 show ?case using administrator_same_users by blast
next
  case (4 a hash cb)
  then obtain i u where i: "map_of (ad_users a) i = Some u" "us_active u" "us_superuser u"
    by (auto simp: administrator_iff)
  have "\<exists>us. ad_users (snd (postAdminCreateUser hash cb a)) = ad_users a @ us"
    by (auto simp: postAdminCreateUser_def bcrypt_hash_def CreateUserWithGroups_def insert_user_def Let_def dest!: insert_user_groupsD
        split: option.splits sum.splits)
  then have "map_of (ad_users (snd (postAdminCreateUser hash cb a))) i = Some u" using i(1) by (auto simp: map_add_Some_iff)
  with i show ?case by (auto simp: administrator_iff)
next
  case (5 a hash j pw)
  then obtain i where "administrator i a" by blast
  then have "administrator i (snd (patchAdminUserPassword hash j pw a))"
    by (auto simp: patchAdminUserPassword_def bcrypt_hash_def rbac_write_def UpdateUserPasswordHash_def split: option.splits sum.splits
        intro: administrator_set_user)
  then show ?case by blast
qed

text \<open>
  C26. The user administration never locks everybody out: while every administrator who acts is
  still one in the tables, any sequence of its writes keeps an active superuser, since nobody
  may deactivate or demote themselves.
\<close>

theorem an_administrator_always_remains:
  assumes "admin_step\<^sup>*\<^sup>* a0 a" and "\<exists>i. administrator i a0"
  shows "\<exists>i u. map_of (ad_users a) i = Some u \<and> us_active u \<and> us_superuser u"
  using assms
proof (induction rule: rtranclp_induct)
  case base
  then show ?case by (auto simp: administrator_iff)
next
  case (step b c)
  then have "\<exists>i. administrator i b" by (auto simp: administrator_iff)
  with admin_step_keeps [OF step(2)] show ?case by (auto simp: administrator_iff)
qed

theorem an_administrator_always_remains_witness:
  "\<exists>i u. map_of (ad_users (snd (patchAdminUser (empty_ctx\<lparr>cx_uid := Some 1\<rparr>) ''2'' (Some (None, Some False)) small_auth))) i = Some u \<and>
     us_active u \<and> us_superuser u"
proof -
  have "administrator 1 small_auth" by code_simp
  then have "admin_step\<^sup>*\<^sup>* small_auth (snd (patchAdminUser (empty_ctx\<lparr>cx_uid := Some 1\<rparr>) ''2'' (Some (None, Some False)) small_auth))"
    by (intro r_into_rtranclp [of admin_step] admin_step.intros(1) [of _ 1]) (simp_all add: empty_ctx_def)
  from an_administrator_always_remains [OF this] \<open>administrator 1 small_auth\<close> show ?thesis by blast
qed

text \<open>
  The hypothesis that the actor is still an administrator matters: a token outlives a demotion, and two
  administrators who demote each other leave none.
\<close>

lemma stale_tokens_can_remove_every_administrator:
  "(let a1 = snd (patchAdminUser (empty_ctx\<lparr>cx_uid := Some 1\<rparr>) ''2'' (Some (None, Some False)) small_auth);
        a2 = snd (patchAdminUser (empty_ctx\<lparr>cx_uid := Some 2\<rparr>) ''1'' (Some (None, Some False)) a1)
    in list_all (\<lambda>(_, u). \<not> us_superuser u) (ad_users a2))"
  by code_simp

text \<open>
  Three permissions that gate routes are not among the descriptors registered with the identity provider,
  and five are not among the bootstrap permissions of legacy mode: only a superuser passes those gates.
\<close>

lemma permissions_nobody_can_be_granted:
  "list_all (\<lambda>p. p \<notin> set (map fst PermissionDescriptors)) [perm_ManageApprovalChains, perm_ManageBudgetPeriod, perm_ApproveInvoice]"
  "list_all (\<lambda>p. p \<notin> set (map pm_code bootstrapPermissions))
     [perm_ApproveRequisitionTier1, perm_ApproveRequisitionTier2, perm_ApproveRequisitionTier3, perm_ViewOwnPO, perm_ViewOwnInvoice]"
  by code_simp+

end
