(* ===== verification/Listings.thy ===== *)
theory Listings
  imports Consumers Go_Parse
begin

text \<open>
  What the service reads back: the paged listings (\<^verbatim>\<open>internal/repo/list_paginated.go\<close>,
  \<^verbatim>\<open>list_paginated_more.go\<close>), the snapshot of all of them (\<^verbatim>\<open>seed.go\<close>), the query
  parameters of a page (\<^verbatim>\<open>handlers/pagination.go\<close>) and the vendor portal
  (\<^verbatim>\<open>handlers/portal.go\<close>).

  A row scanned into a model with fewer fields than columns is the row with the columns that are not
  selected blanked. Dates keep their day number: rendering them as text is left to the encoder.
  \<^verbatim>\<open>ORDER BY id\<close> is the byte order of the ids; the audit trail is ordered by insertion.
\<close>

section \<open>Pages\<close>

definition defaultPageLimit :: int where
  "defaultPageLimit = 50"

definition maxPageLimit :: int where
  "maxPageLimit = 500"

record page_request =
  pq_limit :: int
  pq_offset :: int
  pq_search :: string

text \<open>The three query parameters; \<open>None\<close> when none is given.\<close>

definition parsePage :: "string \<Rightarrow> string \<Rightarrow> string \<Rightarrow> page_request option" where
  "parsePage l o' q =
     (let ls = trim_space l; os = trim_space o'; q = trim_space q;
          limit = (case parse_int64 ls of Some n \<Rightarrow> if ls \<noteq> [] \<and> n > 0 then n else defaultPageLimit | None \<Rightarrow> defaultPageLimit);
          limit = (if limit > maxPageLimit then maxPageLimit else limit);
          offset = (case parse_int64 os of Some n \<Rightarrow> if os \<noteq> [] \<and> n \<ge> 0 then n else 0 | None \<Rightarrow> 0)
      in if ls \<noteq> [] \<or> os \<noteq> [] \<or> q \<noteq> [] then Some \<lparr>pq_limit = limit, pq_offset = offset, pq_search = q\<rparr> else None)"

definition page :: "int \<Rightarrow> int \<Rightarrow> 'a list \<Rightarrow> 'a list" where
  "page limit offset xs = take (nat limit) (drop (nat offset) xs)"

definition by_id :: "(string \<times> 'r) list \<Rightarrow> (string \<times> 'r) list" where
  "by_id t = sort_key fst t"

text \<open>\<^verbatim>\<open>WHERE c1 ILIKE '%q%' OR ...\<close>, absent when there is no search term.\<close>

definition searched :: "string \<Rightarrow> ('a \<Rightarrow> string list) \<Rightarrow> 'a list \<Rightarrow> 'a list" where
  "searched q cols xs =
     (if q = [] then xs else filter (\<lambda>x. list_ex (\<lambda>c. ilike c (''%'' @ q @ ''%'')) (cols x)) xs)"

section \<open>Columns\<close>

definition vendor_cols :: "vendor_row \<Rightarrow> vendor_row" where
  "vendor_cols v = v\<lparr>vd_party_id := None, vd_platform_user_id := None, vd_scm_business_id := None,
     vd_quality_status_by := [], vd_quality_status_at := None\<rparr>"

definition item_cols :: "item_row \<Rightarrow> item_row" where
  "item_cols i = i\<lparr>it_stockable := False\<rparr>"

text \<open>\<^verbatim>\<open>COALESCE(budget_id::text, '')\<close> is the blank budget.\<close>

definition requisition_cols :: "requisition_row \<Rightarrow> requisition_row" where
  "requisition_cols r = r\<lparr>rq_doc_no := None, rq_budget_id := Some (deref (rq_budget_id r)),
     rq_pm_requisition_id := Some (deref (rq_pm_requisition_id r)), rq_pm_workspace_owner := None, rq_payee := [],
     rq_justification := [], rq_budget_committed := False, rq_pre_released := False\<rparr>"

definition rfq_cols :: "rfq_row \<Rightarrow> rfq_row" where
  "rfq_cols f = f\<lparr>rf_doc_no := None, rf_requisition_id := Some (deref (rf_requisition_id f)), rf_awarded_at := None\<rparr>"

definition po_cols :: "po_row \<Rightarrow> po_row" where
  "po_cols p = p\<lparr>po_doc_no := None, po_budget_id := Some (deref (po_budget_id p)),
     po_requisition_id := Some (deref (po_requisition_id p)), po_created_by := [], po_budget_committed := False,
     po_spent_recognized := 0\<rparr>"

definition grn_cols :: "grn_row \<Rightarrow> grn_row" where
  "grn_cols g = g\<lparr>gr_doc_no := None, gr_budget_recognized := False, gr_recognized_amount := 0\<rparr>"

definition contract_cols :: "contract_row \<Rightarrow> contract_row" where
  "contract_cols c = c\<lparr>ct_doc_no := None\<rparr>"

definition view :: "('r \<Rightarrow> 's) \<Rightarrow> (string \<times> 'r) list \<Rightarrow> (string \<times> 's) list" where
  "view f t = map (\<lambda>(k, r). (k, f r)) t"

section \<open>Listings\<close>

definition ListVendors :: "int \<Rightarrow> int \<Rightarrow> string \<Rightarrow> db \<Rightarrow> vendor_row table" where
  "ListVendors limit offset q d =
     view vendor_cols (page limit offset (by_id (searched q (\<lambda>(_, v). [vd_name v, vd_category v, vd_country v, vd_email v]) (db_vendors d))))"

definition ListItems :: "int \<Rightarrow> int \<Rightarrow> string \<Rightarrow> db \<Rightarrow> item_row table" where
  "ListItems limit offset q d =
     view (\<lambda>i. (item_cols i)\<lparr>it_preferred_vendor_id := Some (deref (it_preferred_vendor_id i))\<rparr>)
       (page limit offset (by_id (searched q (\<lambda>(_, i). [it_sku i, it_name i, it_category i]) (db_items d))))"

text \<open>\<^verbatim>\<open>ListRequisitions\<close> selects \<^verbatim>\<open>budget_id\<close> bare and scans it into a string, so a row without a budget fails the page.\<close>

definition ListRequisitions :: "int \<Rightarrow> int \<Rightarrow> string \<Rightarrow> db \<Rightarrow> repo_error + requisition_row table" where
  "ListRequisitions limit offset q d =
     (let rows = page limit offset (by_id (searched q (\<lambda>(_, r). [rq_title r, rq_dept r, rq_requester r, rq_status r]) (db_requisitions d)))
      in if list_ex (\<lambda>(_, r). rq_budget_id r = None) rows then Inl DbNullScan else Inr (view requisition_cols rows))"

definition lines_of :: "string \<Rightarrow> db \<Rightarrow> po_line_row list" where
  "lines_of i d = filter (\<lambda>l. pl_po_id l = i) (db_po_lines d)"

definition receipt_lines_of :: "string \<Rightarrow> db \<Rightarrow> grn_line_row list" where
  "receipt_lines_of i d = filter (\<lambda>l. gl_grn_id l = i) (db_grn_lines d)"

text \<open>The paged orders select neither the payment status nor the received quantities.\<close>

definition ListPurchaseOrders :: "int \<Rightarrow> int \<Rightarrow> string \<Rightarrow> db \<Rightarrow> (string \<times> po_row \<times> po_line_row list) list" where
  "ListPurchaseOrders limit offset q d =
     map (\<lambda>(i, p). (i, (po_cols p)\<lparr>po_payment_status := []\<rparr>, map (\<lambda>l. l\<lparr>pl_received_qty := 0\<rparr>) (lines_of i d)))
       (page limit offset (by_id (searched q (\<lambda>(i, p). [i, po_title p, po_vendor_id p, po_status p]) (db_purchase_orders d))))"

definition GetPurchaseOrder :: "string \<Rightarrow> db \<Rightarrow> repo_error + po_row \<times> po_line_row list" where
  "GetPurchaseOrder i d =
     (let i = trim_space i in
      if i = [] then Inl ErrInvalidArgument
      else case tbl_get (db_purchase_orders d) i of
          None \<Rightarrow> Inl ErrNotFound
        | Some p \<Rightarrow> Inr (po_cols p, lines_of i d))"

definition ListInvoices :: "int \<Rightarrow> int \<Rightarrow> string \<Rightarrow> db \<Rightarrow> invoice_row table" where
  "ListInvoices limit offset q d =
     page limit offset (by_id (searched q
       (\<lambda>(i, v). [deref (inv_invoice_no v), i, inv_vendor_id v, inv_status v, inv_match_status v]) (db_invoices d)))"

definition ListBudgets :: "int \<Rightarrow> int \<Rightarrow> string \<Rightarrow> db \<Rightarrow> budget_row table" where
  "ListBudgets limit offset q d =
     page limit offset (by_id (searched q (\<lambda>(_, b). [b_code b, b_dept b, b_period b]) (db_budgets d)))"

definition ListRfqs :: "int \<Rightarrow> int \<Rightarrow> string \<Rightarrow> db \<Rightarrow> rfq_row table" where
  "ListRfqs limit offset q d =
     view rfq_cols (page limit offset (by_id (searched q (\<lambda>(i, f). [i, rf_title f, rf_status f]) (db_rfqs d))))"

definition ListGrns :: "int \<Rightarrow> int \<Rightarrow> string \<Rightarrow> db \<Rightarrow> (string \<times> grn_row \<times> grn_line_row list) list" where
  "ListGrns limit offset q d =
     map (\<lambda>(i, g). (i, grn_cols g, receipt_lines_of i d))
       (page limit offset (by_id (searched q (\<lambda>(i, g). [i, gr_vendor_id g, gr_received_by g, gr_status g]) (db_grns d))))"

definition ListContracts :: "int \<Rightarrow> int \<Rightarrow> string \<Rightarrow> db \<Rightarrow> contract_row table" where
  "ListContracts limit offset q d =
     view contract_cols (page limit offset (by_id (searched q (\<lambda>(i, c). [i, ct_title c, ct_vendor_id c, ct_status c]) (db_contracts d))))"

definition ListPayments :: "int \<Rightarrow> int \<Rightarrow> string \<Rightarrow> db \<Rightarrow> payment_row table" where
  "ListPayments limit offset q d =
     page limit offset (by_id (searched q
       (\<lambda>(i, p). [i, pay_reference p, pay_vendor_id p, pay_invoice_id p, pay_status p]) (db_payments d)))"

definition ListAudit :: "int \<Rightarrow> int \<Rightarrow> string \<Rightarrow> db \<Rightarrow> audit_row list" where
  "ListAudit limit offset q d =
     page limit offset (rev (searched q (\<lambda>a. [au_username a, au_action a, au_target a, au_detail a]) (db_audit d)))"

section \<open>The snapshot\<close>

record seed_data =
  sd_vendors :: "vendor_row table"
  sd_items :: "item_row table"
  sd_budgets :: "budget_row table"
  sd_requisitions :: "requisition_row table"
  sd_rfqs :: "rfq_row table"
  sd_pos :: "(string \<times> po_row \<times> po_line_row list) list"
  sd_grns :: "(string \<times> grn_row \<times> grn_line_row list) list"
  sd_invoices :: "invoice_row table"
  sd_contracts :: "contract_row table"
  sd_payments :: "payment_row table"
  sd_audit :: "audit_row list"

definition Load :: "db \<Rightarrow> seed_data" where
  "Load d =
     \<lparr>sd_vendors = view vendor_cols (by_id (db_vendors d)),
      sd_items = view (\<lambda>i. (item_cols i)\<lparr>it_preferred_vendor_id := Some (deref (it_preferred_vendor_id i))\<rparr>) (by_id (db_items d)),
      sd_budgets = by_id (db_budgets d),
      sd_requisitions = view requisition_cols (by_id (db_requisitions d)),
      sd_rfqs = view rfq_cols (by_id (db_rfqs d)),
      sd_pos = map (\<lambda>(i, p). (i, po_cols p, lines_of i d)) (by_id (db_purchase_orders d)),
      sd_grns = map (\<lambda>(i, g). (i, grn_cols g, receipt_lines_of i d)) (by_id (db_grns d)),
      sd_invoices = by_id (db_invoices d),
      sd_contracts = view contract_cols (by_id (db_contracts d)),
      sd_payments = by_id (db_payments d),
      sd_audit = db_audit d\<rparr>"

section \<open>The vendor portal\<close>

text \<open>\<open>None\<close> for a request without a platform user; the status and the rows otherwise.\<close>

definition portal_vendor :: "string \<Rightarrow> db \<Rightarrow> (string \<times> vendor_row) option" where
  "portal_vendor uid d = find (\<lambda>(_, v). vd_platform_user_id v = Some uid) (db_vendors d)"

definition PortalMe :: "string option \<Rightarrow> db \<Rightarrow> nat \<times> (string \<times> vendor_row) option" where
  "PortalMe uid d =
     (case uid of
        None \<Rightarrow> (403, None)
      | Some u \<Rightarrow> (case portal_vendor u d of None \<Rightarrow> (404, None) | Some v \<Rightarrow> (200, Some v)))"

definition PortalPOs :: "string option \<Rightarrow> db \<Rightarrow> nat \<times> po_row table" where
  "PortalPOs uid d =
     (case uid of
        None \<Rightarrow> (403, [])
      | Some u \<Rightarrow>
          (case portal_vendor u d of
             None \<Rightarrow> (404, [])
           | Some (vid, _) \<Rightarrow>
               (200, take 50 (sort_key (\<lambda>(_, p). - po_created_at p) (filter (\<lambda>(_, p). po_vendor_id p = vid) (db_purchase_orders d))))))"

text \<open>In descending order PostgreSQL puts the invoices without a date first.\<close>

definition invoice_rank :: "string \<times> invoice_row \<Rightarrow> bool \<times> int" where
  "invoice_rank r = (case inv_invoice_date (snd r) of None \<Rightarrow> (False, 0) | Some t \<Rightarrow> (True, - t))"

definition PortalInvoices :: "string option \<Rightarrow> db \<Rightarrow> nat \<times> invoice_row table" where
  "PortalInvoices uid d =
     (case uid of
        None \<Rightarrow> (403, [])
      | Some u \<Rightarrow>
          (case portal_vendor u d of
             None \<Rightarrow> (404, [])
           | Some (vid, _) \<Rightarrow>
               (200, take 50 (sort_key invoice_rank (filter (\<lambda>(_, v). inv_vendor_id v = vid) (db_invoices d))))))"

section \<open>Pages of a list\<close>

lemma parsePage_bounds:
  "parsePage l o' q = Some p \<Longrightarrow> 1 \<le> pq_limit p \<and> pq_limit p \<le> maxPageLimit \<and> 0 \<le> pq_offset p"
  by (auto simp: parsePage_def Let_def maxPageLimit_def defaultPageLimit_def split: option.splits if_splits)

lemma page_length: "0 \<le> limit \<Longrightarrow> length (page limit offset xs) \<le> nat limit"
  by (simp add: page_def)

lemma pages_cover:
  assumes "0 < n"
  shows "concat (map (\<lambda>k. page n (int k * n) xs) [0 ..< m]) = take (m * nat n) xs"
proof (induction m)
  case (Suc m)
  have "nat (int m * n) = m * nat n" using assms by (simp add: nat_mult_distrib)
  then have "page n (int m * n) xs = take (nat n) (drop (m * nat n) xs)" by (simp add: page_def)
  with Suc show ?case by (simp add: take_add [symmetric] add.commute)
qed simp

lemma view_page: "view f (page l k xs) = page l k (view f xs)"
  by (simp add: view_def page_def take_map drop_map)

lemma map_page: "map f (page l k xs) = page l k (map f xs)"
  by (simp add: page_def take_map drop_map)

lemma searched_Nil [simp]: "searched [] cols xs = xs"
  by (simp add: searched_def)

end
