(* ===== verification/Notifications.thy ===== *)
theory Notifications
  imports Procurement_Prelude
begin

text \<open>
  In-app notifications and alert e-mails (\<^verbatim>\<open>internal/notifications\<close>), the in-process signal bus
  (\<^verbatim>\<open>internal/signals/bus.go\<close>) and the HTTP audit log (\<^verbatim>\<open>internal/auditlog\<close>).

  The bus is wired once, by \<^verbatim>\<open>Service.Register\<close>: one handler per signal name. The central
  dispatcher is the parameter \<open>deliver\<close>, which answers whether an attempt on a request succeeded;
  every attempt is recorded in \<open>ns_sent\<close>. The recipients of one alert are dispatched
  concurrently; their attempts are listed in recipient order. A payload is the raw text and what it
  decodes to.
\<close>

section \<open>The inbox\<close>

record inapp_row =
  in_event_type :: string
  in_title :: string
  in_body :: string
  in_severity :: string
  in_read_at :: "timestamp option"
  in_created_at :: timestamp

record dispatch_request =
  dq_channel :: string
  dq_recipient :: string
  dq_audience :: string
  dq_template :: string
  dq_title :: string
  dq_body :: string
  dq_event_id :: string

record notify_state =
  ns_rows :: "(int \<times> inapp_row) list"
  ns_seq :: int
  ns_sent :: "dispatch_request list"

definition InsertInApp :: "timestamp \<Rightarrow> string \<Rightarrow> string \<Rightarrow> string \<Rightarrow> string \<Rightarrow> notify_state \<Rightarrow> int \<times> notify_state" where
  "InsertInApp now ev title body severity n =
     (let i = ns_seq n + 1 in
      (i, n\<lparr>ns_rows := ns_rows n @ [(i, \<lparr>in_event_type = ev, in_title = title, in_body = body, in_severity = severity,
                                        in_read_at = None, in_created_at = now\<rparr>)],
            ns_seq := i\<rparr>))"

definition notifications_List :: "int \<Rightarrow> notify_state \<Rightarrow> (int \<times> inapp_row) list" where
  "notifications_List limit n =
     (let limit = (if limit \<le> 0 \<or> limit > 200 then 50 else limit) in take (nat limit) (rev (sort_key fst (ns_rows n))))"

text \<open>\<open>None\<close>: not found, or already read.\<close>

definition MarkRead :: "timestamp \<Rightarrow> int \<Rightarrow> notify_state \<Rightarrow> notify_state option" where
  "MarkRead now i n =
     (if list_ex (\<lambda>(k, r). k = i \<and> in_read_at r = None) (ns_rows n)
      then Some (n\<lparr>ns_rows := map (\<lambda>(k, r). (k, if k = i \<and> in_read_at r = None then r\<lparr>in_read_at := Some now\<rparr> else r))
                                (ns_rows n)\<rparr>)
      else None)"

section \<open>Alerts\<close>

record alert =
  al_to :: "string list"
  al_title :: string
  al_message :: string
  al_detail :: string
  al_audience :: string

definition send_with_retry :: "(dispatch_request \<Rightarrow> nat \<Rightarrow> bool) \<Rightarrow> dispatch_request \<Rightarrow> dispatch_request list" where
  "send_with_retry deliver q = (if deliver q 0 then [q] else [q, q])"

definition alert_body :: "alert \<Rightarrow> string" where
  "alert_body p = (if al_detail p \<noteq> [] then al_message p @ [CHR 0x0A, CHR 0x0A] @ al_detail p else al_message p)"

definition EnqueueAlertEmail ::
  "(dispatch_request \<Rightarrow> nat \<Rightarrow> bool) \<Rightarrow> timestamp \<Rightarrow> alert \<Rightarrow> notify_state \<Rightarrow> string + notify_state" where
  "EnqueueAlertEmail deliver now p n =
     (if al_to p = [] \<and> al_audience p = [] then Inl ''notifications: missing recipients''
      else
        let (i, n1) = InsertInApp now ''procurement.alert'' (al_title p) (alert_body p) ''info'' n;
            req = (\<lambda>to. \<lparr>dq_channel = ''email'', dq_recipient = to, dq_audience = al_audience p,
                         dq_template = ''procurement.alert'', dq_title = al_title p, dq_body = alert_body p,
                         dq_event_id = ''procurement.alert.'' @ fmt_int i\<rparr>)
        in Inr (n1\<lparr>ns_sent := ns_sent n1 @
             concat (map (\<lambda>to. send_with_retry deliver (req to)) (if al_to p = [] then [[]] else al_to p))\<rparr>))"

section \<open>Signals\<close>

record pending_payload =
  pp_id :: string
  pp_title :: string

record decided_payload =
  dp_id :: string
  dp_title :: string
  dp_status :: string
  dp_requester :: string

datatype signal =
    ProcurementAlert "alert option"
  | RequisitionPending "pending_payload option"
  | RequisitionDecided "decided_payload option"
  | OtherSignal string

definition severityForOutcome :: "string \<Rightarrow> string" where
  "severityForOutcome st = (if st = ''rejected'' then ''warning'' else ''info'')"

definition onProcurementAlert ::
  "(dispatch_request \<Rightarrow> nat \<Rightarrow> bool) \<Rightarrow> timestamp \<Rightarrow> alert option \<Rightarrow> notify_state \<Rightarrow> string + notify_state" where
  "onProcurementAlert deliver now p n =
     (case p of None \<Rightarrow> Inl ''procurement.alert payload'' | Some p \<Rightarrow> EnqueueAlertEmail deliver now p n)"

definition onRequisitionPending :: "timestamp \<Rightarrow> pending_payload option \<Rightarrow> notify_state \<Rightarrow> string + notify_state" where
  "onRequisitionPending now p n =
     (case p of
        None \<Rightarrow> Inl ''requisition.pending payload''
      | Some p \<Rightarrow> Inr (snd (InsertInApp now ''requisition.pending'' ''Requisition pending approval''
                          (pp_title p @ '' ('' @ pp_id p @ '') needs approval.'') ''warning'' n)))"

definition decided_text :: "decided_payload \<Rightarrow> string" where
  "decided_text p = dp_title p @ '' ('' @ dp_id p @ '') was '' @ dp_status p @ ''.''"

definition onRequisitionDecided ::
  "(dispatch_request \<Rightarrow> nat \<Rightarrow> bool) \<Rightarrow> timestamp \<Rightarrow> decided_payload option \<Rightarrow> notify_state \<Rightarrow> string + notify_state" where
  "onRequisitionDecided deliver now p n =
     (case p of
        None \<Rightarrow> Inl ''requisition.decided payload''
      | Some p \<Rightarrow>
          if dp_requester p = [] then
            Inr (snd (InsertInApp now ''requisition.decided'' (''Requisition '' @ dp_status p) (decided_text p)
              (severityForOutcome (dp_status p)) n))
          else EnqueueAlertEmail deliver now
                 \<lparr>al_to = [dp_requester p], al_title = ''Requisition '' @ dp_status p @ '': '' @ dp_title p,
                  al_message = decided_text p, al_detail = [], al_audience = []\<rparr> n)"

text \<open>\<^verbatim>\<open>Bus.Emit\<close> with the handlers \<^verbatim>\<open>Register\<close> installs: the first error and what the handlers did.\<close>

definition Emit ::
  "(dispatch_request \<Rightarrow> nat \<Rightarrow> bool) \<Rightarrow> timestamp \<Rightarrow> signal \<Rightarrow> notify_state \<Rightarrow> string option \<times> notify_state" where
  "Emit deliver now e n =
     (case (case e of
              ProcurementAlert p \<Rightarrow> onProcurementAlert deliver now p n
            | RequisitionPending p \<Rightarrow> onRequisitionPending now p n
            | RequisitionDecided p \<Rightarrow> onRequisitionDecided deliver now p n
            | OtherSignal _ \<Rightarrow> Inr n) of
        Inl er \<Rightarrow> (Some er, n)
      | Inr n' \<Rightarrow> (None, n'))"

section \<open>Emitting over HTTP\<close>

record emit_body =
  eb_event :: string
  eb_raw :: string
  eb_alert :: "alert option"
  eb_pending :: "pending_payload option"

definition ValidateEmitPayload :: "emit_body \<Rightarrow> bool" where
  "ValidateEmitPayload b \<longleftrightarrow>
     (if eb_event b = ''procurement.alert'' then
        \<not> (eb_raw b = [] \<or> eb_raw b = ''{}'' \<or> eb_raw b = ''null'') \<and>
        (case eb_alert b of
           None \<Rightarrow> False
         | Some p \<Rightarrow> al_to p \<noteq> [] \<and> list_all (\<lambda>a. a \<noteq> []) (al_to p) \<and> \<not> (al_title p = [] \<or> al_message p = []))
      else if eb_event b = ''requisition.pending'' then
        \<not> (eb_raw b = [] \<or> eb_raw b = ''{}'') \<and>
        (case eb_pending b of None \<Rightarrow> False | Some p \<Rightarrow> \<not> (pp_id p = [] \<or> pp_title p = []))
      else False)"

text \<open>
  \<^verbatim>\<open>emitNotification\<close>: a broadcast goes to Redis only (\<open>publish\<close> answers whether that
  succeeded); otherwise the local handlers run.
\<close>

definition emitNotification ::
  "(dispatch_request \<Rightarrow> nat \<Rightarrow> bool) \<Rightarrow> timestamp \<Rightarrow> bool \<Rightarrow> bool \<Rightarrow> emit_body option \<Rightarrow> notify_state \<Rightarrow> nat \<times> notify_state" where
  "emitNotification deliver now publish broadcast body n =
     (case body of
        None \<Rightarrow> (400, n)
      | Some b \<Rightarrow>
          let known = eb_event b = ''procurement.alert'' \<or> eb_event b = ''requisition.pending'' in
          if known \<and> \<not> ValidateEmitPayload b then (400, n)
          else if broadcast then (if publish then 202 else 500, n)
          else if \<not> known then (400, n)
          else
            let (er, n') = Emit deliver now
                   (if eb_event b = ''procurement.alert'' then ProcurementAlert (eb_alert b) else RequisitionPending (eb_pending b)) n
            in (case er of None \<Rightarrow> 202 | Some _ \<Rightarrow> 500, n'))"

section \<open>The HTTP audit log\<close>

record http_audit_row =
  ha_user_id :: "int option"
  ha_actor :: string
  ha_action :: string
  ha_method :: string
  ha_path :: string
  ha_status :: nat

text \<open>\<^verbatim>\<open>Store.List\<close>: newest first.\<close>

definition auditlog_List :: "int \<Rightarrow> http_audit_row list \<Rightarrow> http_audit_row list" where
  "auditlog_List limit rows = (let limit = (if limit \<le> 0 \<or> limit > 500 then 100 else limit) in take (nat limit) (rev rows))"

section \<open>Delivery\<close>

lemma InsertInApp_rows:
  "InsertInApp now ev title body sev n = (i, n') \<Longrightarrow>
     ns_rows n' = ns_rows n @ [(i, \<lparr>in_event_type = ev, in_title = title, in_body = body, in_severity = sev,
       in_read_at = None, in_created_at = now\<rparr>)] \<and> ns_sent n' = ns_sent n"
  by (auto simp: InsertInApp_def Let_def)

lemma valid_emit_succeeds:
  assumes "ValidateEmitPayload b"
  shows "fst (emitNotification deliver now publish False (Some b) n) = 202"
  using assms
  by (auto simp: emitNotification_def ValidateEmitPayload_def Emit_def onProcurementAlert_def onRequisitionPending_def
      EnqueueAlertEmail_def Let_def split: if_splits option.splits prod.splits)

end
