(* ===== verification/Attachments.thy ===== *)
theory Attachments
  imports Store "HOL-Library.List_Lexorder" "HOL-Library.Char_ord" "HOL-Library.Product_Lexorder"
begin

text \<open>
  Attachments of procurement records (\<^verbatim>\<open>internal/handlers/attachments.go\<close>) and the command that
  moves the bytes of migrated ones into the bucket (\<^verbatim>\<open>cmd/backfill-attachments/main.go\<close>).

  \<open>fl_rows\<close> is the shared table \<^verbatim>\<open>public.attachments\<close>, \<open>fl_blobs\<close> the staged bytes,
  \<open>fl_bucket\<close> the object store by key and \<open>fl_grants\<close> the keys a presigned upload was handed out
  for. Whether the store and the database accept a call is a parameter; SHA-256 is the parameter
  \<open>sha\<close>, of which only the comparison with the recorded checksum matters.
\<close>

section \<open>Rows and objects\<close>

record attachment_row =
  at_owner_service :: string
  at_owner_type :: string
  at_owner_ref :: string
  at_filename :: string
  at_mime :: string
  at_size_bytes :: int
  at_storage_key :: "string option"
  at_uploaded_by :: "string option"
  at_checksum :: "string option"
  at_source_blob_id :: "string option"
  at_created_at :: timestamp

record files =
  fl_rows :: "attachment_row table"
  fl_blobs :: "string table"
  fl_bucket :: "string table"
  fl_grants :: "string list"

definition bucket_put :: "string \<Rightarrow> string \<Rightarrow> files \<Rightarrow> files" where
  "bucket_put k v fs = fs\<lparr>fl_bucket := tbl_ins k v (tbl_del k (fl_bucket fs))\<rparr>"

text \<open>The browser uploads to a presigned URL.\<close>

definition browser_upload :: "string \<Rightarrow> string \<Rightarrow> files \<Rightarrow> files option" where
  "browser_upload k v fs = (if k \<in> set (fl_grants fs) then Some (bucket_put k v fs) else None)"

section \<open>The endpoints\<close>

record attachment_create =
  ac_owner_type :: string
  ac_owner_ref :: string
  ac_filename :: string
  ac_mime :: string
  ac_size_bytes :: int

definition storage_key :: "string \<Rightarrow> string \<Rightarrow> string \<Rightarrow> string \<Rightarrow> string" where
  "storage_key svc ty ref i = svc @ ''/'' @ ty @ ''/'' @ ref @ ''/'' @ i"

definition postAttachment ::
  "bool \<Rightarrow> env \<Rightarrow> string \<Rightarrow> attachment_create option \<Rightarrow> files \<Rightarrow> nat \<times> (string \<times> attachment_row) option \<times> files" where
  "postAttachment configured e who body fs =
     (if \<not> configured then (503, None, fs)
      else case body of
          None \<Rightarrow> (400, None, fs)
        | Some b \<Rightarrow>
            let ref = trim_space (ac_owner_ref b); filename = trim_space (ac_filename b);
                ty = (if ac_owner_type b = [] then ''invoice'' else ac_owner_type b);
                mime = (if ac_mime b = [] then ''application/octet-stream'' else ac_mime b);
                i = e_id e; key = storage_key ''procurement'' ty ref i;
                row = \<lparr>at_owner_service = ''procurement'', at_owner_type = ty, at_owner_ref = ref, at_filename = filename,
                       at_mime = mime, at_size_bytes = ac_size_bytes b, at_storage_key = Some key, at_uploaded_by = Some who,
                       at_checksum = None, at_source_blob_id = None, at_created_at = e_now e\<rparr>
            in if ref = [] \<or> filename = [] then (400, None, fs)
               else case insert_row i row (fl_rows fs) of
                   Inl _ \<Rightarrow> (500, None, fs)
                 | Inr t \<Rightarrow> (201, Some (i, row), fs\<lparr>fl_rows := t, fl_grants := key # fl_grants fs\<rparr>))"

text \<open>Each row with whether it is still waiting for its bytes.\<close>

definition listAttachments :: "string \<Rightarrow> string \<Rightarrow> files \<Rightarrow> nat \<times> (string \<times> attachment_row \<times> bool) list" where
  "listAttachments ownerRef ownerType fs =
     (let ref = trim_space ownerRef; ty = trim_space ownerType in
      if ref = [] then (400, [])
      else (200, map (\<lambda>(i, r). (i, r, at_storage_key r = None))
              (sort_key (\<lambda>(_, r). - at_created_at r)
                 (filter (\<lambda>(_, r). at_owner_service r = ''procurement'' \<and> at_owner_ref r = ref \<and> (ty = [] \<or> at_owner_type r = ty))
                    (fl_rows fs)))))"

definition own_attachment :: "string \<Rightarrow> files \<Rightarrow> attachment_row option" where
  "own_attachment i fs =
     (case tbl_get (fl_rows fs) i of
        Some r \<Rightarrow> if at_owner_service r = ''procurement'' then Some r else None
      | None \<Rightarrow> None)"

text \<open>The status, and the file name and key of a download.\<close>

definition getAttachmentURL :: "bool \<Rightarrow> string \<Rightarrow> files \<Rightarrow> nat \<times> (string \<times> string) option" where
  "getAttachmentURL configured i fs =
     (if \<not> configured then (503, None)
      else case own_attachment i fs of
          None \<Rightarrow> (404, None)
        | Some r \<Rightarrow>
            if deref (at_storage_key r) = [] then (409, None) else (200, Some (at_filename r, deref (at_storage_key r))))"

definition deleteAttachment :: "bool \<Rightarrow> bool \<Rightarrow> bool \<Rightarrow> string \<Rightarrow> files \<Rightarrow> nat \<times> files" where
  "deleteAttachment configured store_ok db_ok i fs =
     (if \<not> configured then (503, fs)
      else let i = trim_space i in
        case own_attachment i fs of
          None \<Rightarrow> (404, fs)
        | Some r \<Rightarrow>
            let key = deref (at_storage_key r) in
            if key \<noteq> [] \<and> \<not> store_ok then (500, fs)
            else
              let fs1 = (if key \<noteq> [] then fs\<lparr>fl_bucket := tbl_del key (fl_bucket fs)\<rparr> else fs) in
              if \<not> db_ok then (500, fs1)
              else (204, fs1\<lparr>fl_rows := tbl_del i (fl_rows fs1)\<rparr>))"

section \<open>Backfilling migrated attachments\<close>

type_synonym pending = "string \<times> attachment_row \<times> string"

definition objectKey :: "pending \<Rightarrow> string" where
  "objectKey p =
     (case p of (i, r, _) \<Rightarrow>
        storage_key (if at_owner_service r = [] then ''unassigned'' else at_owner_service r) (at_owner_type r) (at_owner_ref r) i)"

definition staged :: "files \<Rightarrow> string \<times> attachment_row \<Rightarrow> pending list" where
  "staged fs x =
     (case x of (i, r) \<Rightarrow>
        if at_storage_key r = None
        then map (\<lambda>(_, b). (i, r, b)) (filter (\<lambda>(k, _). at_source_blob_id r = Some k) (fl_blobs fs))
        else [])"

definition pending_work :: "string \<Rightarrow> files \<Rightarrow> pending list" where
  "pending_work service fs =
     sort_key (\<lambda>(_, r, _). (at_owner_service r, at_created_at r))
       (concat (map (staged fs) (filter (\<lambda>(_, r). service = [] \<or> at_owner_service r = service) (fl_rows fs))))"

definition checksum_ok :: "(string \<Rightarrow> string) \<Rightarrow> pending \<Rightarrow> bool" where
  "checksum_ok sha p =
     (case p of (_, r, b) \<Rightarrow> deref (at_checksum r) = [] \<or> equal_fold (sha b) (deref (at_checksum r)))"

definition stamp :: "string \<Rightarrow> string \<Rightarrow> files \<Rightarrow> files" where
  "stamp i key fs =
     fs\<lparr>fl_rows := tbl_where (\<lambda>k r. k = i \<and> at_storage_key r = None) (\<lambda>r. r\<lparr>at_storage_key := Some key\<rparr>) (fl_rows fs)\<rparr>"

text \<open>The number of failures, and what the loop did. Upload, and only then stamp.\<close>

fun backfill_loop ::
  "(string \<Rightarrow> string) \<Rightarrow> (string \<Rightarrow> bool) \<Rightarrow> (string \<Rightarrow> bool) \<Rightarrow> pending list \<Rightarrow> files \<Rightarrow> nat \<times> files" where
  "backfill_loop sha put_ok stamp_ok [] fs = (0, fs)"
| "backfill_loop sha put_ok stamp_ok (p # ps) fs =
     (let key = objectKey p; again = (\<lambda>fs. map_prod Suc id (backfill_loop sha put_ok stamp_ok ps fs)) in
      if \<not> checksum_ok sha p then again fs
      else if \<not> put_ok key then again fs
      else
        let fs1 = bucket_put key (snd (snd p)) fs in
        if \<not> stamp_ok (fst p) then again fs1
        else backfill_loop sha put_ok stamp_ok ps (stamp (fst p) key fs1))"

definition backfill_run ::
  "(string \<Rightarrow> string) \<Rightarrow> (string \<Rightarrow> bool) \<Rightarrow> (string \<Rightarrow> bool) \<Rightarrow> bool \<Rightarrow> bool \<Rightarrow> bool \<Rightarrow> string \<Rightarrow> files \<Rightarrow> bool \<times> files" where
  "backfill_run sha put_ok stamp_ok has_dsn has_store dryRun service fs =
     (if \<not> has_dsn then (False, fs)
      else if \<not> has_store \<and> \<not> dryRun then (False, fs)
      else if pending_work service fs = [] \<or> dryRun then (True, fs)
      else case backfill_loop sha put_ok stamp_ok (pending_work service fs) fs of (failed, fs') \<Rightarrow> (failed = 0, fs'))"

section \<open>Keys\<close>

lemma after_last_slash:
  assumes "x @ CHR ''/'' # i = y @ CHR ''/'' # j" and "CHR ''/'' \<notin> set i" and "CHR ''/'' \<notin> set j"
  shows "i = j"
proof -
  have "takeWhile (\<lambda>c. c \<noteq> CHR ''/'') (rev (x @ CHR ''/'' # i)) = rev i"
    and "takeWhile (\<lambda>c. c \<noteq> CHR ''/'') (rev (y @ CHR ''/'' # j)) = rev j"
    using assms(2,3) by (simp_all add: takeWhile_append)
  with assms(1) show ?thesis by simp
qed

lemma storage_key_id:
  assumes "storage_key s t r i = storage_key s' t' r' j" and "CHR ''/'' \<notin> set i" and "CHR ''/'' \<notin> set j"
  shows "i = j"
  by (rule after_last_slash [of "s @ ''/'' @ t @ ''/'' @ r" i "s' @ ''/'' @ t' @ ''/'' @ r'" j])
    (use assms in \<open>simp_all add: storage_key_def\<close>)

lemma storage_key_nonempty [simp]: "storage_key s t r i \<noteq> []"
  by (simp add: storage_key_def)

lemma objectKey_nonempty [simp]: "objectKey p \<noteq> []"
  by (simp add: objectKey_def split: prod.splits)

lemma bucket_get_put [simp]: "tbl_get (fl_bucket (bucket_put k v fs)) k' = (if k' = k then Some v else tbl_get (fl_bucket fs) k')"
  by (simp add: bucket_put_def tbl_get_ins tbl_get_del)

lemma bucket_put_simps [simp]:
  "fl_rows (bucket_put k v fs) = fl_rows fs" "fl_blobs (bucket_put k v fs) = fl_blobs fs"
  "fl_grants (bucket_put k v fs) = fl_grants fs"
  by (simp_all add: bucket_put_def)

lemma stamp_simps [simp]:
  "fl_bucket (stamp i k fs) = fl_bucket fs" "fl_blobs (stamp i k fs) = fl_blobs fs" "fl_grants (stamp i k fs) = fl_grants fs"
  by (simp_all add: stamp_def)

lemma stamp_get:
  "tbl_get (fl_rows (stamp i k fs)) j =
     map_option (\<lambda>r. if j = i \<and> at_storage_key r = None then r\<lparr>at_storage_key := Some k\<rparr> else r) (tbl_get (fl_rows fs) j)"
  by (simp add: stamp_def tbl_get_where)

end
