(* ===== verification/Api.thy ===== *)
theory Api
  imports Listings Access Notifications Attachments
begin

text \<open>
  The HTTP handlers that write (\<^verbatim>\<open>internal/handlers/procurement.go\<close>,
  \<^verbatim>\<open>procurement_writes_more.go\<close>, \<^verbatim>\<open>procurement_patch_delete.go\<close>,
  \<^verbatim>\<open>procurement_patch_delete_more.go\<close>, \<^verbatim>\<open>requisition_approval.go\<close>,
  \<^verbatim>\<open>rfq_quotes.go\<close>, \<^verbatim>\<open>vendor_quality.go\<close>, \<^verbatim>\<open>budget_period.go\<close>): what each
  does with its body, which repository operation it calls, what it answers, and what it does to the
  cached snapshot and the notification feed.

  A body is the decoded struct, \<open>None\<close> when decoding fails; a field tagged
  \<^verbatim>\<open>binding:"required"\<close> must not have its zero value. A patch field is an option, \<open>None\<close>
  when absent. Alerts sent by a detached goroutine after the response are listed in the answer.
\<close>

section \<open>The server\<close>

text \<open>
  The wired parts, the settings, and the libraries: the pattern matcher of the desk matrix, the
  dispatcher of notifications, the token verifier (\<open>None\<close> when it is not configured), the local
  token codec and the password hash.
\<close>

record server =
  sv_wired :: bool
  sv_config :: config
  sv_tiered :: bool
  sv_rx :: regex
  sv_deliver :: "dispatch_request \<Rightarrow> nat \<Rightarrow> bool"
  sv_default_recipient :: string
  sv_mode :: string
  sv_verifier :: "(string \<Rightarrow> (platform_claims \<times> string) option) option"
  sv_parse_token :: "string \<Rightarrow> local_claims option"
  sv_sign :: "local_claims \<Rightarrow> string"
  sv_hash :: "string \<Rightarrow> string"
  sv_matches :: "string \<Rightarrow> string \<Rightarrow> bool"
  sv_files :: bool

text \<open>Per request: the clock and generated keys, the principal, and whether Redis and the object store answer.\<close>

record call =
  ca_env :: env
  ca_ctx :: ctx
  ca_cache_up :: bool
  ca_store_up :: bool

record api =
  as_db :: db
  as_seed :: "seed_data option"
  as_engine :: "registry option"
  as_notify :: notify_state
  as_auth :: auth_db
  as_files :: files
  as_http :: "http_audit_row list"

datatype reply =
    NoBody
  | ErrorBody
  | RRequisition requisition_row
  | RApproval requisition_row approval_progress
  | RPo po_row
  | RPoLines po_row "po_line_row list"
  | RVendor vendor_row
  | RQuality string string
  | RItem item_row
  | RBudget budget_row
  | RRfq rfq_row
  | RQuote quote_row
  | RGrn grn_row
  | RInvoice invoice_row
  | RContract contract_row
  | RClosed string "string list"
  | RChains "chain_meta list option"
  | RDesks "desk_row list"
  | RQueue "queue_item list"
  | RDeskState state
  | RProgress string state progress
  | RTiers "tier_row list"
  | RByOrigin string requisition_row
  | RQuotes "(string \<times> quote_row) list"
  | RSeed seed_data
  | RVendors "vendor_row table"
  | RItems "item_row table"
  | RBudgets "budget_row table"
  | RRequisitions "requisition_row table"
  | RRfqs "rfq_row table"
  | RPos "(string \<times> po_row \<times> po_line_row list) list"
  | RPosPlain "po_row table"
  | RGrns "(string \<times> grn_row \<times> grn_line_row list) list"
  | RInvoices "invoice_row table"
  | RContracts "contract_row table"
  | RPayments "payment_row table"
  | RAudit "audit_row list"
  | RPortalVendor string vendor_row
  | RInbox "(int \<times> inapp_row) list"
  | RHttpAudit "http_audit_row list"
  | RMe "string option" "int option" string bool "string list"
  | RToken string local_claims
  | RPermissions "(int \<times> perm_row) list"
  | RGroups "(int \<times> group_row \<times> string list) list"
  | RUsers "(int \<times> user_row \<times> string list \<times> string list) list"
  | RAttachment string attachment_row
  | RAttachments "(string \<times> attachment_row \<times> bool) list"
  | RUrl string string

record answer =
  an_status :: nat
  an_body :: reply
  an_alerts :: "alert list"

definition answered :: "nat \<Rightarrow> reply \<Rightarrow> alert list \<Rightarrow> answer" where
  "answered st b al = \<lparr>an_status = st, an_body = b, an_alerts = al\<rparr>"

definition refuse :: "nat \<Rightarrow> api \<Rightarrow> answer \<times> api" where
  "refuse st s = (answered st ErrorBody [], s)"

text \<open>\<^verbatim>\<open>InvalidateSeedCache\<close>: an error of Redis is logged and forgotten.\<close>

definition InvalidateSeedCache :: "call \<Rightarrow> api \<Rightarrow> api" where
  "InvalidateSeedCache c s = (if ca_cache_up c then s\<lparr>as_seed := None\<rparr> else s)"

text \<open>The common tail of a write: map the error, or commit, drop the snapshot and answer.\<close>

definition written :: "call \<Rightarrow> nat \<Rightarrow> ('a \<Rightarrow> reply) \<Rightarrow> 'a tx \<Rightarrow> api \<Rightarrow> answer \<times> api" where
  "written c st f r s =
     (case r of
        Inl er \<Rightarrow> refuse (mapProcurementErr er) s
      | Inr (x, d) \<Rightarrow> (answered st (f x) [], InvalidateSeedCache c (s\<lparr>as_db := d\<rparr>)))"

definition ready :: "server \<Rightarrow> api \<Rightarrow> answer \<times> api \<Rightarrow> answer \<times> api" where
  "ready sv s r = (if sv_wired sv then r else refuse 503 s)"

definition actor_of :: "call \<Rightarrow> string" where
  "actor_of c = authActorEmail (ca_ctx c)"

section \<open>Dates of a body\<close>

definition parseOptionalDay :: "string \<Rightarrow> unit + int option" where
  "parseOptionalDay s =
     (let s = trim_space s in
      if s = [] then Inr None else case parse_day s of None \<Rightarrow> Inl () | Some t \<Rightarrow> Inr (Some t))"

text \<open>The patch form: absent leaves the column, blank clears it.\<close>

definition patch_day :: "string option \<Rightarrow> unit + int option option" where
  "patch_day s =
     (case s of
        None \<Rightarrow> Inr None
      | Some s \<Rightarrow>
          let s = trim_space s in
          if s = [] then Inr (Some None) else case parse_day s of None \<Rightarrow> Inl () | Some t \<Rightarrow> Inr (Some (Some t)))"

definition with_day :: "unit + 'a \<Rightarrow> api \<Rightarrow> ('a \<Rightarrow> answer \<times> api) \<Rightarrow> answer \<times> api" where
  "with_day r s k = (case r of Inl _ \<Rightarrow> refuse 400 s | Inr x \<Rightarrow> k x)"

definition with_body :: "'b option \<Rightarrow> ('b \<Rightarrow> bool) \<Rightarrow> api \<Rightarrow> ('b \<Rightarrow> answer \<times> api) \<Rightarrow> answer \<times> api" where
  "with_body body required s k =
     (case body of None \<Rightarrow> refuse 400 s | Some b \<Rightarrow> if required b then k b else refuse 400 s)"

definition valid_status :: "string list \<Rightarrow> string option \<Rightarrow> bool" where
  "valid_status allowed st \<longleftrightarrow> (case st of None \<Rightarrow> True | Some x \<Rightarrow> to_lower (trim_space x) \<in> set allowed)"

section \<open>Requisitions\<close>

record post_requisition_body =
  br_title :: string
  br_dept :: string
  br_priority :: string
  br_needed_by :: string
  br_total :: amount
  br_currency :: string
  br_budget_id :: string
  br_notes :: string

definition postRequisition :: "server \<Rightarrow> call \<Rightarrow> post_requisition_body option \<Rightarrow> api \<Rightarrow> answer \<times> api" where
  "postRequisition sv c body s =
     ready sv s (with_body body (\<lambda>b. br_title b \<noteq> [] \<and> br_budget_id b \<noteq> []) s (\<lambda>b.
       with_day (parseOptionalDay (br_needed_by b)) s (\<lambda>neededBy.
         written c 201 (\<lambda>(_, r). RRequisition r)
           (CreateRequisition (ca_env c) (trim_space (br_title b)) (trim_space (br_dept b)) (actor_of c) (br_priority b) []
              neededBy (br_total b) (br_currency b) (trim_space (br_budget_id b)) (trim_space (br_notes b)) (actor_of c) (as_db s)) s)))"

definition validRequisitionStatuses :: "string list" where
  "validRequisitionStatuses = [''draft'', ''pending approval'', ''approved'', ''rejected'', ''ordered'', ''closed'']"

record patch_requisition_body =
  pr_title :: "string option"
  pr_dept :: "string option"
  pr_priority :: "string option"
  pr_status :: "string option"
  pr_needed_by :: "string option"
  pr_total :: "amount option"
  pr_currency :: "string option"
  pr_budget_id :: "string option"
  pr_notes :: "string option"

text \<open>The in-app companion of the outcome event; its result is dropped.\<close>

definition emitRequisitionStatusChange :: "server \<Rightarrow> call \<Rightarrow> string \<Rightarrow> requisition_row \<Rightarrow> string \<Rightarrow> api \<Rightarrow> api" where
  "emitRequisitionStatusChange sv c i row st s =
     (let outcome = to_lower (trim_space st) in
      if outcome \<noteq> ''approved'' \<and> outcome \<noteq> ''rejected'' then s
      else s\<lparr>as_notify := snd (Emit (sv_deliver sv) (e_now (ca_env c)) (RequisitionDecided (Some
             \<lparr>dp_id = i, dp_title = rq_title row, dp_status = outcome, dp_requester = rq_requester row\<rparr>)) (as_notify s))\<rparr>)"

definition patchRequisition :: "server \<Rightarrow> call \<Rightarrow> string \<Rightarrow> patch_requisition_body option \<Rightarrow> api \<Rightarrow> answer \<times> api" where
  "patchRequisition sv c i body s =
     ready sv s (with_body body (\<lambda>_. True) s (\<lambda>b.
       let i = trim_space i; lst = map_option (\<lambda>x. to_lower (trim_space x)) (Api.pr_status b) in
       if \<not> valid_status validRequisitionStatuses (Api.pr_status b) then refuse 400 s
       else if sv_tiered sv \<and> lst = Some ''approved'' then refuse 409 s
       else with_day (patch_day (pr_needed_by b)) s (\<lambda>needed.
         case UpdateRequisition (sv_config sv) (ca_env c) i (Api.pr_title b) (Api.pr_dept b) (pr_priority b) (Api.pr_status b) (Api.pr_currency b)
                (pr_budget_id b) needed (pr_total b) (pr_notes b) (actor_of c) (as_db s) of
           Inl er \<Rightarrow> refuse (mapProcurementErr er) s
         | Inr (row, d) \<Rightarrow>
             let s1 = InvalidateSeedCache c (s\<lparr>as_db := d\<rparr>) in
             (answered 200 (RRequisition row) [],
              case Api.pr_status b of None \<Rightarrow> s1 | Some st \<Rightarrow> emitRequisitionStatusChange sv c i row st s1))))"

definition deleteRequisition :: "server \<Rightarrow> call \<Rightarrow> string \<Rightarrow> api \<Rightarrow> answer \<times> api" where
  "deleteRequisition sv c i s =
     ready sv s (written c 204 (\<lambda>_. NoBody) (DeleteRequisition (trim_space i) (actor_of c) (as_db s)) s)"

text \<open>
  The tiered signatures. \<open>note\<close> is the bound body: \<open>None\<close> for malformed JSON, the blank note for an
  empty body.
\<close>

definition approveRequisition :: "server \<Rightarrow> call \<Rightarrow> string \<Rightarrow> string option \<Rightarrow> api \<Rightarrow> answer \<times> api" where
  "approveRequisition sv c i nt s =
     ready sv s (with_body nt (\<lambda>_. True) s (\<lambda>nt.
       let i = trim_space i in
       case ApproveRequisitionTier (sv_config sv) (ca_env c) i (actor_of c) (Some (HasPerm (ca_ctx c))) (trim_space nt) (as_db s) of
         Inl er \<Rightarrow> refuse (mapProcurementErr er) s
       | Inr ((row, progress), d) \<Rightarrow>
           let s1 = InvalidateSeedCache c (s\<lparr>as_db := d\<rparr>) in
           (answered 200 (RApproval row progress) [],
            if ap_complete progress then emitRequisitionStatusChange sv c i row ''approved'' s1 else s1)))"

definition rejectRequisition :: "server \<Rightarrow> call \<Rightarrow> string \<Rightarrow> string option \<Rightarrow> api \<Rightarrow> answer \<times> api" where
  "rejectRequisition sv c i nt s =
     ready sv s (with_body nt (\<lambda>_. True) s (\<lambda>nt.
       let i = trim_space i in
       case RejectRequisitionTiered (sv_config sv) (ca_env c) i (actor_of c) (Some (HasPerm (ca_ctx c))) (trim_space nt) (as_db s) of
         Inl er \<Rightarrow> refuse (mapProcurementErr er) s
       | Inr ((row, progress), d) \<Rightarrow>
           (answered 200 (RApproval row progress) [],
            emitRequisitionStatusChange sv c i row ''rejected'' (InvalidateSeedCache c (s\<lparr>as_db := d\<rparr>)))))"

section \<open>Purchase orders\<close>

record post_po_body =
  bp_vendor_id :: string
  bp_title :: string
  bp_budget_id :: string
  bp_currency :: string
  bp_expected_date :: string
  bp_requisition_id :: string
  bp_items :: "order_line list"

text \<open>
  The two unwrapped errors of \<^verbatim>\<open>CreatePurchaseOrder\<close>, a missing and an invalid line, are recognised
  by their message and answered with 400.
\<close>

definition postPurchaseOrder :: "server \<Rightarrow> call \<Rightarrow> post_po_body option \<Rightarrow> api \<Rightarrow> answer \<times> api" where
  "postPurchaseOrder sv c body s =
     ready sv s (with_body body (\<lambda>b. bp_vendor_id b \<noteq> [] \<and> bp_title b \<noteq> [] \<and> bp_budget_id b \<noteq> [] \<and> bp_items b \<noteq> []) s (\<lambda>b.
       with_day (parseOptionalDay (bp_expected_date b)) s (\<lambda>ex.
         let r = CreatePurchaseOrder (sv_config sv) (ca_env c) (trim_space (bp_vendor_id b)) (trim_space (bp_title b)) (bp_currency b)
                   (trim_space (bp_budget_id b)) (trim_space (bp_requisition_id b)) ex (bp_items b) (actor_of c) (as_db s)
         in case r of
              Inl ErrPlain \<Rightarrow> refuse 400 s
            | _ \<Rightarrow> written c 201 (\<lambda>(_, p). RPo p) r s)))"

definition validPoStatuses :: "string list" where
  "validPoStatuses = [''draft'', ''pending approval'', ''approved'', ''rejected'', ''ordered'', ''received'', ''closed'', ''cancelled'']"

record patch_po_body =
  pp_vendor_id :: "string option"
  pp_po_title :: "string option"
  pp_currency :: "string option"
  pp_status :: "string option"
  pp_expected_date :: "string option"
  pp_budget_id :: "string option"
  pp_items :: "order_line list option"
  pp_requisition_id :: "string option"

definition patchPurchaseOrder :: "server \<Rightarrow> call \<Rightarrow> string \<Rightarrow> patch_po_body option \<Rightarrow> api \<Rightarrow> answer \<times> api" where
  "patchPurchaseOrder sv c i body s =
     ready sv s (with_body body (\<lambda>_. True) s (\<lambda>b.
       if \<not> valid_status validPoStatuses (pp_status b) then refuse 400 s
       else with_day (patch_day (pp_expected_date b)) s (\<lambda>ex.
         written c 200 (\<lambda>(p, ls). RPoLines p ls)
           (UpdatePurchaseOrder (trim_space i) (pp_vendor_id b) (pp_po_title b) (pp_currency b) (pp_status b) ex (pp_budget_id b) (pp_items b)
              (map_option trim_space (pp_requisition_id b)) (actor_of c) (as_db s)) s)))"

definition deletePurchaseOrder :: "server \<Rightarrow> call \<Rightarrow> string \<Rightarrow> api \<Rightarrow> answer \<times> api" where
  "deletePurchaseOrder sv c i s =
     ready sv s (written c 204 (\<lambda>_. NoBody) (DeletePurchaseOrder (trim_space i) (actor_of c) (as_db s)) s)"

section \<open>Vendors\<close>

record post_vendor_body =
  bv_name :: string
  bv_logo :: string
  bv_category :: string
  bv_contact :: string
  bv_email :: string
  bv_phone :: string
  bv_country :: string
  bv_terms :: string
  bv_rating :: amount
  bv_status :: string

definition postVendor :: "server \<Rightarrow> call \<Rightarrow> post_vendor_body option \<Rightarrow> api \<Rightarrow> answer \<times> api" where
  "postVendor sv c body s =
     ready sv s (with_body body (\<lambda>b. bv_name b \<noteq> []) s (\<lambda>b.
       written c 201 (\<lambda>(_, v). RVendor v)
         (CreateVendor (sv_config sv) (ca_env c) (trim_space (bv_name b)) (trim_space (bv_logo b)) (trim_space (bv_category b))
            (trim_space (bv_contact b)) (trim_space (bv_email b)) (trim_space (bv_phone b)) (trim_space (bv_country b))
            (trim_space (bv_terms b)) (bv_rating b) (trim_space (bv_status b)) (actor_of c) (as_db s)) s))"

record patch_vendor_body =
  pv_name :: "string option"
  pv_logo :: "string option"
  pv_category :: "string option"
  pv_contact :: "string option"
  pv_email :: "string option"
  pv_phone :: "string option"
  pv_country :: "string option"
  pv_terms :: "string option"
  pv_rating :: "amount option"
  pv_status :: "string option"

definition patchVendor :: "server \<Rightarrow> call \<Rightarrow> string \<Rightarrow> patch_vendor_body option \<Rightarrow> api \<Rightarrow> answer \<times> api" where
  "patchVendor sv c i body s =
     ready sv s (with_body body (\<lambda>_. True) s (\<lambda>b.
       written c 200 RVendor
         (UpdateVendor (sv_config sv) (ca_env c) (trim_space i) (pv_name b) (pv_logo b) (pv_category b) (pv_contact b) (pv_email b)
            (pv_phone b) (pv_country b) (pv_terms b) (pv_rating b) (pv_status b) (actor_of c) (as_db s)) s))"

definition deleteVendor :: "server \<Rightarrow> call \<Rightarrow> string \<Rightarrow> api \<Rightarrow> answer \<times> api" where
  "deleteVendor sv c i s =
     ready sv s (written c 204 (\<lambda>_. NoBody) (DeleteVendor (sv_config sv) (ca_env c) (trim_space i) (actor_of c) (as_db s)) s)"

definition patchVendorQualityStatus :: "server \<Rightarrow> call \<Rightarrow> string \<Rightarrow> (string \<times> string) option \<Rightarrow> api \<Rightarrow> answer \<times> api" where
  "patchVendorQualityStatus sv c i body s =
     ready sv s (with_body body (\<lambda>_. True) s (\<lambda>(st, reason).
       written c 200 (\<lambda>_. RQuality (trim_space i) (to_lower (trim_space st)))
         (SetVendorQualityStatus (ca_env c) (trim_space i) st reason (actor_of c) (as_db s)) s))"

section \<open>Items, budgets and contracts\<close>

record post_item_body =
  bi_sku :: string
  bi_name :: string
  bi_category :: string
  bi_uom :: string
  bi_stock :: amount
  bi_reorder :: amount
  bi_last_price :: amount
  bi_currency :: string
  bi_preferred_vendor_id :: string
  bi_attrs :: string

definition postItem :: "server \<Rightarrow> call \<Rightarrow> post_item_body option \<Rightarrow> api \<Rightarrow> answer \<times> api" where
  "postItem sv c body s =
     ready sv s (with_body body (\<lambda>b. bi_sku b \<noteq> [] \<and> bi_name b \<noteq> []) s (\<lambda>b.
       written c 201 (\<lambda>(_, i). RItem i)
         (CreateItem (ca_env c) (bi_sku b) (bi_name b) (trim_space (bi_category b)) (trim_space (bi_uom b)) (bi_stock b) (bi_reorder b)
            (bi_last_price b) (trim_space (bi_currency b)) (bi_preferred_vendor_id b) (bi_attrs b) (actor_of c) (as_db s)) s))"

record patch_item_body =
  pi_sku :: "string option"
  pi_name :: "string option"
  pi_category :: "string option"
  pi_uom :: "string option"
  pi_stock :: "amount option"
  pi_reorder :: "amount option"
  pi_last_price :: "amount option"
  pi_currency :: "string option"
  pi_preferred_vendor_id :: "string option"
  pi_attrs :: string

definition patchItem :: "server \<Rightarrow> call \<Rightarrow> string \<Rightarrow> patch_item_body option \<Rightarrow> api \<Rightarrow> answer \<times> api" where
  "patchItem sv c i body s =
     ready sv s (with_body body (\<lambda>_. True) s (\<lambda>b.
       written c 200 RItem
         (UpdateItem (trim_space i) (pi_sku b) (pi_name b) (pi_category b) (pi_uom b) (pi_stock b) (pi_reorder b) (pi_last_price b)
            (pi_currency b) (map_option trim_space (pi_preferred_vendor_id b)) (pi_attrs b) (actor_of c) (as_db s)) s))"

definition deleteItem :: "server \<Rightarrow> call \<Rightarrow> string \<Rightarrow> api \<Rightarrow> answer \<times> api" where
  "deleteItem sv c i s = ready sv s (written c 204 (\<lambda>_. NoBody) (DeleteItem (trim_space i) (actor_of c) (as_db s)) s)"

record post_budget_body =
  bb_code :: string
  bb_period :: string
  bb_allocated :: amount
  bb_dept :: string

definition postBudget :: "server \<Rightarrow> call \<Rightarrow> post_budget_body option \<Rightarrow> api \<Rightarrow> answer \<times> api" where
  "postBudget sv c body s =
     ready sv s (with_body body (\<lambda>b. bb_code b \<noteq> []) s (\<lambda>b.
       written c 201 (\<lambda>(_, r). RBudget r)
         (CreateBudget (ca_env c) (trim_space (bb_code b)) (trim_space (bb_period b)) (bb_allocated b) (trim_space (bb_dept b))
            (actor_of c) (as_db s)) s))"

record patch_budget_body =
  pb_code :: "string option"
  pb_period :: "string option"
  pb_allocated :: "amount option"
  pb_dept :: "string option"

definition patchBudget :: "server \<Rightarrow> call \<Rightarrow> string \<Rightarrow> patch_budget_body option \<Rightarrow> api \<Rightarrow> answer \<times> api" where
  "patchBudget sv c i body s =
     ready sv s (with_body body (\<lambda>_. True) s (\<lambda>b.
       written c 200 RBudget
         (UpdateBudget (trim_space i) (pb_code b) (pb_period b) (pb_allocated b) (pb_dept b) (actor_of c) (as_db s)) s))"

definition deleteBudget :: "server \<Rightarrow> call \<Rightarrow> string \<Rightarrow> api \<Rightarrow> answer \<times> api" where
  "deleteBudget sv c i s = ready sv s (written c 204 (\<lambda>_. NoBody) (DeleteBudget (trim_space i) (actor_of c) (as_db s)) s)"

record close_period_body =
  bc_policy :: string
  bc_period :: string
  bc_budget_id :: string

definition closeBudgetPeriod :: "server \<Rightarrow> call \<Rightarrow> close_period_body option \<Rightarrow> api \<Rightarrow> answer \<times> api" where
  "closeBudgetPeriod sv c body s =
     ready sv s (with_body body (\<lambda>b. bc_policy b \<noteq> []) s (\<lambda>b.
       written c 200 (RClosed (to_lower (trim_space (bc_policy b))))
         (CloseBudgetPeriod (ca_env c) (trim_space (bc_policy b))
            \<lparr>bf_period = trim_space (bc_period b), bf_budget_id = trim_space (bc_budget_id b), bf_due_only = False\<rparr>
            (actor_of c) (as_db s)) s))"

record post_contract_body =
  bk_vendor_id :: string
  bk_title :: string
  bk_start_date :: string
  bk_end_date :: string
  bk_value :: amount
  bk_currency :: string
  bk_status :: string
  bk_committed_volume :: amount

definition postContract :: "server \<Rightarrow> call \<Rightarrow> post_contract_body option \<Rightarrow> api \<Rightarrow> answer \<times> api" where
  "postContract sv c body s =
     ready sv s (with_body body (\<lambda>b. bk_vendor_id b \<noteq> [] \<and> bk_title b \<noteq> []) s (\<lambda>b.
       with_day (parseOptionalDay (bk_start_date b)) s (\<lambda>sd.
       with_day (parseOptionalDay (bk_end_date b)) s (\<lambda>ed.
         written c 201 (\<lambda>(_, r). RContract r)
           (CreateContract (ca_env c) (trim_space (bk_vendor_id b)) (trim_space (bk_title b)) sd ed (bk_value b)
              (trim_space (bk_currency b)) (trim_space (bk_status b)) (bk_committed_volume b) (actor_of c) (as_db s)) s))))"

record patch_contract_body =
  pk_vendor_id :: "string option"
  pk_title :: "string option"
  pk_start_date :: "string option"
  pk_end_date :: "string option"
  pk_value :: "amount option"
  pk_currency :: "string option"
  pk_status :: "string option"
  pk_committed_volume :: "amount option"

definition patchContract :: "server \<Rightarrow> call \<Rightarrow> string \<Rightarrow> patch_contract_body option \<Rightarrow> api \<Rightarrow> answer \<times> api" where
  "patchContract sv c i body s =
     ready sv s (with_body body (\<lambda>_. True) s (\<lambda>b.
       with_day (patch_day (pk_start_date b)) s (\<lambda>sd.
       with_day (patch_day (pk_end_date b)) s (\<lambda>ed.
         written c 200 RContract
           (UpdateContract (trim_space i) (pk_vendor_id b) (pk_title b) sd ed (pk_value b) (pk_currency b) (pk_status b)
              (pk_committed_volume b) (actor_of c) (as_db s)) s))))"

definition deleteContract :: "server \<Rightarrow> call \<Rightarrow> string \<Rightarrow> api \<Rightarrow> answer \<times> api" where
  "deleteContract sv c i s = ready sv s (written c 204 (\<lambda>_. NoBody) (DeleteContract (trim_space i) (actor_of c) (as_db s)) s)"

section \<open>Requests for quotation\<close>

record post_rfq_body =
  bq_title :: string
  bq_due_date :: string
  bq_invited :: "string list"
  bq_requisition_id :: string

definition postRfq :: "server \<Rightarrow> call \<Rightarrow> post_rfq_body option \<Rightarrow> api \<Rightarrow> answer \<times> api" where
  "postRfq sv c body s =
     ready sv s (with_body body (\<lambda>b. bq_title b \<noteq> []) s (\<lambda>b.
       with_day (parseOptionalDay (bq_due_date b)) s (\<lambda>due.
         written c 201 (\<lambda>(_, f). RRfq f)
           (CreateRfq (ca_env c) (trim_space (bq_title b)) due (bq_invited b) (trim_space (bq_requisition_id b)) (actor_of c) (as_db s)) s)))"

definition validRfqStatuses :: "string list" where
  "validRfqStatuses = [''draft'', ''open'', ''closed'', ''awarded'', ''cancelled'']"

record patch_rfq_body =
  pq_title :: "string option"
  pq_status :: "string option"
  pq_due_date :: "string option"
  pq_winner :: "string option"
  pq_invited :: "string list option"
  pq_requisition_id :: "string option"

definition patchRfq :: "server \<Rightarrow> call \<Rightarrow> string \<Rightarrow> patch_rfq_body option \<Rightarrow> api \<Rightarrow> answer \<times> api" where
  "patchRfq sv c i body s =
     ready sv s (with_body body (\<lambda>_. True) s (\<lambda>b.
       if \<not> valid_status validRfqStatuses (pq_status b) then refuse 400 s
       else with_day (patch_day (pq_due_date b)) s (\<lambda>due.
         written c 200 RRfq
           (UpdateRfq (trim_space i) (pq_title b) (pq_status b) due (map_option trim_space (pq_winner b)) (pq_invited b)
              (map_option trim_space (pq_requisition_id b)) (actor_of c) (as_db s)) s)))"

definition deleteRfq :: "server \<Rightarrow> call \<Rightarrow> string \<Rightarrow> api \<Rightarrow> answer \<times> api" where
  "deleteRfq sv c i s = ready sv s (written c 204 (\<lambda>_. NoBody) (DeleteRfq (trim_space i) (actor_of c) (as_db s)) s)"

record post_quote_body =
  bt_vendor_id :: string
  bt_amount :: amount
  bt_currency :: string
  bt_notes :: string

definition postRfqQuote :: "server \<Rightarrow> call \<Rightarrow> string \<Rightarrow> post_quote_body option \<Rightarrow> api \<Rightarrow> answer \<times> api" where
  "postRfqQuote sv c i body s =
     ready sv s (with_body body (\<lambda>b. bt_vendor_id b \<noteq> []) s (\<lambda>b.
       written c 201 (\<lambda>(_, q). RQuote q)
         (CreateRfqQuote (ca_env c) (trim_space i) (trim_space (bt_vendor_id b)) (bt_amount b) (trim_space (bt_currency b)) (bt_notes b)
            (actor_of c) (as_db s)) s))"

record award_body =
  ba_quote_id :: string
  ba_vendor_id :: string
  ba_budget_id :: string
  ba_expected_date :: string

definition awardRfq :: "server \<Rightarrow> call \<Rightarrow> string \<Rightarrow> award_body option \<Rightarrow> api \<Rightarrow> answer \<times> api" where
  "awardRfq sv c i body s =
     ready sv s (with_body body (\<lambda>_. True) s (\<lambda>b.
       with_day (parseOptionalDay (ba_expected_date b)) s (\<lambda>ex.
         written c 201 (\<lambda>(_, p). RPo p)
           (AwardRfq (sv_config sv) (ca_env c) (trim_space i) (trim_space (ba_quote_id b)) (trim_space (ba_vendor_id b))
              (trim_space (ba_budget_id b)) ex (actor_of c) (as_db s)) s)))"

section \<open>Goods receipts\<close>

record post_grn_body =
  bg_vendor_id :: string
  bg_po_id :: "string option"
  bg_received_by :: string
  bg_status :: string
  bg_received_date :: string
  bg_lines :: "order_line list"
  bg_quality_critical :: bool
  bg_qc_status :: string
  bg_warehouse :: string
  bg_notes :: string

definition opt_po :: "string option \<Rightarrow> string option" where
  "opt_po p = (case p of None \<Rightarrow> None | Some x \<Rightarrow> nullif_blank (trim_space x))"

definition postGrn :: "server \<Rightarrow> call \<Rightarrow> post_grn_body option \<Rightarrow> api \<Rightarrow> answer \<times> api" where
  "postGrn sv c body s =
     ready sv s (with_body body (\<lambda>b. bg_vendor_id b \<noteq> []) s (\<lambda>b.
       with_day (parseOptionalDay (bg_received_date b)) s (\<lambda>rd.
         written c 201 (\<lambda>(_, g). RGrn g)
           (CreateGrn (sv_config sv) (ca_env c) (trim_space (bg_vendor_id b)) (opt_po (bg_po_id b)) (trim_space (bg_received_by b))
              (trim_space (bg_status b)) rd (bg_lines b) (bg_quality_critical b) (trim_space (bg_qc_status b))
              (trim_space (bg_warehouse b)) (trim_space (bg_notes b)) (actor_of c) (as_db s)) s)))"

record patch_grn_body =
  pg_po_id :: "string option"
  pg_vendor_id :: "string option"
  pg_received_date :: "string option"
  pg_received_by :: "string option"
  pg_status :: "string option"
  pg_lines :: "order_line list option"
  pg_quality_critical :: "bool option"
  pg_qc_status :: "string option"
  pg_warehouse :: "string option"
  pg_notes :: "string option"

definition patchGrn :: "server \<Rightarrow> call \<Rightarrow> string \<Rightarrow> patch_grn_body option \<Rightarrow> api \<Rightarrow> answer \<times> api" where
  "patchGrn sv c i body s =
     ready sv s (with_body body (\<lambda>_. True) s (\<lambda>b.
       with_day (patch_day (pg_received_date b)) s (\<lambda>rd.
         written c 200 RGrn
           (UpdateGrn (sv_config sv) (ca_env c) (trim_space i) (pg_vendor_id b) (map_option trim_space (pg_po_id b)) rd (pg_received_by b)
              (pg_status b) (pg_lines b) (pg_quality_critical b) (pg_qc_status b) (pg_warehouse b) (pg_notes b) (actor_of c) (as_db s)) s)))"

definition deleteGrn :: "server \<Rightarrow> call \<Rightarrow> string \<Rightarrow> api \<Rightarrow> answer \<times> api" where
  "deleteGrn sv c i s = ready sv s (written c 204 (\<lambda>_. NoBody) (DeleteGrn (trim_space i) (actor_of c) (as_db s)) s)"

section \<open>Invoices\<close>

record post_invoice_body =
  bn_vendor_id :: string
  bn_po_id :: "string option"
  bn_amount :: amount
  bn_currency :: string
  bn_invoice_date :: string
  bn_invoice_no :: "string option"
  bn_variance_resolution :: string
  bn_due_date :: string

definition postInvoice :: "server \<Rightarrow> call \<Rightarrow> post_invoice_body option \<Rightarrow> api \<Rightarrow> answer \<times> api" where
  "postInvoice sv c body s =
     ready sv s (with_body body (\<lambda>b. bn_vendor_id b \<noteq> []) s (\<lambda>b.
       with_day (parseOptionalDay (bn_invoice_date b)) s (\<lambda>idate.
       with_day (parseOptionalDay (bn_due_date b)) s (\<lambda>due.
         written c 201 (\<lambda>(_, v). RInvoice v)
           (CreateInvoice (sv_config sv) (ca_env c) (trim_space (bn_vendor_id b)) (opt_po (bn_po_id b)) (bn_amount b)
              (trim_space (bn_currency b)) idate (bn_invoice_no b) (trim_space (bn_variance_resolution b)) due (actor_of c) (as_db s)) s))))"

definition validInvoiceStatuses :: "string list" where
  "validInvoiceStatuses = [''pending'', ''approved'', ''paid'', ''disputed'', ''rejected'', ''cancelled'']"

record patch_invoice_body =
  pn_invoice_no :: "string option"
  pn_vendor_id :: "string option"
  pn_po_id :: "string option"
  pn_amount :: "amount option"
  pn_currency :: "string option"
  pn_status :: "string option"
  pn_invoice_date :: "string option"
  pn_variance_resolution :: "string option"
  pn_due_date :: "string option"

definition patchInvoice :: "server \<Rightarrow> call \<Rightarrow> string \<Rightarrow> patch_invoice_body option \<Rightarrow> api \<Rightarrow> answer \<times> api" where
  "patchInvoice sv c i body s =
     ready sv s (with_body body (\<lambda>_. True) s (\<lambda>b.
       let lst = map_option (\<lambda>x. to_lower (trim_space x)) (pn_status b) in
       if \<not> valid_status validInvoiceStatuses (pn_status b) then refuse 400 s
       else if lst = Some ''approved'' \<or> lst = Some ''paid'' then refuse 409 s
       else with_day (patch_day (pn_invoice_date b)) s (\<lambda>idate.
            with_day (patch_day (pn_due_date b)) s (\<lambda>due.
         written c 200 RInvoice
           (UpdateInvoice (trim_space i) (map_option trim_space (pn_invoice_no b)) (pn_vendor_id b) (map_option trim_space (pn_po_id b))
              (pn_amount b) (pn_currency b) (pn_status b) None idate (pn_variance_resolution b) due (actor_of c) (as_db s)) s))))"

definition deleteInvoice :: "server \<Rightarrow> call \<Rightarrow> string \<Rightarrow> api \<Rightarrow> answer \<times> api" where
  "deleteInvoice sv c i s = ready sv s (written c 204 (\<lambda>_. NoBody) (DeleteInvoice (trim_space i) (actor_of c) (as_db s)) s)"

definition invoiceApprovalAudience :: string where
  "invoiceApprovalAudience = ''approvals.procurement''"

definition nonEmpty :: "string list \<Rightarrow> string list" where
  "nonEmpty xs = filter (\<lambda>x. x \<noteq> []) (map trim_space xs)"

definition notifyInvoiceApproved :: "server \<Rightarrow> call \<Rightarrow> string \<Rightarrow> invoice_row \<Rightarrow> alert" where
  "notifyInvoiceApproved sv c i v =
     (let amt = inv_currency v @ '' '' @ fmt_2f (inv_amount v);
          no = trim_space (deref (inv_invoice_no v));
          ref = (if no \<noteq> [] then no else i);
          po = trim_space (deref (inv_po_id v));
          detail = ''Vendor '' @ inv_vendor_id v @ ''. Three-way match: '' @ inv_match_status v @ ''.'' @
            (if po \<noteq> [] then '' PO '' @ po @ ''.'' else [])
      in \<lparr>al_to = nonEmpty [sv_default_recipient sv], al_title = ''Invoice approved for payment: '' @ ref,
          al_message = ''Invoice '' @ ref @ '' ('' @ amt @ '') was approved for payment by '' @ actor_of c @ ''.'',
          al_detail = detail, al_audience = invoiceApprovalAudience\<rparr>)"

definition approveInvoice :: "server \<Rightarrow> call \<Rightarrow> string \<Rightarrow> api \<Rightarrow> answer \<times> api" where
  "approveInvoice sv c i s =
     ready sv s (case ApproveInvoice (sv_config sv) (trim_space i) (actor_of c) (as_db s) of
        Inl er \<Rightarrow> refuse (mapProcurementErr er) s
      | Inr (v, d) \<Rightarrow>
          (answered 200 (RInvoice v) [notifyInvoiceApproved sv c (trim_space i) v], InvalidateSeedCache c (s\<lparr>as_db := d\<rparr>)))"

end
