(* ===== verification/Api_Desk.thy ===== *)
theory Api_Desk
  imports Api
begin

text \<open>
  The desk-chain endpoints (\<^verbatim>\<open>internal/handlers/requisition_desk_chain.go\<close>): the acting user
  taken from the verified token, the shared body of every desk action, the desk matrix, and who is
  told about a transition.

  The engine built from the desk matrix is cached in \<open>as_engine\<close>, filled by whichever call needs it
  first.
\<close>

section \<open>The acting user\<close>

definition deskActor :: "ctx \<Rightarrow> actor" where
  "deskActor x =
     \<lparr>a_id = authActorEmail x,
      a_roles = (case cx_claims x of
          None \<Rightarrow> []
        | Some cl \<Rightarrow> pc_roles cl @ (if pc_roles cl = [] then pc_groups cl else [])),
      a_admin = (cx_super x = Some True),
      a_has_perm = Some (HasPerm x),
      a_attrs = Map.empty\<rparr>"

section \<open>The engine and the matrix\<close>

definition with_engine :: "server \<Rightarrow> api \<Rightarrow> (registry \<Rightarrow> api \<Rightarrow> answer \<times> api) \<Rightarrow> answer \<times> api" where
  "with_engine sv s k =
     (case DeskEngine (sv_rx sv) (as_engine s) (as_db s) of
        Inl er \<Rightarrow> refuse (mapProcurementErr er) s
      | Inr eng \<Rightarrow> k eng (s\<lparr>as_engine := Some eng\<rparr>))"

definition listApprovalChains :: "server \<Rightarrow> api \<Rightarrow> answer \<times> api" where
  "listApprovalChains sv s = ready sv s (with_engine sv s (\<lambda>eng s. (answered 200 (RChains (Meta eng)) [], s)))"

definition api_listDeskMatrix :: "server \<Rightarrow> api \<Rightarrow> answer \<times> api" where
  "api_listDeskMatrix sv s = ready sv s (answered 200 (RDesks (ListDeskMatrix (as_db s))) [], s)"

text \<open>The matrix is committed before the engine is rebuilt, so a failed rebuild leaves the new rows.\<close>

definition putDeskChain :: "server \<Rightarrow> string \<Rightarrow> desk_row list option \<Rightarrow> api \<Rightarrow> answer \<times> api" where
  "putDeskChain sv key body s =
     ready sv s (with_body body (\<lambda>desks. desks \<noteq> []) s (\<lambda>desks.
       case ReplaceDeskChain (sv_rx sv) (as_engine s) (trim_space key) desks (as_db s) of
         (r, d, eng) \<Rightarrow>
           let s' = s\<lparr>as_db := d, as_engine := eng\<rparr> in
           (case r of Inl er \<Rightarrow> refuse (mapProcurementErr er) s' | Inr rows \<Rightarrow> (answered 200 (RDesks rows) [], s'))))"

definition api_deleteDeskChain :: "server \<Rightarrow> string \<Rightarrow> api \<Rightarrow> answer \<times> api" where
  "api_deleteDeskChain sv key s =
     ready sv s
       (case DeleteDeskChain (sv_rx sv) (as_engine s) (trim_space key) (as_db s) of
          (r, d, eng) \<Rightarrow>
            let s' = s\<lparr>as_db := d, as_engine := eng\<rparr> in
            (case r of Inl er \<Rightarrow> refuse (mapProcurementErr er) s' | Inr _ \<Rightarrow> (answered 204 NoBody [], s')))"

definition api_reloadDeskChains :: "server \<Rightarrow> api \<Rightarrow> answer \<times> api" where
  "api_reloadDeskChains sv s =
     ready sv s
       (case ReloadDeskChains (sv_rx sv) (as_db s) of
          Inl er \<Rightarrow> refuse (mapProcurementErr er) s
        | Inr eng \<Rightarrow> (answered 200 (RChains (Meta eng)) [], s\<lparr>as_engine := Some eng\<rparr>))"

section \<open>Queue and tracker\<close>

text \<open>An engine error inside the queue is not mapped onto the repository's errors: it is a 500.\<close>

definition approvalDesk :: "server \<Rightarrow> call \<Rightarrow> api \<Rightarrow> answer \<times> api" where
  "approvalDesk sv c s =
     ready sv s (with_engine sv s (\<lambda>eng s.
       case DeskQueue eng (deskActor (ca_ctx c)) (as_db s) of
         Inl _ \<Rightarrow> refuse 500 s
       | Inr items \<Rightarrow> (answered 200 (RQueue items) [], s)))"

definition getRequisitionDeskProgress :: "server \<Rightarrow> string \<Rightarrow> api \<Rightarrow> answer \<times> api" where
  "getRequisitionDeskProgress sv i s =
     ready sv s (with_engine sv s (\<lambda>eng s.
       case DeskProgress eng (trim_space i) (as_db s) of
         Inl er \<Rightarrow> refuse (mapProcurementErr er) s
       | Inr (st, p) \<Rightarrow> (answered 200 (RProgress (trim_space i) st p) [], s)))"

section \<open>Opening a chain\<close>

record desk_open_body =
  do_chain :: string
  do_skip :: "string list"

definition openRequisitionDeskChain :: "server \<Rightarrow> call \<Rightarrow> string \<Rightarrow> desk_open_body option \<Rightarrow> api \<Rightarrow> answer \<times> api" where
  "openRequisitionDeskChain sv c i body s =
     ready sv s (with_body body (\<lambda>_. True) s (\<lambda>b.
       let ch = (if trim_space (do_chain b) = [] then ''requisition'' else trim_space (do_chain b));
           skip = filter (\<lambda>k. k \<noteq> []) (map trim_space (do_skip b));
           who = a_id (deskActor (ca_ctx c))
       in if trim_space i = [] \<or> blank who then refuse 400 s
          else with_engine sv s (\<lambda>eng s.
            case OpenDeskChain (ca_env c) eng (trim_space i) ch who skip (as_db s) of
              Inl er \<Rightarrow> refuse (mapProcurementErr er) s
            | Inr (st, d) \<Rightarrow> (answered 201 (RDeskState st) [], s\<lparr>as_db := d\<rparr>))))"

section \<open>Telling the next person\<close>

text \<open>The join of active users with their groups.\<close>

definition desk_holders :: "auth_db \<Rightarrow> (string \<times> string) list" where
  "desk_holders a =
     remdups (concat (map (\<lambda>(uid, u).
       if us_active u then map (\<lambda>(_, g). (us_email u, gp_name g)) (filter (\<lambda>(gid, _). (uid, gid) \<in> set (ad_user_groups a)) (ad_groups a))
       else []) (ad_users a)))"

definition notifyDeskTransition :: "registry \<Rightarrow> auth_db \<Rightarrow> string \<Rightarrow> state \<Rightarrow> progress \<Rightarrow> alert list" where
  "notifyDeskTransition eng a i st p =
     (let told = (\<lambda>to title msg.
            if nonEmpty to = [] then []
            else [\<lparr>al_to = nonEmpty to, al_title = title, al_message = msg, al_detail = p_chain_label p, al_audience = []\<rparr>])
      in case s_status st of
           StatusInFlight \<Rightarrow>
             (case DeskRecipients eng (s_chain_key st) (s_desk st) (s_requester st) (desk_holders a) of
                Inl _ \<Rightarrow> []
              | Inr to \<Rightarrow> told to (''Requisition awaiting '' @ p_waiting_on p) (i @ '' is on your desk: '' @ p_action_label p @ ''.''))
         | StatusReturned \<Rightarrow> told [s_requester st] ''Requisition returned for amendment'' (i @ '' was returned: '' @ LastReason st)
         | StatusRejected \<Rightarrow> told [s_requester st] ''Requisition rejected'' (i @ '' was rejected: '' @ LastReason st)
         | StatusApproved \<Rightarrow> told [s_requester st] (''Requisition '' @ to_lower (p_status_label p)) (i @ '' cleared every approval desk.'')
         | _ \<Rightarrow> [])"

section \<open>The shared body of a desk action\<close>

record desk_reason_body =
  db_reason :: string
  db_note :: string

text \<open>
  The transition commits before the tracker is rendered: when rendering fails, the answer is an error
  although the transition stands.
\<close>

definition applyDeskTransitionOpts ::
  "server \<Rightarrow> call \<Rightarrow> bool \<Rightarrow> string \<Rightarrow> desk_reason_body option \<Rightarrow> (actor \<Rightarrow> desk_reason_body \<Rightarrow> chain_op) \<Rightarrow> api \<Rightarrow> answer \<times> api" where
  "applyDeskTransitionOpts sv c selfOpen i body fn s =
     ready sv s (with_body body (\<lambda>_. True) s (\<lambda>b.
       let i = trim_space i; a = deskActor (ca_ctx c) in
       if selfOpen \<and> blank (a_id a) then refuse 400 s
       else with_engine sv s (\<lambda>eng s.
         case (if selfOpen
               then ApplyDeskTransitionSelfOpening (sv_config sv) (ca_env c) eng i (a_id a) (engine_op (e_now (ca_env c)) (fn a b)) (as_db s)
               else ApplyDeskTransition (sv_config sv) (ca_env c) eng i (engine_op (e_now (ca_env c)) (fn a b)) (as_db s)) of
           Inl er \<Rightarrow> refuse (mapProcurementErr er) s
         | Inr (_, d) \<Rightarrow>
             let s1 = InvalidateSeedCache c (s\<lparr>as_db := d\<rparr>) in
             (case DeskProgress eng i d of
                Inl er \<Rightarrow> refuse (mapProcurementErr er) s1
              | Inr (st, p) \<Rightarrow> (answered 200 (RProgress i st p) (notifyDeskTransition eng (as_auth s1) i st p), s1)))))"

definition submitRequisitionToDesk :: "server \<Rightarrow> call \<Rightarrow> string \<Rightarrow> desk_reason_body option \<Rightarrow> api \<Rightarrow> answer \<times> api" where
  "submitRequisitionToDesk sv c i body s = applyDeskTransitionOpts sv c True i body (\<lambda>a b. OpSubmit a) s"

definition advanceRequisitionDesk :: "server \<Rightarrow> call \<Rightarrow> string \<Rightarrow> desk_reason_body option \<Rightarrow> api \<Rightarrow> answer \<times> api" where
  "advanceRequisitionDesk sv c i body s = applyDeskTransitionOpts sv c False i body (\<lambda>a b. OpAdvance a (db_note b)) s"

definition rejectRequisitionDesk :: "server \<Rightarrow> call \<Rightarrow> string \<Rightarrow> desk_reason_body option \<Rightarrow> api \<Rightarrow> answer \<times> api" where
  "rejectRequisitionDesk sv c i body s = applyDeskTransitionOpts sv c False i body (\<lambda>a b. OpReject a (db_reason b)) s"

definition amendRequisitionDesk :: "server \<Rightarrow> call \<Rightarrow> string \<Rightarrow> desk_reason_body option \<Rightarrow> api \<Rightarrow> answer \<times> api" where
  "amendRequisitionDesk sv c i body s = applyDeskTransitionOpts sv c False i body (\<lambda>a b. OpAmend a (db_reason b)) s"

definition cancelRequisitionDesk :: "server \<Rightarrow> call \<Rightarrow> string \<Rightarrow> desk_reason_body option \<Rightarrow> api \<Rightarrow> answer \<times> api" where
  "cancelRequisitionDesk sv c i body s = applyDeskTransitionOpts sv c False i body (\<lambda>a b. OpCancel a (db_reason b)) s"

definition reopenRequisitionDesk :: "server \<Rightarrow> call \<Rightarrow> string \<Rightarrow> desk_reason_body option \<Rightarrow> api \<Rightarrow> answer \<times> api" where
  "reopenRequisitionDesk sv c i body s = applyDeskTransitionOpts sv c False i body (\<lambda>a b. OpReopen a (db_reason b)) s"

end
