(* ===== verification/Api_Reads.thy ===== *)
theory Api_Reads
  imports Api_Desk
begin

text \<open>
  The reading endpoints: the listings that answer from a page of the database or from the cached
  snapshot (\<^verbatim>\<open>internal/handlers/router.go\<close>), the single lookups, the vendor portal, the inbox,
  the caller's own identity, and the attachment endpoints as the router calls them.
\<close>

section \<open>The cached snapshot\<close>

text \<open>
  \<^verbatim>\<open>loadCached\<close> in its three parts: the look into Redis, the load on a miss, and the write of the
  loaded snapshot. A failing cache is logged and skipped. Encoding and decoding the snapshot is the
  identity. No lock joins the parts: a request that runs alone performs them in one go, and
  \<open>shared_step\<close> below lets other requests in between.
\<close>

definition cached_seed :: "call \<Rightarrow> api \<Rightarrow> seed_data option" where
  "cached_seed c s = (if ca_cache_up c then as_seed s else None)"

definition store_seed :: "call \<Rightarrow> seed_data \<Rightarrow> api \<Rightarrow> api" where
  "store_seed c sd s = (if ca_cache_up c then s\<lparr>as_seed := Some sd\<rparr> else s)"

definition loadCached :: "call \<Rightarrow> api \<Rightarrow> seed_data \<times> api" where
  "loadCached c s =
     (case cached_seed c s of
        Some sd \<Rightarrow> (sd, s)
      | None \<Rightarrow> let sd = Load (as_db s) in (sd, store_seed c sd s))"

definition getSeed :: "call \<Rightarrow> api \<Rightarrow> answer \<times> api" where
  "getSeed c s = (case loadCached c s of (sd, s') \<Rightarrow> (answered 200 (RSeed sd) [], s'))"

text \<open>The query string of a listing.\<close>

record list_query =
  lq_limit :: string
  lq_offset :: string
  lq_q :: string

definition list_route ::
  "server \<Rightarrow> call \<Rightarrow> (int \<Rightarrow> int \<Rightarrow> string \<Rightarrow> db \<Rightarrow> repo_error + 'a) \<Rightarrow> (seed_data \<Rightarrow> 'a) \<Rightarrow> ('a \<Rightarrow> reply) \<Rightarrow>
   list_query \<Rightarrow> api \<Rightarrow> answer \<times> api" where
  "list_route sv c paged part f q s =
     (case (if sv_wired sv then parsePage (lq_limit q) (lq_offset q) (lq_q q) else None) of
        Some p \<Rightarrow>
          (case paged (pq_limit p) (pq_offset p) (pq_search p) (as_db s) of
             Inl er \<Rightarrow> refuse (mapProcurementErr er) s
           | Inr rows \<Rightarrow> (answered 200 (f rows) [], s))
      | None \<Rightarrow> (case loadCached c s of (sd, s') \<Rightarrow> (answered 200 (f (part sd)) [], s')))"

abbreviation total_page :: "(int \<Rightarrow> int \<Rightarrow> string \<Rightarrow> db \<Rightarrow> 'a) \<Rightarrow> int \<Rightarrow> int \<Rightarrow> string \<Rightarrow> db \<Rightarrow> repo_error + 'a" where
  "total_page f \<equiv> (\<lambda>l k q d. Inr (f l k q d))"

definition listVendors :: "server \<Rightarrow> call \<Rightarrow> list_query \<Rightarrow> api \<Rightarrow> answer \<times> api" where
  "listVendors sv c q s = list_route sv c (total_page ListVendors) sd_vendors RVendors q s"

definition listItems :: "server \<Rightarrow> call \<Rightarrow> list_query \<Rightarrow> api \<Rightarrow> answer \<times> api" where
  "listItems sv c q s = list_route sv c (total_page ListItems) sd_items RItems q s"

definition listBudgets :: "server \<Rightarrow> call \<Rightarrow> list_query \<Rightarrow> api \<Rightarrow> answer \<times> api" where
  "listBudgets sv c q s = list_route sv c (total_page ListBudgets) sd_budgets RBudgets q s"

definition listRequisitions :: "server \<Rightarrow> call \<Rightarrow> list_query \<Rightarrow> api \<Rightarrow> answer \<times> api" where
  "listRequisitions sv c q s = list_route sv c ListRequisitions sd_requisitions RRequisitions q s"

definition listRfqs :: "server \<Rightarrow> call \<Rightarrow> list_query \<Rightarrow> api \<Rightarrow> answer \<times> api" where
  "listRfqs sv c q s = list_route sv c (total_page ListRfqs) sd_rfqs RRfqs q s"

definition listPOs :: "server \<Rightarrow> call \<Rightarrow> list_query \<Rightarrow> api \<Rightarrow> answer \<times> api" where
  "listPOs sv c q s = list_route sv c (total_page ListPurchaseOrders) sd_pos RPos q s"

definition listGrns :: "server \<Rightarrow> call \<Rightarrow> list_query \<Rightarrow> api \<Rightarrow> answer \<times> api" where
  "listGrns sv c q s = list_route sv c (total_page ListGrns) sd_grns RGrns q s"

definition listInvoices :: "server \<Rightarrow> call \<Rightarrow> list_query \<Rightarrow> api \<Rightarrow> answer \<times> api" where
  "listInvoices sv c q s = list_route sv c (total_page ListInvoices) sd_invoices RInvoices q s"

definition listContracts :: "server \<Rightarrow> call \<Rightarrow> list_query \<Rightarrow> api \<Rightarrow> answer \<times> api" where
  "listContracts sv c q s = list_route sv c (total_page ListContracts) sd_contracts RContracts q s"

definition listPayments :: "server \<Rightarrow> call \<Rightarrow> list_query \<Rightarrow> api \<Rightarrow> answer \<times> api" where
  "listPayments sv c q s = list_route sv c (total_page ListPayments) sd_payments RPayments q s"

definition listAudit :: "server \<Rightarrow> call \<Rightarrow> list_query \<Rightarrow> api \<Rightarrow> answer \<times> api" where
  "listAudit sv c q s = list_route sv c (total_page ListAudit) sd_audit RAudit q s"

section \<open>Single lookups\<close>

definition answer_read :: "('a \<Rightarrow> reply) \<Rightarrow> repo_error + 'a \<Rightarrow> api \<Rightarrow> answer \<times> api" where
  "answer_read f r s = (case r of Inl er \<Rightarrow> refuse (mapProcurementErr er) s | Inr x \<Rightarrow> (answered 200 (f x) [], s))"

definition getPurchaseOrder :: "server \<Rightarrow> string \<Rightarrow> api \<Rightarrow> answer \<times> api" where
  "getPurchaseOrder sv i s =
     ready sv s (answer_read (\<lambda>(p, ls). RPoLines p ls) (GetPurchaseOrder (trim_space i) (as_db s)) s)"

definition getRequisitionByOrigin :: "server \<Rightarrow> string \<Rightarrow> string \<Rightarrow> api \<Rightarrow> answer \<times> api" where
  "getRequisitionByOrigin sv system ref s =
     ready sv s (answer_read (\<lambda>(i, r). RByOrigin i r) (GetRequisitionByOrigin system ref (as_db s)) s)"

definition api_listApprovalTiers :: "server \<Rightarrow> api \<Rightarrow> answer \<times> api" where
  "api_listApprovalTiers sv s = ready sv s (answer_read RTiers (Inr (listApprovalTiers (as_db s))) s)"

definition listRfqQuotes :: "server \<Rightarrow> string \<Rightarrow> api \<Rightarrow> answer \<times> api" where
  "listRfqQuotes sv i s = ready sv s (answer_read RQuotes (ListRfqQuotes (trim_space i) (as_db s)) s)"

section \<open>The caller\<close>

definition getMe :: "ctx \<Rightarrow> answer" where
  "getMe x =
     (if cx_mode x = ''gateway'' \<or> cx_mode x = ''jwt'' then
        (case cx_platform_uid x of
           None \<Rightarrow> answered 401 ErrorBody []
         | Some uid \<Rightarrow>
             answered 200 (RMe (Some uid) None (case cx_claims x of None \<Rightarrow> [] | Some cl \<Rightarrow> pc_email cl)
               (case cx_claims x of None \<Rightarrow> False | Some cl \<Rightarrow> pc_super cl) (case cx_perms x of None \<Rightarrow> [] | Some ps \<Rightarrow> ps)) [])
      else answered 200 (RMe None (cx_uid x) (case cx_email x of None \<Rightarrow> [] | Some em \<Rightarrow> em) (cx_super x = Some True)
             (case cx_perms x of None \<Rightarrow> [] | Some ps \<Rightarrow> ps)) [])"

text \<open>\<^verbatim>\<open>strconv.Atoi\<close> of a query parameter, its error ignored.\<close>

definition query_int :: "int \<Rightarrow> string option \<Rightarrow> int" where
  "query_int d q = (case q of None \<Rightarrow> d | Some x \<Rightarrow> case parse_int64 x of None \<Rightarrow> 0 | Some n \<Rightarrow> n)"

definition listNotifications :: "string option \<Rightarrow> api \<Rightarrow> answer \<times> api" where
  "listNotifications q s = (answered 200 (RInbox (notifications_List (query_int 50 q) (as_notify s))) [], s)"

definition markNotificationRead :: "call \<Rightarrow> string \<Rightarrow> api \<Rightarrow> answer \<times> api" where
  "markNotificationRead c i s =
     (case path_id i of
        None \<Rightarrow> refuse 400 s
      | Some n \<Rightarrow>
          (case MarkRead (e_now (ca_env c)) n (as_notify s) of
             None \<Rightarrow> refuse 404 s
           | Some ns \<Rightarrow> (answered 200 NoBody [], s\<lparr>as_notify := ns\<rparr>)))"

definition listAPIAuditLogs :: "string option \<Rightarrow> api \<Rightarrow> answer \<times> api" where
  "listAPIAuditLogs q s = (answered 200 (RHttpAudit (auditlog_List (query_int 100 q) (as_http s))) [], s)"

section \<open>The portal\<close>

definition portal_me :: "call \<Rightarrow> api \<Rightarrow> answer \<times> api" where
  "portal_me c s =
     (case PortalMe (cx_platform_uid (ca_ctx c)) (as_db s) of
        (st, Some (i, v)) \<Rightarrow> (answered st (RPortalVendor i v) [], s)
      | (st, None) \<Rightarrow> refuse st s)"

definition portal_pos :: "call \<Rightarrow> api \<Rightarrow> answer \<times> api" where
  "portal_pos c s =
     (case PortalPOs (cx_platform_uid (ca_ctx c)) (as_db s) of
        (st, rows) \<Rightarrow> if st = 200 then (answered 200 (RPosPlain rows) [], s) else refuse st s)"

definition portal_invoices :: "call \<Rightarrow> api \<Rightarrow> answer \<times> api" where
  "portal_invoices c s =
     (case PortalInvoices (cx_platform_uid (ca_ctx c)) (as_db s) of
        (st, rows) \<Rightarrow> if st = 200 then (answered 200 (RInvoices rows) [], s) else refuse st s)"

section \<open>Attachments\<close>

definition principalEmail :: "ctx \<Rightarrow> string" where
  "principalEmail x = (case cx_email x of None \<Rightarrow> [] | Some em \<Rightarrow> em)"

definition attach_post :: "server \<Rightarrow> call \<Rightarrow> attachment_create option \<Rightarrow> api \<Rightarrow> answer \<times> api" where
  "attach_post sv c body s =
     (case postAttachment (sv_files sv) (ca_env c) (principalEmail (ca_ctx c)) body (as_files s) of
        (st, Some (i, r), fs) \<Rightarrow> (answered st (RAttachment i r) [], s\<lparr>as_files := fs\<rparr>)
      | (st, None, fs) \<Rightarrow> refuse st (s\<lparr>as_files := fs\<rparr>))"

definition attach_list :: "string \<Rightarrow> string \<Rightarrow> api \<Rightarrow> answer \<times> api" where
  "attach_list ref ty s =
     (case listAttachments ref ty (as_files s) of
        (st, rows) \<Rightarrow> if st = 200 then (answered 200 (RAttachments rows) [], s) else refuse st s)"

definition attach_url :: "server \<Rightarrow> string \<Rightarrow> api \<Rightarrow> answer \<times> api" where
  "attach_url sv i s =
     (case getAttachmentURL (sv_files sv) i (as_files s) of
        (st, Some (name, key)) \<Rightarrow> (answered st (RUrl name key) [], s)
      | (st, None) \<Rightarrow> refuse st s)"

definition attach_delete :: "server \<Rightarrow> call \<Rightarrow> string \<Rightarrow> api \<Rightarrow> answer \<times> api" where
  "attach_delete sv c i s =
     (case deleteAttachment (sv_files sv) (ca_store_up c) True i (as_files s) of
        (st, fs) \<Rightarrow> (answered st (if st < 400 then NoBody else ErrorBody) [], s\<lparr>as_files := fs\<rparr>))"

end
