(* ===== verification/Api_Routes.thy ===== *)
theory Api_Routes
  imports Api_Reads
begin

text \<open>
  The routing table (\<^verbatim>\<open>Mount\<close> of \<^verbatim>\<open>internal/handlers/router.go\<close>): every route with the
  permissions its middleware asks for and the handler behind them, and \<open>serve\<close>, one request from
  the token to the audit row (\<^verbatim>\<open>internal/middleware/audit.go\<close>).

  Alerts a handler sends from a detached goroutine are delivered after the answer; \<open>serve\<close> runs
  them last.
\<close>

section \<open>Routes\<close>

datatype write_route =
    PostRequisition "post_requisition_body option"
  | PatchRequisition string "patch_requisition_body option"
  | ApproveRequisitionRoute string "string option"
  | RejectRequisitionRoute string "string option"
  | DeleteRequisitionRoute string
  | DeskOpen string "desk_open_body option"
  | DeskSubmit string "desk_reason_body option"
  | DeskAdvance string "desk_reason_body option"
  | DeskReject string "desk_reason_body option"
  | DeskAmend string "desk_reason_body option"
  | DeskCancel string "desk_reason_body option"
  | DeskReopen string "desk_reason_body option"
  | PutDeskChain string "desk_row list option"
  | DeleteDeskChainRoute string
  | ReloadDeskChainsRoute
  | PostPurchaseOrder "post_po_body option"
  | PatchPurchaseOrder string "patch_po_body option"
  | DeletePurchaseOrderRoute string
  | PostVendor "post_vendor_body option"
  | PatchVendor string "patch_vendor_body option"
  | PatchVendorQuality string "(string \<times> string) option"
  | DeleteVendorRoute string
  | PostItem "post_item_body option"
  | PatchItem string "patch_item_body option"
  | DeleteItemRoute string
  | PostBudget "post_budget_body option"
  | PatchBudget string "patch_budget_body option"
  | DeleteBudgetRoute string
  | PostRfq "post_rfq_body option"
  | PatchRfq string "patch_rfq_body option"
  | DeleteRfqRoute string
  | PostQuote string "post_quote_body option"
  | AwardRfqRoute string "award_body option"
  | PostGrn "post_grn_body option"
  | PatchGrn string "patch_grn_body option"
  | DeleteGrnRoute string
  | PostInvoice "post_invoice_body option"
  | PatchInvoice string "patch_invoice_body option"
  | ApproveInvoiceRoute string
  | DeleteInvoiceRoute string
  | PostContract "post_contract_body option"
  | PatchContract string "patch_contract_body option"
  | DeleteContractRoute string
  | ClosePeriod "close_period_body option"

datatype read_route =
    GetSeed
  | GetVendors list_query
  | GetItems list_query
  | GetBudgets list_query
  | GetRequisitions list_query
  | GetApprovalTiers
  | GetByOrigin string string
  | GetApprovalChains
  | GetDeskMatrix
  | GetDeskProgress string
  | GetApprovalDesk
  | GetRfqs list_query
  | GetRfqQuotes string
  | GetPos list_query
  | GetPo string
  | GetOrders list_query
  | GetGrns list_query
  | GetInvoices list_query
  | GetContracts list_query
  | GetPayments list_query
  | GetAudit list_query

datatype admin_route =
    GetPermissions
  | GetGroups
  | GetUsers
  | PostUser "create_user_body option"
  | PatchPassword string "string option"
  | PatchUser string "(bool option \<times> bool option) option"
  | PutUserGroups string "int list option"
  | PutGroupPermissions string "int list option"

datatype route =
    Health
  | Ready
  | LoginRoute "(string \<times> string) option"
  | Me
  | Data read_route
  | Mut write_route
  | GetNotifications "string option"
  | ReadNotification string
  | EmitRoute bool "emit_body option"
  | PortalMeRoute
  | PortalPosRoute
  | PortalInvoicesRoute
  | GetAuditLogs "string option"
  | PostAttachment "attachment_create option"
  | GetAttachments string string
  | GetAttachmentUrl string
  | DeleteAttachmentRoute string
  | Admin admin_route

section \<open>Permissions\<close>

fun write_permission :: "write_route \<Rightarrow> string" where
  "write_permission (PostRequisition _) = perm_AddRequisition"
| "write_permission (PatchRequisition _ _) = perm_ChangeRequisition"
| "write_permission (ApproveRequisitionRoute _ _) = perm_ChangeRequisition"
| "write_permission (RejectRequisitionRoute _ _) = perm_ChangeRequisition"
| "write_permission (DeleteRequisitionRoute _) = perm_DeleteRequisition"
| "write_permission (DeskOpen _ _) = perm_ChangeRequisition"
| "write_permission (DeskSubmit _ _) = perm_ChangeRequisition"
| "write_permission (DeskAdvance _ _) = perm_ChangeRequisition"
| "write_permission (DeskReject _ _) = perm_ChangeRequisition"
| "write_permission (DeskAmend _ _) = perm_ChangeRequisition"
| "write_permission (DeskCancel _ _) = perm_ChangeRequisition"
| "write_permission (DeskReopen _ _) = perm_ChangeRequisition"
| "write_permission (PutDeskChain _ _) = perm_ManageApprovalChains"
| "write_permission (DeleteDeskChainRoute _) = perm_ManageApprovalChains"
| "write_permission ReloadDeskChainsRoute = perm_ManageApprovalChains"
| "write_permission (PostPurchaseOrder _) = perm_AddPurchaseOrder"
| "write_permission (PatchPurchaseOrder _ _) = perm_ChangePurchaseOrder"
| "write_permission (DeletePurchaseOrderRoute _) = perm_DeletePurchaseOrder"
| "write_permission (PostVendor _) = perm_AddVendor"
| "write_permission (PatchVendor _ _) = perm_ChangeVendor"
| "write_permission (PatchVendorQuality _ _) = perm_ChangeVendor"
| "write_permission (DeleteVendorRoute _) = perm_DeleteVendor"
| "write_permission (PostItem _) = perm_AddItem"
| "write_permission (PatchItem _ _) = perm_ChangeItem"
| "write_permission (DeleteItemRoute _) = perm_DeleteItem"
| "write_permission (PostBudget _) = perm_AddBudget"
| "write_permission (PatchBudget _ _) = perm_ChangeBudget"
| "write_permission (DeleteBudgetRoute _) = perm_DeleteBudget"
| "write_permission (PostRfq _) = perm_AddRfq"
| "write_permission (PatchRfq _ _) = perm_ChangeRfq"
| "write_permission (DeleteRfqRoute _) = perm_DeleteRfq"
| "write_permission (PostQuote _ _) = perm_ChangeRfq"
| "write_permission (AwardRfqRoute _ _) = perm_ChangeRfq"
| "write_permission (PostGrn _) = perm_AddGrn"
| "write_permission (PatchGrn _ _) = perm_ChangeGrn"
| "write_permission (DeleteGrnRoute _) = perm_DeleteGrn"
| "write_permission (PostInvoice _) = perm_AddInvoice"
| "write_permission (PatchInvoice _ _) = perm_ChangeInvoice"
| "write_permission (ApproveInvoiceRoute _) = perm_ApproveInvoice"
| "write_permission (DeleteInvoiceRoute _) = perm_DeleteInvoice"
| "write_permission (PostContract _) = perm_AddContract"
| "write_permission (PatchContract _ _) = perm_ChangeContract"
| "write_permission (DeleteContractRoute _) = perm_DeleteContract"
| "write_permission (ClosePeriod _) = perm_ManageBudgetPeriod"

fun admin_permissions :: "admin_route \<Rightarrow> string list" where
  "admin_permissions GetPermissions = [perm_ViewPermission]"
| "admin_permissions GetGroups = [perm_ViewGroup]"
| "admin_permissions GetUsers = [perm_ViewUser]"
| "admin_permissions (PostUser _) = [perm_ViewUser, perm_ChangeUser]"
| "admin_permissions (PatchPassword _ _) = [perm_ViewUser, perm_ChangeUser]"
| "admin_permissions (PatchUser _ _) = [perm_ViewUser, perm_ChangeUser]"
| "admin_permissions (PutUserGroups _ _) = [perm_ViewUser, perm_ChangeUser]"
| "admin_permissions (PutGroupPermissions _ _) = [perm_ViewGroup, perm_ChangeGroup]"

text \<open>The admin routes ask for permissions only in legacy mode; otherwise they answer 410 to any caller.\<close>

fun route_permissions :: "string \<Rightarrow> route \<Rightarrow> string list" where
  "route_permissions mode (Data _) = [perm_ViewSeed]"
| "route_permissions mode (Mut w) = [write_permission w]"
| "route_permissions mode (GetNotifications _) = [perm_ViewInbox]"
| "route_permissions mode (ReadNotification _) = [perm_ViewInbox]"
| "route_permissions mode (EmitRoute _ _) = [perm_EmitNotification]"
| "route_permissions mode PortalMeRoute = [perm_ViewOwnPO]"
| "route_permissions mode PortalPosRoute = [perm_ViewOwnPO]"
| "route_permissions mode PortalInvoicesRoute = [perm_ViewOwnInvoice]"
| "route_permissions mode (GetAuditLogs _) = [perm_ViewAPIAudit]"
| "route_permissions mode (Admin a) = (if mode = ''legacy'' then admin_permissions a else [])"
| "route_permissions mode _ = []"

section \<open>Handlers behind the routes\<close>

fun run_write :: "server \<Rightarrow> call \<Rightarrow> write_route \<Rightarrow> api \<Rightarrow> answer \<times> api" where
  "run_write sv c (PostRequisition b) s = postRequisition sv c b s"
| "run_write sv c (PatchRequisition i b) s = patchRequisition sv c i b s"
| "run_write sv c (ApproveRequisitionRoute i b) s = approveRequisition sv c i b s"
| "run_write sv c (RejectRequisitionRoute i b) s = rejectRequisition sv c i b s"
| "run_write sv c (DeleteRequisitionRoute i) s = deleteRequisition sv c i s"
| "run_write sv c (DeskOpen i b) s = openRequisitionDeskChain sv c i b s"
| "run_write sv c (DeskSubmit i b) s = submitRequisitionToDesk sv c i b s"
| "run_write sv c (DeskAdvance i b) s = advanceRequisitionDesk sv c i b s"
| "run_write sv c (DeskReject i b) s = rejectRequisitionDesk sv c i b s"
| "run_write sv c (DeskAmend i b) s = amendRequisitionDesk sv c i b s"
| "run_write sv c (DeskCancel i b) s = cancelRequisitionDesk sv c i b s"
| "run_write sv c (DeskReopen i b) s = reopenRequisitionDesk sv c i b s"
| "run_write sv c (PutDeskChain k b) s = putDeskChain sv k b s"
| "run_write sv c (DeleteDeskChainRoute k) s = api_deleteDeskChain sv k s"
| "run_write sv c ReloadDeskChainsRoute s = api_reloadDeskChains sv s"
| "run_write sv c (PostPurchaseOrder b) s = postPurchaseOrder sv c b s"
| "run_write sv c (PatchPurchaseOrder i b) s = patchPurchaseOrder sv c i b s"
| "run_write sv c (DeletePurchaseOrderRoute i) s = deletePurchaseOrder sv c i s"
| "run_write sv c (PostVendor b) s = postVendor sv c b s"
| "run_write sv c (PatchVendor i b) s = patchVendor sv c i b s"
| "run_write sv c (PatchVendorQuality i b) s = patchVendorQualityStatus sv c i b s"
| "run_write sv c (DeleteVendorRoute i) s = deleteVendor sv c i s"
| "run_write sv c (PostItem b) s = postItem sv c b s"
| "run_write sv c (PatchItem i b) s = patchItem sv c i b s"
| "run_write sv c (DeleteItemRoute i) s = deleteItem sv c i s"
| "run_write sv c (PostBudget b) s = postBudget sv c b s"
| "run_write sv c (PatchBudget i b) s = patchBudget sv c i b s"
| "run_write sv c (DeleteBudgetRoute i) s = deleteBudget sv c i s"
| "run_write sv c (PostRfq b) s = postRfq sv c b s"
| "run_write sv c (PatchRfq i b) s = patchRfq sv c i b s"
| "run_write sv c (DeleteRfqRoute i) s = deleteRfq sv c i s"
| "run_write sv c (PostQuote i b) s = postRfqQuote sv c i b s"
| "run_write sv c (AwardRfqRoute i b) s = awardRfq sv c i b s"
| "run_write sv c (PostGrn b) s = postGrn sv c b s"
| "run_write sv c (PatchGrn i b) s = patchGrn sv c i b s"
| "run_write sv c (DeleteGrnRoute i) s = deleteGrn sv c i s"
| "run_write sv c (PostInvoice b) s = postInvoice sv c b s"
| "run_write sv c (PatchInvoice i b) s = patchInvoice sv c i b s"
| "run_write sv c (ApproveInvoiceRoute i) s = approveInvoice sv c i s"
| "run_write sv c (DeleteInvoiceRoute i) s = deleteInvoice sv c i s"
| "run_write sv c (PostContract b) s = postContract sv c b s"
| "run_write sv c (PatchContract i b) s = patchContract sv c i b s"
| "run_write sv c (DeleteContractRoute i) s = deleteContract sv c i s"
| "run_write sv c (ClosePeriod b) s = closeBudgetPeriod sv c b s"

fun run_read :: "server \<Rightarrow> call \<Rightarrow> read_route \<Rightarrow> api \<Rightarrow> answer \<times> api" where
  "run_read sv c GetSeed s = getSeed c s"
| "run_read sv c (GetVendors q) s = listVendors sv c q s"
| "run_read sv c (GetItems q) s = listItems sv c q s"
| "run_read sv c (GetBudgets q) s = listBudgets sv c q s"
| "run_read sv c (GetRequisitions q) s = listRequisitions sv c q s"
| "run_read sv c GetApprovalTiers s = api_listApprovalTiers sv s"
| "run_read sv c (GetByOrigin y r) s = getRequisitionByOrigin sv y r s"
| "run_read sv c GetApprovalChains s = listApprovalChains sv s"
| "run_read sv c GetDeskMatrix s = api_listDeskMatrix sv s"
| "run_read sv c (GetDeskProgress i) s = getRequisitionDeskProgress sv i s"
| "run_read sv c GetApprovalDesk s = approvalDesk sv c s"
| "run_read sv c (GetRfqs q) s = listRfqs sv c q s"
| "run_read sv c (GetRfqQuotes i) s = listRfqQuotes sv i s"
| "run_read sv c (GetPos q) s = listPOs sv c q s"
| "run_read sv c (GetPo i) s = getPurchaseOrder sv i s"
| "run_read sv c (GetOrders q) s = listPOs sv c q s"
| "run_read sv c (GetGrns q) s = listGrns sv c q s"
| "run_read sv c (GetInvoices q) s = listInvoices sv c q s"
| "run_read sv c (GetContracts q) s = listContracts sv c q s"
| "run_read sv c (GetPayments q) s = listPayments sv c q s"
| "run_read sv c (GetAudit q) s = listAudit sv c q s"

definition admin_write :: "nat \<times> auth_db \<Rightarrow> api \<Rightarrow> answer \<times> api" where
  "admin_write r s = (case r of (st, a) \<Rightarrow> (answered st (if st < 400 then NoBody else ErrorBody) [], s\<lparr>as_auth := a\<rparr>))"

fun run_admin :: "server \<Rightarrow> call \<Rightarrow> admin_route \<Rightarrow> api \<Rightarrow> answer \<times> api" where
  "run_admin sv c GetPermissions s = (answered 200 (RPermissions (ListPermissions (as_auth s))) [], s)"
| "run_admin sv c GetGroups s = (answered 200 (RGroups (ListGroups (as_auth s))) [], s)"
| "run_admin sv c GetUsers s = (answered 200 (RUsers (ListUsers (as_auth s))) [], s)"
| "run_admin sv c (PostUser b) s = admin_write (postAdminCreateUser (sv_hash sv) b (as_auth s)) s"
| "run_admin sv c (PatchPassword i b) s = admin_write (patchAdminUserPassword (sv_hash sv) i b (as_auth s)) s"
| "run_admin sv c (PatchUser i b) s = admin_write (patchAdminUser (ca_ctx c) i b (as_auth s)) s"
| "run_admin sv c (PutUserGroups i b) s = admin_write (putAdminUserGroups i b (as_auth s)) s"
| "run_admin sv c (PutGroupPermissions i b) s = admin_write (putGroupPermissions i b (as_auth s)) s"

definition adminIAMDeprecated :: "api \<Rightarrow> answer \<times> api" where
  "adminIAMDeprecated s = refuse 410 s"

definition api_ready :: "call \<Rightarrow> api \<Rightarrow> answer \<times> api" where
  "api_ready c s = (if ca_cache_up c then (answered 200 NoBody [], s) else refuse 503 s)"

definition emit_route :: "server \<Rightarrow> call \<Rightarrow> bool \<Rightarrow> emit_body option \<Rightarrow> api \<Rightarrow> answer \<times> api" where
  "emit_route sv c broadcast b s =
     (case emitNotification (sv_deliver sv) (e_now (ca_env c)) (ca_cache_up c) broadcast b (as_notify s) of
        (st, ns) \<Rightarrow> (answered st (if st < 400 then NoBody else ErrorBody) [], s\<lparr>as_notify := ns\<rparr>))"

definition login_route :: "server \<Rightarrow> (string \<times> string) option \<Rightarrow> api \<Rightarrow> answer \<times> api" where
  "login_route sv b s =
     (case postLogin (sv_matches sv) (sv_sign sv) b (as_auth s) of
        (st, Some (tok, cl)) \<Rightarrow> (answered st (RToken tok cl) [], s)
      | (st, None) \<Rightarrow> refuse st s)"

fun dispatch :: "server \<Rightarrow> call \<Rightarrow> route \<Rightarrow> api \<Rightarrow> answer \<times> api" where
  "dispatch sv c Health s = (answered 200 NoBody [], s)"
| "dispatch sv c Ready s = api_ready c s"
| "dispatch sv c (LoginRoute b) s = login_route sv b s"
| "dispatch sv c Me s = (getMe (ca_ctx c), s)"
| "dispatch sv c (Data r) s = run_read sv c r s"
| "dispatch sv c (Mut w) s = run_write sv c w s"
| "dispatch sv c (GetNotifications q) s = listNotifications q s"
| "dispatch sv c (ReadNotification i) s = markNotificationRead c i s"
| "dispatch sv c (EmitRoute bc b) s = emit_route sv c bc b s"
| "dispatch sv c PortalMeRoute s = portal_me c s"
| "dispatch sv c PortalPosRoute s = portal_pos c s"
| "dispatch sv c PortalInvoicesRoute s = portal_invoices c s"
| "dispatch sv c (GetAuditLogs q) s = listAPIAuditLogs q s"
| "dispatch sv c (PostAttachment b) s = attach_post sv c b s"
| "dispatch sv c (GetAttachments ref ty) s = attach_list ref ty s"
| "dispatch sv c (GetAttachmentUrl i) s = attach_url sv i s"
| "dispatch sv c (DeleteAttachmentRoute i) s = attach_delete sv c i s"
| "dispatch sv c (Admin a) s = (if sv_mode sv = ''legacy'' then run_admin sv c a s else adminIAMDeprecated s)"

section \<open>Methods and paths\<close>

fun write_pattern :: "write_route \<Rightarrow> string \<times> string" where
  "write_pattern (PostRequisition _) = (''POST'', ''/requisitions'')"
| "write_pattern (PatchRequisition _ _) = (''PATCH'', ''/requisitions/:id'')"
| "write_pattern (ApproveRequisitionRoute _ _) = (''POST'', ''/requisitions/:id/approve'')"
| "write_pattern (RejectRequisitionRoute _ _) = (''POST'', ''/requisitions/:id/reject'')"
| "write_pattern (DeleteRequisitionRoute _) = (''DELETE'', ''/requisitions/:id'')"
| "write_pattern (DeskOpen _ _) = (''POST'', ''/requisitions/:id/desk/open'')"
| "write_pattern (DeskSubmit _ _) = (''POST'', ''/requisitions/:id/desk/submit'')"
| "write_pattern (DeskAdvance _ _) = (''POST'', ''/requisitions/:id/desk/advance'')"
| "write_pattern (DeskReject _ _) = (''POST'', ''/requisitions/:id/desk/reject'')"
| "write_pattern (DeskAmend _ _) = (''POST'', ''/requisitions/:id/desk/amend'')"
| "write_pattern (DeskCancel _ _) = (''POST'', ''/requisitions/:id/desk/cancel'')"
| "write_pattern (DeskReopen _ _) = (''POST'', ''/requisitions/:id/desk/reopen'')"
| "write_pattern (PutDeskChain _ _) = (''PUT'', ''/admin/approval-chains/:chain'')"
| "write_pattern (DeleteDeskChainRoute _) = (''DELETE'', ''/admin/approval-chains/:chain'')"
| "write_pattern ReloadDeskChainsRoute = (''POST'', ''/admin/approval-chains/reload'')"
| "write_pattern (PostPurchaseOrder _) = (''POST'', ''/purchase-orders'')"
| "write_pattern (PatchPurchaseOrder _ _) = (''PATCH'', ''/purchase-orders/:id'')"
| "write_pattern (DeletePurchaseOrderRoute _) = (''DELETE'', ''/purchase-orders/:id'')"
| "write_pattern (PostVendor _) = (''POST'', ''/vendors'')"
| "write_pattern (PatchVendor _ _) = (''PATCH'', ''/vendors/:id'')"
| "write_pattern (PatchVendorQuality _ _) = (''PATCH'', ''/vendors/:id/quality-status'')"
| "write_pattern (DeleteVendorRoute _) = (''DELETE'', ''/vendors/:id'')"
| "write_pattern (PostItem _) = (''POST'', ''/items'')"
| "write_pattern (PatchItem _ _) = (''PATCH'', ''/items/:id'')"
| "write_pattern (DeleteItemRoute _) = (''DELETE'', ''/items/:id'')"
| "write_pattern (PostBudget _) = (''POST'', ''/budgets'')"
| "write_pattern (PatchBudget _ _) = (''PATCH'', ''/budgets/:id'')"
| "write_pattern (DeleteBudgetRoute _) = (''DELETE'', ''/budgets/:id'')"
| "write_pattern (PostRfq _) = (''POST'', ''/rfqs'')"
| "write_pattern (PatchRfq _ _) = (''PATCH'', ''/rfqs/:id'')"
| "write_pattern (DeleteRfqRoute _) = (''DELETE'', ''/rfqs/:id'')"
| "write_pattern (PostQuote _ _) = (''POST'', ''/rfqs/:id/quotes'')"
| "write_pattern (AwardRfqRoute _ _) = (''POST'', ''/rfqs/:id/award'')"
| "write_pattern (PostGrn _) = (''POST'', ''/grns'')"
| "write_pattern (PatchGrn _ _) = (''PATCH'', ''/grns/:id'')"
| "write_pattern (DeleteGrnRoute _) = (''DELETE'', ''/grns/:id'')"
| "write_pattern (PostInvoice _) = (''POST'', ''/invoices'')"
| "write_pattern (PatchInvoice _ _) = (''PATCH'', ''/invoices/:id'')"
| "write_pattern (ApproveInvoiceRoute _) = (''POST'', ''/invoices/:id/approve'')"
| "write_pattern (DeleteInvoiceRoute _) = (''DELETE'', ''/invoices/:id'')"
| "write_pattern (PostContract _) = (''POST'', ''/contracts'')"
| "write_pattern (PatchContract _ _) = (''PATCH'', ''/contracts/:id'')"
| "write_pattern (DeleteContractRoute _) = (''DELETE'', ''/contracts/:id'')"
| "write_pattern (ClosePeriod _) = (''POST'', ''/admin/budgets/close-period'')"

fun read_pattern :: "read_route \<Rightarrow> string \<times> string" where
  "read_pattern GetSeed = (''GET'', ''/seed'')"
| "read_pattern (GetVendors _) = (''GET'', ''/vendors'')"
| "read_pattern (GetItems _) = (''GET'', ''/items'')"
| "read_pattern (GetBudgets _) = (''GET'', ''/budgets'')"
| "read_pattern (GetRequisitions _) = (''GET'', ''/requisitions'')"
| "read_pattern GetApprovalTiers = (''GET'', ''/requisitions/approval-tiers'')"
| "read_pattern (GetByOrigin _ _) = (''GET'', ''/requisitions/by-origin'')"
| "read_pattern GetApprovalChains = (''GET'', ''/requisitions/approval-chains'')"
| "read_pattern GetDeskMatrix = (''GET'', ''/admin/approval-chains'')"
| "read_pattern (GetDeskProgress _) = (''GET'', ''/requisitions/:id/desk'')"
| "read_pattern GetApprovalDesk = (''GET'', ''/approvals/desk'')"
| "read_pattern (GetRfqs _) = (''GET'', ''/rfqs'')"
| "read_pattern (GetRfqQuotes _) = (''GET'', ''/rfqs/:id/quotes'')"
| "read_pattern (GetPos _) = (''GET'', ''/purchase-orders'')"
| "read_pattern (GetPo _) = (''GET'', ''/purchase-orders/:id'')"
| "read_pattern (GetOrders _) = (''GET'', ''/orders'')"
| "read_pattern (GetGrns _) = (''GET'', ''/grns'')"
| "read_pattern (GetInvoices _) = (''GET'', ''/invoices'')"
| "read_pattern (GetContracts _) = (''GET'', ''/contracts'')"
| "read_pattern (GetPayments _) = (''GET'', ''/payments'')"
| "read_pattern (GetAudit _) = (''GET'', ''/audit'')"

fun admin_pattern :: "admin_route \<Rightarrow> string \<times> string" where
  "admin_pattern GetPermissions = (''GET'', ''/admin/permissions'')"
| "admin_pattern GetGroups = (''GET'', ''/admin/groups'')"
| "admin_pattern GetUsers = (''GET'', ''/admin/users'')"
| "admin_pattern (PostUser _) = (''POST'', ''/admin/users'')"
| "admin_pattern (PatchPassword _ _) = (''PATCH'', ''/admin/users/:id/password'')"
| "admin_pattern (PatchUser _ _) = (''PATCH'', ''/admin/users/:id'')"
| "admin_pattern (PutUserGroups _ _) = (''PUT'', ''/admin/users/:id/groups'')"
| "admin_pattern (PutGroupPermissions _ _) = (''PUT'', ''/admin/groups/:id/permissions'')"

text \<open>The group \<^verbatim>\<open>v1\<close> prefixes its paths.\<close>

definition v1 :: "string \<times> string \<Rightarrow> string \<times> string" where
  "v1 p = (fst p, ''/api/v1'' @ snd p)"

fun route_pattern :: "route \<Rightarrow> string \<times> string" where
  "route_pattern Health = (''GET'', ''/health'')"
| "route_pattern Ready = (''GET'', ''/ready'')"
| "route_pattern (LoginRoute _) = v1 (''POST'', ''/auth/login'')"
| "route_pattern Me = v1 (''GET'', ''/auth/me'')"
| "route_pattern (Data r) = v1 (read_pattern r)"
| "route_pattern (Mut w) = v1 (write_pattern w)"
| "route_pattern (GetNotifications _) = v1 (''GET'', ''/notifications'')"
| "route_pattern (ReadNotification _) = v1 (''PATCH'', ''/notifications/:id/read'')"
| "route_pattern (EmitRoute _ _) = v1 (''POST'', ''/notifications/emit'')"
| "route_pattern PortalMeRoute = v1 (''GET'', ''/portal/me'')"
| "route_pattern PortalPosRoute = v1 (''GET'', ''/portal/purchase-orders'')"
| "route_pattern PortalInvoicesRoute = v1 (''GET'', ''/portal/invoices'')"
| "route_pattern (GetAuditLogs _) = v1 (''GET'', ''/admin/audit-logs'')"
| "route_pattern (PostAttachment _) = v1 (''POST'', ''/attachments'')"
| "route_pattern (GetAttachments _ _) = v1 (''GET'', ''/attachments'')"
| "route_pattern (GetAttachmentUrl _) = v1 (''GET'', ''/attachments/:id/url'')"
| "route_pattern (DeleteAttachmentRoute _) = v1 (''DELETE'', ''/attachments/:id'')"
| "route_pattern (Admin a) = v1 (admin_pattern a)"

section \<open>One request\<close>

text \<open>
  Whether a handler is registered at all in this mode: the list of removed admin paths omits the groups
  of a user.
\<close>

fun mounted :: "string \<Rightarrow> route \<Rightarrow> bool" where
  "mounted mode (LoginRoute _) = (mode = ''legacy'')"
| "mounted mode (Admin (PutUserGroups _ _)) = (mode = ''legacy'')"
| "mounted mode _ = True"

fun is_probe :: "route \<Rightarrow> bool" where
  "is_probe Health = True"
| "is_probe Ready = True"
| "is_probe _ = False"

fun authenticated :: "server \<Rightarrow> http \<Rightarrow> route \<Rightarrow> ctx \<Rightarrow> nat + ctx" where
  "authenticated sv h (LoginRoute _) x = Inr x"
| "authenticated sv h r x = (if sv_mode sv = ''legacy'' then JWTAuth (sv_parse_token sv) h x else RequireAuth x)"

fun require_all :: "string list \<Rightarrow> ctx \<Rightarrow> nat + ctx" where
  "require_all [] x = Inr x"
| "require_all (p # ps) x = res_bind (RequirePermission p x) (require_all ps)"

definition RequestAudit :: "route \<Rightarrow> ctx \<Rightarrow> nat \<Rightarrow> http_audit_row" where
  "RequestAudit r x st =
     (let platform = cx_mode x = ''gateway'' \<or> cx_mode x = ''jwt'';
          email = (case cx_email x of None \<Rightarrow> [] | Some em \<Rightarrow> em)
      in \<lparr>ha_user_id = (if platform then None else cx_uid x),
          ha_actor = (if email \<noteq> [] then email else case cx_platform_uid x of Some u \<Rightarrow> u | None \<Rightarrow> ''anonymous''),
          ha_action = ''http.'' @ fst (route_pattern r), ha_method = fst (route_pattern r), ha_path = snd (route_pattern r),
          ha_status = st\<rparr>)"

text \<open>The chain behind \<^verbatim>\<open>AttachPrincipal\<close>: authentication, permissions, handler; with the context it ended in.\<close>

definition secured :: "server \<Rightarrow> call \<Rightarrow> http \<Rightarrow> route \<Rightarrow> ctx \<Rightarrow> api \<Rightarrow> (answer \<times> api) \<times> ctx" where
  "secured sv c h r x s =
     (case authenticated sv h r x of
        Inl st \<Rightarrow> (refuse st s, x)
      | Inr x' \<Rightarrow>
          (case require_all (route_permissions (sv_mode sv) r) x' of
             Inl st \<Rightarrow> (refuse st s, x')
           | Inr _ \<Rightarrow> (dispatch sv (c\<lparr>ca_ctx := x'\<rparr>) r s, x')))"

definition send_alert :: "server \<Rightarrow> call \<Rightarrow> alert \<Rightarrow> api \<Rightarrow> api" where
  "send_alert sv c al s =
     (case EnqueueAlertEmail (sv_deliver sv) (e_now (ca_env c)) al (as_notify s) of
        Inl _ \<Rightarrow> s
      | Inr ns \<Rightarrow> s\<lparr>as_notify := ns\<rparr>)"

definition serve :: "server \<Rightarrow> call \<Rightarrow> http \<Rightarrow> route \<Rightarrow> api \<Rightarrow> answer \<times> api" where
  "serve sv c h r s =
     (case AttachPrincipal (sv_mode sv) (sv_verifier sv) (h\<lparr>ht_path := snd (route_pattern r)\<rparr>) empty_ctx of
        Inl st \<Rightarrow> refuse st s
      | Inr x \<Rightarrow>
          if is_probe r then dispatch sv (c\<lparr>ca_ctx := x\<rparr>) r s
          else if \<not> mounted (sv_mode sv) r then refuse 404 s
          else (case secured sv c h r x s of
              ((a, s'), x') \<Rightarrow>
                (a, fold (send_alert sv c) (an_alerts a) (s'\<lparr>as_http := as_http s' @ [RequestAudit r x' (an_status a)]\<rparr>))))"

end
