(* ===== verification/Api_Contract.thy ===== *)
theory Api_Contract
  imports Api_Routes Ledger
begin

text \<open>
  What any request may do to the state of the service, as an interface: a relation between the state
  before and after that admits the elementary effects of the handlers. The client lemma, that a
  served request is related to its predecessor state, is proved once for all routes; each contract of
  the service is an interpretation.
\<close>

section \<open>The desk matrix\<close>

lemma ReplaceDeskChain_effect:
  "ReplaceDeskChain rx eng k desks d = (r, d', eng') \<Longrightarrow> \<exists>rows. d' = d\<lparr>db_desks := rows\<rparr>"
  by (auto simp: ReplaceDeskChain_def Let_def split: if_splits sum.splits intro: exI [of _ "db_desks d"])

lemma DeleteDeskChain_effect:
  "DeleteDeskChain rx eng k d = (r, d', eng') \<Longrightarrow> \<exists>rows. d' = d\<lparr>db_desks := rows\<rparr>"
  by (auto simp: DeleteDeskChain_def Let_def split: if_splits sum.splits intro: exI [of _ "db_desks d"])

section \<open>The interface\<close>

locale request_effect =
  fixes R :: "call \<Rightarrow> api \<Rightarrow> api \<Rightarrow> bool"
  assumes same: "R c s s"
    and then_too: "R c s s' \<Longrightarrow> R c s' s'' \<Longrightarrow> R c s s''"
    and commit: "repo_step (as_db s) d \<Longrightarrow> R c s (InvalidateSeedCache c (s\<lparr>as_db := d\<rparr>))"
    and opened: "OpenDeskChain e eng i k who skip (as_db s) = Inr (st, d) \<Longrightarrow> R c s (s\<lparr>as_db := d\<rparr>)"
    and matrix: "R c s (s\<lparr>as_db := (as_db s)\<lparr>db_desks := rows\<rparr>\<rparr>)"
    and engine: "R c s (s\<lparr>as_engine := eng'\<rparr>)"
    and notify: "R c s (s\<lparr>as_notify := ns\<rparr>)"
    and fill: "ca_cache_up c \<Longrightarrow> R c s (s\<lparr>as_seed := Some (Load (as_db s))\<rparr>)"
    and users: "R c s (s\<lparr>as_auth := a\<rparr>)"
    and attachments: "R c s (s\<lparr>as_files := fs\<rparr>)"
    and logged: "R c s (s\<lparr>as_http := hs\<rparr>)"
    and any_ctx: "R (c\<lparr>ca_ctx := x\<rparr>) s s' \<Longrightarrow> R c s s'"
begin

definition served :: "call \<Rightarrow> api \<Rightarrow> answer \<times> api \<Rightarrow> bool" where
  "served c s r \<longleftrightarrow> R c s (snd r)"

lemma served_refuse [intro!]: "served c s (refuse st s)"
  by (simp add: served_def refuse_def same)

lemma served_same [intro!]: "served c s (a, s)"
  by (simp add: served_def same)

lemma served_ready [intro!]: "served c s r \<Longrightarrow> served c s (ready sv s r)"
  by (auto simp: ready_def)

lemma served_body [intro!]: "(\<And>b. served c s (k b)) \<Longrightarrow> served c s (with_body body req s k)"
  by (auto simp: with_body_def split: option.splits)

lemma served_day [intro!]: "(\<And>t. served c s (k t)) \<Longrightarrow> served c s (with_day r s k)"
  by (auto simp: with_day_def split: sum.splits)

lemma served_written [intro]:
  "(\<And>x d. r = Inr (x, d) \<Longrightarrow> repo_step (as_db s) d) \<Longrightarrow> served c s (written c st f r s)"
  by (auto simp: written_def served_def intro!: commit same split: sum.splits) (simp add: refuse_def same)

lemma served_engine [intro!]:
  assumes "\<And>eng s1. as_db s1 = as_db s \<Longrightarrow> served c s1 (k eng s1)"
  shows "served c s (with_engine sv s k)"
proof (cases "DeskEngine (sv_rx sv) (as_engine s) (as_db s)")
  case (Inr eng)
  have "R c (s\<lparr>as_engine := Some eng\<rparr>) (snd (k eng (s\<lparr>as_engine := Some eng\<rparr>)))"
    using assms [of "s\<lparr>as_engine := Some eng\<rparr>"] by (simp add: served_def)
  with then_too [OF engine] Inr show ?thesis by (simp add: with_engine_def served_def)
qed (auto simp: with_engine_def)

lemma decided_related: "R c s (emitRequisitionStatusChange sv c i row st s)"
  by (auto simp: emitRequisitionStatusChange_def Let_def intro: same notify)

lemma committed_and_told:
  "repo_step (as_db s) d \<Longrightarrow>
     R c s (emitRequisitionStatusChange sv c i row st (InvalidateSeedCache c (s\<lparr>as_db := d\<rparr>)))"
  by (rule then_too [OF commit decided_related])

text \<open>The handlers that end in \<open>written\<close>: one repository operation, committed and announced.\<close>

lemmas steps = side_step.intros [THEN repo_step.intros(1)] repo_step.intros(2-)

lemma plain_writes:
  "served c s (postRequisition sv c b1 s)"
  "served c s (deleteRequisition sv c i s)"
  "served c s (patchPurchaseOrder sv c i b3 s)"
  "served c s (deletePurchaseOrder sv c i s)"
  "served c s (postVendor sv c b5 s)"
  "served c s (patchVendor sv c i b6 s)"
  "served c s (deleteVendor sv c i s)"
  "served c s (patchVendorQualityStatus sv c i b8 s)"
  "served c s (postItem sv c b9 s)"
  "served c s (patchItem sv c i b10 s)"
  "served c s (deleteItem sv c i s)"
  "served c s (postBudget sv c b12 s)"
  "served c s (patchBudget sv c i b13 s)"
  "served c s (deleteBudget sv c i s)"
  "served c s (closeBudgetPeriod sv c b15 s)"
  "served c s (postContract sv c b16 s)"
  "served c s (patchContract sv c i b17 s)"
  "served c s (deleteContract sv c i s)"
  "served c s (postRfq sv c b19 s)"
  "served c s (patchRfq sv c i b20 s)"
  "served c s (deleteRfq sv c i s)"
  "served c s (postRfqQuote sv c i b22 s)"
  "served c s (awardRfq sv c i b23 s)"
  "served c s (postGrn sv c b24 s)"
  "served c s (patchGrn sv c i b25 s)"
  "served c s (deleteGrn sv c i s)"
  "served c s (postInvoice sv c b27 s)"
  "served c s (patchInvoice sv c i b28 s)"
  "served c s (deleteInvoice sv c i s)"
  unfolding postRequisition_def deleteRequisition_def patchPurchaseOrder_def deletePurchaseOrder_def postVendor_def patchVendor_def deleteVendor_def patchVendorQualityStatus_def postItem_def patchItem_def deleteItem_def postBudget_def patchBudget_def deleteBudget_def closeBudgetPeriod_def postContract_def patchContract_def deleteContract_def postRfq_def patchRfq_def deleteRfq_def postRfqQuote_def awardRfq_def postGrn_def patchGrn_def deleteGrn_def postInvoice_def patchInvoice_def deleteInvoice_def
  by (auto simp: Let_def intro!: served_written elim: steps split: prod.splits)

lemma served_patchRequisition: "served c s (patchRequisition sv c i b s)"
  unfolding patchRequisition_def Let_def
  by (auto simp: served_def [of _ _ "(_, _)"] intro!: commit committed_and_told split: sum.splits option.splits) (erule steps)+

lemma served_approveRequisition: "served c s (approveRequisition sv c i b s)"
  unfolding approveRequisition_def Let_def
  by (auto simp: served_def [of _ _ "(_, _)"] intro!: commit committed_and_told elim: steps split: sum.splits)

lemma served_rejectRequisition: "served c s (rejectRequisition sv c i b s)"
  unfolding rejectRequisition_def Let_def
  by (auto simp: served_def [of _ _ "(_, _)"] intro!: committed_and_told elim: steps split: sum.splits)

lemma served_postPurchaseOrder: "served c s (postPurchaseOrder sv c b s)"
  unfolding postPurchaseOrder_def Let_def
  by (auto intro!: served_written elim: steps split: sum.splits repo_error.splits)

lemma served_approveInvoice: "served c s (approveInvoice sv c i s)"
  unfolding approveInvoice_def
  by (auto simp: served_def [of _ _ "(_, _)"] intro!: commit elim: steps split: sum.splits)

section \<open>Desks\<close>

lemma related_matrix:
  assumes "\<exists>rows. d = (as_db s)\<lparr>db_desks := rows\<rparr>"
  shows "R c s (s\<lparr>as_db := d, as_engine := eng\<rparr>)"
  using assms then_too [OF matrix engine] by force

lemma served_putDeskChain: "served c s (putDeskChain sv k b s)"
  unfolding putDeskChain_def
  by (intro served_ready served_body)
    (auto simp: Let_def served_def refuse_def split: prod.splits sum.splits dest!: ReplaceDeskChain_effect intro!: related_matrix)

lemma served_deleteDeskChain: "served c s (api_deleteDeskChain sv k s)"
  unfolding api_deleteDeskChain_def
  by (intro served_ready)
    (auto simp: Let_def served_def refuse_def split: prod.splits sum.splits dest!: DeleteDeskChain_effect intro!: related_matrix)

lemma served_reloadDeskChains: "served c s (api_reloadDeskChains sv s)"
  unfolding api_reloadDeskChains_def
  by (auto simp: served_def [of _ _ "(_, _)"] intro!: engine split: sum.splits)

lemma served_open: "served c s (openRequisitionDeskChain sv c i b s)"
  unfolding openRequisitionDeskChain_def Let_def
  by (auto simp: served_def [of _ _ "(_, _)"] intro!: opened split: sum.splits)

lemma served_transition: "served c s (applyDeskTransitionOpts sv c so i b fn s)"
  unfolding applyDeskTransitionOpts_def Let_def
proof (intro served_ready served_body)
  fix b
  let ?i = "trim_space i" and ?a = "deskActor (ca_ctx c)"
  let ?tx = "\<lambda>eng s1. if so
    then ApplyDeskTransitionSelfOpening (sv_config sv) (ca_env c) eng ?i (a_id ?a) (engine_op (e_now (ca_env c)) (fn ?a b)) (as_db s1)
    else ApplyDeskTransition (sv_config sv) (ca_env c) eng ?i (engine_op (e_now (ca_env c)) (fn ?a b)) (as_db s1)"
  have step: "repo_step (as_db s1) d" if "?tx eng s1 = Inr (st, d)" for eng s1 st d
    using that by (cases so) (auto elim: steps)
  have "served c s1 (case ?tx eng s1 of Inl er \<Rightarrow> refuse (mapProcurementErr er) s1
      | Inr (_, d) \<Rightarrow> (case DeskProgress eng ?i d of
            Inl er \<Rightarrow> refuse (mapProcurementErr er) (InvalidateSeedCache c (s1\<lparr>as_db := d\<rparr>))
          | Inr (st, p) \<Rightarrow> (answered 200 (RProgress ?i st p)
               (notifyDeskTransition eng (as_auth (InvalidateSeedCache c (s1\<lparr>as_db := d\<rparr>))) ?i st p),
               InvalidateSeedCache c (s1\<lparr>as_db := d\<rparr>))))" for eng s1
    using step [of eng s1]
    by (cases "?tx eng s1") (auto simp: served_def refuse_def intro!: same commit split: prod.splits sum.splits)
  then show "served c s (if so \<and> blank (a_id ?a) then refuse 400 s
     else with_engine sv s (\<lambda>eng s1. case ?tx eng s1 of Inl er \<Rightarrow> refuse (mapProcurementErr er) s1
      | Inr (_, d) \<Rightarrow> (case DeskProgress eng ?i d of
            Inl er \<Rightarrow> refuse (mapProcurementErr er) (InvalidateSeedCache c (s1\<lparr>as_db := d\<rparr>))
          | Inr (st, p) \<Rightarrow> (answered 200 (RProgress ?i st p)
               (notifyDeskTransition eng (as_auth (InvalidateSeedCache c (s1\<lparr>as_db := d\<rparr>))) ?i st p),
               InvalidateSeedCache c (s1\<lparr>as_db := d\<rparr>)))))"
    by (auto intro!: served_engine)
qed

lemma served_write: "served c s (run_write sv c w s)"
  by (cases w)
    (simp_all add: plain_writes served_patchRequisition served_approveRequisition served_rejectRequisition served_postPurchaseOrder
      served_approveInvoice served_putDeskChain served_deleteDeskChain served_reloadDeskChains served_open served_transition
      submitRequisitionToDesk_def advanceRequisitionDesk_def rejectRequisitionDesk_def amendRequisitionDesk_def
      cancelRequisitionDesk_def reopenRequisitionDesk_def)

section \<open>Reads, users and the whole request\<close>

lemma related_load: "R c s (snd (loadCached c s))"
  by (auto simp: loadCached_def cached_seed_def store_seed_def Let_def intro: same fill split: option.splits)

lemma served_list: "served c s (list_route sv c paged part f q s)"
  using related_load [of c s]
  by (auto simp: list_route_def served_def same refuse_def split: option.splits sum.splits prod.splits)

lemma served_read: "served c s (run_read sv c r s)"
proof (cases r)
  case GetSeed
  then show ?thesis using related_load [of c s] by (auto simp: getSeed_def served_def split: prod.splits)
qed (auto simp: listVendors_def listItems_def listBudgets_def listRequisitions_def listRfqs_def listPOs_def listGrns_def
    listInvoices_def listContracts_def listPayments_def listAudit_def served_list api_listApprovalTiers_def getRequisitionByOrigin_def
    answer_read_def listApprovalChains_def api_listDeskMatrix_def getRequisitionDeskProgress_def approvalDesk_def listRfqQuotes_def
    getPurchaseOrder_def split: sum.splits)

lemma served_admin: "served c s (run_admin sv c r s)"
  by (cases r) (auto simp: admin_write_def served_def same users split: prod.splits)

lemma served_dispatch: "served c s (dispatch sv c r s)"
  by (cases r)
    (auto simp: served_read served_write served_admin api_ready_def login_route_def listNotifications_def markNotificationRead_def
      emit_route_def portal_me_def portal_pos_def portal_invoices_def listAPIAuditLogs_def attach_post_def attach_list_def
      attach_url_def attach_delete_def adminIAMDeprecated_def served_def [of _ _ "(_, _)"] same notify attachments refuse_def
      split: prod.splits option.splits)

lemma related_alerts: "R c s s' \<Longrightarrow> R c s (fold (send_alert sv c) als s')"
proof (induction als arbitrary: s')
  case (Cons al als)
  have "R c s' (send_alert sv c al s')"
    by (auto simp: send_alert_def intro: same notify split: sum.splits)
  with Cons show ?case by (auto intro: then_too)
qed simp

theorem served_request: "served c s (serve sv c h r s)"
proof -
  have d: "R c s (snd (dispatch sv (c\<lparr>ca_ctx := x\<rparr>) r s))" for x
    using served_dispatch [of "c\<lparr>ca_ctx := x\<rparr>"] by (auto simp: served_def intro: any_ctx)
  have sec: "R c s s'" if "secured sv c h r x s = ((a, s'), x')" for x a s' x'
    using that d by (auto simp: secured_def refuse_def same split: sum.splits) (metis snd_conv)
  show ?thesis
    using d by (auto simp: serve_def served_def refuse_def same split: sum.splits prod.splits
        intro!: related_alerts intro: then_too [OF _ logged] dest!: sec)
qed

end

end
