(* ===== verification/Api_Properties.thy ===== *)
theory Api_Properties
  imports Api_Contract
begin

text \<open>
  The contracts of the HTTP service: what a request may do to the store, to the cached snapshot and to
  the users, who may make it, and what a refusal leaves behind.
\<close>

section \<open>A run of the service\<close>

text \<open>A request, or the snapshot reaching its time to live.\<close>

inductive api_step :: "server \<Rightarrow> (call \<Rightarrow> bool) \<Rightarrow> api \<Rightarrow> api \<Rightarrow> bool" for sv ok where
  request: "serve sv c h r s = (a, s') \<Longrightarrow> ok c \<Longrightarrow> api_step sv ok s s'"
| expiry: "api_step sv ok s (s\<lparr>as_seed := None\<rparr>)"

section \<open>A running service\<close>

text \<open>
  A service in \<^verbatim>\<open>jwt\<close> mode whose verifier knows the token of one user, who may add budgets and read
  the seed data; with an empty store.
\<close>

definition eve :: platform_claims where
  "eve = \<lparr>pc_subject = ''u-eve'', pc_email = ''eve@iag'', pc_super = False, pc_groups = [], pc_roles = [''buyer''],
     pc_perms = [perm_AddBudget, perm_ViewSeed]\<rparr>"

definition sample_server :: server where
  "sample_server =
     \<lparr>sv_wired = True, sv_config = sample_config, sv_tiered = True, sv_rx = (\<lambda>_. None), sv_deliver = (\<lambda>_ _. True),
      sv_default_recipient = [], sv_mode = ''jwt'', sv_verifier = Some (\<lambda>tok. if tok = ''eve-token'' then Some (eve, ''u-eve'') else None),
      sv_parse_token = (\<lambda>_. None), sv_sign = (\<lambda>_. []), sv_hash = (\<lambda>p. p), sv_matches = (\<lambda>h p. h = p), sv_files = False\<rparr>"

definition sample_call :: call where
  "sample_call = \<lparr>ca_env = sample_env, ca_ctx = empty_ctx, ca_cache_up = True, ca_store_up = True\<rparr>"

definition sample_api :: api where
  "sample_api =
     \<lparr>as_db = empty_db, as_seed = None, as_engine = None, as_notify = \<lparr>ns_rows = [], ns_seq = 0, ns_sent = []\<rparr>,
      as_auth = \<lparr>ad_users = [], ad_groups = [], ad_permissions = [], ad_group_permissions = [], ad_user_groups = [],
        ad_user_permissions = [], ad_user_seq = 0, ad_group_seq = 0, ad_permission_seq = 0\<rparr>,
      as_files = \<lparr>fl_rows = [], fl_blobs = [], fl_bucket = [], fl_grants = []\<rparr>, as_http = []\<rparr>"

definition eve_http :: http where
  "eve_http = \<lparr>ht_path = [], ht_token = [], ht_authorization = ''Bearer eve-token''\<rparr>"

definition new_budget :: route where
  "new_budget = Mut (PostBudget (Some \<lparr>bb_code = ''OPS'', bb_period = ''2025'', bb_allocated = 100, bb_dept = ''ops''\<rparr>))"

definition served_budget :: "answer \<times> api" where
  "served_budget = serve sample_server sample_call eve_http new_budget sample_api"

lemma served_budget_run:
  "an_status (fst served_budget) = 201" "map (b_code \<circ> snd) (db_budgets (as_db (snd served_budget))) = [''OPS'']"
  by code_simp+

section \<open>The store\<close>

text \<open>What the repository layer can do in one operation: a successful operation, or an edit of the desk matrix.\<close>

inductive service_step :: "db \<Rightarrow> db \<Rightarrow> bool" where
  operation: "repo_step d d' \<Longrightarrow> service_step d d'"
| desk_matrix: "service_step d (d\<lparr>db_desks := rows\<rparr>)"

definition store_effect :: "call \<Rightarrow> api \<Rightarrow> api \<Rightarrow> bool" where
  "store_effect c s s' \<longleftrightarrow> service_step\<^sup>*\<^sup>* (as_db s) (as_db s')"

lemma InvalidateSeedCache_simps [simp]:
  "as_db (InvalidateSeedCache c s) = as_db s" "as_auth (InvalidateSeedCache c s) = as_auth s"
  "as_engine (InvalidateSeedCache c s) = as_engine s" "as_notify (InvalidateSeedCache c s) = as_notify s"
  "as_files (InvalidateSeedCache c s) = as_files s" "as_http (InvalidateSeedCache c s) = as_http s"
  by (simp_all add: InvalidateSeedCache_def)

interpretation se: request_effect store_effect
proof
  fix c :: call and s :: api and e eng i k who skip st d
  assume "OpenDeskChain e eng i k who skip (as_db s) = Inr (st, d)"
  then have "service_step (as_db s) d" by (auto intro: service_step.operation elim: side_step.intros [THEN repo_step.intros(1)])
  then show "store_effect c s (s\<lparr>as_db := d\<rparr>)" by (simp add: store_effect_def r_into_rtranclp)
qed (auto simp: store_effect_def intro: service_step.intros)

lemma service_step_budgets: "service_step d d' \<Longrightarrow> budgets_ok d \<Longrightarrow> budgets_ok d'"
  by (induction rule: service_step.induct) (auto intro: repo_step_ok)

lemma service_steps_budgets: "service_step\<^sup>*\<^sup>* d d' \<Longrightarrow> budgets_ok d \<Longrightarrow> budgets_ok d'"
  by (induction rule: rtranclp_induct) (auto intro: service_step_budgets)

text \<open>
  Whatever requests arrive, with whatever tokens, bodies and failures of Redis or the
  object store, the store only moves by successful operations of the repository and edits of the
  desk matrix; so the invariant of the budgets holds after any run of the service.
\<close>

lemma service_refines_the_repository:
  assumes "(api_step sv ok)\<^sup>*\<^sup>* s s'"
  shows "service_step\<^sup>*\<^sup>* (as_db s) (as_db s') \<and> (budgets_ok (as_db s) \<longrightarrow> budgets_ok (as_db s'))"
proof -
  have "service_step\<^sup>*\<^sup>* (as_db s) (as_db s')"
    using assms
  proof (induction rule: rtranclp_induct)
    case (step s1 s2)
    from step(2) have "service_step\<^sup>*\<^sup>* (as_db s1) (as_db s2)"
    proof cases
      case (request c h r a)
      with se.served_request [of c s1 sv h r] show ?thesis by (simp add: se.served_def store_effect_def)
    qed simp
    with step.IH show ?case by (rule rtranclp_trans)
  qed simp
  then show ?thesis using service_steps_budgets by blast
qed

section \<open>The snapshot\<close>

text \<open>\<open>as_seed\<close> is absent or what a fresh load would give.\<close>

definition coherent :: "api \<Rightarrow> bool" where
  "coherent s \<longleftrightarrow> as_seed s = None \<or> as_seed s = Some (Load (as_db s))"

definition snapshot_effect :: "call \<Rightarrow> api \<Rightarrow> api \<Rightarrow> bool" where
  "snapshot_effect c s s' \<longleftrightarrow> (ca_cache_up c \<longrightarrow> coherent s \<longrightarrow> coherent s')"

lemma Load_unread:
  "Load (d\<lparr>db_desks := rows\<rparr>) = Load d" "Load (d\<lparr>db_chain_state := t\<rparr>) = Load d"
  by (simp_all add: Load_def lines_of_def receipt_lines_of_def)

lemma OpenDeskChain_Load: "OpenDeskChain e eng i k who skip d = Inr (st, d') \<Longrightarrow> Load d' = Load d"
  by (auto simp: OpenDeskChain_def openDeskChainTx_def insertDeskState_def Let_def Load_unread split: if_splits option.splits)

interpretation sn: request_effect snapshot_effect
proof
  fix c :: call and s :: api and e eng i k who skip st d
  assume "OpenDeskChain e eng i k who skip (as_db s) = Inr (st, d)"
  then show "snapshot_effect c s (s\<lparr>as_db := d\<rparr>)"
    by (auto simp: snapshot_effect_def coherent_def dest: OpenDeskChain_Load)
qed (auto simp: snapshot_effect_def coherent_def Load_unread InvalidateSeedCache_def)

text \<open>
  Requests that share the cache. Next to the service stand the snapshots of readers that missed and
  have not stored them yet. A reader joins them at its miss and leaves when it stores; in between
  other readers, expiries and requests take their steps, where a request that changes what the
  snapshot shows waits until no reader is in between. The queries of one load then all see the same
  store, so the load is one step. A writing request is one step from its commit to the drop of the
  snapshot.
\<close>

inductive shared_step :: "server \<Rightarrow> (call \<Rightarrow> bool) \<Rightarrow> api \<times> seed_data list \<Rightarrow> api \<times> seed_data list \<Rightarrow> bool"
  for sv ok where
  request: "serve sv c h r s = (a, s') \<Longrightarrow> ok c \<Longrightarrow> ld = [] \<or> Load (as_db s') = Load (as_db s) \<Longrightarrow>
    shared_step sv ok (s, ld) (s', ld)"
| expiry: "shared_step sv ok (s, ld) (s\<lparr>as_seed := None\<rparr>, ld)"
| missed: "cached_seed c s = None \<Longrightarrow> ok c \<Longrightarrow> shared_step sv ok (s, ld) (s, Load (as_db s) # ld)"
| stored: "sd \<in> set ld \<Longrightarrow> ok c \<Longrightarrow> shared_step sv ok (s, ld) (store_seed c sd s, remove1 sd ld)"

definition shared_ok :: "api \<times> seed_data list \<Rightarrow> bool" where
  "shared_ok p \<longleftrightarrow> (case p of (s, ld) \<Rightarrow> coherent s \<and> (\<forall>sd \<in> set ld. sd = Load (as_db s)))"

lemma shared_okD: "shared_ok (s, ld) \<Longrightarrow> x \<in> set ld \<Longrightarrow> x = Load (as_db s)"
  by (simp add: shared_ok_def)

lemma shared_step_ok:
  assumes "shared_step sv ca_cache_up p p'" and "shared_ok p"
  shows "shared_ok p'"
  using assms
proof (induction rule: shared_step.induct)
  case (request c h r s a s' ld)
  with sn.served_request [of c s sv h r] show ?case
    by (auto simp: shared_ok_def sn.served_def snapshot_effect_def)
next
  case (stored sd ld c s)
  note all = shared_okD [OF stored.prems]
  have "\<forall>x \<in> set (remove1 sd ld). x = Load (as_db s)" using all notin_set_remove1 by metis
  with all [OF stored.hyps(1)] stored.hyps(2) show ?case by (simp add: shared_ok_def store_seed_def coherent_def)
qed (auto simp: shared_ok_def coherent_def)

lemma shared_run_ok:
  "(shared_step sv ca_cache_up)\<^sup>*\<^sup>* p p' \<Longrightarrow> shared_ok p \<Longrightarrow> shared_ok p'"
  by (induction rule: rtranclp_induct) (auto intro: shared_step_ok)

text \<open>
  C14. As long as Redis answers, and provided no request changes what the snapshot shows while a
  reader is between its cache miss and storing the snapshot it loaded: along any interleaving of
  requests, expiries and readers that miss, load and store in separate steps, from a state in
  which the snapshot is absent or exact, it stays absent or exactly what loading the store would
  give, and so do the snapshots still being stored; a listing that answers from it shows every
  write committed by a request. (Without the proviso a late store leaves a stale snapshot; see
  the findings.)
\<close>

theorem cached_snapshot_is_exact:
  assumes "(shared_step sv ca_cache_up)\<^sup>*\<^sup>* (s, []) (s', ld)" and "coherent s" and "ca_cache_up c"
  shows "coherent s' \<and> (\<forall>sd \<in> set ld. sd = Load (as_db s')) \<and> fst (loadCached c s') = Load (as_db s')"
proof -
  have "shared_ok (s', ld)" using shared_run_ok [OF assms(1)] assms(2) by (simp add: shared_ok_def)
  then show ?thesis
    using assms(3) by (auto simp: shared_ok_def loadCached_def cached_seed_def coherent_def Let_def)
qed

text \<open>Two readers miss, one stores its snapshot, the other too, then a budget is added.\<close>

definition filled_api :: api where
  "filled_api = store_seed sample_call (Load empty_db) (store_seed sample_call (Load empty_db) sample_api)"

definition served_after :: "answer \<times> api" where
  "served_after = serve sample_server sample_call eve_http new_budget filled_api"

theorem cached_snapshot_is_exact_witness:
  "as_seed filled_api \<noteq> None \<and> an_status (fst served_after) = 201 \<and>
     fst (loadCached sample_call (snd served_after)) = Load (as_db (snd served_after))"
proof -
  let ?step = "shared_step sample_server ca_cache_up" and ?sd = "Load empty_db"
  let ?s1 = "store_seed sample_call ?sd sample_api"
  have up: "ca_cache_up sample_call" by (simp add: sample_call_def)
  have miss: "cached_seed sample_call sample_api = None" and e: "as_db sample_api = empty_db"
    by (simp_all add: cached_seed_def sample_api_def)
  have m: "?step (sample_api, ld) (sample_api, ?sd # ld)" for ld
    using shared_step.missed [of sample_call sample_api ca_cache_up sample_server ld] miss up e by simp
  have "?step (sample_api, [?sd, ?sd]) (?s1, [?sd])" "?step (?s1, [?sd]) (filled_api, [])"
    using shared_step.stored [of ?sd "[?sd, ?sd]" ca_cache_up sample_call sample_server sample_api]
      shared_step.stored [of ?sd "[?sd]" ca_cache_up sample_call sample_server ?s1] up
    by (simp_all add: filled_api_def)
  moreover have "?step (filled_api, []) (snd served_after, [])"
    by (rule shared_step.request [of _ sample_call eve_http new_budget _ "fst served_after"]) (simp_all add: served_after_def up)
  ultimately have run: "?step\<^sup>*\<^sup>* (sample_api, []) (snd served_after, [])"
    using m [of "[]"] m [of "[?sd]"] by (meson converse_rtranclp_into_rtranclp rtranclp.rtrancl_refl)
  have "coherent sample_api" by (simp add: coherent_def sample_api_def)
  from cached_snapshot_is_exact [OF run this up]
  have "fst (loadCached sample_call (snd served_after)) = Load (as_db (snd served_after))" by simp
  moreover have "as_seed filled_api \<noteq> None" by (simp add: filled_api_def store_seed_def up)
  moreover have "an_status (fst served_after) = 201" by code_simp
  ultimately show ?thesis by simp
qed

text \<open>
  The order that \<open>shared_step\<close> leaves out: a reader misses and loads, a budget is committed and the
  snapshot dropped, and the reader then stores what it loaded. The snapshot lacks the budget until
  its time to live ends or the next write.
\<close>

lemma late_fill_leaves_stale_snapshot:
  "cached_seed sample_call sample_api = None \<and> an_status (fst served_budget) = 201 \<and>
   \<not> coherent (store_seed sample_call (Load (as_db sample_api)) (snd served_budget))"
proof -
  let ?s = "store_seed sample_call (Load (as_db sample_api)) (snd served_budget)"
  have "map_option (length \<circ> sd_budgets) (as_seed ?s) = Some 0" by code_simp
  moreover have "length (sd_budgets (Load (as_db ?s))) = 1" by code_simp
  ultimately have "\<not> coherent ?s" by (auto simp: coherent_def)
  moreover have "cached_seed sample_call sample_api = None" by (simp add: cached_seed_def sample_api_def)
  ultimately show ?thesis using served_budget_run(1) by simp
qed

section \<open>Who may write\<close>

text \<open>What the token of a request carries: a permission of the signed claims, or superuser.\<close>

definition token_grants :: "server \<Rightarrow> http \<Rightarrow> string \<Rightarrow> bool" where
  "token_grants sv h code \<longleftrightarrow>
     (if sv_mode sv = ''legacy'' then
        \<exists>p tok cl. split_blank (ht_authorization h) = (p, Some tok) \<and> sv_parse_token sv (trim_space tok) = Some cl \<and>
          (cl_super cl \<or> code \<in> set (cl_perms cl))
      else \<exists>verify cl uid. sv_verifier sv = Some verify \<and> verify (bearerToken h) = Some (cl, uid) \<and> HasPermission cl code)"

lemma require_all_iff:
  "require_all ps x = Inr y \<longleftrightarrow> y = x \<and> (\<forall>p\<in>set ps. RequirePermission p x = Inr x)"
  by (induction ps) (auto simp: RequirePermission_def split: if_splits option.splits)

lemma bearerToken_path [simp]: "bearerToken (h\<lparr>ht_path := p\<rparr>) = bearerToken h"
  by (simp add: bearerToken_def)

lemma legacy_grant:
  assumes "sv_mode sv = ''legacy''" and "AttachPrincipal ''legacy'' vf h' empty_ctx = Inr x0"
    and "JWTAuth (sv_parse_token sv) h x0 = Inr x" and "RequirePermission code x = Inr x"
  shows "token_grants sv h code"
proof -
  have "x0 = empty_ctx\<lparr>cx_mode := ''legacy''\<rparr>"
    using assms(2) by (simp add: AttachPrincipal_def Let_def split: if_splits)
  with assms show ?thesis
    by (auto simp: token_grants_def JWTAuth_def RequirePermission_def list_ex_iff empty_ctx_def split: prod.splits option.splits if_splits)
qed

lemma jwt_grant:
  assumes "sv_mode sv = ''jwt''" and "AttachPrincipal ''jwt'' (sv_verifier sv) (h\<lparr>ht_path := p\<rparr>) empty_ctx = Inr x"
    and "RequireAuth x = Inr y" and "RequirePermission code x = Inr x"
  shows "token_grants sv h code"
  using assms
  by (auto simp: token_grants_def AttachPrincipal_def fromJWT_def setPrincipal_def RequireAuth_def RequirePermission_def empty_ctx_def
      Let_def split: option.splits if_splits)

text \<open>A request that reaches its handler carries every permission of its route.\<close>

lemma secured_grants:
  assumes "sv_mode sv \<in> {''jwt'', ''legacy''}"
    and "AttachPrincipal (sv_mode sv) (sv_verifier sv) (h\<lparr>ht_path := p\<rparr>) empty_ctx = Inr x"
    and "secured sv c h r x s = ((a, s'), x')" and "s' \<noteq> s" and "code \<in> set (route_permissions (sv_mode sv) r)"
  shows "token_grants sv h code"
proof -
  have r: "\<not> (\<exists>b. r = LoginRoute b)" using assms(5) by auto
  obtain x1 where x1: "authenticated sv h r x = Inr x1" and rp: "RequirePermission code x1 = Inr x1"
    using assms(3-5) by (auto simp: secured_def refuse_def require_all_iff split: sum.splits)
  show ?thesis
  proof (cases "sv_mode sv = ''legacy''")
    case True
    then have "JWTAuth (sv_parse_token sv) h x = Inr x1" using x1 r by (cases r) auto
    with True assms(2) rp show ?thesis by (auto intro: legacy_grant)
  next
    case False
    then have m: "sv_mode sv = ''jwt''" using assms(1) by auto
    then have auth: "RequireAuth x = Inr x1" using x1 r by (cases r) auto
    then have "x1 = x" by (auto simp: RequireAuth_def split: if_splits)
    with m assms(2) rp auth show ?thesis by (auto intro: jwt_grant)
  qed
qed

lemma loadCached_keeps:
  assumes "loadCached c s = (sd, s')"
  shows "as_db s' = as_db s" "as_auth s' = as_auth s" "as_files s' = as_files s" "as_notify s' = as_notify s"
  using assms by (auto simp: loadCached_def store_seed_def Let_def split: option.splits if_splits)

lemma list_route_keeps [simp]:
  "as_db (snd (list_route sv c paged part f q s)) = as_db s" "as_auth (snd (list_route sv c paged part f q s)) = as_auth s"
  by (auto simp: list_route_def refuse_def split: option.splits sum.splits prod.splits dest: loadCached_keeps)

lemmas read_defs = listVendors_def listItems_def listBudgets_def listRequisitions_def listRfqs_def listPOs_def listGrns_def
  listInvoices_def listContracts_def listPayments_def listAudit_def api_listApprovalTiers_def getRequisitionByOrigin_def
  answer_read_def listApprovalChains_def api_listDeskMatrix_def getRequisitionDeskProgress_def approvalDesk_def listRfqQuotes_def
  getPurchaseOrder_def getSeed_def ready_def with_engine_def refuse_def

lemma reads_keep [simp]: "as_db (snd (run_read sv c r s)) = as_db s" "as_auth (snd (run_read sv c r s)) = as_auth s"
  by (cases r; auto simp: read_defs split: sum.splits prod.splits dest: loadCached_keeps)+

lemma dispatch_keeps:
  assumes "\<And>w. r \<noteq> Mut w" and "\<And>a. r \<noteq> Admin a"
  shows "as_db (snd (dispatch sv c r s)) = as_db s \<and> as_auth (snd (dispatch sv c r s)) = as_auth s"
  using assms
  by (cases r)
    (auto simp: api_ready_def login_route_def listNotifications_def markNotificationRead_def emit_route_def portal_me_def
      portal_pos_def portal_invoices_def listAPIAuditLogs_def attach_post_def attach_list_def attach_url_def attach_delete_def
      refuse_def split: prod.splits option.splits)

lemma alerts_keep [simp]:
  "as_db (fold (send_alert sv c) als s) = as_db s" "as_auth (fold (send_alert sv c) als s) = as_auth s"
  "as_files (fold (send_alert sv c) als s) = as_files s" "as_seed (fold (send_alert sv c) als s) = as_seed s"
  by (induction als arbitrary: s) (simp_all add: send_alert_def split: sum.splits)

text \<open>
  C12. A request that changes the store or the users is one of the writing routes, and its
  token, verified for the configured mode, carries the permission that route is registered with
  (every one of them for the user administration, which exists only in legacy mode).
\<close>

theorem writes_carry_their_permission:
  assumes "sv_mode sv \<in> {''jwt'', ''legacy''}" and "serve sv c h r s = (a, s')"
    and "as_db s' \<noteq> as_db s \<or> as_auth s' \<noteq> as_auth s"
  shows "(\<exists>w. r = Mut w \<and> token_grants sv h (write_permission w)) \<or>
    (\<exists>ad. r = Admin ad \<and> sv_mode sv = ''legacy'' \<and> (\<forall>p\<in>set (admin_permissions ad). token_grants sv h p))"
proof -
  obtain x where x: "AttachPrincipal (sv_mode sv) (sv_verifier sv) (h\<lparr>ht_path := snd (route_pattern r)\<rparr>) empty_ctx = Inr x"
    using assms(2,3) by (auto simp: serve_def refuse_def split: sum.splits)
  have np: "\<not> is_probe r"
    using assms(2,3) x by (cases r) (auto simp: serve_def api_ready_def refuse_def split: if_splits)
  obtain s1 x' where sec: "secured sv c h r x s = ((a, s1), x')" and db: "as_db s' = as_db s1" and au: "as_auth s' = as_auth s1"
    using assms(2,3) x np by (auto simp: serve_def refuse_def split: if_splits prod.splits)
  have ne: "s1 \<noteq> s" using assms(3) db au by auto
  have s1: "s1 = snd (dispatch sv (c\<lparr>ca_ctx := x'\<rparr>) r s)"
    using sec ne by (auto simp: secured_def refuse_def split: sum.splits)
  note grants = secured_grants [OF assms(1) x sec ne]
  consider w where "r = Mut w" | ad where "r = Admin ad" | "\<And>w. r \<noteq> Mut w" "\<And>ad. r \<noteq> Admin ad" by blast
  then show ?thesis
  proof cases
    case 1
    then show ?thesis using grants [of "write_permission w"] by auto
  next
    case 2
    have "sv_mode sv = ''legacy''"
      using s1 ne 2 by (auto simp: adminIAMDeprecated_def refuse_def split: if_splits)
    then show ?thesis using grants 2 by auto
  next
    case 3
    then show ?thesis using dispatch_keeps [of r sv "c\<lparr>ca_ctx := x'\<rparr>" s] s1 db au assms(3) by simp
  qed
qed

theorem writes_carry_their_permission_witness:
  "as_db (snd served_budget) \<noteq> empty_db \<and> token_grants sample_server eve_http perm_AddBudget"
proof -
  have "db_budgets (as_db (snd served_budget)) \<noteq> db_budgets empty_db"
    using served_budget_run(2) by (auto simp: empty_db_def)
  then have ne: "as_db (snd served_budget) \<noteq> empty_db" by auto
  have run: "serve sample_server sample_call eve_http new_budget sample_api = (fst served_budget, snd served_budget)"
    by (simp add: served_budget_def)
  have mode: "sv_mode sample_server \<in> {''jwt'', ''legacy''}" by (simp add: sample_server_def)
  have "as_db (snd served_budget) \<noteq> as_db sample_api \<or> as_auth (snd served_budget) \<noteq> as_auth sample_api"
    using ne by (simp add: sample_api_def)
  from writes_carry_their_permission [OF mode run this] ne show ?thesis by (auto simp: new_budget_def)
qed

section \<open>Refusals\<close>

definition untouched :: "api \<Rightarrow> api \<Rightarrow> bool" where
  "untouched s s' \<longleftrightarrow> as_db s' = as_db s \<and> as_auth s' = as_auth s \<and> as_files s' = as_files s \<and> as_seed s' = as_seed s \<and>
     as_notify s' = as_notify s"

definition clean :: "api \<Rightarrow> answer \<times> api \<Rightarrow> bool" where
  "clean s r \<longleftrightarrow> (400 \<le> an_status (fst r) \<longrightarrow> untouched s (snd r) \<and> an_alerts (fst r) = [])"

lemma untouched_refl [simp]: "untouched s s"
  by (simp add: untouched_def)

lemma answered_simps [simp]: "an_status (answered st b al) = st" "an_alerts (answered st b al) = al" "an_body (answered st b al) = b"
  by (simp_all add: answered_def)

lemma clean_refuse [intro!]: "untouched s s' \<Longrightarrow> clean s (refuse st s')"
  by (simp add: clean_def refuse_def)

lemma clean_answer [intro!]: "st < 400 \<Longrightarrow> clean s (answered st b al, s')"
  by (simp add: clean_def)

lemma clean_ready [intro!]: "clean s r \<Longrightarrow> clean s (ready sv s r)"
  by (auto simp: ready_def)

lemma clean_body [intro!]: "(\<And>b. clean s (k b)) \<Longrightarrow> clean s (with_body body req s k)"
  by (auto simp: with_body_def split: option.splits)

lemma clean_day [intro!]: "(\<And>t. clean s (k t)) \<Longrightarrow> clean s (with_day r s k)"
  by (auto simp: with_day_def split: sum.splits)

lemma clean_written [intro!]: "st < 400 \<Longrightarrow> clean s (written c st f r s)"
  by (auto simp: written_def split: sum.splits)

lemma clean_engine [intro!]:
  "(\<And>eng. clean s (k eng (s\<lparr>as_engine := Some eng\<rparr>))) \<Longrightarrow> clean s (with_engine sv s k)"
  by (auto simp: with_engine_def split: sum.splits)

lemma untouched_engine [simp]: "untouched s (s\<lparr>as_engine := e\<rparr>)"
  by (simp add: untouched_def)

text \<open>Once a transition has committed, its tracker renders.\<close>

lemma chain_step_known:
  assumes "chain_step eng now amt op b = Inr after"
  shows "\<exists>c. registry_Get eng (s_chain_key after) = Some c"
proof -
  obtain s where "run_op eng now op s = Inr after" using assms by (auto simp: chain_step_def)
  then show ?thesis
    by (cases op) (auto simp: Submit_def Advance_def Reject_def Amend_def Cancel_def Reopen_def chainFor_Inr record_step_def clone_def
        Let_def split: if_splits list.splits)
qed

lemma transition_renders:
  assumes "applyDeskTransition cf e eng i who (engine_op now op) d = Inr (after, d')" and "desk_ok d"
  shows "\<exists>p. DeskProgress eng i d' = Inr (after, p)"
proof -
  note tp = transition_persists [OF assms]
  obtain c where "registry_Get eng (s_chain_key after) = Some c" using tp(4) chain_step_known by blast
  then obtain p where "Progress eng after = Inr p" using Progress_total by blast
  with tp(1) show ?thesis by (simp add: DeskProgress_def LoadDeskState_def map_err_def)
qed

lemma clean_transition:
  assumes "desk_ok (as_db s)"
  shows "clean s (applyDeskTransitionOpts sv c so i b fn s)"
proof -
  have "\<exists>st p. DeskProgress eng i d = Inr (st, p)"
    if "ApplyDeskTransitionSelfOpening cf e eng i who (engine_op now op) (as_db s) = Inr (x, d) \<or>
        ApplyDeskTransition cf e eng i (engine_op now op) (as_db s) = Inr (x, d)" for cf e eng i who now op x d
    using that assms transition_renders
    by (fastforce simp: ApplyDeskTransitionSelfOpening_def ApplyDeskTransition_def split: if_splits)
  then show ?thesis
    unfolding applyDeskTransitionOpts_def Let_def
    by (intro clean_ready clean_body) (auto split: sum.splits prod.splits, (metis sum.distinct(1))+)
qed

fun edits_matrix :: "route \<Rightarrow> bool" where
  "edits_matrix (Mut (PutDeskChain _ _)) = True"
| "edits_matrix (Mut (DeleteDeskChainRoute _)) = True"
| "edits_matrix _ = False"

lemma clean_write:
  assumes "desk_ok (as_db s)" and "\<not> edits_matrix (Mut w)"
  shows "clean s (run_write sv c w s)"
  using assms(2)
proof (cases w)
  case (PostPurchaseOrder b)
  have "clean s (postPurchaseOrder sv c b s)"
    unfolding postPurchaseOrder_def Let_def by (auto split: sum.splits repo_error.splits)
  then show ?thesis using PostPurchaseOrder by simp
qed (auto simp: postRequisition_def patchRequisition_def approveRequisition_def rejectRequisition_def deleteRequisition_def
    openRequisitionDeskChain_def submitRequisitionToDesk_def advanceRequisitionDesk_def rejectRequisitionDesk_def
    amendRequisitionDesk_def cancelRequisitionDesk_def reopenRequisitionDesk_def clean_transition [OF assms(1)]
    api_reloadDeskChains_def patchPurchaseOrder_def deletePurchaseOrder_def postVendor_def patchVendor_def deleteVendor_def
    patchVendorQualityStatus_def postItem_def patchItem_def deleteItem_def postBudget_def patchBudget_def deleteBudget_def
    closeBudgetPeriod_def postContract_def patchContract_def deleteContract_def postRfq_def patchRfq_def deleteRfq_def
    postRfqQuote_def awardRfq_def postGrn_def patchGrn_def deleteGrn_def postInvoice_def patchInvoice_def deleteInvoice_def
    approveInvoice_def Let_def split: sum.splits prod.splits)

lemma clean_read: "clean s (run_read sv c r s)"
  by (cases r) (auto simp: read_defs clean_def list_route_def split: sum.splits prod.splits option.splits)

lemma rbac_write_refuses: "400 \<le> fst (rbac_write r a) \<Longrightarrow> snd (rbac_write r a) = a"
  by (auto simp: rbac_write_def split: sum.splits)

lemma clean_admin: "clean s (run_admin sv c r s)"
proof -
  have w: "clean s (admin_write r s)" if "400 \<le> fst r \<Longrightarrow> snd r = as_auth s" for r
    using that by (auto simp: admin_write_def clean_def untouched_def split: prod.splits)
  show ?thesis
    by (cases r)
      (auto intro!: w simp: postAdminCreateUser_def patchAdminUserPassword_def patchAdminUser_def putAdminUserGroups_def
        putGroupPermissions_def Let_def rbac_write_refuses split: option.splits sum.splits prod.splits if_splits)
qed

lemma attach_refused:
  "postAttachment conf e who b fs = (st, None, fs') \<Longrightarrow> fs' = fs"
  "postAttachment conf e who b fs = (st, Some x, fs') \<Longrightarrow> st = 201"
  "deleteAttachment conf up True i fs = (st, fs') \<Longrightarrow> 400 \<le> st \<Longrightarrow> fs' = fs"
  by (auto simp: postAttachment_def deleteAttachment_def Let_def split: if_splits option.splits sum.splits)

lemma emit_refused: "emitNotification dv now pu bc b n = (st, n') \<Longrightarrow> 400 \<le> st \<Longrightarrow> n' = n"
  by (auto simp: emitNotification_def Emit_def Let_def split: if_splits option.splits sum.splits prod.splits)

lemma clean_dispatch:
  assumes "desk_ok (as_db s)" and "\<not> edits_matrix r"
  shows "clean s (dispatch sv c r s)"
proof (cases r)
  case (Mut w)
  then show ?thesis using clean_write assms by simp
next
  case (PostAttachment b)
  then show ?thesis
    by (auto simp: attach_post_def split: prod.splits option.splits dest: attach_refused)
next
  case (DeleteAttachmentRoute i)
  then show ?thesis
    by (auto simp: attach_delete_def clean_def untouched_def split: prod.splits dest: attach_refused)
next
  case (EmitRoute bc b)
  then show ?thesis
    by (auto simp: emit_route_def clean_def untouched_def split: prod.splits dest: emit_refused)
next
  case (Admin ad)
  then show ?thesis by (auto simp: clean_admin adminIAMDeprecated_def)
next
  case Me
  have "an_alerts (getMe (ca_ctx c)) = []" by (simp add: getMe_def split: option.splits)
  then show ?thesis using Me by (simp add: clean_def)
qed (auto simp: clean_read api_ready_def login_route_def postLogin_def listNotifications_def markNotificationRead_def
    portal_me_def PortalMe_def portal_pos_def portal_invoices_def listAPIAuditLogs_def attach_list_def attach_url_def getAttachmentURL_def
    split: prod.splits option.splits if_splits)

text \<open>
  C15. While PostgreSQL answers, a request answered with an error, edits of the desk matrix
  apart, leaves the store, the users, the attachments, the snapshot and the notifications as
  they were. The matrix is the exception because its rows are committed before the engine is
  rebuilt from them.
\<close>

theorem refused_request_changes_nothing:
  assumes "serve sv c h r s = (a, s')" and "400 \<le> an_status a" and "desk_ok (as_db s)" and "\<not> edits_matrix r"
  shows "as_db s' = as_db s \<and> as_auth s' = as_auth s \<and> as_files s' = as_files s \<and> as_seed s' = as_seed s \<and>
    as_notify s' = as_notify s"
proof -
  note d = clean_dispatch [OF assms(3,4)]
  have sec: "untouched s s1 \<and> an_alerts a = []" if "secured sv c h r x s = ((a, s1), x')" for x s1 x'
    using that d [of sv "c\<lparr>ca_ctx := x'\<rparr>"] assms(2)
    by (auto simp: secured_def refuse_def clean_def split: sum.splits)
  consider "s' = s" | x where "dispatch sv (c\<lparr>ca_ctx := x\<rparr>) r s = (a, s')"
    | x s1 x' where "secured sv c h r x s = ((a, s1), x')"
        "s' = fold (send_alert sv c) (an_alerts a) (s1\<lparr>as_http := as_http s1 @ [RequestAudit r x' (an_status a)]\<rparr>)"
    using assms(1) by (auto simp: serve_def refuse_def split: sum.splits if_splits prod.splits)
  then have "untouched s s'"
  proof cases
    case 2
    then show ?thesis using d [of sv "c\<lparr>ca_ctx := x\<rparr>"] assms(2) by (simp add: clean_def)
  next
    case 3
    then show ?thesis using sec [of x s1 x'] by (simp add: untouched_def)
  qed simp
  then show ?thesis by (simp add: untouched_def)
qed

text \<open>The same user adding a vendor is refused.\<close>

definition refused_vendor :: "answer \<times> api" where
  "refused_vendor = serve sample_server sample_call eve_http (Mut (PostVendor None)) (snd served_budget)"

theorem refused_request_changes_nothing_witness:
  "an_status (fst refused_vendor) = 403 \<and> as_db (snd refused_vendor) = as_db (snd served_budget) \<and>
     length (as_http (snd refused_vendor)) = 2"
proof -
  have st: "an_status (fst refused_vendor) = 403" by code_simp
  have run: "serve sample_server sample_call eve_http (Mut (PostVendor None)) (snd served_budget) = (fst refused_vendor, snd refused_vendor)"
    by (simp add: refused_vendor_def)
  have "db_chain_state (as_db (snd served_budget)) = [] \<and> db_steps (as_db (snd served_budget)) = []" by code_simp
  then have ok: "desk_ok (as_db (snd served_budget))" by (simp add: desk_ok_def steps_of_def tbl_get_def)
  have "as_db (snd refused_vendor) = as_db (snd served_budget)"
    using refused_request_changes_nothing [OF run _ ok] st by simp
  moreover have "length (as_http (snd refused_vendor)) = 2" by code_simp
  ultimately show ?thesis using st by simp
qed

end
