(* ===== verification/Listing_Properties.thy ===== *)
theory Listing_Properties
  imports Api_Properties
begin

text \<open>
  The listings against the snapshot they duplicate, and what the vendor portal shows.
\<close>

section \<open>Pages\<close>

text \<open>The first \<open>m\<close> pages of \<open>n\<close> rows, without a search term.\<close>

definition all_pages :: "(int \<Rightarrow> int \<Rightarrow> string \<Rightarrow> db \<Rightarrow> 'a list) \<Rightarrow> int \<Rightarrow> nat \<Rightarrow> db \<Rightarrow> 'a list" where
  "all_pages f n m d = concat (map (\<lambda>k. f n (int k * n) [] d) [0 ..< m])"

lemma all_pages_take:
  assumes "\<And>l k. f l k [] d = page l k xs" and "0 < n" and "length xs \<le> m * nat n"
  shows "all_pages f n m d = xs"
  using pages_cover [OF assms(2), of xs m] assms(3) by (simp add: all_pages_def assms(1))

lemma by_id_length [simp]: "length (by_id t) = length t" "length (view f t) = length t"
  by (simp_all add: by_id_def view_def)

text \<open>
  C1. Reading a listing page by page gives the snapshot's listing: for any page size, the pages up to the
  last row, put together, are the rows of \<^verbatim>\<open>Seed.Load\<close> in the same order with the same columns, for
  vendors, items, budgets, requests for quotation, receipts, invoices, contracts and payments.
\<close>

text \<open>
  C29. Reading a listing page by page gives the snapshot listing: for any page size, the pages
  up to the last row, put together, are the rows of Seed.Load in the same order with the same
  columns, for vendors, items, budgets, requests for quotation, receipts, invoices, contracts
  and payments.
\<close>

theorem pages_assemble_the_snapshot:
  assumes "0 < n"
    and "list_all (\<lambda>k. k \<le> m * nat n) [length (db_vendors d), length (db_items d), length (db_budgets d), length (db_rfqs d),
           length (db_grns d), length (db_invoices d), length (db_contracts d), length (db_payments d)]"
  shows "all_pages ListVendors n m d = sd_vendors (Load d) \<and> all_pages ListItems n m d = sd_items (Load d) \<and>
    all_pages ListBudgets n m d = sd_budgets (Load d) \<and> all_pages ListRfqs n m d = sd_rfqs (Load d) \<and>
    all_pages ListGrns n m d = sd_grns (Load d) \<and> all_pages ListInvoices n m d = sd_invoices (Load d) \<and>
    all_pages ListContracts n m d = sd_contracts (Load d) \<and> all_pages ListPayments n m d = sd_payments (Load d)"
proof (intro conjI)
  show "all_pages ListVendors n m d = sd_vendors (Load d)"
    by (rule all_pages_take) (use assms in \<open>simp_all add: ListVendors_def Load_def view_page\<close>)
  show "all_pages ListItems n m d = sd_items (Load d)"
    by (rule all_pages_take) (use assms in \<open>simp_all add: ListItems_def Load_def view_page\<close>)
  show "all_pages ListBudgets n m d = sd_budgets (Load d)"
    by (rule all_pages_take) (use assms in \<open>simp_all add: ListBudgets_def Load_def\<close>)
  show "all_pages ListRfqs n m d = sd_rfqs (Load d)"
    by (rule all_pages_take) (use assms in \<open>simp_all add: ListRfqs_def Load_def view_page\<close>)
  show "all_pages ListGrns n m d = sd_grns (Load d)"
    by (rule all_pages_take) (use assms in \<open>simp_all add: ListGrns_def Load_def map_page\<close>)
  show "all_pages ListInvoices n m d = sd_invoices (Load d)"
    by (rule all_pages_take) (use assms in \<open>simp_all add: ListInvoices_def Load_def\<close>)
  show "all_pages ListContracts n m d = sd_contracts (Load d)"
    by (rule all_pages_take) (use assms in \<open>simp_all add: ListContracts_def Load_def view_page\<close>)
  show "all_pages ListPayments n m d = sd_payments (Load d)"
    by (rule all_pages_take) (use assms in \<open>simp_all add: ListPayments_def Load_def\<close>)
qed

definition three_budgets :: db where
  "three_budgets = empty_db\<lparr>db_budgets := [(''b3'', sample_budget 30), (''b1'', sample_budget 10), (''b2'', sample_budget 20)]\<rparr>"

theorem pages_assemble_the_snapshot_witness:
  "all_pages ListBudgets 2 2 three_budgets = sd_budgets (Load three_budgets) \<and>
     map fst (ListBudgets 2 0 [] three_budgets) = [''b1'', ''b2''] \<and> map fst (ListBudgets 2 2 [] three_budgets) = [''b3'']"
proof -
  have "list_all (\<lambda>k. k \<le> 2 * nat 2) [length (db_vendors three_budgets), length (db_items three_budgets),
      length (db_budgets three_budgets), length (db_rfqs three_budgets), length (db_grns three_budgets),
      length (db_invoices three_budgets), length (db_contracts three_budgets), length (db_payments three_budgets)]"
    by (simp add: three_budgets_def empty_db_def)
  from pages_assemble_the_snapshot [OF _ this]
  have "all_pages ListBudgets 2 2 three_budgets = sd_budgets (Load three_budgets)" by simp
  moreover have "map fst (ListBudgets 2 0 [] three_budgets) = [''b1'', ''b2'']" by code_simp
  moreover have "map fst (ListBudgets 2 2 [] three_budgets) = [''b3'']" by code_simp
  ultimately show ?thesis by simp
qed

section \<open>The portal\<close>

lemma attached_uid:
  assumes "sv_mode sv = ''jwt''" and "AttachPrincipal ''jwt'' (sv_verifier sv) (h\<lparr>ht_path := p\<rparr>) empty_ctx = Inr x"
    and "cx_platform_uid x = Some u"
  shows "\<exists>verify cl. sv_verifier sv = Some verify \<and> verify (bearerToken h) = Some (cl, u)"
  using assms by (auto simp: AttachPrincipal_def fromJWT_def setPrincipal_def empty_ctx_def Let_def split: option.splits if_splits)

text \<open>The context a handler behind \<^verbatim>\<open>RequireAuth\<close> runs in, in \<^verbatim>\<open>jwt\<close> mode.\<close>

lemma jwt_handled:
  assumes "sv_mode sv = ''jwt''" and "serve sv c h r s = (a, s')" and "an_body a \<noteq> ErrorBody"
  shows "\<exists>x s1. AttachPrincipal ''jwt'' (sv_verifier sv) (h\<lparr>ht_path := snd (route_pattern r)\<rparr>) empty_ctx = Inr x \<and>
    dispatch sv (c\<lparr>ca_ctx := x\<rparr>) r s = (a, s1)"
proof -
  have auth: "x' = x" if "authenticated sv h r x = Inr x'" for x x'
    using that assms(1) by (cases r) (auto simp: RequireAuth_def split: if_splits)
  have sec: "\<exists>s1. dispatch sv (c\<lparr>ca_ctx := x\<rparr>) r s = (a, s1)" if "secured sv c h r x s = ((a, s2), x')" for x s2 x'
    using that assms(3) auth by (auto simp: secured_def refuse_def split: sum.splits)
  show ?thesis
    using assms by (auto simp: serve_def refuse_def split: sum.splits if_splits prod.splits dest!: sec)
qed

lemma portal_vendor_linked: "portal_vendor u d = Some (i, v) \<Longrightarrow> (i, v) \<in> set (db_vendors d) \<and> vd_platform_user_id v = Some u"
  by (auto simp: portal_vendor_def find_Some_iff) (metis nth_mem)+

text \<open>
  C16. The vendor portal shows a user only what belongs to the vendor linked to that user: every
  order and every invoice in an answer is a row of the store whose vendor is the one whose
  platform user is the subject of the verified token, and there are at most fifty.
\<close>

theorem portal_shows_only_own_rows:
  assumes "sv_mode sv = ''jwt''" and "serve sv c h r s = (a, s')"
    and "r = PortalPosRoute \<and> an_body a = RPosPlain pos \<or> r = PortalInvoicesRoute \<and> an_body a = RInvoices invs"
  shows "\<exists>verify cl u vid v. sv_verifier sv = Some verify \<and> verify (bearerToken h) = Some (cl, u) \<and>
    (vid, v) \<in> set (db_vendors (as_db s)) \<and> vd_platform_user_id v = Some u \<and>
    (r = PortalPosRoute \<longrightarrow> length pos \<le> 50 \<and> (\<forall>(i, p)\<in>set pos. (i, p) \<in> set (db_purchase_orders (as_db s)) \<and> po_vendor_id p = vid)) \<and>
    (r = PortalInvoicesRoute \<longrightarrow> length invs \<le> 50 \<and> (\<forall>(i, n)\<in>set invs. (i, n) \<in> set (db_invoices (as_db s)) \<and> inv_vendor_id n = vid))"
proof -
  have "an_body a \<noteq> ErrorBody" using assms(3) by auto
  then obtain x s1 where x: "AttachPrincipal ''jwt'' (sv_verifier sv) (h\<lparr>ht_path := snd (route_pattern r)\<rparr>) empty_ctx = Inr x"
    and run: "dispatch sv (c\<lparr>ca_ctx := x\<rparr>) r s = (a, s1)"
    using jwt_handled [OF assms(1,2)] by blast
  obtain u vid v where u: "cx_platform_uid x = Some u" and pv: "portal_vendor u (as_db s) = Some (vid, v)"
    and pos: "r = PortalPosRoute \<Longrightarrow> pos =
      take 50 (sort_key (\<lambda>(_, p). - po_created_at p) (filter (\<lambda>(_, p). po_vendor_id p = vid) (db_purchase_orders (as_db s))))"
    and invs: "r = PortalInvoicesRoute \<Longrightarrow> invs =
      take 50 (sort_key invoice_rank (filter (\<lambda>(_, v). inv_vendor_id v = vid) (db_invoices (as_db s))))"
    using run assms(3)
    by (auto simp: portal_pos_def PortalPOs_def portal_invoices_def PortalInvoices_def refuse_def split: option.splits)
  obtain verify cl where "sv_verifier sv = Some verify" "verify (bearerToken h) = Some (cl, u)"
    using attached_uid [OF assms(1) x u] by blast
  moreover have "r = PortalPosRoute \<longrightarrow> length pos \<le> 50 \<and>
      (\<forall>(i, p)\<in>set pos. (i, p) \<in> set (db_purchase_orders (as_db s)) \<and> po_vendor_id p = vid)"
    using pos by (auto dest!: in_set_takeD)
  moreover have "r = PortalInvoicesRoute \<longrightarrow> length invs \<le> 50 \<and>
      (\<forall>(i, n)\<in>set invs. (i, n) \<in> set (db_invoices (as_db s)) \<and> inv_vendor_id n = vid)"
    using invs by (auto dest!: in_set_takeD)
  ultimately show ?thesis using portal_vendor_linked [OF pv] by blast
qed

text \<open>Two vendors with one invoice each; eve's platform user is linked to the first.\<close>

definition portal_invoice :: "string \<Rightarrow> invoice_row" where
  "portal_invoice vid = \<lparr>inv_invoice_no = None, inv_vendor_id = vid, inv_po_id = None, inv_grn_id = None, inv_amount = 5,
     inv_currency = ''USD'', inv_status = ''Pending'', inv_match_status = ''Unmatched'', inv_invoice_date = Some 7,
     inv_payment_date = None, inv_payment_method = [], inv_variance_resolution = [], inv_due_date = None\<rparr>"

definition portal_vendor_row :: "string option \<Rightarrow> vendor_row" where
  "portal_vendor_row u = \<lparr>vd_name = ''Acme'', vd_logo = [], vd_category = [], vd_contact = [], vd_email = [], vd_phone = [],
     vd_country = [], vd_terms = [], vd_rating = 0, vd_status = ''Active'', vd_total_spend = 0, vd_open_pos = 0, vd_party_id = None,
     vd_platform_user_id = u, vd_scm_business_id = None, vd_quality_status = ''approved'', vd_quality_status_reason = [],
     vd_quality_status_by = [], vd_quality_status_at = None, vd_qc_recommendation = [], vd_qc_acceptance_rate = None, vd_qc_reasons = [],
     vd_qc_recommended_at = None\<rparr>"

definition portal_api :: api where
  "portal_api = sample_api\<lparr>as_db := empty_db\<lparr>db_vendors := [(''v2'', portal_vendor_row None), (''v1'', portal_vendor_row (Some ''u-eve''))],
     db_invoices := [(''i2'', portal_invoice ''v2''), (''i1'', portal_invoice ''v1'')]\<rparr>\<rparr>"

definition portal_server :: server where
  "portal_server = sample_server\<lparr>sv_verifier := Some (\<lambda>tok. if tok = ''eve-token'' then
     Some (eve\<lparr>pc_perms := [perm_ViewOwnInvoice]\<rparr>, ''u-eve'') else None)\<rparr>"

definition served_portal :: "answer \<times> api" where
  "served_portal = serve portal_server sample_call eve_http PortalInvoicesRoute portal_api"

theorem portal_shows_only_own_rows_witness:
  "\<exists>invs. an_body (fst served_portal) = RInvoices invs \<and> map fst invs = [''i1''] \<and> list_all (\<lambda>(_, n). inv_vendor_id n = ''v1'') invs"
proof -
  have "(case an_body (fst served_portal) of RInvoices invs \<Rightarrow> map fst invs = [''i1''] | _ \<Rightarrow> False)" by code_simp
  then obtain invs where invs: "an_body (fst served_portal) = RInvoices invs" "map fst invs = [''i1'']"
    by (auto split: reply.splits)
  have run: "serve portal_server sample_call eve_http PortalInvoicesRoute portal_api = (fst served_portal, snd served_portal)"
    by (simp add: served_portal_def)
  have mode: "sv_mode portal_server = ''jwt''" by (simp add: portal_server_def sample_server_def)
  obtain verify cl u vid v where v: "sv_verifier portal_server = Some verify" "verify (bearerToken eve_http) = Some (cl, u)"
    "(vid, v) \<in> set (db_vendors (as_db portal_api))" "vd_platform_user_id v = Some u"
    "\<forall>(i, n)\<in>set invs. inv_vendor_id n = vid"
    using portal_shows_only_own_rows [OF mode run, of _ invs] invs(1) by fastforce
  then have "u = ''u-eve''" by (auto simp: portal_server_def bearerToken_def eve_http_def Let_def split: if_splits)
  then have "vid = ''v1''" using v(3,4) by (auto simp: portal_api_def portal_vendor_row_def)
  then show ?thesis using invs v(5) by (auto simp: list_all_iff)
qed

end
