(* ===== verification/Attachment_Properties.thy ===== *)
theory Attachment_Properties
  imports Attachments
begin

text \<open>
  What the attachment endpoints and the backfill command promise: an object in the bucket always
  has a row that names it, and a key is stamped only on a row whose bytes are in the bucket.
\<close>

section \<open>The backfill loop\<close>

lemma loop_bucket_other:
  "backfill_loop sha put_ok stamp_ok ps fs = (n, fs') \<Longrightarrow> k \<notin> objectKey ` set ps \<Longrightarrow>
     tbl_get (fl_bucket fs') k = tbl_get (fl_bucket fs) k"
  by (induction ps arbitrary: fs n) (auto simp: Let_def map_prod_def split: if_splits prod.splits)

lemma loop_keeps:
  "backfill_loop sha put_ok stamp_ok ps fs = (n, fs') \<Longrightarrow>
     fl_blobs fs' = fl_blobs fs \<and> fl_grants fs' = fl_grants fs \<and> map fst (fl_rows fs') = map fst (fl_rows fs)"
  by (induction ps arbitrary: fs n)
    (fastforce simp: Let_def map_prod_def stamp_def tbl_where_def split: if_splits prod.splits)+

text \<open>A row of the result is the old row, or the old row with the key of a piece of work that was uploaded.\<close>

lemma loop_row:
  assumes "backfill_loop sha put_ok stamp_ok ps fs = (n, fs')" and "distinct (map objectKey ps)"
    and "tbl_get (fl_rows fs') j = Some r'"
  shows "\<exists>r. tbl_get (fl_rows fs) j = Some r \<and>
    (r' = r \<or> at_storage_key r = None \<and>
      (\<exists>p\<in>set ps. fst p = j \<and> checksum_ok sha p \<and> r' = r\<lparr>at_storage_key := Some (objectKey p)\<rparr> \<and>
        tbl_get (fl_bucket fs') (objectKey p) = Some (snd (snd p))))"
  using assms
proof (induction ps arbitrary: fs n)
  case Nil
  then show ?case by auto
next
  case (Cons p ps)
  let ?fs1 = "bucket_put (objectKey p) (snd (snd p)) fs"
  consider (skip) m where "backfill_loop sha put_ok stamp_ok ps fs = (m, fs')"
    | (put) m where "backfill_loop sha put_ok stamp_ok ps ?fs1 = (m, fs')"
    | (stamp) "checksum_ok sha p" "backfill_loop sha put_ok stamp_ok ps (stamp (fst p) (objectKey p) ?fs1) = (n, fs')"
    using Cons.prems(1) by (fastforce simp: Let_def map_prod_def split: if_splits prod.splits)
  then show ?case
  proof cases
    case skip
    from Cons.IH [OF this] Cons.prems show ?thesis by auto
  next
    case put
    from Cons.IH [OF this] Cons.prems show ?thesis by auto
  next
    case stamp
    have kept: "tbl_get (fl_bucket fs') (objectKey p) = Some (snd (snd p))"
      using loop_bucket_other [OF stamp(2), of "objectKey p"] Cons.prems(2) by simp
    obtain r1 where r1: "tbl_get (fl_rows (stamp (fst p) (objectKey p) ?fs1)) j = Some r1"
      and c: "r' = r1 \<or> at_storage_key r1 = None \<and>
        (\<exists>p\<in>set ps. fst p = j \<and> checksum_ok sha p \<and> r' = r1\<lparr>at_storage_key := Some (objectKey p)\<rparr> \<and>
          tbl_get (fl_bucket fs') (objectKey p) = Some (snd (snd p)))"
      using Cons.IH [OF stamp(2)] Cons.prems by auto
    then obtain r where "tbl_get (fl_rows fs) j = Some r"
      and "r1 = (if j = fst p \<and> at_storage_key r = None then r\<lparr>at_storage_key := Some (objectKey p)\<rparr> else r)"
      by (auto simp: stamp_get)
    with c kept stamp(1) show ?thesis by (auto split: if_splits)
  qed
qed

lemma staged_iff:
  "p \<in> set (pending_work service fs) \<longleftrightarrow>
     (\<exists>bid. (fst p, fst (snd p)) \<in> set (fl_rows fs) \<and> (bid, snd (snd p)) \<in> set (fl_blobs fs) \<and>
       (service = [] \<or> at_owner_service (fst (snd p)) = service) \<and>
       at_storage_key (fst (snd p)) = None \<and> at_source_blob_id (fst (snd p)) = Some bid)"
  by (cases p) (force simp: pending_work_def staged_def split: if_splits)

section \<open>Well-formed files\<close>

definition files_ok :: "files \<Rightarrow> bool" where
  "files_ok fs \<longleftrightarrow> distinct (map fst (fl_rows fs)) \<and> distinct (map fst (fl_blobs fs)) \<and>
     (\<forall>i\<in>set (map fst (fl_rows fs)). CHR ''/'' \<notin> set i)"

lemma staged_ids: "set (map fst (staged fs x)) \<subseteq> {fst x}"
  by (auto simp: staged_def split: prod.splits if_splits)

lemma staged_one:
  assumes "distinct (map fst (fl_blobs fs))"
  shows "length (staged fs x) \<le> 1"
proof -
  have "length (filter (\<lambda>(k, _). b = Some k) t) \<le> 1" if "distinct (map fst t)" for b and t :: "string table"
    using that
  proof (induction t)
    case (Cons y t)
    have "filter (\<lambda>(k, _). b = Some k) t = []" if "b = Some (fst y)"
      using Cons.prems that by (auto simp: filter_empty_conv image_iff)
    with Cons show ?case by (auto split: prod.splits)
  qed simp
  with assms show ?thesis by (auto simp: staged_def split: prod.splits)
qed

lemma concat_staged_distinct:
  assumes "distinct (map fst (fl_blobs fs))"
  shows "distinct (map fst t) \<Longrightarrow> distinct (map fst (concat (map (staged fs) t)))"
proof (induction t)
  case (Cons x t)
  have ids: "set (map fst (concat (map (staged fs) t))) \<subseteq> fst ` set t"
  proof -
    have "fst p \<in> fst ` set t" if "p \<in> set (staged fs y)" "y \<in> set t" for p y
    proof -
      have "fst p = fst y" using that(1) staged_ids [of fs y] by auto
      then show ?thesis using that(2) by simp
    qed
    then show ?thesis by auto
  qed
  have "distinct (map fst (staged fs x))"
    using staged_one [OF assms, of x] by (cases "staged fs x") auto
  moreover have "set (map fst (staged fs x)) \<inter> set (map fst (concat (map (staged fs) t))) = {}"
  proof -
    have "fst x \<notin> fst ` set t" using Cons.prems by simp
    with ids staged_ids [of fs x] show ?thesis by blast
  qed
  moreover have "distinct (map fst (concat (map (staged fs) t)))" using Cons by simp
  ultimately show ?case by (simp only: list.map concat.simps map_append distinct_append)
qed simp

lemma pending_ids_distinct: "files_ok fs \<Longrightarrow> distinct (map fst (pending_work service fs))"
proof -
  assume ok: "files_ok fs"
  let ?t = "filter (\<lambda>(_, r). service = [] \<or> at_owner_service r = service) (fl_rows fs)"
  have "distinct (map fst (concat (map (staged fs) ?t)))"
    using ok by (intro concat_staged_distinct) (auto simp: files_ok_def distinct_map_filter)
  then show ?thesis by (simp add: pending_work_def distinct_map)
qed

lemma pending_keys_distinct:
  assumes "files_ok fs"
  shows "distinct (map objectKey (pending_work service fs))"
proof -
  have "p = q" if "p \<in> set (pending_work service fs)" "q \<in> set (pending_work service fs)" "objectKey p = objectKey q" for p q
  proof -
    have "CHR ''/'' \<notin> set (fst p)" "CHR ''/'' \<notin> set (fst q)"
      using that(1,2) assms by (auto simp: staged_iff files_ok_def image_iff)
    then have "fst p = fst q"
      using that(3) by (auto simp: objectKey_def split: prod.splits dest: storage_key_id)
    with that(1,2) pending_ids_distinct [OF assms, of service] show ?thesis
      by (metis distinct_map inj_onD)
  qed
  then show ?thesis
    using pending_ids_distinct [OF assms, of service] by (auto simp: distinct_map inj_on_def)
qed

section \<open>Backfilled rows\<close>

text \<open>
  Running the backfill, whatever the store and the database refuse: a row that has a storage key
  afterwards either had it before, or its key names an object holding the bytes staged for it, whose
  digest is the recorded checksum when there is one.
\<close>

lemma backfill_stamps_only_stored_bytes:
  assumes "files_ok fs" and "backfill_run sha put_ok stamp_ok has_dsn has_store dry service fs = (ok, fs')"
    and "tbl_get (fl_rows fs') i = Some r" and "at_storage_key r = Some key"
  shows "tbl_get (fl_rows fs) i = Some r \<or>
    (\<exists>bid bytes. at_source_blob_id r = Some bid \<and> (bid, bytes) \<in> set (fl_blobs fs) \<and>
       tbl_get (fl_bucket fs') key = Some bytes \<and>
       (deref (at_checksum r) = [] \<or> equal_fold (sha bytes) (deref (at_checksum r))))"
proof (cases "fs' = fs")
  case False
  then obtain n where loop: "backfill_loop sha put_ok stamp_ok (pending_work service fs) fs = (n, fs')"
    using assms(2) by (auto simp: backfill_run_def split: if_splits prod.splits)
  from loop_row [OF loop pending_keys_distinct [OF assms(1)] assms(3)] obtain r0 where
    r0: "tbl_get (fl_rows fs) i = Some r0" and
    c: "r = r0 \<or> (\<exists>p\<in>set (pending_work service fs). fst p = i \<and> checksum_ok sha p \<and>
          r = r0\<lparr>at_storage_key := Some (objectKey p)\<rparr> \<and> tbl_get (fl_bucket fs') (objectKey p) = Some (snd (snd p)))"
    by blast
  from c show ?thesis
  proof
    assume "r = r0"
    then show ?thesis using r0 by simp
  next
    assume "\<exists>p\<in>set (pending_work service fs). fst p = i \<and> checksum_ok sha p \<and>
          r = r0\<lparr>at_storage_key := Some (objectKey p)\<rparr> \<and> tbl_get (fl_bucket fs') (objectKey p) = Some (snd (snd p))"
    then obtain p where p: "p \<in> set (pending_work service fs)" "fst p = i" "checksum_ok sha p"
      "r = r0\<lparr>at_storage_key := Some (objectKey p)\<rparr>" "tbl_get (fl_bucket fs') (objectKey p) = Some (snd (snd p))"
      by blast
    have "fst (snd p) = r0"
      using p(1,2) r0 assms(1) by (auto simp: staged_iff files_ok_def tbl_get_def dest: eq_key_imp_eq_value)
    then show ?thesis
      using p assms(4) by (cases p) (auto simp: staged_iff checksum_ok_def)
  qed
qed (use assms(3) in simp)

definition migrated_file :: files where
  "migrated_file =
     \<lparr>fl_rows = [(''a1'', \<lparr>at_owner_service = ''procurement'', at_owner_type = ''invoice'', at_owner_ref = ''BILL-0584'',
        at_filename = ''scan.pdf'', at_mime = ''application/pdf'', at_size_bytes = 3, at_storage_key = None, at_uploaded_by = None,
        at_checksum = Some ''cba'', at_source_blob_id = Some ''b1'', at_created_at = 1\<rparr>)],
      fl_blobs = [(''b1'', ''abc'')], fl_bucket = [], fl_grants = []\<rparr>"

lemma backfill_stamps_only_stored_bytes_witness:
  "\<exists>fs' r. backfill_run rev (\<lambda>_. True) (\<lambda>_. True) True True False [] migrated_file = (True, fs') \<and>
     tbl_get (fl_rows fs') ''a1'' = Some r \<and> at_storage_key r = Some ''procurement/invoice/BILL-0584/a1'' \<and>
     tbl_get (fl_bucket fs') ''procurement/invoice/BILL-0584/a1'' = Some ''abc''"
proof -
  let ?run = "backfill_run rev (\<lambda>_. True) (\<lambda>_. True) True True False [] migrated_file"
  have ok: "files_ok migrated_file" by (simp add: files_ok_def migrated_file_def)
  have "fst ?run \<and> map_option at_storage_key (tbl_get (fl_rows (snd ?run)) ''a1'') = Some (Some ''procurement/invoice/BILL-0584/a1'')"
    by code_simp
  then obtain r where run: "?run = (True, snd ?run)"
    and r: "tbl_get (fl_rows (snd ?run)) ''a1'' = Some r" "at_storage_key r = Some ''procurement/invoice/BILL-0584/a1''"
    by (cases ?run) auto
  have "tbl_get (fl_rows migrated_file) ''a1'' \<noteq> Some r" using r(2) by (auto simp: migrated_file_def tbl_get_def)
  with backfill_stamps_only_stored_bytes [OF ok run r]
  have "tbl_get (fl_bucket (snd ?run)) ''procurement/invoice/BILL-0584/a1'' = Some ''abc''"
    by (auto simp: migrated_file_def)
  with run r show ?thesis by blast
qed

section \<open>Every object has a row\<close>

definition objects_have_rows :: "files \<Rightarrow> bool" where
  "objects_have_rows fs \<longleftrightarrow>
     (\<forall>k v. tbl_get (fl_bucket fs) k = Some v \<longrightarrow>
        k \<noteq> [] \<and> (\<exists>i r. tbl_get (fl_rows fs) i = Some r \<and> at_storage_key r = Some k))"

text \<open>
  A request to the attachment endpoints, an upload while the row exists, a run of the backfill that
  reports success, and one that fails on files or uploads only. The store may refuse any call, and
  the database any delete; a run in which the database refuses a key is not a step.
\<close>

inductive file_step :: "files \<Rightarrow> files \<Rightarrow> bool" where
  posted: "postAttachment conf e who b fs = (st, x, fs') \<Longrightarrow> file_step fs fs'"
| uploaded: "browser_upload k v fs = Some fs' \<Longrightarrow> k \<noteq> [] \<Longrightarrow>
    tbl_get (fl_rows fs) i = Some r \<Longrightarrow> at_storage_key r = Some k \<Longrightarrow> file_step fs fs'"
| deleted: "deleteAttachment conf store_ok db_ok i fs = (st, fs') \<Longrightarrow> file_step fs fs'"
| backfilled: "files_ok fs \<Longrightarrow> backfill_run sha put_ok stamp_ok has_dsn has_store dry service fs = (True, fs') \<Longrightarrow>
    file_step fs fs'"
| backfilled_partly: "files_ok fs \<Longrightarrow>
    backfill_run sha put_ok (\<lambda>_. True) has_dsn has_store dry service fs = (False, fs') \<Longrightarrow> file_step fs fs'"

lemma post_keeps_rows:
  assumes "postAttachment conf e who b fs = (st, x, fs')" and "objects_have_rows fs"
  shows "objects_have_rows fs'"
proof -
  have "fl_bucket fs' = fl_bucket fs"
    and "tbl_get (fl_rows fs) i = Some r \<Longrightarrow> tbl_get (fl_rows fs') i = Some r" for i r
    using assms(1) by (auto simp: postAttachment_def Let_def tbl_get_ins split: if_splits option.splits sum.splits)
  with assms(2) show ?thesis unfolding objects_have_rows_def by metis
qed

lemma delete_keeps_rows:
  assumes "deleteAttachment conf store_ok db_ok i fs = (st, fs')" and "objects_have_rows fs"
  shows "objects_have_rows fs'"
proof -
  consider "fs' = fs"
    | r where "own_attachment (trim_space i) fs = Some r" "tbl_get (fl_rows fs) (trim_space i) = Some r"
        "fl_bucket fs' = (if deref (at_storage_key r) = [] then fl_bucket fs else tbl_del (deref (at_storage_key r)) (fl_bucket fs))"
        "fl_rows fs' = fl_rows fs \<or> fl_rows fs' = tbl_del (trim_space i) (fl_rows fs)"
    using assms(1) by (auto simp: deleteAttachment_def own_attachment_def Let_def split: if_splits option.splits)
  then show ?thesis
  proof cases
    case 2
    have "k \<noteq> [] \<and> (\<exists>j q. tbl_get (fl_rows fs') j = Some q \<and> at_storage_key q = Some k)"
      if v: "tbl_get (fl_bucket fs') k = Some v" for k v
    proof -
      have k: "tbl_get (fl_bucket fs) k = Some v" "deref (at_storage_key r) = [] \<or> k \<noteq> deref (at_storage_key r)"
        using v 2(3) by (auto simp: tbl_get_del split: if_splits)
      then obtain j q where jq: "k \<noteq> []" "tbl_get (fl_rows fs) j = Some q" "at_storage_key q = Some k"
        using assms(2) by (auto simp: objects_have_rows_def)
      have "j \<noteq> trim_space i" using jq k(2) 2(2) by auto
      then have "tbl_get (fl_rows fs') j = Some q" using jq(2) 2(4) by (auto simp: tbl_get_del)
      with jq(1,3) show ?thesis by blast
    qed
    then show ?thesis by (simp add: objects_have_rows_def)
  qed (use assms(2) in simp)
qed

lemma loop_keeps_rows:
  assumes "backfill_loop sha put_ok (\<lambda>_. True) ps fs = (n, fs')" and "objects_have_rows fs"
    and "distinct (map fst ps)" and "\<forall>p\<in>set ps. \<exists>r. tbl_get (fl_rows fs) (fst p) = Some r \<and> at_storage_key r = None"
  shows "objects_have_rows fs'"
  using assms
proof (induction ps arbitrary: fs n)
  case (Cons p ps)
  let ?fs = "stamp (fst p) (objectKey p) (bucket_put (objectKey p) (snd (snd p)) fs)"
  consider m where "backfill_loop sha put_ok (\<lambda>_. True) ps fs = (m, fs')"
    | "backfill_loop sha put_ok (\<lambda>_. True) ps ?fs = (n, fs')"
    using Cons.prems(1) by (fastforce simp: Let_def map_prod_def split: if_splits prod.splits)
  then show ?case
  proof cases
    case 1
    from Cons.IH [OF this] Cons.prems show ?thesis by simp
  next
    case 2
    obtain r where r: "tbl_get (fl_rows fs) (fst p) = Some r" "at_storage_key r = None" using Cons.prems(4) by auto
    then have at_p: "\<exists>i q. tbl_get (fl_rows ?fs) i = Some q \<and> at_storage_key q = Some (objectKey p)"
      by (intro exI [of _ "fst p"]) (simp add: stamp_get)
    have rows: "objects_have_rows ?fs"
      unfolding objects_have_rows_def
    proof (intro allI impI conjI)
      fix k v assume v: "tbl_get (fl_bucket ?fs) k = Some v"
      show "k \<noteq> []" using v Cons.prems(2) by (auto simp: objects_have_rows_def split: if_splits)
      show "\<exists>i q. tbl_get (fl_rows ?fs) i = Some q \<and> at_storage_key q = Some k"
      proof (cases "k = objectKey p")
        case False
        then obtain i q where "tbl_get (fl_rows fs) i = Some q" "at_storage_key q = Some k"
          using v Cons.prems(2) by (auto simp: objects_have_rows_def)
        then show ?thesis by (intro exI [of _ i]) (simp add: stamp_get)
      qed (use at_p in simp)
    qed
    have "\<forall>q\<in>set ps. \<exists>r. tbl_get (fl_rows ?fs) (fst q) = Some r \<and> at_storage_key r = None"
    proof
      fix q assume q: "q \<in> set ps"
      then have "fst q \<noteq> fst p" using Cons.prems(3) by (metis distinct.simps(2) image_eqI list.set_map list.simps(9))
      with q Cons.prems(4) show "\<exists>r. tbl_get (fl_rows ?fs) (fst q) = Some r \<and> at_storage_key r = None"
        by (simp add: stamp_get)
    qed
    from Cons.IH [OF 2 rows _ this] Cons.prems(3) show ?thesis by simp
  qed
qed simp

lemma backfill_keeps_rows:
  assumes "backfill_run sha put_ok (\<lambda>_. True) has_dsn has_store dry service fs = (ok, fs')"
    and "files_ok fs" and "objects_have_rows fs"
  shows "objects_have_rows fs'"
proof (cases "fs' = fs")
  case False
  then obtain n where loop: "backfill_loop sha put_ok (\<lambda>_. True) (pending_work service fs) fs = (n, fs')"
    using assms(1) by (auto simp: backfill_run_def split: if_splits prod.splits)
  show ?thesis
    by (rule loop_keeps_rows [OF loop assms(3) pending_ids_distinct [OF assms(2)]])
      (use assms(2) in \<open>auto simp: staged_iff files_ok_def tbl_get_def\<close>)
qed (use assms(3) in simp)

text \<open>A run without a failure stamped every row it uploaded.\<close>

lemma clean_loop_stamps:
  "backfill_loop sha put_ok stamp_ok ps fs = (0, fs') \<Longrightarrow> backfill_loop sha put_ok (\<lambda>_. True) ps fs = (0, fs')"
  by (induction ps arbitrary: fs) (auto simp: Let_def map_prod_def split: if_splits prod.splits)

lemma clean_run_stamps:
  "backfill_run sha put_ok stamp_ok has_dsn has_store dry service fs = (True, fs') \<Longrightarrow>
   backfill_run sha put_ok (\<lambda>_. True) has_dsn has_store dry service fs = (True, fs')"
  by (auto simp: backfill_run_def dest: clean_loop_stamps split: if_splits prod.splits)

text \<open>
  C33. From files in which every object has a row that names it, any sequence of attachment
  requests, uploads made while the row exists, backfill runs that report success and backfill
  runs that fail on checksums or uploads only leads to files in which every object still has
  such a row, also when the store or the database refuses part of a delete. (A run in which the
  database refuses a key after the upload is not such a step: it leaves an object without a row,
  as the tool documents.)
\<close>

theorem no_orphaned_objects:
  assumes "file_step\<^sup>*\<^sup>* fs0 fs" and "objects_have_rows fs0"
  shows "objects_have_rows fs"
  using assms
proof (induction rule: rtranclp_induct)
  case (step fs fs')
  from step(2) step.IH [OF step.prems] show ?case
  proof cases
    case (uploaded k v i r)
    then have "fs' = bucket_put k v fs" by (simp add: browser_upload_def split: if_splits)
    with uploaded(2-4) step.IH [OF step.prems] show ?thesis
      unfolding objects_have_rows_def by (metis bucket_get_put bucket_put_simps(1))
  qed (auto intro: post_keeps_rows delete_keeps_rows backfill_keeps_rows dest: clean_run_stamps)
qed

theorem no_orphaned_objects_witness:
  "\<exists>fs'. snd (deleteAttachment True False True ''a1''
       (snd (backfill_run rev (\<lambda>_. True) (\<lambda>_. True) True True False ''procurement'' migrated_file))) = fs' \<and>
     fst (deleteAttachment True False True ''a1''
       (snd (backfill_run rev (\<lambda>_. True) (\<lambda>_. True) True True False ''procurement'' migrated_file))) = 500 \<and>
     tbl_get (fl_bucket fs') ''procurement/invoice/BILL-0584/a1'' = Some ''abc'' \<and> objects_have_rows fs'"
proof -
  let ?run = "backfill_run rev (\<lambda>_. True) (\<lambda>_. True) True True False ''procurement'' migrated_file"
  let ?del = "deleteAttachment True False True ''a1'' (snd ?run)"
  have "files_ok migrated_file" by (simp add: files_ok_def migrated_file_def)
  moreover have "fst ?run" by code_simp
  then have "?run = (True, snd ?run)" by (cases ?run) simp
  ultimately have "file_step migrated_file (snd ?run)" by (rule file_step.backfilled)
  moreover have "?del = (fst ?del, snd ?del)" by simp
  then have "file_step (snd ?run) (snd ?del)" by (rule file_step.deleted)
  ultimately have "file_step\<^sup>*\<^sup>* migrated_file (snd ?del)" by (blast intro: rtranclp.rtrancl_into_rtrancl)
  moreover have "objects_have_rows migrated_file" by (simp add: objects_have_rows_def migrated_file_def tbl_get_def)
  ultimately have "objects_have_rows (snd ?del)" by (rule no_orphaned_objects)
  moreover have "fst ?del = 500" by code_simp
  moreover have "tbl_get (fl_bucket (snd ?del)) ''procurement/invoice/BILL-0584/a1'' = Some ''abc''" by code_simp
  ultimately show ?thesis by blast
qed

text \<open>
  When the database refuses the key, the uploaded object is left without a row and the run reports
  failure; the next run finds the row still pending, uploads to the same key and stamps it.
\<close>

lemma failed_stamp_is_repaired_by_a_rerun:
  "let (ok1, fs1) = backfill_run rev (\<lambda>_. True) (\<lambda>_. False) True True False [] migrated_file;
       (ok2, fs2) = backfill_run rev (\<lambda>_. True) (\<lambda>_. True) True True False [] fs1
   in \<not> ok1 \<and> \<not> objects_have_rows fs1 \<and> ok2 \<and>
      map_option at_storage_key (tbl_get (fl_rows fs2) ''a1'') = Some (Some ''procurement/invoice/BILL-0584/a1'') \<and>
      map fst (fl_bucket fs2) = [''procurement/invoice/BILL-0584/a1'']"
proof -
  let ?r1 = "backfill_run rev (\<lambda>_. True) (\<lambda>_. False) True True False [] migrated_file"
  let ?r2 = "backfill_run rev (\<lambda>_. True) (\<lambda>_. True) True True False [] (snd ?r1)"
  have obj: "tbl_get (fl_bucket (snd ?r1)) ''procurement/invoice/BILL-0584/a1'' = Some ''abc''" by code_simp
  have "list_all (\<lambda>(_, r). at_storage_key r = None) (fl_rows (snd ?r1))" by code_simp
  then have "at_storage_key r = None" if "tbl_get (fl_rows (snd ?r1)) i = Some r" for i r
    using that by (auto simp: list_all_iff tbl_get_def dest!: map_of_SomeD)
  with obj have "\<not> objects_have_rows (snd ?r1)" unfolding objects_have_rows_def by fastforce
  moreover have "\<not> fst ?r1 \<and> fst ?r2 \<and>
      map_option at_storage_key (tbl_get (fl_rows (snd ?r2)) ''a1'') = Some (Some ''procurement/invoice/BILL-0584/a1'') \<and>
      map fst (fl_bucket (snd ?r2)) = [''procurement/invoice/BILL-0584/a1'']" by code_simp
  ultimately show ?thesis by (simp add: case_prod_beta)
qed

end
