(* ===== verification/Configuration.thy ===== *)
theory Configuration
  imports Go_Parse "HOL-Library.Word"
begin

text \<open>
  The settings of the process (\<^verbatim>\<open>internal/config/config.go\<close>) and the CORS policy they feed
  (\<^verbatim>\<open>internal/middleware/cors.go\<close>). The environment is a function, blank for an unset variable, a
  \<^verbatim>\<open>.env\<close> file already merged in. Durations are
  \<^verbatim>\<open>time.Duration\<close>: signed 64-bit nanoseconds, whose products wrap. \<^verbatim>\<open>strconv.ParseFloat\<close> is the
  parameter \<open>pf\<close>.
\<close>

section \<open>Splitting lists\<close>

text \<open>\<^verbatim>\<open>strings.Split\<close> on a comma.\<close>

fun split_comma :: "string \<Rightarrow> string list" where
  "split_comma [] = [[]]"
| "split_comma (c # cs) =
     (if c = CHR '','' then [] # split_comma cs
      else case split_comma cs of [] \<Rightarrow> [[c]] | p # ps \<Rightarrow> (c # p) # ps)"

definition parseBrokers :: "string \<Rightarrow> string list" where
  "parseBrokers raw = filter (\<lambda>t. t \<noteq> []) (map trim_space (split_comma raw))"

section \<open>CORS\<close>

definition splitAllowedOrigins :: "string \<Rightarrow> string list" where
  "splitAllowedOrigins allowed =
     (if allowed = [] \<or> allowed = ''*'' then [] else filter (\<lambda>t. t \<noteq> []) (map trim_space (split_comma allowed)))"

definition originAllowed :: "string \<Rightarrow> string list \<Rightarrow> bool" where
  "originAllowed origin allowed \<longleftrightarrow> list_ex (\<lambda>c. origin = c) allowed"

record cors_answer =
  co_allow_origin :: "string option"
  co_vary :: bool
  co_abort :: bool

text \<open>The headers that depend on the request, and whether the preflight is answered at once.\<close>

definition CORS :: "string \<Rightarrow> string \<Rightarrow> string \<Rightarrow> cors_answer" where
  "CORS allowed origin meth =
     (let allowAny = allowed = ''*'';
          reflect = allowAny \<or> (origin \<noteq> [] \<and> originAllowed origin (splitAllowedOrigins allowed))
      in \<lparr>co_allow_origin = (if \<not> reflect then None else if origin \<noteq> [] then Some origin else if allowAny then Some ''*'' else None),
          co_vary = reflect, co_abort = (meth = ''OPTIONS'')\<rparr>)"

text \<open>The two tests for a wildcard, one in each package.\<close>

definition hasWildcardCORS :: "string \<Rightarrow> bool" where
  "hasWildcardCORS allowed \<longleftrightarrow> allowed = ''*'' \<or> list_ex (\<lambda>t. trim_space t = ''*'') (split_comma allowed)"

definition HasWildcardCORS :: "string \<Rightarrow> bool" where
  "HasWildcardCORS allowed \<longleftrightarrow> allowed = ''*'' \<or> list_ex (\<lambda>t. t = ''*'') (splitAllowedOrigins allowed)"

section \<open>Settings\<close>

record kafka_config =
  kc_brokers :: "string list"
  kc_enabled :: bool
  kc_commercial_topic :: string
  kc_supply_chain_topic :: string
  kc_operations_topic :: string
  kc_fleet_topic :: string
  kc_finance_topic :: string
  kc_commercial_group :: string
  kc_supply_chain_group :: string
  kc_operations_group :: string
  kc_fleet_group :: string
  kc_finance_group :: string
  kc_vendor_sync_group :: string
  kc_quality_topic :: string
  kc_quality_group :: string

record notify_config =
  nc_url :: string
  nc_client_id :: string
  nc_client_secret :: string
  nc_audience :: string
  nc_auth_token_url :: string
  nc_service_client_id :: string
  nc_service_client_secret :: string
  nc_signal_channel :: string

record s3_config =
  s3_endpoint :: string
  s3_region :: string
  s3_bucket :: string
  s3_access_key_id :: string
  s3_secret_access_key :: string
  s3_use_ssl :: bool

record app_config =
  cg_environment :: string
  cg_service_name :: string
  cg_port :: string
  cg_database_url :: string
  cg_redis_url :: string
  cg_auto_migrate :: bool
  cg_seed_on_startup :: bool
  cg_seed_cache_ttl :: int
  cg_cors_allow_origin :: string
  cg_notify :: notify_config
  cg_jwt_secret :: string
  cg_jwt_ttl :: int
  cg_default_admin_password :: string
  cg_kafka :: kafka_config
  cg_finance_writeback :: bool
  cg_fleet_fuel_bridge :: bool
  cg_auth_mode :: string
  cg_jwt_issuer :: string
  cg_jwks_url :: string
  cg_audience :: string
  cg_approval_threshold :: amount
  cg_require_tiered :: bool
  cg_invoice_variance_pct :: amount
  cg_period_close_enabled :: bool
  cg_period_close_policy :: string
  cg_s3 :: s3_config

definition devJWTSecret :: string where
  "devJWTSecret = ''dev-insecure-change-me''"

definition getenv :: "(string \<Rightarrow> string) \<Rightarrow> string \<Rightarrow> string \<Rightarrow> string" where
  "getenv ev k d = (if ev k \<noteq> [] then ev k else d)"

definition parseFloat :: "(string \<Rightarrow> amount option) \<Rightarrow> string \<Rightarrow> amount \<Rightarrow> amount" where
  "parseFloat pf s d =
     (let s = trim_space s in if s = [] then d else case pf s of None \<Rightarrow> d | Some v \<Rightarrow> v)"

fun first_set :: "(string \<Rightarrow> string) \<Rightarrow> string list \<Rightarrow> string \<Rightarrow> string" where
  "first_set ev [] d = d"
| "first_set ev (k # ks) d = (if trim_space (ev k) \<noteq> [] then trim_space (ev k) else first_set ev ks d)"

definition corsAllowOrigin :: "(string \<Rightarrow> string) \<Rightarrow> string" where
  "corsAllowOrigin ev =
     first_set ev [''CORS_ALLOWED_ORIGINS'', ''CORS_ALLOW_ORIGIN'', ''CORS_ORIGIN'', ''ALLOWED_ORIGINS'', ''CORS_ORIGINS'']
       ''http://localhost:3000,http://localhost:5173''"

text \<open>A positive number of units, or the default: \<^verbatim>\<open>time.Duration(n) * unit\<close>.\<close>

definition duration_times :: "int \<Rightarrow> int \<Rightarrow> int" where
  "duration_times n unit = sint (word_of_int (n * unit) :: 64 word)"

definition time_Second :: int where
  "time_Second = 1000000000"

definition time_Hour :: int where
  "time_Hour = 3600 * time_Second"

definition positive_or :: "int \<Rightarrow> int \<Rightarrow> string \<Rightarrow> int" where
  "positive_or unit d s =
     (if s = [] then d else case parse_int64 s of Some n \<Rightarrow> if n > 0 then duration_times n unit else d | None \<Rightarrow> d)"

definition trim_right_slashes :: "string \<Rightarrow> string" where
  "trim_right_slashes s = rev (dropWhile (\<lambda>c. c = CHR ''/'') (rev s))"

definition Validate :: "app_config \<Rightarrow> string + unit" where
  "Validate c =
     (if cg_auth_mode c = ''jwt'' \<and> cg_jwks_url c = [] then Inl ''AUTH_MODE=jwt requires JWKS_URL''
      else if cg_auth_mode c = ''jwt'' \<and> cg_audience c = [] then Inl ''AUTH_MODE=jwt requires AUDIENCE (e.g. iag.procurement)''
      else if cg_environment c = ''production'' \<and> cg_auth_mode c \<noteq> ''jwt'' then Inl ''AUTH_MODE must be jwt in production''
      else if cg_environment c = ''production'' \<and> cg_auth_mode c = ''legacy'' \<and>
              (cg_jwt_secret c = [] \<or> cg_jwt_secret c = devJWTSecret)
        then Inl ''production legacy auth requires JWT_SECRET (not the dev default)''
      else if cg_environment c = ''production'' \<and> cg_auth_mode c = ''legacy'' \<and> length (cg_jwt_secret c) < 32
        then Inl ''production JWT_SECRET must be at least 32 characters''
      else if cg_environment c = ''production'' \<and> cg_seed_on_startup c \<and> cg_auth_mode c = ''legacy'' \<and>
              length (cg_default_admin_password c) < 12
        then Inl ''production with SEED_ON_STARTUP=true requires DEFAULT_ADMIN_PASSWORD (min 12 chars)''
      else if cg_environment c = ''production'' \<and> hasWildcardCORS (cg_cors_allow_origin c)
        then Inl ''CORS allowlist must not include * in production''
      else Inr ())"

definition kafka_settings :: "(string \<Rightarrow> string) \<Rightarrow> kafka_config" where
  "kafka_settings ev =
     \<lparr>kc_brokers = parseBrokers (ev ''KAFKA_BROKERS''), kc_enabled = equal_fold (ev ''EVENT_BUS_ENABLED'') ''true'',
      kc_commercial_topic = getenv ev ''KAFKA_COMMERCIAL_TOPIC'' ''iag.commercial'',
      kc_supply_chain_topic = getenv ev ''KAFKA_SUPPLY_CHAIN_TOPIC'' ''iag.supply-chain'',
      kc_operations_topic = getenv ev ''KAFKA_OPERATIONS_TOPIC'' ''iag.operations'',
      kc_fleet_topic = getenv ev ''KAFKA_FLEET_TOPIC'' ''iag.fleet'',
      kc_finance_topic = getenv ev ''KAFKA_FINANCE_TOPIC'' ''iag.finance'',
      kc_commercial_group = getenv ev ''KAFKA_CONSUMER_GROUP'' ''iag.procurement.commercial'',
      kc_supply_chain_group = getenv ev ''KAFKA_SUPPLY_CHAIN_GROUP'' ''iag.procurement.supply-chain'',
      kc_operations_group = getenv ev ''KAFKA_OPERATIONS_GROUP'' ''iag.procurement.operations'',
      kc_fleet_group = getenv ev ''KAFKA_FLEET_GROUP'' ''iag.procurement.fleet'',
      kc_finance_group = getenv ev ''KAFKA_FINANCE_GROUP'' ''iag.procurement.finance'',
      kc_vendor_sync_group = getenv ev ''KAFKA_VENDOR_SYNC_GROUP'' ''iag.procurement.vendor-sync'',
      kc_quality_topic = getenv ev ''KAFKA_QUALITY_TOPIC'' ''iag.quality'',
      kc_quality_group = getenv ev ''KAFKA_QUALITY_GROUP'' ''iag.procurement.quality''\<rparr>"

definition notify_settings :: "(string \<Rightarrow> string) \<Rightarrow> string \<Rightarrow> notify_config" where
  "notify_settings ev issuer =
     (let token = trim_space (ev ''AUTH_TOKEN_URL'') in
      \<lparr>nc_url = trim_space (ev ''NOTIFICATIONS_URL''), nc_client_id = trim_space (ev ''NOTIFICATIONS_CLIENT_ID''),
       nc_client_secret = ev ''NOTIFICATIONS_CLIENT_SECRET'',
       nc_audience = getenv ev ''NOTIFICATIONS_AUDIENCE'' ''iag.notifications'',
       nc_auth_token_url = (if token = [] then trim_right_slashes issuer @ ''/oauth/token'' else token),
       nc_service_client_id = trim_space (getenv ev ''SERVICE_CLIENT_ID'' ''iag-procurement''),
       nc_service_client_secret = ev ''SERVICE_CLIENT_SECRET'',
       nc_signal_channel = getenv ev ''SIGNAL_REDIS_CHANNEL'' ''procurement:signals''\<rparr>)"

definition s3_settings :: "(string \<Rightarrow> string) \<Rightarrow> s3_config" where
  "s3_settings ev =
     \<lparr>s3_endpoint = getenv ev ''S3_ENDPOINT'' [], s3_region = getenv ev ''S3_REGION'' ''auto'',
      s3_bucket = getenv ev ''S3_BUCKET'' [], s3_access_key_id = getenv ev ''S3_ACCESS_KEY_ID'' [],
      s3_secret_access_key = getenv ev ''S3_SECRET_ACCESS_KEY'' [],
      s3_use_ssl = (\<not> equal_fold (getenv ev ''S3_USE_SSL'' ''true'') ''false'')\<rparr>"

text \<open>The struct literal of \<^verbatim>\<open>Load\<close>, with the token endpoint it fills in afterwards.\<close>

definition config_of :: "(string \<Rightarrow> amount option) \<Rightarrow> (string \<Rightarrow> string) \<Rightarrow> string \<Rightarrow> string \<Rightarrow> app_config" where
  "config_of pf ev env mode =
     (let issuer = getenv ev ''JWT_ISSUER'' ''http://localhost:3001'' in
      \<lparr>cg_environment = env, cg_service_name = getenv ev ''SERVICE_NAME'' ''procurement'',
       cg_port = getenv ev ''PORT'' ''4009'', cg_database_url = trim_space (ev ''DATABASE_URL''),
       cg_redis_url = getenv ev ''REDIS_URL'' ''redis://127.0.0.1:6379/0'',
       cg_auto_migrate = (getenv ev ''AUTO_MIGRATE'' ''true'' \<noteq> ''false''),
       cg_seed_on_startup = (getenv ev ''SEED_ON_STARTUP'' (if env = ''production'' then ''false'' else ''true'') = ''true''),
       cg_seed_cache_ttl = positive_or time_Second (30 * time_Second) (ev ''SEED_CACHE_TTL_SECONDS''), cg_cors_allow_origin = corsAllowOrigin ev,
       cg_notify = notify_settings ev issuer, cg_jwt_secret = getenv ev ''JWT_SECRET'' devJWTSecret,
       cg_jwt_ttl = positive_or time_Hour (72 * time_Hour) (ev ''JWT_TTL_HOURS''),
       cg_default_admin_password = ev ''DEFAULT_ADMIN_PASSWORD'', cg_kafka = kafka_settings ev,
       cg_finance_writeback = equal_fold (ev ''PROCUREMENT_FINANCE_PAYMENT_WRITEBACK_ENABLED'') ''true'',
       cg_fleet_fuel_bridge = equal_fold (ev ''PROCUREMENT_FLEET_FUEL_BRIDGE_ENABLED'') ''true'',
       cg_auth_mode = mode, cg_jwt_issuer = issuer,
       cg_jwks_url = getenv ev ''JWKS_URL'' ''http://127.0.0.1:3001/.well-known/jwks.json'',
       cg_audience = getenv ev ''AUDIENCE'' ''iag.procurement'',
       cg_approval_threshold = parseFloat pf (ev ''PROCUREMENT_APPROVAL_THRESHOLD'') 0,
       cg_require_tiered = equal_fold (ev ''PROCUREMENT_REQUIRE_TIERED_APPROVAL'') ''true'',
       cg_invoice_variance_pct = parseFloat pf (ev ''INVOICE_VARIANCE_TOLERANCE_PCT'') 2,
       cg_period_close_enabled = equal_fold (ev ''PROCUREMENT_PERIOD_CLOSE_ENABLED'') ''true'',
       cg_period_close_policy = to_lower (getenv ev ''PROCUREMENT_PERIOD_CLOSE_POLICY'' ''lapse''),
       cg_s3 = s3_settings ev\<rparr>)"

definition config_Load :: "(string \<Rightarrow> amount option) \<Rightarrow> (string \<Rightarrow> string) \<Rightarrow> string + app_config" where
  "config_Load pf ev =
     (let env = to_lower (trim_space (getenv ev ''ENVIRONMENT'' ''development''));
          mode = to_lower (trim_space (getenv ev ''AUTH_MODE'' ''jwt''));
          c = config_of pf ev env mode
      in if env \<notin> set [''development'', ''staging'', ''production''] then Inl ''ENVIRONMENT must be development, staging, or production''
         else if mode \<notin> set [''jwt'', ''legacy''] then Inl ''AUTH_MODE must be jwt or legacy''
         else if cg_database_url c = [] then Inl ''DATABASE_URL is required''
         else case Validate c of Inl er \<Rightarrow> Inl er | Inr _ \<Rightarrow> Inr c)"

section \<open>What a loaded configuration guarantees\<close>

lemma trim_space_star: "trim_space [] \<noteq> ''*''"
  by (simp add: trim_space_def)

lemma wildcards_agree: "HasWildcardCORS allowed \<longleftrightarrow> hasWildcardCORS allowed"
  by (auto simp: HasWildcardCORS_def hasWildcardCORS_def splitAllowedOrigins_def list_ex_iff trim_space_star image_iff) metis

lemma CORS_reflects:
  assumes "\<not> hasWildcardCORS allowed" and "co_allow_origin (CORS allowed origin m) = Some o'"
  shows "o' = origin \<and> origin \<in> set (splitAllowedOrigins allowed) \<and> origin \<noteq> ''*''"
proof -
  have "allowed \<noteq> ''*''" using assms(1) by (simp add: hasWildcardCORS_def)
  then have o: "o' = origin" "origin \<in> set (splitAllowedOrigins allowed)"
    using assms(2) by (auto simp: CORS_def Let_def originAllowed_def list_ex_iff split: if_splits)
  then show ?thesis
    using assms(1) unfolding wildcards_agree [symmetric] by (auto simp: HasWildcardCORS_def list_ex_iff)
qed

lemma positive_or_bounds:
  assumes "0 < unit" and "0 < d" and "\<And>n. parse_int64 s = Some n \<Longrightarrow> n * unit < 2 ^ 63"
  shows "0 < positive_or unit d s"
proof -
  have "duration_times n unit = n * unit" if "0 < n" "n * unit < 2 ^ 63" for n
  proof -
    have "0 < n * unit" using that(1) assms(1) by simp
    then have "signed_take_bit 63 (n * unit) = n * unit" using that(2) by (intro signed_take_bit_int_eq_self) auto
    then show ?thesis unfolding duration_times_def by (simp only: sint_sbintrunc' len_of_numeral_defs) simp
  qed
  with assms show ?thesis by (auto simp: positive_or_def split: option.splits)
qed

lemma jwt_ttl_can_wrap: "positive_or time_Hour (72 * time_Hour) ''3000000'' < 0"
  by code_simp

text \<open>
  C1. Whatever the environment says, a configuration that loads has one of the three environments and one
  of the two authentication modes, a database, a verifiable token source in \<^verbatim>\<open>jwt\<close> mode, no blank broker
  and a token endpoint; in production it authenticates with platform tokens only, and the CORS
  middleware answers a browser only for an origin that is listed, never for a wildcard.
\<close>

text \<open>
  C35. Whatever the environment says, a configuration that loads has one of the three
  environments and one of the two authentication modes, a database, a verifiable token source in
  jwt mode, no blank broker and a token endpoint; in production it authenticates with platform
  tokens only, and the CORS middleware answers a browser only for an origin that is listed,
  never for a wildcard.
\<close>

theorem loaded_configuration_is_well_formed:
  assumes "config_Load pf ev = Inr c"
  shows "cg_environment c \<in> {''development'', ''staging'', ''production''} \<and> cg_auth_mode c \<in> {''jwt'', ''legacy''} \<and>
    cg_database_url c \<noteq> [] \<and> (cg_auth_mode c = ''jwt'' \<longrightarrow> cg_jwks_url c \<noteq> [] \<and> cg_audience c \<noteq> []) \<and>
    list_all (\<lambda>b. b \<noteq> []) (kc_brokers (cg_kafka c)) \<and> nc_auth_token_url (cg_notify c) \<noteq> [] \<and>
    (cg_environment c = ''production'' \<longrightarrow> cg_auth_mode c = ''jwt'' \<and>
      (\<forall>origin m o'. co_allow_origin (CORS (cg_cors_allow_origin c) origin m) = Some o' \<longrightarrow>
         o' = origin \<and> origin \<in> set (splitAllowedOrigins (cg_cors_allow_origin c)) \<and> origin \<noteq> ''*''))"
proof -
  obtain env mode where c: "c = config_of pf ev env mode" and v: "Validate c = Inr ()" and d: "cg_database_url c \<noteq> []"
    and "env \<in> {''development'', ''staging'', ''production''}" "mode \<in> {''jwt'', ''legacy''}"
    using assms unfolding config_Load_def Let_def by (auto split: if_splits sum.splits)
  then have e: "cg_environment c \<in> {''development'', ''staging'', ''production''}" and m: "cg_auth_mode c \<in> {''jwt'', ''legacy''}"
    and k: "cg_kafka c = kafka_settings ev" and n: "cg_notify c = notify_settings ev (cg_jwt_issuer c)"
    by (simp_all add: config_of_def Let_def)
  have brokers: "list_all (\<lambda>b. b \<noteq> []) (kc_brokers (cg_kafka c))"
    by (simp add: k kafka_settings_def parseBrokers_def list_all_iff)
  have token: "nc_auth_token_url (cg_notify c) \<noteq> []"
    by (simp add: n notify_settings_def Let_def)
  have jwt: "cg_auth_mode c = ''jwt'' \<longrightarrow> cg_jwks_url c \<noteq> [] \<and> cg_audience c \<noteq> []"
    using v by (auto simp: Validate_def split: if_splits)
  have prod: "cg_environment c = ''production'' \<longrightarrow> cg_auth_mode c = ''jwt'' \<and> \<not> hasWildcardCORS (cg_cors_allow_origin c)"
    using v by (auto simp: Validate_def split: if_splits)
  from d e m brokers token jwt prod show ?thesis by (blast dest: CORS_reflects)
qed

definition production_env :: "string \<Rightarrow> string" where
  "production_env k =
     (if k = ''ENVIRONMENT'' then ''Production'' else if k = ''DATABASE_URL'' then ''postgres://db''
      else if k = ''CORS_ORIGIN'' then ''https://erp.example'' else [])"

theorem loaded_configuration_is_well_formed_witness:
  "\<exists>c. config_Load (\<lambda>_. None) production_env = Inr c \<and> cg_environment c = ''production'' \<and> cg_auth_mode c = ''jwt'' \<and>
     co_allow_origin (CORS (cg_cors_allow_origin c) ''https://erp.example'' ''GET'') = Some ''https://erp.example''"
proof -
  have "case config_Load (\<lambda>_. None) production_env of Inl _ \<Rightarrow> False
     | Inr c \<Rightarrow> cg_environment c = ''production'' \<and> cg_cors_allow_origin c = ''https://erp.example''"
    by code_simp
  then obtain c where c: "config_Load (\<lambda>_. None) production_env = Inr c" "cg_environment c = ''production''"
    "cg_cors_allow_origin c = ''https://erp.example''"
    by (cases "config_Load (\<lambda>_. None) production_env") auto
  have "cg_auth_mode c = ''jwt''" using loaded_configuration_is_well_formed [OF c(1)] c(2) by blast
  moreover have "co_allow_origin (CORS ''https://erp.example'' ''https://erp.example'' ''GET'') = Some ''https://erp.example''"
    by code_simp
  ultimately show ?thesis using c by auto
qed

end
