(* ===== verification/Workers.thy ===== *)
theory Workers
  imports Api_Properties Configuration
begin

text \<open>
  What runs beside the requests (\<^verbatim>\<open>cmd/server/main.go\<close>): the wiring of the settings into the service,
  the goroutines it starts, the daily period-close job, the subscriber of broadcast signals, the bounded
  fetch of the signing keys at boot, and the registration of the permissions
  (\<^verbatim>\<open>cmd/server/permissions_register.go\<close>).
\<close>

section \<open>Wiring\<close>

text \<open>
  The service \<^verbatim>\<open>main\<close> builds from its settings; the libraries are arguments.
  \<open>NewS3Store\<close> is whether the object store's constructor yields a store. \<open>None\<close> is a fatal exit: the
  dispatcher needs its credentials when a notifications service is named.
\<close>

definition NewS3Store :: "s3_config \<Rightarrow> bool" where
  "NewS3Store c \<longleftrightarrow>
     \<not> (s3_endpoint c = [] \<or> s3_bucket c = [] \<or> s3_access_key_id c = [] \<or> s3_secret_access_key c = [])"

definition main_server ::
  "app_config \<Rightarrow> regex \<Rightarrow> (dispatch_request \<Rightarrow> nat \<Rightarrow> bool) \<Rightarrow> (string \<Rightarrow> (platform_claims \<times> string) option) \<Rightarrow>
   (string \<Rightarrow> local_claims option) \<Rightarrow> (local_claims \<Rightarrow> string) \<Rightarrow> (string \<Rightarrow> string) \<Rightarrow> (string \<Rightarrow> string \<Rightarrow> bool) \<Rightarrow>
   string \<Rightarrow> server option" where
  "main_server cg rx deliver verify parse sign hash matches recipient =
     (if nc_url (cg_notify cg) \<noteq> [] \<and> (nc_client_id (cg_notify cg) = [] \<or> nc_client_secret (cg_notify cg) = []) then None
      else Some
        \<lparr>sv_wired = True,
         sv_config = \<lparr>cf_outbox = True, cf_approval_threshold = cg_approval_threshold cg,
                      cf_invoice_variance_pct = cg_invoice_variance_pct cg\<rparr>,
         sv_tiered = cg_require_tiered cg, sv_rx = rx, sv_deliver = deliver, sv_default_recipient = recipient,
         sv_mode = cg_auth_mode cg, sv_verifier = (if cg_auth_mode cg = ''jwt'' then Some verify else None),
         sv_parse_token = parse, sv_sign = sign, sv_hash = hash, sv_matches = matches,
         sv_files = NewS3Store (cg_s3 cg)\<rparr>)"

text \<open>
  The goroutines \<^verbatim>\<open>main\<close> starts, in its order; a consumer reads its topic as its group.
\<close>

datatype worker =
    JwksRefresh
  | PermissionRegistration
  | PeriodClose
  | OutboxPublisher
  | Consumer string string

definition bus_on :: "app_config \<Rightarrow> bool" where
  "bus_on cg \<longleftrightarrow> kc_enabled (cg_kafka cg) \<and> kc_brokers (cg_kafka cg) \<noteq> []"

definition consumers :: "app_config \<Rightarrow> worker list" where
  "consumers cg =
     (let k = cg_kafka cg in
      [Consumer (kc_commercial_group k) (kc_commercial_topic k),
       Consumer (kc_supply_chain_group k) (kc_supply_chain_topic k),
       Consumer (kc_operations_group k) (kc_operations_topic k)]
      @ (if cg_fleet_fuel_bridge cg then [Consumer (kc_fleet_group k) (kc_fleet_topic k)] else [])
      @ (if cg_finance_writeback cg then [Consumer (kc_finance_group k) (kc_finance_topic k)] else [])
      @ [Consumer (kc_vendor_sync_group k) (kc_finance_topic k),
         Consumer (kc_quality_group k) (kc_quality_topic k)])"

definition started :: "app_config \<Rightarrow> worker list" where
  "started cg =
     (if cg_auth_mode cg = ''jwt'' then [JwksRefresh] else [])
     @ (if cg_auth_mode cg = ''jwt'' \<and> nc_service_client_secret (cg_notify cg) \<noteq> [] then [PermissionRegistration] else [])
     @ (if cg_period_close_enabled cg then [PeriodClose] else [])
     @ (if bus_on cg then OutboxPublisher # consumers cg else [])"

section \<open>Background jobs\<close>

text \<open>One tick of the period-close job. An error is logged; nothing tells the snapshot.\<close>

definition period_close_job :: "app_config \<Rightarrow> env \<Rightarrow> api \<Rightarrow> api" where
  "period_close_job cg e s =
     (if \<not> cg_period_close_enabled cg then s
      else case CloseBudgetPeriod e (cg_period_close_policy cg) \<lparr>bf_period = [], bf_budget_id = [], bf_due_only = True\<rparr>
                  ''system'' (as_db s) of
          Inl _ \<Rightarrow> s
        | Inr (_, d) \<Rightarrow> s\<lparr>as_db := d\<rparr>)"

text \<open>A broadcast signal becomes a row of the feed; a long payload is cut after 4000 bytes and marked.\<close>

definition ellipsis :: string where
  "ellipsis = [CHR 0xE2, CHR 0x80, CHR 0xA6]"

definition on_broadcast :: "timestamp \<Rightarrow> string \<Rightarrow> string \<Rightarrow> api \<Rightarrow> api" where
  "on_broadcast now name payload s =
     (let body = (if length payload > 4000 then take 4000 payload @ ellipsis else payload) in
      s\<lparr>as_notify := snd (InsertInApp now name (''Broadcast: '' @ name) body ''info'' (as_notify s))\<rparr>)"

section \<open>Signing keys at boot\<close>

text \<open>
  \<^verbatim>\<open>refreshJWKSWithRetry\<close>: \<open>ok i\<close> is whether attempt \<open>i\<close> succeeds, \<open>cancelled i\<close> whether the context has ended
  by then. The result is whether the keys are loaded, with the seconds slept between attempts.
\<close>

definition jwks_attempts :: nat where
  "jwks_attempts = 5"

function refresh_loop :: "(nat \<Rightarrow> bool) \<Rightarrow> (nat \<Rightarrow> bool) \<Rightarrow> nat \<Rightarrow> bool \<times> nat list" where
  "refresh_loop ok cancelled i =
     (if i \<ge> jwks_attempts then (False, [])
      else if ok i then (True, [])
      else if cancelled i then (False, [])
      else if i = jwks_attempts - 1 then (False, [])
      else case refresh_loop ok cancelled (Suc i) of (r, slept) \<Rightarrow> (r, Suc i * 2 # slept))"
  by pat_completeness auto
termination
  by (relation "measure (\<lambda>(ok, cancelled, i). jwks_attempts - i)") auto

declare refresh_loop.simps [simp del]

definition refreshJWKSWithRetry :: "(nat \<Rightarrow> bool) \<Rightarrow> (nat \<Rightarrow> bool) \<Rightarrow> bool \<times> nat list" where
  "refreshJWKSWithRetry ok cancelled = refresh_loop ok cancelled 0"

lemmas refresh_unfold = refresh_loop.simps [of _ _ 0] refresh_loop.simps [of _ _ "Suc _"]

text \<open>
  C39. Fetching the signing keys at boot always comes to an end, however the endpoint and the
  context behave: after at most five attempts and at most twenty seconds of sleep; when no
  attempt is cancelled it succeeds exactly when one of the five attempts does.
\<close>

theorem boot_fetch_terminates:
  "sum_list (snd (refreshJWKSWithRetry ok cancelled)) \<le> 20 \<and> length (snd (refreshJWKSWithRetry ok cancelled)) < jwks_attempts \<and>
   ((\<forall>i. \<not> cancelled i) \<longrightarrow> fst (refreshJWKSWithRetry ok cancelled) = (\<exists>i < jwks_attempts. ok i))"
proof -
  have five: "(\<exists>i < 5. ok i) \<longleftrightarrow> ok 0 \<or> ok 1 \<or> ok 2 \<or> ok 3 \<or> ok (4 :: nat)"
    by (auto simp: numeral_eq_Suc less_Suc_eq)
  show ?thesis
    unfolding refreshJWKSWithRetry_def jwks_attempts_def five
    by (simp add: refresh_unfold jwks_attempts_def numeral_eq_Suc split: prod.splits)
qed

theorem boot_fetch_terminates_witness:
  "fst (refreshJWKSWithRetry (\<lambda>i. i = 2) (\<lambda>_. False)) \<and> snd (refreshJWKSWithRetry (\<lambda>i. i = 2) (\<lambda>_. False)) = [2, 4]"
proof -
  have "fst (refreshJWKSWithRetry (\<lambda>i. i = 2) (\<lambda>_. False))"
    using boot_fetch_terminates [where ok = "\<lambda>i. i = 2" and cancelled = "\<lambda>_. False"] by (auto simp: jwks_attempts_def)
  moreover have "snd (refreshJWKSWithRetry (\<lambda>i. i = 2) (\<lambda>_. False)) = [2, 4]" by code_simp
  ultimately show ?thesis by simp
qed

section \<open>Registering the permissions\<close>

text \<open>
  \<^verbatim>\<open>registerPermissionsLoop\<close>: the list holds the outcome of every attempt until the context ends; the result is
  whether the registration succeeded, with the seconds slept after each failure.
\<close>

definition max_register_backoff :: nat where
  "max_register_backoff = 5 * 60"

fun register_loop :: "nat \<Rightarrow> bool list \<Rightarrow> bool \<times> nat list" where
  "register_loop backoff [] = (False, [])"
| "register_loop backoff (ok # oks) =
     (if ok then (True, [])
      else case register_loop (if backoff < max_register_backoff then backoff * 2 else backoff) oks of
          (r, slept) \<Rightarrow> (r, backoff # slept))"

definition registerPermissionsLoop :: "app_config \<Rightarrow> bool list \<Rightarrow> bool \<times> nat list" where
  "registerPermissionsLoop cg oks =
     (if nc_service_client_secret (cg_notify cg) = [] then (False, []) else register_loop 1 oks)"

lemma register_loop_succeeds: "fst (register_loop b oks) = (True \<in> set oks)"
  by (induction b oks rule: register_loop.induct) (auto split: prod.splits)

lemma register_loop_bounded:
  "b < 2 * max_register_backoff \<Longrightarrow> w \<in> set (snd (register_loop b oks)) \<Longrightarrow> w < 2 * max_register_backoff"
  by (induction b oks rule: register_loop.induct) (auto split: prod.splits if_splits)

text \<open>
  The registration succeeds with its first successful attempt. The delay is compared with its cap before it
  is doubled, so it stays below twice the cap and not below the cap itself.
\<close>

lemma registration_backoff:
  assumes "nc_service_client_secret (cg_notify cg) \<noteq> []"
  shows "fst (registerPermissionsLoop cg oks) = (True \<in> set oks)"
    and "w \<in> set (snd (registerPermissionsLoop cg oks)) \<Longrightarrow> w < 2 * max_register_backoff"
    and "\<exists>oks. \<exists>w \<in> set (snd (registerPermissionsLoop cg oks)). w > max_register_backoff"
proof -
  show "fst (registerPermissionsLoop cg oks) = (True \<in> set oks)"
    using assms by (simp add: registerPermissionsLoop_def register_loop_succeeds)
  show "w < 2 * max_register_backoff" if "w \<in> set (snd (registerPermissionsLoop cg oks))"
    using that register_loop_bounded [of 1 w oks] by (simp add: registerPermissionsLoop_def max_register_backoff_def split: if_splits)
  have "list_ex (\<lambda>w. w > max_register_backoff) (snd (register_loop 1 (replicate 10 False)))" by code_simp
  then show "\<exists>oks. \<exists>w \<in> set (snd (registerPermissionsLoop cg oks)). w > max_register_backoff"
    using assms by (auto simp: registerPermissionsLoop_def list_ex_iff)
qed

section \<open>Consumer groups\<close>

text \<open>
  Two consumers of one group on one topic would share its messages. Unless the environment names a group,
  the groups are all different, the two readers of the finance topic included.
\<close>

lemma distinct_optional:
  "distinct [a, b, c, d, e, f, g] \<Longrightarrow> distinct ([a, b, c] @ (if x then [d] else []) @ (if y then [e] else []) @ [f, g])"
  by auto

lemma default_groups_are_distinct:
  assumes "config_Load pf ev = Inr c"
    and "ev ''KAFKA_CONSUMER_GROUP'' = []" "ev ''KAFKA_SUPPLY_CHAIN_GROUP'' = []" "ev ''KAFKA_OPERATIONS_GROUP'' = []"
      "ev ''KAFKA_FLEET_GROUP'' = []" "ev ''KAFKA_FINANCE_GROUP'' = []" "ev ''KAFKA_VENDOR_SYNC_GROUP'' = []"
      "ev ''KAFKA_QUALITY_GROUP'' = []"
  shows "distinct (map (\<lambda>w. case w of Consumer g _ \<Rightarrow> g | _ \<Rightarrow> []) (consumers c))"
proof -
  obtain env mode where "c = config_of pf ev env mode"
    using assms(1) unfolding config_Load_def Let_def by (auto split: if_splits sum.splits)
  then have k: "cg_kafka c = kafka_settings ev" by (simp add: config_of_def Let_def)
  have "distinct [''iag.procurement.commercial'', ''iag.procurement.supply-chain'', ''iag.procurement.operations'',
      ''iag.procurement.fleet'', ''iag.procurement.finance'', ''iag.procurement.vendor-sync'', ''iag.procurement.quality'']"
    by code_simp
  from distinct_optional [OF this, of "cg_fleet_fuel_bridge c" "cg_finance_writeback c"] show ?thesis
    using assms(2-) by (simp only: consumers_def k kafka_settings_def getenv_def Let_def kafka_config.select_convs if_distrib [of "map _"]
      list.map worker.case map_append simp_thms if_True if_False)
qed

section \<open>What the jobs leave behind\<close>

text \<open>The job is an operation of the repository.\<close>

lemma period_close_step: "period_close_job cg e s = s \<or> repo_step (as_db s) (as_db (period_close_job cg e s))"
  by (auto simp: period_close_job_def split: sum.splits intro: repo_step.intros)

text \<open>
  But it does not drop the snapshot: a budget whose period has ended is closed by the job while the cached
  listing still shows it open.
\<close>

definition due_budget :: budget_row where
  "due_budget = (sample_budget 100)\<lparr>b_committed := 40, b_remaining := 60, b_period_end := Some 0\<rparr>"

definition closing_config :: app_config where
  "closing_config = projr (config_Load (\<lambda>_. None)
     (\<lambda>k. if k = ''DATABASE_URL'' then ''db'' else if k = ''PROCUREMENT_PERIOD_CLOSE_ENABLED'' then ''true'' else []))"

definition cached_api :: api where
  "cached_api = (let d = empty_db\<lparr>db_budgets := [(''b1'', due_budget)]\<rparr> in sample_api\<lparr>as_db := d, as_seed := Some (Load d)\<rparr>)"

lemma period_close_leaves_stale_snapshot:
  "coherent cached_api \<and> \<not> coherent (period_close_job closing_config sample_env cached_api)"
proof
  show "coherent cached_api" by (simp add: cached_api_def coherent_def Let_def)
  let ?s = "period_close_job closing_config sample_env cached_api"
  have "map (b_committed \<circ> snd) (db_budgets (as_db ?s)) = [0]" by code_simp
  moreover have "map_option (map (b_committed \<circ> snd) \<circ> sd_budgets) (as_seed ?s) = Some [40]" by code_simp
  ultimately show "\<not> coherent ?s"
    by (auto simp: coherent_def Load_def by_id_def)
qed

end
