(* ===== verification/Verifier.thy ===== *)
theory Verifier
  imports Workers "HOL-Library.Word" "HOL-Library.AList"
begin

text \<open>
  The verifier of platform tokens (\<^verbatim>\<open>pkg/authclient/jwks.go\<close>): the set of signing keys it fetches, the
  choice of a key for a token, and the local tokens of legacy mode (\<^verbatim>\<open>internal/iam/jwt.go\<close>).

  The token library is a parameter: \<open>parse\<close> is its \<^verbatim>\<open>ParseWithClaims\<close>, given the parser options and the
  function that chooses the key. What the key server answers is an argument of \<^verbatim>\<open>Refresh\<close>. Go does not
  fix the order in which a map is read: \<open>pick\<close> chooses which key comes first.
\<close>

unbundle bit_operations_syntax

section \<open>Keys\<close>

record rsa_key =
  rk_n :: nat
  rk_e :: "64 word"

record jwk =
  jk_kty :: string
  jk_kid :: string
  jk_n :: string
  jk_e :: string

text \<open>\<^verbatim>\<open>base64.RawURLEncoding.DecodeString\<close>: line breaks are skipped, there is no padding, unused bits are dropped.\<close>

definition b64_alphabet :: string where
  "b64_alphabet = ''ABCDEFGHIJKLMNOPQRSTUVWXYZabcdefghijklmnopqrstuvwxyz0123456789-_''"

fun index_of :: "'a \<Rightarrow> 'a list \<Rightarrow> nat option" where
  "index_of x [] = None"
| "index_of x (y # ys) = (if x = y then Some 0 else map_option Suc (index_of x ys))"

fun sextets :: "string \<Rightarrow> nat list option" where
  "sextets [] = Some []"
| "sextets (c # cs) =
     (if c = CHR 0x0A \<or> c = CHR 0x0D then sextets cs
      else case index_of c b64_alphabet of
          None \<Rightarrow> None
        | Some v \<Rightarrow> map_option (\<lambda>vs. v # vs) (sextets cs))"

fun quanta :: "nat list \<Rightarrow> nat list option" where
  "quanta [] = Some []"
| "quanta [a] = None"
| "quanta [a, b] = Some [a * 4 + b div 16]"
| "quanta [a, b, c] = Some [a * 4 + b div 16, (b mod 16) * 16 + c div 4]"
| "quanta (a # b # c # d # vs) =
     map_option (\<lambda>bs. [a * 4 + b div 16, (b mod 16) * 16 + c div 4, (c mod 4) * 64 + d] @ bs) (quanta vs)"

definition DecodeString :: "string \<Rightarrow> nat list option" where
  "DecodeString s = Option.bind (sextets s) quanta"

text \<open>\<^verbatim>\<open>big.Int.SetBytes\<close> reads an unsigned number; the exponent is shifted into an \<^verbatim>\<open>int\<close>.\<close>

definition SetBytes :: "nat list \<Rightarrow> nat" where
  "SetBytes bs = foldl (\<lambda>n b. n * 256 + b) 0 bs"

definition parseRSAPublicKey :: "string \<Rightarrow> string \<Rightarrow> rsa_key option" where
  "parseRSAPublicKey nB64 eB64 =
     (case DecodeString nB64 of
        None \<Rightarrow> None
      | Some nBytes \<Rightarrow>
          (case DecodeString eB64 of
             None \<Rightarrow> None
           | Some eBytes \<Rightarrow>
               Some \<lparr>rk_n = SetBytes nBytes, rk_e = foldl (\<lambda>e b. push_bit 8 e + word_of_nat b) 0 eBytes\<rparr>))"

section \<open>The verifier\<close>

record verifier =
  vf_keys :: "(string \<times> rsa_key) list"
  vf_url :: string
  vf_issuer :: string
  vf_audience :: string

definition NewVerifier :: "string \<Rightarrow> string \<Rightarrow> string \<Rightarrow> verifier" where
  "NewVerifier url issuer audience = \<lparr>vf_keys = [], vf_url = url, vf_issuer = issuer, vf_audience = audience\<rparr>"

text \<open>No answer, or a status with the decoded document (\<open>None\<close> when it does not decode).\<close>

datatype jwks_answer = NoAnswer | Answer nat "jwk list option"

datatype jwks_error = FetchJwks | JwksStatus nat | DecodeJwks | BadKey | NoRsaKeys

fun read_keys :: "jwk list \<Rightarrow> (string \<times> rsa_key) list \<Rightarrow> (string \<times> rsa_key) list option" where
  "read_keys [] keys = Some keys"
| "read_keys (k # ks) keys =
     (if jk_kty k \<noteq> ''RSA'' \<or> jk_kid k = [] then read_keys ks keys
      else case parseRSAPublicKey (jk_n k) (jk_e k) of
          None \<Rightarrow> None
        | Some pub \<Rightarrow> read_keys ks (AList.update (jk_kid k) pub keys))"

fun Refresh :: "jwks_answer \<Rightarrow> verifier \<Rightarrow> (jwks_error + unit) \<times> verifier" where
  "Refresh NoAnswer v = (Inl FetchJwks, v)"
| "Refresh (Answer st doc) v =
     (if st \<noteq> 200 then (Inl (JwksStatus st), v)
      else case doc of
          None \<Rightarrow> (Inl DecodeJwks, v)
        | Some ks \<Rightarrow>
            (case read_keys ks [] of
               None \<Rightarrow> (Inl BadKey, v)
             | Some keys \<Rightarrow> if keys = [] then (Inl NoRsaKeys, v) else (Inr (), v\<lparr>vf_keys := keys\<rparr>)))"

text \<open>\<^verbatim>\<open>jwksRefreshLoop\<close>, and the attempts at boot: an error is logged and the next answer tried.\<close>

definition jwksRefreshLoop :: "jwks_answer list \<Rightarrow> verifier \<Rightarrow> verifier" where
  "jwksRefreshLoop rs v = fold (\<lambda>r v. snd (Refresh r v)) rs v"

record token_header =
  th_alg :: string
  th_kid :: "string option"

definition keyfunc :: "nat \<Rightarrow> verifier \<Rightarrow> token_header \<Rightarrow> string + rsa_key" where
  "keyfunc pick v t =
     (let kid = (case th_kid t of None \<Rightarrow> [] | Some k \<Rightarrow> k); keys = vf_keys v in
      if th_alg t \<noteq> ''RS256'' then Inl ''unexpected signing method''
      else case (if kid \<noteq> [] then map_of keys kid else None) of
          Some key \<Rightarrow> Inr key
        | None \<Rightarrow> if keys = [] then Inl ''no verification key'' else Inr (snd (keys ! (pick mod length keys))))"

type_synonym parser =
  "string \<Rightarrow> string option \<Rightarrow> (token_header \<Rightarrow> string + rsa_key) \<Rightarrow> string \<Rightarrow> platform_claims option"

definition verifier_Verify :: "parser \<Rightarrow> (string \<Rightarrow> string option) \<Rightarrow> nat \<Rightarrow> verifier \<Rightarrow> string \<Rightarrow> (platform_claims \<times> string) option" where
  "verifier_Verify parse uuid pick v tok =
     Verify (parse (vf_issuer v) (if vf_audience v \<noteq> [] then Some (vf_audience v) else None) (keyfunc pick v)) uuid tok"

section \<open>Local tokens\<close>

text \<open>\<open>IsHMAC\<close> of the header's method; the lifetime is at least a minute, or three days.\<close>

definition local_keyfunc :: "string \<Rightarrow> token_header \<Rightarrow> string + string" where
  "local_keyfunc secret t =
     (if th_alg t \<in> set [''HS256'', ''HS384'', ''HS512''] then Inr secret else Inl ''unexpected signing method'')"

definition ParseAccessToken ::
  "((token_header \<Rightarrow> string + string) \<Rightarrow> string \<Rightarrow> local_claims option) \<Rightarrow> string \<Rightarrow> string \<Rightarrow> local_claims option" where
  "ParseAccessToken parse secret tok = parse (local_keyfunc secret) tok"

definition token_ttl :: "int \<Rightarrow> int" where
  "token_ttl ttl = (if ttl < 60 then 72 * 3600 else ttl)"

section \<open>Reading keys\<close>

lemma index_of_bound: "index_of x ys = Some i \<Longrightarrow> i < length ys"
  by (induction ys arbitrary: i) (auto split: if_splits)

lemma sextets_bound: "sextets s = Some vs \<Longrightarrow> \<forall>v\<in>set vs. v < 64"
  by (induction s arbitrary: vs)
    (auto split: if_splits option.splits dest!: index_of_bound simp: b64_alphabet_def)

lemma quanta_bound: "quanta vs = Some bs \<Longrightarrow> \<forall>v\<in>set vs. v < 64 \<Longrightarrow> \<forall>b\<in>set bs. b < 256"
  by (induction vs arbitrary: bs rule: quanta.induct) (auto simp: less_mult_imp_div_less)

text \<open>What is decoded are bytes.\<close>

lemma DecodeString_bytes: "DecodeString s = Some bs \<Longrightarrow> b \<in> set bs \<Longrightarrow> b < 256"
  by (auto simp: DecodeString_def Option.bind_eq_Some_conv dest!: sextets_bound quanta_bound)

lemma exponent_word:
  "foldl (\<lambda>e b. push_bit 8 e + word_of_nat b) (word_of_nat n :: 64 word) bs = word_of_nat (foldl (\<lambda>n b. n * 256 + b) n bs)"
proof (induction bs arbitrary: n)
  case (Cons b bs)
  have "push_bit 8 (word_of_nat n) + word_of_nat b = (word_of_nat (n * 256 + b) :: 64 word)"
    by (simp add: push_bit_eq_mult)
  then show ?case using Cons [of "n * 256 + b"] by (simp del: of_nat_add of_nat_mult)
qed simp

text \<open>The modulus is exact; of the exponent, the last eight bytes are kept.\<close>

lemma parsed_key:
  assumes "parseRSAPublicKey n e = Some k"
  obtains nb eb where "DecodeString n = Some nb" "DecodeString e = Some eb" "rk_n k = SetBytes nb"
    "unat (rk_e k) = SetBytes eb mod 2 ^ 64"
  using assms exponent_word [of 0]
  by (auto simp: parseRSAPublicKey_def SetBytes_def unat_of_nat split: option.splits)

lemma usual_exponent: "map_option rk_e (parseRSAPublicKey n ''AQAB'') = map_option (\<lambda>_. 65537) (DecodeString n)"
proof -
  have "DecodeString ''AQAB'' = Some [1, 0, 1]" by code_simp
  then show ?thesis by (simp add: parseRSAPublicKey_def push_bit_eq_mult split: option.splits)
qed

text \<open>The keys a document publishes.\<close>

definition publishes :: "jwk list \<Rightarrow> string \<Rightarrow> rsa_key \<Rightarrow> bool" where
  "publishes ks kid key \<longleftrightarrow>
     (\<exists>k\<in>set ks. jk_kty k = ''RSA'' \<and> jk_kid k = kid \<and> kid \<noteq> [] \<and> parseRSAPublicKey (jk_n k) (jk_e k) = Some key)"

lemma read_keys_published:
  "read_keys ks keys0 = Some keys \<Longrightarrow> (kid, key) \<in> set keys \<Longrightarrow> (kid, key) \<in> set keys0 \<or> publishes ks kid key"
proof (induction ks keys0 rule: read_keys.induct)
  case (2 k ks keys0)
  show ?case
  proof (cases "jk_kty k \<noteq> ''RSA'' \<or> jk_kid k = []")
    case True
    then show ?thesis using 2 by (auto simp: publishes_def)
  next
    case False
    then obtain pub where p: "parseRSAPublicKey (jk_n k) (jk_e k) = Some pub" using "2.prems" by (auto split: option.splits)
    then have "(kid, key) \<in> set (AList.update (jk_kid k) pub keys0) \<or> publishes ks kid key" using 2 False by auto
    moreover have "set (AList.update (jk_kid k) pub keys0) \<subseteq> insert (jk_kid k, pub) (set keys0)"
      by (induction keys0) auto
    ultimately show ?thesis using False p by (auto simp: publishes_def)
  qed
qed (simp add: publishes_def)

lemma read_keys_distinct: "read_keys ks keys0 = Some keys \<Longrightarrow> distinct (map fst keys0) \<Longrightarrow> distinct (map fst keys)"
  by (induction ks keys0 rule: read_keys.induct) (auto split: if_splits option.splits simp: distinct_update)

section \<open>Which keys are current\<close>

text \<open>\<open>accepted r\<close>: the answer replaces the keys. The current document is the last one accepted.\<close>

definition accepted :: "jwks_answer \<Rightarrow> bool" where
  "accepted r \<longleftrightarrow>
     (\<exists>ks. r = Answer 200 (Some ks) \<and> (\<exists>k\<in>set ks. jk_kty k = ''RSA'' \<and> jk_kid k \<noteq> []) \<and>
       (\<forall>k\<in>set ks. jk_kty k = ''RSA'' \<and> jk_kid k \<noteq> [] \<longrightarrow> parseRSAPublicKey (jk_n k) (jk_e k) \<noteq> None))"

definition current_key :: "jwks_answer list \<Rightarrow> rsa_key \<Rightarrow> bool" where
  "current_key rs key \<longleftrightarrow>
     (\<exists>rs1 rs2 ks kid. rs = rs1 @ Answer 200 (Some ks) # rs2 \<and> accepted (Answer 200 (Some ks)) \<and> list_all (\<lambda>r. \<not> accepted r) rs2 \<and>
       publishes ks kid key)"

lemma read_keys_defined:
  "read_keys ks keys0 \<noteq> None \<longleftrightarrow>
     (\<forall>k\<in>set ks. jk_kty k = ''RSA'' \<and> jk_kid k \<noteq> [] \<longrightarrow> parseRSAPublicKey (jk_n k) (jk_e k) \<noteq> None)"
  by (induction ks keys0 rule: read_keys.induct) (auto split: option.splits)

lemma read_keys_empty:
  "read_keys ks keys0 = Some keys \<Longrightarrow> keys = [] \<longleftrightarrow> keys0 = [] \<and> \<not> (\<exists>k\<in>set ks. jk_kty k = ''RSA'' \<and> jk_kid k \<noteq> [])"
  by (induction ks keys0 rule: read_keys.induct) (auto split: if_splits option.splits simp: update_nonempty)

lemma Refresh_accepted: "fst (Refresh r v) = Inr () \<longleftrightarrow> accepted r"
proof (cases r)
  case (Answer st doc)
  show ?thesis
  proof (cases doc)
    case (Some ks)
    show ?thesis
    proof (cases "read_keys ks []")
      case None
      then show ?thesis using Answer Some read_keys_defined [of ks "[]"] by (auto simp: accepted_def)
    next
      case (Some keys)
      then show ?thesis using Answer \<open>doc = Some ks\<close> read_keys_defined [of ks "[]"] read_keys_empty [OF Some]
        by (auto simp: accepted_def)
    qed
  qed (use Answer in \<open>simp add: accepted_def\<close>)
qed (simp add: accepted_def)

lemma Refresh_rejected: "\<not> accepted r \<Longrightarrow> snd (Refresh r v) = v"
  using Refresh_accepted [of r v] by (cases r) (auto split: if_splits option.splits)

lemma Refresh_keys:
  assumes "accepted r" and "(kid, key) \<in> set (vf_keys (snd (Refresh r v)))"
  obtains ks where "r = Answer 200 (Some ks)" "publishes ks kid key"
proof -
  obtain ks keys where r: "r = Answer 200 (Some ks)" "read_keys ks [] = Some keys" "keys \<noteq> []"
    using assms(1) Refresh_accepted [of r v] by (cases r) (auto split: if_splits option.splits)
  then have "publishes ks kid key" using assms(2) read_keys_published [of ks "[]" keys kid key] by simp
  with r that show thesis by blast
qed

text \<open>Whatever the key server answers, the verifier holds keys of the last document it accepted and no others.\<close>

lemma held_keys_are_current:
  "(kid, key) \<in> set (vf_keys (jwksRefreshLoop rs (NewVerifier url iss aud))) \<Longrightarrow> current_key rs key"
proof (induction rs rule: rev_induct)
  case (snoc r rs)
  show ?case
  proof (cases "accepted r")
    case True
    have "(kid, key) \<in> set (vf_keys (snd (Refresh r (jwksRefreshLoop rs (NewVerifier url iss aud)))))"
      using snoc.prems by (simp add: jwksRefreshLoop_def)
    from Refresh_keys [OF True this] obtain ks where "r = Answer 200 (Some ks)" "publishes ks kid key" by blast
    with True show ?thesis unfolding current_key_def by (intro exI [of _ rs] exI [of _ "[]"] exI [of _ ks] exI [of _ kid]) simp
  next
    case False
    then have "current_key rs key" using snoc by (simp add: jwksRefreshLoop_def Refresh_rejected)
    then obtain rs1 rs2 ks k where "rs = rs1 @ Answer 200 (Some ks) # rs2" "accepted (Answer 200 (Some ks))"
      "list_all (\<lambda>r. \<not> accepted r) rs2" "publishes ks k key" unfolding current_key_def by blast
    with False show ?thesis unfolding current_key_def
      by (intro exI [of _ rs1] exI [of _ "rs2 @ [r]"] exI [of _ ks] exI [of _ k]) simp
  qed
qed (simp add: jwksRefreshLoop_def NewVerifier_def)

lemma keyfunc_key:
  assumes "keyfunc pick v t = Inr key"
  shows "th_alg t = ''RS256'' \<and> (\<exists>kid. (kid, key) \<in> set (vf_keys v))"
proof -
  have "\<exists>kid. (kid, snd (vf_keys v ! (pick mod length (vf_keys v)))) \<in> set (vf_keys v)" if "vf_keys v \<noteq> []"
    using nth_mem [of "pick mod length (vf_keys v)" "vf_keys v"] that by (metis length_greater_0_conv mod_less_divisor prod.collapse)
  then show ?thesis using assms
    by (auto simp: keyfunc_def Let_def split: if_splits option.splits dest: map_of_SomeD)
qed

text \<open>A local token is authenticated with the secret, never with a key of another kind.\<close>

lemma local_tokens_are_keyed:
  assumes "\<And>kf cl. parse kf tok = Some cl \<Longrightarrow> \<exists>t key. kf t = Inr key \<and> sig t key tok"
    and "ParseAccessToken parse secret tok = Some cl"
  shows "\<exists>t. th_alg t \<in> {''HS256'', ''HS384'', ''HS512''} \<and> sig t secret tok"
  using assms(1) [OF assms(2) [unfolded ParseAccessToken_def]] by (auto simp: local_keyfunc_def split: if_splits)

section \<open>Requests\<close>

lemma anonymous_is_refused:
  assumes "sv_mode sv = ''jwt''" and "sv_verifier sv = Some verify" and "\<not> is_probe r" and "serve sv c h r s = (a, s')"
    and "bearerToken h = [] \<or> verify (bearerToken h) = None"
  shows "an_status a \<in> {401, 404} \<and> untouched s s'"
proof -
  consider "bearerToken h = []" | "bearerToken h \<noteq> []" "verify (bearerToken h) = None" using assms(5) by auto
  then show ?thesis
  proof cases
    case 1
    have "AttachPrincipal ''jwt'' (Some verify) (h\<lparr>ht_path := p\<rparr>) empty_ctx = Inr (empty_ctx\<lparr>cx_mode := ''jwt''\<rparr>)" for p
      using 1 by (simp add: AttachPrincipal_def fromJWT_def Let_def)
    moreover have "authenticated sv h r (empty_ctx\<lparr>cx_mode := ''jwt''\<rparr>) = Inl 401" if "mounted ''jwt'' r"
      using that assms(1) by (cases r) (simp_all add: RequireAuth_def empty_ctx_def)
    ultimately show ?thesis using assms(1-4)
      by (auto simp: serve_def secured_def refuse_def untouched_def answered_def split: if_splits)
  next
    case 2
    have "\<not> isPublicProbePath (snd (route_pattern r))" using assms(3)
      by (cases r) (auto simp: isPublicProbePath_def v1_def split: prod.splits)
    then have "AttachPrincipal ''jwt'' (Some verify) (h\<lparr>ht_path := snd (route_pattern r)\<rparr>) empty_ctx = Inl 401"
      using 2 by (simp add: AttachPrincipal_def fromJWT_def Let_def)
    then show ?thesis using assms(1-4) by (auto simp: serve_def refuse_def answered_def)
  qed
qed

text \<open>
  C13. A service in jwt mode fails closed. Whatever the key server has answered since boot, a
  request other than a probe is refused with 401 or 404 and changes nothing, or its token is
  signed with RS256 by a key of the last document the verifier accepted; in particular nothing
  is served before the first. The hypothesis on the token library is that a token it accepts
  verifies under the key it was given.
\<close>

theorem only_current_keys_authenticate:
  assumes library: "\<forall>iss aud kf tok cl. parse iss aud kf tok = Some cl \<longrightarrow> (\<exists>t key. kf t = Inr key \<and> sig t key tok)"
    and "sv_mode sv = ''jwt''"
    and "sv_verifier sv = Some (verifier_Verify parse uuid pick (jwksRefreshLoop rs (NewVerifier url iss aud)))"
    and "serve sv c h r s = (a, s')" and "\<not> is_probe r"
  shows "(an_status a \<in> {401, 404} \<and> untouched s s') \<or>
    (\<exists>t key. current_key rs key \<and> th_alg t = ''RS256'' \<and> sig t key (bearerToken h))"
proof (cases "verifier_Verify parse uuid pick (jwksRefreshLoop rs (NewVerifier url iss aud)) (bearerToken h)")
  case None
  then show ?thesis using anonymous_is_refused [OF assms(2,3,5,4)] by simp
next
  case (Some cu)
  let ?v = "jwksRefreshLoop rs (NewVerifier url iss aud)"
  obtain cl aud' where "parse (vf_issuer ?v) aud' (keyfunc pick ?v) (bearerToken h) = Some cl"
    using Some by (auto simp: verifier_Verify_def Verify_def split: option.splits)
  with library obtain t key where key: "keyfunc pick ?v t = Inr key" and sg: "sig t key (bearerToken h)" by blast
  from keyfunc_key [OF key] obtain kid where "th_alg t = ''RS256''" "(kid, key) \<in> set (vf_keys ?v)" by blast
  with held_keys_are_current [of kid key rs url iss aud] sg show ?thesis by blast
qed

text \<open>A library that takes a token for its own signature when the modulus of the key is 65.\<close>

definition sample_parser :: parser where
  "sample_parser iss aud kf tok =
     (if tok = ''eve-token'' then
        case kf \<lparr>th_alg = ''RS256'', th_kid = Some ''k1''\<rparr> of
          Inl _ \<Rightarrow> None
        | Inr key \<Rightarrow> if rk_n key = 65 then Some eve else None
      else None)"

definition sample_jwks :: jwks_answer where
  "sample_jwks = Answer 200 (Some [\<lparr>jk_kty = ''RSA'', jk_kid = ''k1'', jk_n = ''QQ'', jk_e = ''AQAB''\<rparr>])"

definition jwt_server :: "jwks_answer list \<Rightarrow> server" where
  "jwt_server rs = sample_server\<lparr>sv_verifier :=
     Some (verifier_Verify sample_parser Some 0 (jwksRefreshLoop rs (NewVerifier ''jwks'' ''iag'' ''procurement'')))\<rparr>"

theorem only_current_keys_authenticate_witness:
  "an_status (fst (serve (jwt_server [sample_jwks, NoAnswer]) sample_call eve_http new_budget sample_api)) = 201 \<and>
   (\<exists>key. current_key [sample_jwks, NoAnswer] key \<and> rk_n key = 65) \<and>
   an_status (fst (serve (jwt_server [NoAnswer]) sample_call eve_http new_budget sample_api)) = 401"
proof -
  let ?run = "serve (jwt_server [sample_jwks, NoAnswer]) sample_call eve_http new_budget sample_api"
  have ok: "an_status (fst ?run) = 201" by code_simp
  have probe: "\<not> is_probe new_budget" unfolding new_budget_def by simp
  have library: "\<forall>iss aud kf tok cl. sample_parser iss aud kf tok = Some cl \<longrightarrow> (\<exists>t key. kf t = Inr key \<and> rk_n key = 65)"
    by (auto simp: sample_parser_def split: if_splits sum.splits)
  have "(an_status (fst ?run) \<in> {401, 404} \<and> untouched sample_api (snd ?run)) \<or>
      (\<exists>(t :: token_header) key. current_key [sample_jwks, NoAnswer] key \<and> th_alg t = ''RS256'' \<and> rk_n key = 65)"
    by (rule only_current_keys_authenticate [where sig = "\<lambda>t key tok. rk_n key = 65", OF library _ _ _ probe])
      (simp_all add: jwt_server_def sample_server_def)
  then have "\<exists>key. current_key [sample_jwks, NoAnswer] key \<and> rk_n key = 65" using ok by auto
  moreover have "an_status (fst (serve (jwt_server [NoAnswer]) sample_call eve_http new_budget sample_api)) = 401" by code_simp
  ultimately show ?thesis using ok by blast
qed

end
