(* ===== verification/Clients.thy ===== *)
theory Clients
  imports Workers Outbox
begin

text \<open>
  The clients of other services: the cached client-credentials token and the dispatcher of notifications
  (\<^verbatim>\<open>internal/notifyclient\<close>), the signal bus and its Redis channel (\<^verbatim>\<open>internal/signals/bus.go\<close>), the
  connection hook of the database pool (\<^verbatim>\<open>internal/db/db.go\<close>), the response headers
  (\<^verbatim>\<open>internal/middleware/security_headers.go\<close>) and the container's health check (\<^verbatim>\<open>cmd/healthcheck\<close>).

  The remote ends are parameters: functions from what is posted to what is answered. Instants count
  nanoseconds here, durations are signed 64-bit counts of nanoseconds as in \<^verbatim>\<open>time.Duration\<close>.
\<close>

section \<open>Service tokens\<close>

record service_auth_options =
  so_token_url :: string
  so_client_id :: string
  so_client_secret :: string
  so_audience :: string
  so_early_refresh :: duration

record service_auth =
  sa_opts :: service_auth_options
  sa_token :: string
  sa_expiry :: int

text \<open>\<open>None\<close> is the panic.\<close>

definition NewServiceAuth :: "service_auth_options \<Rightarrow> service_auth option" where
  "NewServiceAuth opts =
     (if so_token_url opts = [] \<or> so_client_id opts = [] \<or> so_client_secret opts = [] then None
      else Some
        \<lparr>sa_opts = (if sint (so_early_refresh opts) \<le> 0 then opts\<lparr>so_early_refresh := 60 * second\<rparr> else opts),
         sa_token = [], sa_expiry = 0\<rparr>)"

record token_response =
  tr_access_token :: string
  tr_expires_in :: "64 word"

datatype token_answer = TokenUnreachable | TokenAnswer nat "token_response option"

datatype client_error = BuildRequest | Unreachable | BadStatus nat | BadBody | EmptyToken

definition token_form :: "service_auth_options \<Rightarrow> (string \<times> string) list" where
  "token_form opts =
     [(''grant_type'', ''client_credentials''), (''client_id'', so_client_id opts), (''client_secret'', so_client_secret opts)]
     @ (if so_audience opts \<noteq> [] then [(''audience'', so_audience opts)] else [])"

type_synonym token_endpoint = "string \<Rightarrow> (string \<times> string) list \<Rightarrow> token_answer"

definition fetchLocked :: "token_endpoint \<Rightarrow> (string \<Rightarrow> bool) \<Rightarrow> int \<Rightarrow> service_auth \<Rightarrow> (client_error + unit) \<times> service_auth" where
  "fetchLocked post valid_url now a =
     (let opts = sa_opts a in
      if \<not> valid_url (so_token_url opts) then (Inl BuildRequest, a)
      else case post (so_token_url opts) (token_form opts) of
          TokenUnreachable \<Rightarrow> (Inl Unreachable, a)
        | TokenAnswer st body \<Rightarrow>
            if st \<noteq> 200 then (Inl (BadStatus st), a)
            else (case body of
                None \<Rightarrow> (Inl BadBody, a)
              | Some tr \<Rightarrow>
                  if tr_access_token tr = [] then (Inl EmptyToken, a)
                  else (Inr (), a\<lparr>sa_token := tr_access_token tr, sa_expiry := now + sint (tr_expires_in tr * second)\<rparr>)))"

text \<open>\<^verbatim>\<open>time.Until\<close> saturates.\<close>

definition Until :: "int \<Rightarrow> int \<Rightarrow> int" where
  "Until now t = max (- (2 ^ 63)) (min (2 ^ 63 - 1) (t - now))"

definition Token :: "token_endpoint \<Rightarrow> (string \<Rightarrow> bool) \<Rightarrow> int \<Rightarrow> service_auth \<Rightarrow> (client_error + string) \<times> service_auth" where
  "Token post valid_url now a =
     (if sa_token a \<noteq> [] \<and> Until now (sa_expiry a) > sint (so_early_refresh (sa_opts a)) then (Inr (sa_token a), a)
      else case fetchLocked post valid_url now a of
          (Inl er, a') \<Rightarrow> (Inl er, a')
        | (Inr _, a') \<Rightarrow> (Inr (sa_token a'), a'))"

section \<open>The dispatcher\<close>

record dispatch_result =
  dr_status :: string
  dr_delivery_id :: string
  dr_message :: string
  dr_provider_ref :: string

record notify_client =
  nk_base_url :: string
  nk_auth :: service_auth

definition NewClient :: "string \<Rightarrow> service_auth \<Rightarrow> notify_client" where
  "NewClient url auth = \<lparr>nk_base_url = trim_right_slashes url, nk_auth = auth\<rparr>"

text \<open>The body of an answer: nothing, a result, or text that does not decode.\<close>

datatype dispatch_body = NoContent | Result dispatch_result | Undecodable

datatype dispatch_answer = DispatchUnreachable | DispatchAnswer nat dispatch_body

type_synonym dispatch_endpoint = "string \<Rightarrow> string \<Rightarrow> dispatch_request \<Rightarrow> dispatch_answer"

definition zero_result :: dispatch_result where
  "zero_result = \<lparr>dr_status = [], dr_delivery_id = [], dr_message = [], dr_provider_ref = []\<rparr>"

fun read_answer :: "dispatch_answer \<Rightarrow> client_error + dispatch_result" where
  "read_answer DispatchUnreachable = Inl Unreachable"
| "read_answer (DispatchAnswer st body) =
     (if st < 200 \<or> st \<ge> 300 then Inl (BadStatus st)
      else case body of NoContent \<Rightarrow> Inr zero_result | Result r \<Rightarrow> Inr r | Undecodable \<Rightarrow> Inl BadBody)"

definition Dispatch ::
  "token_endpoint \<Rightarrow> dispatch_endpoint \<Rightarrow> (string \<Rightarrow> bool) \<Rightarrow> int \<Rightarrow> dispatch_request \<Rightarrow> notify_client \<Rightarrow>
   (client_error + dispatch_result) \<times> notify_client" where
  "Dispatch post_token post valid_url now req c =
     (let url = nk_base_url c @ ''/v1/dispatch'' in
      if \<not> valid_url url then (Inl BuildRequest, c)
      else case Token post_token valid_url now (nk_auth c) of
          (Inl er, a) \<Rightarrow> (Inl er, c\<lparr>nk_auth := a\<rparr>)
        | (Inr tok, a) \<Rightarrow> (read_answer (post url (''Bearer '' @ tok) req), c\<lparr>nk_auth := a\<rparr>))"

definition Noop_Dispatch :: "dispatch_request \<Rightarrow> client_error + dispatch_result" where
  "Noop_Dispatch req = Inr (zero_result\<lparr>dr_status := ''noop''\<rparr>)"

text \<open>The dispatcher \<^verbatim>\<open>main\<close> builds: \<open>None\<close> a fatal exit, \<open>Some None\<close> the one that only logs.\<close>

definition main_dispatcher :: "app_config \<Rightarrow> notify_client option option" where
  "main_dispatcher cg =
     (let n = cg_notify cg in
      if nc_url n = [] then Some None
      else if nc_client_id n = [] \<or> nc_client_secret n = [] then None
      else map_option (\<lambda>a. Some (NewClient (nc_url n) a))
        (NewServiceAuth
          \<lparr>so_token_url = (if nc_auth_token_url n = [] then trim_right_slashes (cg_jwt_issuer cg) @ ''/oauth/token'' else nc_auth_token_url n),
           so_client_id = nc_client_id n, so_client_secret = nc_client_secret n, so_audience = nc_audience n,
           so_early_refresh = 0\<rparr>))"

section \<open>Signals\<close>

text \<open>
  A payload by what it decodes to for each of the handlers. A handler answers its error and what it did; a nil handler, which
  \<^verbatim>\<open>Emit\<close> skips, is not registered.
\<close>

record payload =
  pl_alert :: "alert option"
  pl_pending :: "pending_payload option"
  pl_decided :: "decided_payload option"

type_synonym 's bus = "string \<Rightarrow> (payload \<Rightarrow> 's \<Rightarrow> string option \<times> 's) list"

definition NewBus :: "'s bus" where
  "NewBus = (\<lambda>_. [])"

definition bus_On :: "string \<Rightarrow> (payload \<Rightarrow> 's \<Rightarrow> string option \<times> 's) \<Rightarrow> 's bus \<Rightarrow> 's bus" where
  "bus_On name h b = b(name := b name @ [h])"

definition HasSubscribers :: "'s bus \<Rightarrow> string \<Rightarrow> bool" where
  "HasSubscribers b name \<longleftrightarrow> b name \<noteq> []"

fun run_handlers :: "(payload \<Rightarrow> 's \<Rightarrow> string option \<times> 's) list \<Rightarrow> payload \<Rightarrow> string option \<Rightarrow> 's \<Rightarrow> string option \<times> 's" where
  "run_handlers [] p first s = (first, s)"
| "run_handlers (h # hs) p first s =
     (case h p s of (er, s') \<Rightarrow> run_handlers hs p (if first = None then er else first) s')"

definition bus_Emit :: "'s bus \<Rightarrow> string \<Rightarrow> payload \<Rightarrow> 's \<Rightarrow> string option \<times> 's" where
  "bus_Emit b name p s = run_handlers (b name) p None s"

definition handled_by :: "(notify_state \<Rightarrow> string + notify_state) \<Rightarrow> notify_state \<Rightarrow> string option \<times> notify_state" where
  "handled_by f n = (case f n of Inl er \<Rightarrow> (Some er, n) | Inr n' \<Rightarrow> (None, n'))"

definition Register :: "(dispatch_request \<Rightarrow> nat \<Rightarrow> bool) \<Rightarrow> timestamp \<Rightarrow> notify_state bus \<Rightarrow> notify_state bus" where
  "Register deliver now b =
     bus_On ''requisition.decided'' (\<lambda>p. handled_by (onRequisitionDecided deliver now (pl_decided p)))
       (bus_On ''requisition.pending'' (\<lambda>p. handled_by (onRequisitionPending now (pl_pending p)))
         (bus_On ''procurement.alert'' (\<lambda>p. handled_by (onProcurementAlert deliver now (pl_alert p))) b))"

text \<open>What is published on the channel; a subscriber skips what does not decode and goes on after an error.\<close>

definition Broadcast :: "bool \<Rightarrow> string \<Rightarrow> string \<times> string \<Rightarrow> (string \<times> string) option" where
  "Broadcast redis channel ev = (if \<not> redis \<or> channel = [] then None else Some ev)"

definition StartSubscriber ::
  "bool \<Rightarrow> string \<Rightarrow> (timestamp \<Rightarrow> string \<Rightarrow> string \<Rightarrow> api \<Rightarrow> api) \<Rightarrow> (timestamp \<times> (string \<times> string) option) list \<Rightarrow> api \<Rightarrow> api" where
  "StartSubscriber redis channel fn msgs s =
     (if \<not> redis \<or> channel = [] then s
      else fold (\<lambda>(now, m) s. case m of None \<Rightarrow> s | Some (name, body) \<Rightarrow> fn now name body s) msgs s)"

section \<open>Connections, headers and the health check\<close>

text \<open>
  The hook of every new connection: a duplicate key means another connection created the schema first.
  The error of the statement is its SQL state, or none for an error that is not the database's.
\<close>

definition AfterConnect :: "(string option) option \<Rightarrow> (string option) option" where
  "AfterConnect err = (if err = Some (Some ''23505'') then None else err)"

definition pool_url :: "string \<Rightarrow> string \<Rightarrow> string" where
  "pool_url databaseURL env_url = (if trim_space databaseURL \<noteq> [] then databaseURL else env_url)"

definition source_none :: string where
  "source_none = CHR 0x27 # ''none'' @ [CHR 0x27]"

definition SecurityHeaders :: "bool \<Rightarrow> string \<Rightarrow> (string \<times> string) list" where
  "SecurityHeaders tls proto =
     [(''Content-Security-Policy'', ''default-src '' @ source_none @ ''; frame-ancestors '' @ source_none @ ''; base-uri '' @ source_none
         @ ''; form-action '' @ source_none),
      (''X-Content-Type-Options'', ''nosniff''),
      (''X-Frame-Options'', ''DENY''),
      (''Referrer-Policy'', ''strict-origin-when-cross-origin''),
      (''Permissions-Policy'', ''geolocation=(), microphone=(), camera=(), interest-cohort=()''),
      (''X-XSS-Protection'', ''1; mode=block'')]
     @ (if tls \<or> equal_fold proto ''https'' then [(''Strict-Transport-Security'', ''max-age=31536000; includeSubDomains; preload'')] else [])"

definition healthcheck_url :: "string \<Rightarrow> string" where
  "healthcheck_url port = ''http://127.0.0.1:'' @ (if port = [] then ''4009'' else port) @ ''/ready''"

text \<open>The exit status: \<open>None\<close> is a request that failed.\<close>

definition healthcheck_main :: "(string \<Rightarrow> nat option) \<Rightarrow> string \<Rightarrow> nat" where
  "healthcheck_main get port = (case get (healthcheck_url port) of Some st \<Rightarrow> if st = 200 then 0 else 1 | None \<Rightarrow> 1)"

section \<open>When a token is reused\<close>

lemma fetchLocked_opts [simp]: "sa_opts (snd (fetchLocked post ok now a)) = sa_opts a"
  by (auto simp: fetchLocked_def Let_def split: token_answer.splits option.splits)

lemma Token_opts [simp]: "sa_opts (snd (Token post ok now a)) = sa_opts a"
  using fetchLocked_opts [of post ok now a]
  by (auto simp: Token_def simp del: fetchLocked_opts split: prod.splits sum.splits)

lemma NewServiceAuth_early: "NewServiceAuth opts = Some a \<Longrightarrow> sint (so_early_refresh (sa_opts a)) > 0"
  by (auto simp: NewServiceAuth_def second_def split: if_splits)

text \<open>A token from the cache outlives the margin; any other was answered by the endpoint just now.\<close>

lemma returned_token_is_live:
  assumes "Token post ok now a = (Inr tok, a')" and "sint (so_early_refresh (sa_opts a)) > 0"
  shows "tok \<noteq> [] \<and>
    (a' = a \<and> now + sint (so_early_refresh (sa_opts a)) < sa_expiry a' \<or>
     (\<exists>tr. post (so_token_url (sa_opts a)) (token_form (sa_opts a)) = TokenAnswer 200 (Some tr) \<and> tok = tr_access_token tr))"
  using assms
  by (auto simp: Token_def fetchLocked_def Let_def Until_def split: if_splits prod.splits sum.splits token_answer.splits option.splits)

text \<open>A failed request for a token leaves the client as it was.\<close>

lemma failed_token_keeps: "Token post ok now a = (Inl er, a') \<Longrightarrow> a' = a"
  by (auto simp: Token_def fetchLocked_def Let_def split: if_splits prod.splits sum.splits token_answer.splits option.splits)

text \<open>
  Between the fetch of a token and its margin no request is made, whatever the endpoint would answer; from
  the margin on the endpoint is asked again.
\<close>

lemma token_is_reused_until_margin:
  assumes "fetchLocked post ok t0 a = (Inr (), a')" "post (so_token_url (sa_opts a)) (token_form (sa_opts a)) = TokenAnswer 200 (Some tr)"
    and "tr_expires_in tr = word_of_int n" "0 \<le> n" "n \<le> 9223372036" "t0 \<le> now"
    and "early = sint (so_early_refresh (sa_opts a))" "0 < early"
  shows "now < t0 + n * 1000000000 - early \<Longrightarrow> Token post' ok' now a' = (Inr (tr_access_token tr), a')"
    and "now \<ge> t0 + n * 1000000000 - early \<Longrightarrow>
      Token post' ok' now a' = (case fetchLocked post' ok' now a' of (Inl er, b) \<Rightarrow> (Inl er, b) | (Inr _, b) \<Rightarrow> (Inr (sa_token b), b))"
proof -
  have a': "tr_access_token tr \<noteq> []" "a' = a\<lparr>sa_token := tr_access_token tr, sa_expiry := t0 + n * 1000000000\<rparr>"
    using assms(1-5) sint_second [of n] by (auto simp: fetchLocked_def Let_def split: if_splits)
  show "Token post' ok' now a' = (Inr (tr_access_token tr), a')" if "now < t0 + n * 1000000000 - early"
    using that a' assms(4-8) by (simp add: Token_def Until_def)
  show "Token post' ok' now a' = (case fetchLocked post' ok' now a' of (Inl er, b) \<Rightarrow> (Inl er, b) | (Inr _, b) \<Rightarrow> (Inr (sa_token b), b))"
    if "now \<ge> t0 + n * 1000000000 - early"
    using that a' assms(4-8) by (auto simp: Token_def Until_def max_def min_def)
qed

text \<open>A lifetime of more than 292 years overflows: the token counts as expired and every dispatch asks for a new one.\<close>

lemma overlong_lifetime_is_never_cached:
  "sint (word_of_int 9223372037 * second :: duration) < 0"
  by code_simp

text \<open>Without a token nothing is posted; with one, only a status of the two hundreds is a success.\<close>

lemma Dispatch_success:
  assumes "Dispatch pt post ok now req c = (Inr r, c')"
  shows "\<exists>tok st body. Token pt ok now (nk_auth c) = (Inr tok, nk_auth c') \<and>
    post (nk_base_url c @ ''/v1/dispatch'') (''Bearer '' @ tok) req = DispatchAnswer st body \<and> 200 \<le> st \<and> st < 300 \<and> body \<noteq> Undecodable"
proof -
  obtain tok a where t: "Token pt ok now (nk_auth c) = (Inr tok, a)" and c': "c' = c\<lparr>nk_auth := a\<rparr>"
    and ans: "read_answer (post (nk_base_url c @ ''/v1/dispatch'') (''Bearer '' @ tok) req) = Inr r"
    using assms by (auto simp: Dispatch_def Let_def split: if_splits prod.splits sum.splits)
  show ?thesis
  proof (cases "post (nk_base_url c @ ''/v1/dispatch'') (''Bearer '' @ tok) req")
    case (DispatchAnswer st body)
    then show ?thesis using t c' ans by (auto split: if_splits dispatch_body.splits)
  qed (use ans in simp)
qed

section \<open>The wired bus\<close>

definition signal_of :: "string \<Rightarrow> payload \<Rightarrow> signal" where
  "signal_of name p =
     (if name = ''procurement.alert'' then ProcurementAlert (pl_alert p)
      else if name = ''requisition.pending'' then RequisitionPending (pl_pending p)
      else if name = ''requisition.decided'' then RequisitionDecided (pl_decided p)
      else OtherSignal name)"

text \<open>The bus as \<^verbatim>\<open>Service.Register\<close> wires it runs exactly the handler of the signal.\<close>

lemma wired_bus_emits:
  "bus_Emit (Register deliver now NewBus) name p n = Emit deliver now (signal_of name p) n"
  by (simp add: bus_Emit_def Register_def bus_On_def NewBus_def signal_of_def Emit_def handled_by_def split: sum.splits)

lemma wired_bus_subscribers:
  "HasSubscribers (Register deliver now NewBus) name \<longleftrightarrow>
     name \<in> {''procurement.alert'', ''requisition.pending'', ''requisition.decided''}"
  by (auto simp: HasSubscribers_def Register_def bus_On_def NewBus_def)

text \<open>Every handler runs, in the order of registration, whatever the ones before it answered.\<close>

lemma run_handlers_state: "snd (run_handlers hs p er s) = fold (\<lambda>h s. snd (h p s)) hs s"
  by (induction hs arbitrary: er s) (simp_all split: prod.splits)

text \<open>A signal broadcast on the configured channel becomes a row of every subscriber's feed.\<close>

lemma broadcast_is_recorded:
  assumes "Broadcast redis channel (name, body) = Some ev"
  shows "StartSubscriber redis channel on_broadcast [(now, Some ev)] s = on_broadcast now name body s"
  using assms by (auto simp: Broadcast_def StartSubscriber_def split: if_splits)

section \<open>The health check\<close>

text \<open>The container is healthy exactly when the readiness probe answers 200, which needs no token.\<close>

lemma healthcheck_probes_readiness:
  "healthcheck_main (\<lambda>_. Some (an_status (fst (serve sv c h Ready s)))) port = 0 \<longleftrightarrow>
   an_status (fst (api_ready (c\<lparr>ca_ctx := empty_ctx\<lparr>cx_mode := sv_mode sv\<rparr>\<rparr>) s)) = 200"
  by (simp add: healthcheck_main_def serve_def AttachPrincipal_def isPublicProbePath_def Let_def is_probe.simps)

end
