(* ===== verification/Consumer_Loop.thy ===== *)
theory Consumer_Loop
  imports Ledger
begin

text \<open>
  The loops around the handlers (\<^verbatim>\<open>Run\<close> in every file of \<^verbatim>\<open>internal/consumer\<close>): fetch a message,
  handle it, commit its offset; the commercial consumer retries and dead-letters first.

  The broker client is a parameter: a run is given the list of what \<^verbatim>\<open>FetchMessage\<close> answers until the
  context ends, and for every message whether the dead-letter write and the commit succeed. A commit covers
  every earlier message of its partition, as the client documents: the highest committed offset decides where
  a restarted consumer resumes.
\<close>

section \<open>Fetching and committing\<close>

text \<open>
  \<open>dl_env n\<close> is the clock and the generated keys at attempt \<open>n\<close>; \<open>dl_stop\<close> is the number of further attempts after
  the first at which the context is found to have ended, if it has.
\<close>

record 'm delivery =
  dl_offset :: nat
  dl_msg :: 'm
  dl_env :: "nat \<Rightarrow> env"
  dl_stop :: "nat option"
  dl_dead_ok :: bool
  dl_commit_ok :: bool

datatype 'm fetched = FetchFailed | Fetched "'m delivery"

text \<open>The store and what the run did, as offsets: handled, dead-lettered, committed; and the signals raised.\<close>

record reading =
  rd_store :: db
  rd_handled :: "nat list"
  rd_dead :: "nat list"
  rd_committed :: "nat list"
  rd_signals :: "string list"

definition reading_of :: "db \<Rightarrow> reading" where
  "reading_of d = \<lparr>rd_store = d, rd_handled = [], rd_dead = [], rd_committed = [], rd_signals = []\<rparr>"

definition CommitMessages :: "'m delivery \<Rightarrow> reading \<Rightarrow> reading" where
  "CommitMessages m s = (if dl_commit_ok m then s\<lparr>rd_committed := rd_committed s @ [dl_offset m]\<rparr> else s)"

definition mark_handled :: "'m delivery \<Rightarrow> reading \<Rightarrow> reading" where
  "mark_handled m s = s\<lparr>rd_handled := rd_handled s @ [dl_offset m]\<rparr>"

section \<open>Loops without retry\<close>

fun consume :: "(env \<Rightarrow> 'm \<Rightarrow> db \<Rightarrow> (repo_error + unit) \<times> db) \<Rightarrow> 'm fetched list \<Rightarrow> reading \<Rightarrow> reading" where
  "consume handle [] s = s"
| "consume handle (FetchFailed # fs) s = consume handle fs s"
| "consume handle (Fetched m # fs) s =
     (case handle (dl_env m 1) (dl_msg m) (rd_store s) of
        (Inl _, d) \<Rightarrow> consume handle fs (s\<lparr>rd_store := d\<rparr>)
      | (Inr _, d) \<Rightarrow> consume handle fs (CommitMessages m (mark_handled m (s\<lparr>rd_store := d\<rparr>))))"

text \<open>Three of the consumers have nothing to do without a broker.\<close>

definition finance_Run :: "(string \<Rightarrow> amount) \<Rightarrow> string list \<Rightarrow> finance_event option fetched list \<Rightarrow> reading \<Rightarrow> reading" where
  "finance_Run pf brokers fs s = (if brokers = [] then s else consume (finance_handle pf) fs s)"

definition fleet_Run :: "(string \<Rightarrow> amount) \<Rightarrow> string \<Rightarrow> string list \<Rightarrow> fleet_event option fetched list \<Rightarrow> reading \<Rightarrow> reading" where
  "fleet_Run pf def brokers fs s = (if brokers = [] then s else consume (\<lambda>e. fleet_handle pf e def) fs s)"

definition operations_Run ::
  "(string \<Rightarrow> amount) \<Rightarrow> string \<Rightarrow> string list \<Rightarrow> operations_event option fetched list \<Rightarrow> reading \<Rightarrow> reading" where
  "operations_Run pf def brokers fs s = (if brokers = [] then s else consume (\<lambda>e. operations_handle pf e def) fs s)"

definition quality_Run :: "quality_event option fetched list \<Rightarrow> reading \<Rightarrow> reading" where
  "quality_Run fs s = consume quality_handleMessage fs s"

definition supplychain_Run :: "(string \<Rightarrow> string) \<Rightarrow> party_event option fetched list \<Rightarrow> reading \<Rightarrow> reading" where
  "supplychain_Run scm_id fs s = consume (\<lambda>_. supplychain_handleMessage scm_id) fs s"

definition vendorsync_Run :: "vendor_event option fetched list \<Rightarrow> reading \<Rightarrow> reading" where
  "vendorsync_Run fs s = consume vendorsync_handleMessage fs s"

section \<open>The commercial loop\<close>

text \<open>\<^verbatim>\<open>deadLetter\<close>: without a dead-letter writer the message is dropped and committed.\<close>

definition deadLetter :: "bool \<Rightarrow> 'm delivery \<Rightarrow> reading \<Rightarrow> bool \<times> reading" where
  "deadLetter dlq m s =
     (if \<not> dlq then (True, s)
      else if dl_dead_ok m then (True, s\<lparr>rd_dead := rd_dead s @ [dl_offset m]\<rparr>)
      else (False, s))"

text \<open>Five attempts, or as many as there are until the context is found to have ended.\<close>

definition attempts_of :: "'m delivery \<Rightarrow> nat" where
  "attempts_of m = (case dl_stop m of None \<Rightarrow> maxHandleAttempts | Some k \<Rightarrow> min (Suc k) maxHandleAttempts)"

fun commercial_loop ::
  "bool \<Rightarrow> (env \<Rightarrow> 'm \<Rightarrow> db \<Rightarrow> handled) \<Rightarrow> 'm fetched list \<Rightarrow> reading \<Rightarrow> reading" where
  "commercial_loop dlq handle [] s = s"
| "commercial_loop dlq handle (FetchFailed # fs) s = commercial_loop dlq handle fs s"
| "commercial_loop dlq handle (Fetched m # fs) s =
     (case handle_attempts (\<lambda>n. handle (dl_env m n) (dl_msg m)) 1 (attempts_of m) [] (rd_store s) of
        (r, sigs, d) \<Rightarrow>
          let s1 = s\<lparr>rd_store := d, rd_signals := rd_signals s @ sigs\<rparr> in
          case r of
            Inr _ \<Rightarrow> commercial_loop dlq handle fs (CommitMessages m (mark_handled m s1))
          | Inl _ \<Rightarrow>
              if dl_stop m \<noteq> None then s1
              else case deadLetter dlq m s1 of
                  (ok, s2) \<Rightarrow> commercial_loop dlq handle fs (if ok then CommitMessages m s2 else s2))"

definition commercial_Run ::
  "(string \<Rightarrow> amount) \<Rightarrow> string \<Rightarrow> string list \<Rightarrow> commercial_event option fetched list \<Rightarrow> reading \<Rightarrow> reading" where
  "commercial_Run pf def brokers fs s =
     commercial_loop (brokers \<noteq> []) (\<lambda>e. commercial_handleMessage pf e def) fs s"

section \<open>What a run does to the store\<close>

lemma CommitMessages_store [simp]:
  "rd_store (CommitMessages m s) = rd_store s" "rd_handled (CommitMessages m s) = rd_handled s"
  "rd_dead (CommitMessages m s) = rd_dead s" "rd_signals (CommitMessages m s) = rd_signals s"
  by (simp_all add: CommitMessages_def)

lemma mark_handled_simps [simp]:
  "rd_store (mark_handled m s) = rd_store s" "rd_handled (mark_handled m s) = rd_handled s @ [dl_offset m]"
  "rd_dead (mark_handled m s) = rd_dead s" "rd_committed (mark_handled m s) = rd_committed s"
  by (simp_all add: mark_handled_def)

lemma deadLetter_store [simp]: "rd_store (snd (deadLetter dlq m s)) = rd_store s"
  by (simp add: deadLetter_def)

text \<open>Every message is one step of the repository.\<close>

lemma consume_steps:
  assumes step: "\<And>e m d r d'. handle e m d = (r, d') \<Longrightarrow> repo_step d d'"
  shows "repo_step\<^sup>*\<^sup>* (rd_store s) (rd_store (consume handle fs s))"
proof (induction fs arbitrary: s)
  case (Cons f fs)
  show ?case
  proof (cases f)
    case FetchFailed
    then show ?thesis using Cons.IH by simp
  next
    case (Fetched m)
    obtain r d where h: "handle (dl_env m 1) (dl_msg m) (rd_store s) = (r, d)" by force
    let ?s = "if isl r then s\<lparr>rd_store := d\<rparr> else CommitMessages m (mark_handled m (s\<lparr>rd_store := d\<rparr>))"
    have "repo_step\<^sup>*\<^sup>* d (rd_store (consume handle fs ?s))" using Cons.IH [of ?s] by (simp split: if_splits)
    moreover have "consume handle (f # fs) s = consume handle fs ?s" using h Fetched by (simp split: sum.splits)
    ultimately show ?thesis using step [OF h] by (simp add: converse_rtranclp_into_rtranclp)
  qed
qed simp

lemma message_steps:
  "finance_handle pf e m d = (r, d') \<Longrightarrow> repo_step d d'"
  "fleet_handle pf e df fm d = (r, d') \<Longrightarrow> repo_step d d'"
  "operations_handle pf e df om d = (r, d') \<Longrightarrow> repo_step d d'"
  "supplychain_handleMessage scm_id sm d = (r, d') \<Longrightarrow> repo_step d d'"
  "vendorsync_handleMessage e vm d = (r, d') \<Longrightarrow> repo_step d d'"
  "quality_handleMessage e qm d = (r, d') \<Longrightarrow> repo_step d d'"
  by (auto intro: repo_step.intros(1) side_step.intros)

lemma run_steps:
  "repo_step\<^sup>*\<^sup>* (rd_store s) (rd_store (finance_Run pf bs f1 s))"
  "repo_step\<^sup>*\<^sup>* (rd_store s) (rd_store (fleet_Run pf df bs f2 s))"
  "repo_step\<^sup>*\<^sup>* (rd_store s) (rd_store (operations_Run pf df bs f3 s))"
  "repo_step\<^sup>*\<^sup>* (rd_store s) (rd_store (quality_Run f4 s))"
  "repo_step\<^sup>*\<^sup>* (rd_store s) (rd_store (supplychain_Run scm_id f5 s))"
  "repo_step\<^sup>*\<^sup>* (rd_store s) (rd_store (vendorsync_Run f6 s))"
  unfolding finance_Run_def fleet_Run_def operations_Run_def quality_Run_def supplychain_Run_def vendorsync_Run_def
  by (auto intro: consume_steps message_steps)

lemma commercial_loop_steps:
  "repo_step\<^sup>*\<^sup>* (rd_store s) (rd_store (commercial_loop dlq (\<lambda>e. commercial_handleMessage pf e def) fs s))"
proof (induction fs arbitrary: s)
  case (Cons f fs)
  let ?h = "\<lambda>e. commercial_handleMessage pf e def"
  show ?case
  proof (cases f)
    case FetchFailed
    then show ?thesis using Cons.IH by simp
  next
    case (Fetched m)
    obtain r sg d where h: "handle_attempts (\<lambda>n. ?h (dl_env m n) (dl_msg m)) 1 (attempts_of m) [] (rd_store s) = (r, sg, d)"
      by (metis prod.collapse)
    then have one: "repo_step (rd_store s) d" by (intro repo_step.intros(1) side_step.intros(29))
    have "repo_step\<^sup>*\<^sup>* d (rd_store (commercial_loop dlq ?h fs s'))" if "rd_store s' = d" for s'
      using Cons.IH [of s'] that by simp
    then have "repo_step\<^sup>*\<^sup>* d (rd_store (commercial_loop dlq ?h (f # fs) s))"
      using h Fetched by (auto simp: Let_def deadLetter_def split: sum.splits)
    with one show ?thesis by (rule converse_rtranclp_into_rtranclp)
  qed
qed simp

section \<open>What a commit covers\<close>

definition offsets :: "'m fetched list \<Rightarrow> nat list" where
  "offsets fs = concat (map (\<lambda>f. case f of FetchFailed \<Rightarrow> [] | Fetched m \<Rightarrow> [dl_offset m]) fs)"

lemma offsets_simps [simp]:
  "offsets [] = []" "offsets (FetchFailed # fs) = offsets fs" "offsets (Fetched m # fs) = dl_offset m # offsets fs"
  "offsets (fs @ gs) = offsets fs @ offsets gs"
  by (simp_all add: offsets_def)

text \<open>The messages before some point of the run are settled, and nothing after it is committed.\<close>

lemma commercial_loop_settles:
  assumes "\<And>m. Fetched m \<in> set fs \<Longrightarrow> dl_dead_ok m"
  shows "\<exists>fs1 fs2. fs = fs1 @ fs2 \<and>
    set (rd_handled s) \<union> set (rd_dead s) \<union> set (offsets fs1) \<subseteq>
      set (rd_handled (commercial_loop True h fs s)) \<union> set (rd_dead (commercial_loop True h fs s)) \<and>
    set (rd_committed (commercial_loop True h fs s)) \<subseteq> set (rd_committed s) \<union> set (offsets fs1)"
  using assms
proof (induction fs arbitrary: s)
  case (Cons f fs)
  have IH: "\<exists>fs1 fs2. fs = fs1 @ fs2 \<and>
      set (rd_handled s) \<union> set (rd_dead s) \<union> set (offsets fs1) \<subseteq>
        set (rd_handled (commercial_loop True h fs s)) \<union> set (rd_dead (commercial_loop True h fs s)) \<and>
      set (rd_committed (commercial_loop True h fs s)) \<subseteq> set (rd_committed s) \<union> set (offsets fs1)" for s
    using Cons by simp
  show ?case
  proof (cases f)
    case FetchFailed
    from IH [of s] obtain fs1 fs2 where "fs = fs1 @ fs2"
      "set (rd_handled s) \<union> set (rd_dead s) \<union> set (offsets fs1) \<subseteq>
        set (rd_handled (commercial_loop True h fs s)) \<union> set (rd_dead (commercial_loop True h fs s))"
      "set (rd_committed (commercial_loop True h fs s)) \<subseteq> set (rd_committed s) \<union> set (offsets fs1)" by blast
    with FetchFailed show ?thesis by (intro exI [of _ "FetchFailed # fs1"] exI [of _ fs2]) simp
  next
    case (Fetched m)
    obtain r sg d where run: "handle_attempts (\<lambda>n. h (dl_env m n) (dl_msg m)) 1 (attempts_of m) [] (rd_store s) = (r, sg, d)"
      by (metis prod.collapse)
    show ?thesis
    proof (cases "isl r \<and> dl_stop m \<noteq> None")
      case True
      then have "commercial_loop True h (f # fs) s = s\<lparr>rd_store := d, rd_signals := rd_signals s @ sg\<rparr>"
        using run Fetched by (auto simp: Let_def split: sum.splits)
      then show ?thesis by (intro exI [of _ "[]"] exI [of _ "f # fs"]) simp
    next
      case False
      have dead: "dl_dead_ok m" using Cons.prems Fetched by simp
      let ?s1 = "s\<lparr>rd_store := d, rd_signals := rd_signals s @ sg\<rparr>"
      define s2 where "s2 = CommitMessages m (if isl r then ?s1\<lparr>rd_dead := rd_dead ?s1 @ [dl_offset m]\<rparr> else mark_handled m ?s1)"
      have eq: "commercial_loop True h (f # fs) s = commercial_loop True h fs s2"
        using run Fetched False dead by (auto simp: Let_def deadLetter_def s2_def split: sum.splits)
      have s2: "set (rd_handled s2) \<union> set (rd_dead s2) = insert (dl_offset m) (set (rd_handled s) \<union> set (rd_dead s))"
        "set (rd_committed s2) \<subseteq> insert (dl_offset m) (set (rd_committed s))"
        by (auto simp: s2_def CommitMessages_def mark_handled_def)
      define t where "t = commercial_loop True h fs s2"
      from IH [of s2] obtain fs1 fs2 where ih: "fs = fs1 @ fs2"
        "set (rd_handled s2) \<union> set (rd_dead s2) \<union> set (offsets fs1) \<subseteq> set (rd_handled t) \<union> set (rd_dead t)"
        "set (rd_committed t) \<subseteq> set (rd_committed s2) \<union> set (offsets fs1)" unfolding t_def by blast
      have "f # fs = (f # fs1) @ fs2" using ih(1) by simp
      moreover have "set (rd_handled s) \<union> set (rd_dead s) \<union> set (offsets (f # fs1)) \<subseteq> set (rd_handled t) \<union> set (rd_dead t)"
        using ih(2) s2(1) Fetched by auto
      moreover have "set (rd_committed t) \<subseteq> set (rd_committed s) \<union> set (offsets (f # fs1))"
        using ih(3) s2(2) Fetched by auto
      ultimately show ?thesis unfolding eq t_def [symmetric] by blast
    qed
  qed
qed simp

lemma commercial_loop_commits:
  assumes "\<And>m. Fetched m \<in> set fs \<Longrightarrow> dl_dead_ok m \<and> dl_commit_ok m \<and> dl_stop m = None"
  shows "rd_committed (commercial_loop True h fs s) = rd_committed s @ offsets fs"
  using assms
proof (induction fs arbitrary: s)
  case (Cons f fs)
  have IH: "rd_committed (commercial_loop True h fs s) = rd_committed s @ offsets fs" for s using Cons by simp
  show ?case
  proof (cases f)
    case (Fetched m)
    then have "dl_dead_ok m \<and> dl_commit_ok m \<and> dl_stop m = None" using Cons.prems by simp
    then show ?thesis using Fetched
      by (auto simp: IH Let_def deadLetter_def CommitMessages_def split: prod.splits sum.splits)
  qed (simp add: IH)
qed simp

text \<open>
  C20. The commercial consumer loses no message while its dead-letter topic accepts writes:
  whatever the handler, the commits and the shutdown do, every message at or below a committed
  offset of its partition has been handled without error or dead-lettered; and when the commits
  succeed and nothing is cut off, every fetched message is committed in order, so a message that
  always fails never blocks its partition.
\<close>

theorem committed_messages_are_settled:
  assumes "brokers \<noteq> []" and "sorted_wrt (<) (offsets fs)" and "\<forall>m. Fetched m \<in> set fs \<longrightarrow> dl_dead_ok m"
    and "s = commercial_Run pf def brokers fs (reading_of d)"
  shows "(\<forall>c \<in> set (rd_committed s). \<forall>x \<in> set (offsets fs). x \<le> c \<longrightarrow> x \<in> set (rd_handled s) \<union> set (rd_dead s)) \<and>
    ((\<forall>m. Fetched m \<in> set fs \<longrightarrow> dl_commit_ok m \<and> dl_stop m = None) \<longrightarrow> rd_committed s = offsets fs)"
proof (intro conjI impI ballI)
  let ?h = "\<lambda>e. commercial_handleMessage pf e def"
  have s: "s = commercial_loop True ?h fs (reading_of d)" using assms(1,4) by (simp add: commercial_Run_def)
  have "\<exists>fs1 fs2. fs = fs1 @ fs2 \<and> set (offsets fs1) \<subseteq> set (rd_handled s) \<union> set (rd_dead s) \<and>
      set (rd_committed s) \<subseteq> set (offsets fs1)"
    using commercial_loop_settles [of fs "reading_of d" ?h] assms(3) by (simp add: s reading_of_def)
  then obtain fs1 fs2 where fs: "fs = fs1 @ fs2" and settled: "set (offsets fs1) \<subseteq> set (rd_handled s) \<union> set (rd_dead s)"
    and committed: "set (rd_committed s) \<subseteq> set (offsets fs1)" by blast
  fix c x assume "c \<in> set (rd_committed s)" "x \<in> set (offsets fs)" "x \<le> c"
  then have "x \<in> set (offsets fs1)" using fs committed assms(2) by (force simp: sorted_wrt_append)
  with settled show "x \<in> set (rd_handled s) \<union> set (rd_dead s)" by blast
next
  assume "\<forall>m. Fetched m \<in> set fs \<longrightarrow> dl_commit_ok m \<and> dl_stop m = None"
  then show "rd_committed s = offsets fs"
    using commercial_loop_commits [of fs "\<lambda>e. commercial_handleMessage pf e def" "reading_of d"] assms(1,3,4)
    by (simp add: commercial_Run_def reading_of_def)
qed

text \<open>A message that cannot be decoded, then one of a type nobody handles.\<close>

definition poison :: "nat \<Rightarrow> bool \<Rightarrow> 'm option fetched" where
  "poison o' ok = Fetched \<lparr>dl_offset = o', dl_msg = None, dl_env = (\<lambda>_. sample_env), dl_stop = None, dl_dead_ok = ok, dl_commit_ok = True\<rparr>"

definition other :: "nat \<Rightarrow> 'm \<Rightarrow> 'm option fetched" where
  "other o' ev = Fetched \<lparr>dl_offset = o', dl_msg = Some ev, dl_env = (\<lambda>_. sample_env), dl_stop = None, dl_dead_ok = True, dl_commit_ok = True\<rparr>"

definition other_event :: commercial_event where
  "other_event = \<lparr>ce_id = ''e9'', ce_type = ''other'', ce_pm = None, ce_purchase = None, ce_gov = None\<rparr>"

definition commercial_sample :: "bool \<Rightarrow> reading" where
  "commercial_sample ok = commercial_Run (\<lambda>_. 0) [] [''kafka:9092''] [poison 7 ok, other 8 other_event] (reading_of empty_db)"

theorem committed_messages_are_settled_witness:
  "rd_committed (commercial_sample True) = [7, 8] \<and> 7 \<in> set (rd_handled (commercial_sample True)) \<union> set (rd_dead (commercial_sample True))"
proof -
  let ?fs = "[poison 7 True, other 8 other_event] :: commercial_event option fetched list"
  have sorted: "sorted_wrt (<) (offsets ?fs)" and dead: "\<forall>m. Fetched m \<in> set ?fs \<longrightarrow> dl_dead_ok m"
    and commits: "\<forall>m. Fetched m \<in> set ?fs \<longrightarrow> dl_commit_ok m \<and> dl_stop m = None" and offs: "offsets ?fs = [7, 8]"
    by (simp_all add: poison_def other_def)
  have "[''kafka:9092''] \<noteq> []" by simp
  note t = committed_messages_are_settled [OF this sorted dead commercial_sample_def [of True]]
  have "rd_committed (commercial_sample True) = [7, 8]" using conjunct2 [OF t, THEN mp, OF commits] offs by simp
  moreover from this have "7 \<in> set (rd_committed (commercial_sample True))" and "7 \<in> set (offsets ?fs)" by (simp_all add: offs)
  then have "7 \<in> set (rd_handled (commercial_sample True)) \<union> set (rd_dead (commercial_sample True))"
    using conjunct1 [OF t, rule_format, of 7 7] by simp
  ultimately show ?thesis by blast
qed

text \<open>
  The hypothesis on the dead-letter topic matters. A message that is left uncommitted, so that it comes back
  after a restart, is covered by the commit of the next one: when the dead-letter write fails here, and on any
  error of a handler in the loops without retry.
\<close>

lemma uncommitted_message_is_skipped:
  "rd_committed (commercial_sample False) = [8]" "7 \<notin> set (rd_handled (commercial_sample False)) \<union> set (rd_dead (commercial_sample False))"
  "rd_committed (finance_Run pf [b] [poison 7 True, other 8 \<lparr>fe_type = ''other'', fe_id = [], fe_data = None\<rparr>] (reading_of d)) = [8]"
  "rd_handled (finance_Run pf [b] [poison 7 True, other 8 \<lparr>fe_type = ''other'', fe_id = [], fe_data = None\<rparr>] (reading_of d)) = [8]"
proof -
  show "rd_committed (commercial_sample False) = [8]" by code_simp
  show "7 \<notin> set (rd_handled (commercial_sample False)) \<union> set (rd_dead (commercial_sample False))" by code_simp
qed (simp_all add: finance_Run_def finance_handle_def financePaymentMade_def poison_def other_def CommitMessages_def mark_handled_def reading_of_def)

text \<open>Without a dead-letter topic a message that fails every attempt is committed and gone.\<close>

lemma missing_dead_letter_topic_commits:
  "rd_committed (commercial_Run pf def [] [poison o' ok] (reading_of d)) = [o']"
  "rd_handled (commercial_Run pf def [] [poison o' ok] (reading_of d)) = []" "rd_dead (commercial_Run pf def [] [poison o' ok] (reading_of d)) = []"
  by (simp_all add: commercial_Run_def poison_def reading_of_def attempts_of_def maxHandleAttempts_def numeral_eq_Suc
      commercial_handleMessage_def deadLetter_def CommitMessages_def)

end
