(* ===== verification/Bootstrap.thy ===== *)
theory Bootstrap
  imports Access_Properties
begin

text \<open>
  The first boot of a legacy deployment (\<^verbatim>\<open>internal/rbac/seed.go\<close>): on a database without users the bootstrap
  always succeeds, and leaves one administrator.
\<close>

section \<open>Permissions and groups\<close>

lemma PermissionExists_iff: "PermissionExists code a \<longleftrightarrow> (\<exists>i p. (i, p) \<in> set (ad_permissions a) \<and> pm_code p = code)"
  by (auto simp: PermissionExists_def filter_empty_conv)

lemma seed_permission_exists:
  "PermissionExists (pm_code q) (seed_permission q a)" "PermissionExists c a \<Longrightarrow> PermissionExists c (seed_permission q a)"
  by (auto simp: seed_permission_def PermissionExists_iff Let_def)

lemma seed_permissions_exist: "c \<in> pm_code ` set ps \<or> PermissionExists c a \<Longrightarrow> PermissionExists c (fold seed_permission ps a)"
  by (induction ps arbitrary: a) (auto simp: seed_permission_exists)

lemma find_member: "find P xs = Some x \<Longrightarrow> x \<in> set xs"
  by (auto simp: find_Some_iff)

lemma find_append_if: "find P (xs @ ys) = (case find P xs of Some x \<Rightarrow> Some x | None \<Rightarrow> find P ys)"
  by (induction xs) auto

lemma seed_group_found: "\<exists>i. GetGroupIDByName n (seed_group n ds a) = Inr i"
proof (cases "find (\<lambda>(_, g). gp_name g = n) (ad_groups a)")
  case None
  then show ?thesis by (auto simp: GetGroupIDByName_def seed_group_def Let_def find_append_if find_None_iff list_ex_iff split: option.splits)
qed (auto simp: GetGroupIDByName_def seed_group_def Let_def find_append_if)

lemma seed_group_keeps_found: "GetGroupIDByName m a = Inr i \<Longrightarrow> GetGroupIDByName m (seed_group n ds a) = Inr i"
  by (cases "find (\<lambda>(_, g). gp_name g = m) (ad_groups a)") (auto simp: GetGroupIDByName_def seed_group_def Let_def find_append_if)

lemma found_group_exists: "GetGroupIDByName n a = Inr i \<Longrightarrow> GroupExists i a"
  by (fastforce simp: GetGroupIDByName_def GroupExists_def filter_empty_conv split: option.splits dest: find_member)

section \<open>Grants\<close>

text \<open>The tables a grant leaves alone.\<close>

definition grants_only :: "auth_db \<Rightarrow> auth_db \<Rightarrow> bool" where
  "grants_only a a' \<longleftrightarrow> ad_users a' = ad_users a \<and> ad_groups a' = ad_groups a \<and> ad_permissions a' = ad_permissions a \<and>
     ad_user_groups a' = ad_user_groups a \<and> ad_user_seq a' = ad_user_seq a"

lemma grant_code_succeeds:
  assumes "GroupExists g a" and "PermissionExists c a"
  shows "\<exists>a'. grant_code g c a = Inr a' \<and> grants_only a a'"
proof -
  obtain i p where f: "find (\<lambda>(_, p). pm_code p = c) (ad_permissions a) = Some (i, p)"
    using assms(2) by (cases "find (\<lambda>(_, p). pm_code p = c) (ad_permissions a)") (auto simp: find_None_iff PermissionExists_iff)
  then have "(i, p) \<in> set (ad_permissions a)" by (rule find_member)
  then have "map_of (ad_permissions a) i \<noteq> None" by (auto dest: weak_map_of_SomeI)
  with f assms(1) show ?thesis by (auto simp: grant_code_def insert_group_permission_def grants_only_def)
qed

lemma grant_codes_succeed:
  "GroupExists g a \<Longrightarrow> \<forall>c\<in>set cs. PermissionExists c a \<Longrightarrow> \<exists>a'. grant_codes g cs a = Inr a' \<and> grants_only a a'"
proof (induction cs arbitrary: a)
  case (Cons c cs)
  then obtain a1 where a1: "grant_code g c a = Inr a1" "grants_only a a1" using grant_code_succeeds [of g a c] by auto
  then have "GroupExists g a1" "\<forall>c\<in>set cs. PermissionExists c a1"
    using Cons.prems by (auto simp: grants_only_def GroupExists_def PermissionExists_def)
  with Cons.IH a1 show ?case by (fastforce simp: grants_only_def)
qed (simp add: grants_only_def)

lemma seed_keeps [simp]:
  "ad_users (seed_permission q a) = ad_users a" "ad_users (seed_group n ds a) = ad_users a"
  "ad_user_groups (seed_permission q a) = ad_user_groups a" "ad_user_groups (seed_group n ds a) = ad_user_groups a"
  "PermissionExists c (seed_group n ds a) = PermissionExists c a"
  by (simp_all add: seed_permission_def seed_group_def PermissionExists_def Let_def)

lemma seed_permissions_keep [simp]:
  "ad_users (fold seed_permission ps a) = ad_users a" "ad_user_groups (fold seed_permission ps a) = ad_user_groups a"
  by (induction ps arbitrary: a) simp_all

section \<open>The administrator\<close>

lemma viewer_codes: "{perm_ViewSeed, perm_ViewAPIAudit, perm_ViewInbox} \<subseteq> pm_code ` set bootstrapPermissions"
  by (simp add: bootstrapPermissions_def perm_def_def)

lemma rbac_Seed_succeeds:
  assumes "ad_users a = []" and "ad_user_groups a = []" and "length pw \<le> 72"
  shows "\<exists>i a'. rbac_Seed hash pw a = Inr a' \<and> ad_users a' = [(i, \<lparr>us_email = ''admin@iag.local'',
    us_password_hash = hash (if pw = [] then ''admin123'' else pw), us_active = True, us_superuser = True\<rparr>)]"
proof -
  define a0 where "a0 = fold seed_permission bootstrapPermissions a"
  define a1 where "a1 = seed_group ''Administrators'' ''Full access (Django-style superuser group)'' a0"
  define a2 where "a2 = seed_group ''Viewers'' ''Read-only procurement and audit access'' a1"
  obtain g where "GetGroupIDByName ''Administrators'' a1 = Inr g" using seed_group_found unfolding a1_def by blast
  then have g: "GetGroupIDByName ''Administrators'' a2 = Inr g" unfolding a2_def by (rule seed_group_keeps_found)
  obtain v where v: "GetGroupIDByName ''Viewers'' a2 = Inr v" using seed_group_found unfolding a2_def by blast
  have codes: "PermissionExists c a2" if "c \<in> pm_code ` set bootstrapPermissions" for c
    using that seed_permissions_exist [of c bootstrapPermissions a] by (simp add: a0_def a1_def a2_def)
  obtain a3 where a3: "grant_codes g (map pm_code bootstrapPermissions) a2 = Inr a3" "grants_only a2 a3"
    using grant_codes_succeed [OF found_group_exists [OF g], of "map pm_code bootstrapPermissions"] codes by auto
  have "GroupExists v a3" using found_group_exists [OF v] a3(2) by (simp add: grants_only_def GroupExists_def)
  moreover have "\<forall>c\<in>set [perm_ViewSeed, perm_ViewAPIAudit, perm_ViewInbox]. PermissionExists c a3"
    using codes viewer_codes a3(2) by (simp add: grants_only_def PermissionExists_def)
  ultimately obtain a4 where a4: "grant_codes v [perm_ViewSeed, perm_ViewAPIAudit, perm_ViewInbox] a3 = Inr a4" "grants_only a3 a4"
    using grant_codes_succeed by blast
  have "ad_users a4 = [] \<and> ad_user_groups a4 = [] \<and> GroupExists g a4"
    using a3(2) a4(2) assms found_group_exists [OF g] by (simp add: grants_only_def a0_def a1_def a2_def GroupExists_def)
  moreover have "bcrypt_hash hash (if pw = [] then ''admin123'' else pw) = Inr (hash (if pw = [] then ''admin123'' else pw))"
    using assms(3) by (simp add: bcrypt_hash_def)
  ultimately show ?thesis using assms(1) g v a3(1) a4(1)
    by (simp add: rbac_Seed_def insert_user_def insert_user_group_def GetUserByID_def GroupExists_def Let_def
        flip: a0_def a1_def a2_def del: grant_codes.simps)
qed

end
