(* ===== verification/System.thy ===== *)
theory System
  imports Verifier Clients Consumer_Loop Bootstrap
begin

text \<open>
  The whole process (\<^verbatim>\<open>cmd/server/main.go\<close>): requests, the refresh of the signing keys, the period-close
  job, the subscriber of broadcasts, the outbox publisher and the consumers, in any interleaving on one store;
  and what a boot leaves for the first login.

  A consumer step is a run over any number of messages, so one message at a time and a batch are both
  covered. The libraries of \<^verbatim>\<open>main\<close> are one record of parameters.
\<close>

section \<open>The process\<close>

record libraries =
  lb_regex :: regex
  lb_deliver :: "dispatch_request \<Rightarrow> nat \<Rightarrow> bool"
  lb_parse :: parser
  lb_uuid :: "string \<Rightarrow> string option"
  lb_parse_local :: "(token_header \<Rightarrow> string + string) \<Rightarrow> string \<Rightarrow> local_claims option"
  lb_sign :: "string \<Rightarrow> int \<Rightarrow> local_claims \<Rightarrow> string"
  lb_hash :: "string \<Rightarrow> string"
  lb_matches :: "string \<Rightarrow> string \<Rightarrow> bool"
  lb_float :: "string \<Rightarrow> amount"
  lb_pow :: "nat \<Rightarrow> duration"
  lb_scm_id :: "string \<Rightarrow> string"
  lb_recipient :: string
  lb_default_budget :: string

record process =
  pr_api :: api
  pr_keys :: verifier

text \<open>The service with the keys held at the moment of a request.\<close>

definition serving :: "app_config \<Rightarrow> libraries \<Rightarrow> nat \<Rightarrow> verifier \<Rightarrow> server option" where
  "serving cg lb pick v =
     main_server cg (lb_regex lb) (lb_deliver lb) (verifier_Verify (lb_parse lb) (lb_uuid lb) pick v)
       (ParseAccessToken (lb_parse_local lb) (cg_jwt_secret cg)) (lb_sign lb (cg_jwt_secret cg) (token_ttl (cg_jwt_ttl cg)))
       (lb_hash lb) (lb_matches lb) (lb_recipient lb)"

text \<open>
  What a run of a consumer leaves: its store, and for every requisition it signalled as pending the handler of
  that signal.
\<close>

definition raise_pending :: "libraries \<Rightarrow> timestamp \<Rightarrow> db \<Rightarrow> string \<Rightarrow> notify_state \<Rightarrow> notify_state" where
  "raise_pending lb now d i n =
     snd (bus_Emit (Register (lb_deliver lb) now NewBus) ''requisition.pending''
       \<lparr>pl_alert = None,
        pl_pending = Some \<lparr>pp_id = i, pp_title = (case tbl_get (db_requisitions d) i of Some r \<Rightarrow> rq_title r | None \<Rightarrow> [])\<rparr>,
        pl_decided = None\<rparr> n)"

definition absorb :: "libraries \<Rightarrow> timestamp \<Rightarrow> reading \<Rightarrow> process \<Rightarrow> process" where
  "absorb lb now rd p =
     p\<lparr>pr_api := (pr_api p)\<lparr>as_db := rd_store rd,
        as_notify := fold (raise_pending lb now (rd_store rd)) (rd_signals rd) (as_notify (pr_api p))\<rparr>\<rparr>"

definition publish :: "libraries \<Rightarrow> timestamp \<Rightarrow> bool \<Rightarrow> bool \<Rightarrow> (outbox_row \<Rightarrow> string option) \<Rightarrow> duration \<Rightarrow> db \<Rightarrow> db" where
  "publish lb now fails fails2 send interval d =
     d\<lparr>db_outbox := snd (Run_turn (lb_pow lb) now fails fails2 send (interval, db_outbox d))\<rparr>"

abbreviation opened :: "process \<Rightarrow> reading" where
  "opened p \<equiv> reading_of (as_db (pr_api p))"

inductive process_step :: "app_config \<Rightarrow> libraries \<Rightarrow> process \<Rightarrow> process \<Rightarrow> bool" for cg lb where
  request: "serving cg lb pick (pr_keys p) = Some sv \<Longrightarrow> serve sv c h r (pr_api p) = (a, s') \<Longrightarrow> process_step cg lb p (p\<lparr>pr_api := s'\<rparr>)"
| expiry: "process_step cg lb p (p\<lparr>pr_api := (pr_api p)\<lparr>as_seed := None\<rparr>\<rparr>)"
| keys: "JwksRefresh \<in> set (started cg) \<Longrightarrow> process_step cg lb p (p\<lparr>pr_keys := jwksRefreshLoop [ans] (pr_keys p)\<rparr>)"
| close: "process_step cg lb p (p\<lparr>pr_api := period_close_job cg e (pr_api p)\<rparr>)"
| broadcast: "process_step cg lb p
    (p\<lparr>pr_api := StartSubscriber True (nc_signal_channel (cg_notify cg)) on_broadcast [m] (pr_api p)\<rparr>)"
| drain: "OutboxPublisher \<in> set (started cg) \<Longrightarrow>
    process_step cg lb p (p\<lparr>pr_api := (pr_api p)\<lparr>as_db := publish lb now fails fails2 (DispatchOutbox (bus_on cg) wr) interval (as_db (pr_api p))\<rparr>\<rparr>)"
| commercial: "bus_on cg \<Longrightarrow> process_step cg lb p
    (absorb lb now (commercial_Run (lb_float lb) (lb_default_budget lb) (kc_brokers (cg_kafka cg)) f1 (opened p)) p)"
| supply_chain: "bus_on cg \<Longrightarrow> process_step cg lb p (absorb lb now (supplychain_Run (lb_scm_id lb) f2 (opened p)) p)"
| operations: "bus_on cg \<Longrightarrow> process_step cg lb p
    (absorb lb now (operations_Run (lb_float lb) (lb_default_budget lb) (kc_brokers (cg_kafka cg)) f3 (opened p)) p)"
| fleet: "bus_on cg \<Longrightarrow> cg_fleet_fuel_bridge cg \<Longrightarrow> process_step cg lb p
    (absorb lb now (fleet_Run (lb_float lb) (lb_default_budget lb) (kc_brokers (cg_kafka cg)) f4 (opened p)) p)"
| finance: "bus_on cg \<Longrightarrow> cg_finance_writeback cg \<Longrightarrow> process_step cg lb p
    (absorb lb now (finance_Run (lb_float lb) (kc_brokers (cg_kafka cg)) f5 (opened p)) p)"
| vendor_sync: "bus_on cg \<Longrightarrow> process_step cg lb p (absorb lb now (vendorsync_Run f6 (opened p)) p)"
| quality: "bus_on cg \<Longrightarrow> process_step cg lb p (absorb lb now (quality_Run f7 (opened p)) p)"

section \<open>What the process does to the store\<close>

text \<open>An operation of the repository, an edit of the desk matrix, or a turn of the publisher on the outbox.\<close>

inductive system_step :: "db \<Rightarrow> db \<Rightarrow> bool" where
  service: "service_step d d' \<Longrightarrow> system_step d d'"
| publisher: "system_step d (publish lb now fails fails2 send interval d)"

lemma system_step_budgets: "system_step d d' \<Longrightarrow> budgets_ok d \<Longrightarrow> budgets_ok d'"
  by (induction rule: system_step.induct) (auto simp: publish_def intro: service_step_budgets)

lemma system_steps_budgets: "system_step\<^sup>*\<^sup>* d d' \<Longrightarrow> budgets_ok d \<Longrightarrow> budgets_ok d'"
  by (induction rule: rtranclp_induct) (auto intro: system_step_budgets)

lemma service_steps_system: "service_step\<^sup>*\<^sup>* d d' \<Longrightarrow> system_step\<^sup>*\<^sup>* d d'"
  by (induction rule: rtranclp_induct) (auto intro: rtranclp.rtrancl_into_rtrancl system_step.service)

lemma repo_steps_system: "repo_step\<^sup>*\<^sup>* d d' \<Longrightarrow> system_step\<^sup>*\<^sup>* d d'"
  by (induction rule: rtranclp_induct)
    (auto intro: rtranclp.rtrancl_into_rtrancl system_step.service service_step.operation)

lemma absorb_simps [simp]: "as_db (pr_api (absorb lb now rd p)) = rd_store rd" "pr_keys (absorb lb now rd p) = pr_keys p"
  by (simp_all add: absorb_def)

lemma opened_store [simp]: "rd_store (reading_of d) = d"
  by (simp add: reading_of_def)

lemma subscriber_store [simp]: "as_db (StartSubscriber redis ch on_broadcast ms s) = as_db s"
proof (induction ms arbitrary: s)
  case (Cons m ms)
  then show ?case by (cases "redis \<and> ch \<noteq> []") (auto simp: StartSubscriber_def on_broadcast_def Let_def split: option.splits prod.splits)
qed (simp add: StartSubscriber_def)

lemma commercial_run_steps: "repo_step\<^sup>*\<^sup>* (rd_store s) (rd_store (commercial_Run pf df bs fs s))"
  unfolding commercial_Run_def by (rule commercial_loop_steps)

lemmas consumer_steps = run_steps [where s = "reading_of d" for d, unfolded opened_store]
  commercial_run_steps [where s = "reading_of d" for d, unfolded opened_store]

lemma request_steps: "serve sv c h r s = (a, s') \<Longrightarrow> service_step\<^sup>*\<^sup>* (as_db s) (as_db s')"
  using se.served_request [of c s sv h r] by (simp add: se.served_def store_effect_def)

lemma process_step_store: "process_step cg lb p p' \<Longrightarrow> system_step\<^sup>*\<^sup>* (as_db (pr_api p)) (as_db (pr_api p'))"
proof (induction rule: process_step.induct)
  case (request pick p sv c h r a s')
  then show ?case using request_steps service_steps_system by simp
next
  case (close p e)
  then show ?case using period_close_step [of cg e "pr_api p"]
    by (auto intro: system_step.service service_step.operation)
next
  case (drain p now fails fails2 wr interval)
  then show ?case by (auto intro: system_step.publisher)
qed (simp_all add: consumer_steps repo_steps_system)

lemma process_step_keys: "process_step cg lb p p' \<Longrightarrow> \<exists>rs. pr_keys p' = jwksRefreshLoop rs (pr_keys p)"
proof (induction rule: process_step.induct)
  case (keys p ans)
  then show ?case by (intro exI [of _ "[ans]"]) simp
qed (intro exI [of _ "[]"], simp add: jwksRefreshLoop_def)+

lemma process_steps_keys: "(process_step cg lb)\<^sup>*\<^sup>* p p' \<Longrightarrow> \<exists>rs. pr_keys p' = jwksRefreshLoop rs (pr_keys p)"
proof (induction rule: rtranclp_induct)
  case base
  show ?case by (intro exI [of _ "[]"]) (simp add: jwksRefreshLoop_def)
next
  case (step q r)
  then obtain rs rs' where "pr_keys r = jwksRefreshLoop rs' (jwksRefreshLoop rs (pr_keys p))" using process_step_keys by metis
  then show ?case by (intro exI [of _ "rs @ rs'"]) (simp add: jwksRefreshLoop_def)
qed

text \<open>
  C11. However the requests, the background jobs, the consumers and the publisher interleave,
  with whatever tokens, bodies, messages and failures of the brokers, Redis or the object store,
  the store only moves by successful operations of the repository, edits of the desk matrix and
  turns of the publisher on the outbox; so the invariant of the budgets holds after any run of
  the process, and the keys it verifies tokens with are what the answers of the key server left.
\<close>

theorem process_refines_the_repository:
  assumes "(process_step cg lb)\<^sup>*\<^sup>* p p'"
  shows "system_step\<^sup>*\<^sup>* (as_db (pr_api p)) (as_db (pr_api p')) \<and>
    (budgets_ok (as_db (pr_api p)) \<longrightarrow> budgets_ok (as_db (pr_api p'))) \<and>
    (\<exists>rs. pr_keys p' = jwksRefreshLoop rs (pr_keys p))"
proof -
  have "system_step\<^sup>*\<^sup>* (as_db (pr_api p)) (as_db (pr_api p'))"
    using assms by (induction rule: rtranclp_induct) (auto intro: rtranclp_trans process_step_store)
  then show ?thesis using system_steps_budgets process_steps_keys [OF assms] by blast
qed

text \<open>A process in jwt mode with a broker: it fetches its keys, adds a budget on request and skips a poison message.\<close>

definition live_config :: app_config where
  "live_config = projr (config_Load (\<lambda>_. None)
     (\<lambda>k. if k = ''DATABASE_URL'' then ''db'' else if k = ''AUTH_MODE'' then ''jwt''
          else if k = ''EVENT_BUS_ENABLED'' then ''true'' else if k = ''KAFKA_BROKERS'' then ''kafka:9092'' else []))"

definition sample_libraries :: libraries where
  "sample_libraries =
     \<lparr>lb_regex = (\<lambda>_. None), lb_deliver = (\<lambda>_ _. True), lb_parse = sample_parser, lb_uuid = Some, lb_parse_local = (\<lambda>_ _. None),
      lb_sign = (\<lambda>_ _ _. []), lb_hash = (\<lambda>p. p), lb_matches = (\<lambda>h p. h = p), lb_float = (\<lambda>_. 0), lb_pow = (\<lambda>_. 0),
      lb_scm_id = (\<lambda>_. []), lb_recipient = [], lb_default_budget = []\<rparr>"

definition booted :: process where
  "booted = \<lparr>pr_api = sample_api, pr_keys = NewVerifier ''jwks'' ''iag'' ''procurement''\<rparr>"

definition keyed :: process where
  "keyed = booted\<lparr>pr_keys := jwksRefreshLoop [sample_jwks] (pr_keys booted)\<rparr>"

definition live_server :: server where
  "live_server = the (serving live_config sample_libraries 0 (pr_keys keyed))"

definition budgeted :: process where
  "budgeted = keyed\<lparr>pr_api := snd (serve live_server sample_call eve_http new_budget (pr_api keyed))\<rparr>"

definition consumed :: process where
  "consumed = absorb sample_libraries 0
     (commercial_Run (\<lambda>_. 0) [] (kc_brokers (cg_kafka live_config)) [poison 7 True, other 8 other_event] (opened budgeted)) budgeted"

lemma live_process: "(process_step live_config sample_libraries)\<^sup>*\<^sup>* booted consumed"
proof -
  have "process_step live_config sample_libraries booted keyed" unfolding keyed_def
  proof (rule process_step.keys)
    show "JwksRefresh \<in> set (started live_config)" by code_simp
  qed
  moreover have "serving live_config sample_libraries 0 (pr_keys keyed) \<noteq> None" by code_simp
  then have "process_step live_config sample_libraries keyed budgeted" unfolding budgeted_def
    by (intro process_step.request [where a = "fst (serve live_server sample_call eve_http new_budget (pr_api keyed))"])
      (auto simp: live_server_def)
  moreover have "process_step live_config sample_libraries budgeted consumed"
  proof -
    have "bus_on live_config" by code_simp
    from process_step.commercial [OF this, of sample_libraries budgeted 0 "[poison 7 True, other 8 other_event]"]
    show ?thesis unfolding consumed_def by (simp add: sample_libraries_def)
  qed
  ultimately show ?thesis by (meson rtranclp.rtrancl_into_rtrancl rtranclp.rtrancl_refl)
qed

theorem process_refines_the_repository_witness:
  "system_step\<^sup>*\<^sup>* empty_db (as_db (pr_api consumed)) \<and> budgets_ok (as_db (pr_api consumed)) \<and>
     map (b_code \<circ> snd) (db_budgets (as_db (pr_api consumed))) = [''OPS'']"
proof -
  have "map (b_code \<circ> snd) (db_budgets (as_db (pr_api consumed))) = [''OPS'']" by code_simp
  moreover have "budgets_ok empty_db" by (simp add: empty_db_def tbl_all_def tbl_get_def)
  ultimately show ?thesis using process_refines_the_repository [OF live_process] by (simp add: booted_def sample_api_def)
qed

section \<open>The first login\<close>






end
