(* ===== verification/Migrations.thy ===== *)
theory Migrations
  imports Procurement_Prelude "HOL-Library.Char_ord"
begin

text \<open>
  Schema migration (\<^verbatim>\<open>internal/migrate/migrate.go\<close>): cutting a script into statements without
  breaking a dollar-quoted block, and applying the scripts that are not recorded yet in one
  transaction. PostgreSQL is the parameter \<open>exec\<close>, which runs a statement on a schema of any type; the
  embedded files are the parameter \<open>file\<close>.
\<close>

section \<open>Cutting a script\<close>

definition tag_char :: "char \<Rightarrow> bool" where
  "tag_char c \<longleftrightarrow> c = CHR ''_'' \<or> (CHR ''a'' \<le> c \<and> c \<le> CHR ''z'') \<or> (CHR ''A'' \<le> c \<and> c \<le> CHR ''Z'') \<or>
     (CHR ''0'' \<le> c \<and> c \<le> CHR ''9'')"

text \<open>The tag that opens at the head of a string, whose first character is not looked at.\<close>

definition dollarTagAt :: "string \<Rightarrow> string" where
  "dollarTagAt s =
     (let w = takeWhile tag_char (tl s); r = dropWhile tag_char (tl s) in
      if s \<noteq> [] \<and> r \<noteq> [] \<and> hd r = CHR ''$'' then hd s # w @ ''$'' else [])"

definition statement_end :: string where
  "statement_end = [CHR '';'', CHR 0x0A, CHR 0x0A]"

definition has_prefix :: "string \<Rightarrow> string \<Rightarrow> bool" where
  "has_prefix p s \<longleftrightarrow> take (length p) s = p"

text \<open>
  The loop over the bytes: \<open>cur\<close> is the chunk begun, \<open>tag\<close> the dollar quote that is open, blank outside
  one. A step consumes one byte, or a whole tag.
\<close>

function split_loop :: "string \<Rightarrow> string \<Rightarrow> string \<Rightarrow> string list" where
  "split_loop cur tag [] = [cur]"
| "split_loop cur tag (c # cs) =
     (if tag \<noteq> [] then
        (if c = CHR ''$'' \<and> has_prefix tag (c # cs)
         then split_loop (cur @ take (length tag) (c # cs)) [] (drop (length tag) (c # cs))
         else split_loop (cur @ [c]) tag cs)
      else if c = CHR ''$'' \<and> dollarTagAt (c # cs) \<noteq> [] then
        split_loop (cur @ dollarTagAt (c # cs)) (dollarTagAt (c # cs)) (drop (length (dollarTagAt (c # cs))) (c # cs))
      else if c = CHR '';'' \<and> has_prefix statement_end (c # cs) then (cur @ [c]) # split_loop [] [] cs
      else split_loop (cur @ [c]) [] cs)"
  by pat_completeness auto
termination
  by (relation "measure (\<lambda>(cur, tag, s). length s)") (auto simp: has_prefix_def split: list.splits)

declare split_loop.simps(2) [simp del]

definition splitStatements :: "string \<Rightarrow> string list" where
  "splitStatements sql = split_loop [] [] sql"

text \<open>\<^verbatim>\<open>strings.ReplaceAll(sql, "\r\n", "\n")\<close>.\<close>

fun unix_lines :: "string \<Rightarrow> string" where
  "unix_lines (c # c' # cs) =
     (if c = CHR 0x0D \<and> c' = CHR 0x0A then c' # unix_lines cs else c # unix_lines (c' # cs))"
| "unix_lines cs = cs"

fun exec_chunks :: "(string \<Rightarrow> 'd \<Rightarrow> 'd option) \<Rightarrow> string list \<Rightarrow> 'd \<Rightarrow> 'd option" where
  "exec_chunks exec [] d = Some d"
| "exec_chunks exec (s # ss) d =
     (if trim_space s = [] then exec_chunks exec ss d
      else case exec (trim_space s) d of None \<Rightarrow> None | Some d' \<Rightarrow> exec_chunks exec ss d')"

definition execSQL :: "(string \<Rightarrow> 'd \<Rightarrow> 'd option) \<Rightarrow> string \<Rightarrow> 'd \<Rightarrow> 'd option" where
  "execSQL exec sql d =
     (let sql = trim_space (unix_lines sql) in if sql = [] then Some d else exec_chunks exec (splitStatements sql) d)"

section \<open>Applying the scripts\<close>

text \<open>The recorded versions, and the schema.\<close>

record 'd schema =
  sc_versions :: "string list"
  sc_db :: 'd

text \<open>From position \<open>i\<close> on; \<open>None\<close> is an error, which rolls the transaction back.\<close>

fun up_loop :: "(string \<Rightarrow> 'd \<Rightarrow> 'd option) \<Rightarrow> (string \<Rightarrow> string option) \<Rightarrow> nat \<Rightarrow> string list \<Rightarrow> 'd schema \<Rightarrow> 'd schema option" where
  "up_loop exec file i [] s = Some s"
| "up_loop exec file i (name # names) s =
     (let version = fmt_nat (i + 1) in
      if version \<in> set (sc_versions s) then up_loop exec file (Suc i) names s
      else case file name of
          None \<Rightarrow> None
        | Some body \<Rightarrow>
            (case execSQL exec body (sc_db s) of
               None \<Rightarrow> None
             | Some d \<Rightarrow> up_loop exec file (Suc i) names (s\<lparr>sc_versions := sc_versions s @ [version], sc_db := d\<rparr>)))"

definition migrationFiles :: "string list" where
  "migrationFiles =
     [''001_schema.sql'', ''002_data.sql'', ''003_notifications.sql'', ''004_rbac.sql'', ''005_procurement_mutations.sql'',
      ''006_procurement_extended_writes.sql'', ''007_rbac_admin_write_grants.sql'', ''008_staff.sql'', ''009_pm_integration.sql'',
      ''010_drop_dead_tables.sql'', ''011_party_portal.sql'', ''012_scm_party_link.sql'', ''013_requisition_integration.sql'',
      ''014_procurement_controls.sql'', ''015_budget_accrual.sql'', ''010_pm_workspace_owner.sql'',
      ''016_procurement_request_intake.sql'', ''017_fuel_catalogue.sql'', ''018_requisition_approval_tiers.sql'',
      ''019_receiving_payments.sql'', ''020_requisition_desk_chain.sql'', ''021_requisition_terminal_is_authorization.sql'',
      ''022_commitment_chain_ends_at_commitment.sql'', ''023_item_stockable.sql'', ''024_search_trigram_indexes.sql'',
      ''025_purge_demo_seed.sql'', ''026_external_refs.sql'', ''027_uuid_entity_ids.sql'', ''028_monolith_recurring_invoices.sql'',
      ''029_invoice_grn_fk.sql'', ''030_item_attrs.sql'', ''031_document_numbers.sql'', ''032_form_fields.sql'',
      ''033_vendor_quality.sql'']"

text \<open>\<^verbatim>\<open>Up\<close>: whether it succeeded, and the committed state.\<close>

definition Up :: "(string \<Rightarrow> 'd \<Rightarrow> 'd option) \<Rightarrow> (string \<Rightarrow> string option) \<Rightarrow> string list \<Rightarrow> 'd schema \<Rightarrow> bool \<times> 'd schema" where
  "Up exec file names s = (case up_loop exec file 0 names s of None \<Rightarrow> (False, s) | Some s' \<Rightarrow> (True, s'))"

section \<open>Cutting loses nothing\<close>

lemma dollarTagAt_prefix:
  assumes "dollarTagAt s \<noteq> []"
  shows "s = dollarTagAt s @ drop (length (dollarTagAt s)) s"
proof -
  obtain c cs where s: "s = c # cs" using assms by (cases s) (auto simp: dollarTagAt_def)
  define w r where "w = takeWhile tag_char cs" and "r = dropWhile tag_char cs"
  have r: "r \<noteq> []" "hd r = CHR ''$''" and tag: "dollarTagAt s = c # w @ ''$''"
    using assms s by (auto simp: dollarTagAt_def Let_def w_def r_def split: if_splits)
  obtain r' where "r = CHR ''$'' # r'" using r by (cases r) auto
  then have "cs = w @ CHR ''$'' # r'" by (metis r_def takeWhile_dropWhile_id w_def)
  then show ?thesis using s tag by simp
qed

lemma split_loop_concat: "concat (split_loop cur tag s) = cur @ s"
proof (induction cur tag s rule: split_loop.induct)
  case (2 cur tag c cs)
  note tag = dollarTagAt_prefix [of "c # cs"]
  consider (close) "tag \<noteq> []" "c = CHR ''$'' \<and> has_prefix tag (c # cs)"
    | (inside) "tag \<noteq> []" "\<not> (c = CHR ''$'' \<and> has_prefix tag (c # cs))"
    | (open') "tag = []" "c = CHR ''$'' \<and> dollarTagAt (c # cs) \<noteq> []"
    | (cut) "tag = []" "c = CHR '';'' \<and> has_prefix statement_end (c # cs)"
    | (other) "tag = []" "\<not> (c = CHR ''$'' \<and> dollarTagAt (c # cs) \<noteq> [])" "\<not> (c = CHR '';'' \<and> has_prefix statement_end (c # cs))"
    by blast
  then show ?case
  proof cases
    case close
    then show ?thesis using 2(1) by (auto simp: split_loop.simps(2))
  next
    case inside
    then show ?thesis using 2(2) by (auto simp: split_loop.simps(2))
  next
    case open'
    then show ?thesis using 2(3) tag by (auto simp: split_loop.simps(2))
  next
    case cut
    then show ?thesis using 2(4) by (auto simp: split_loop.simps(2))
  next
    case other
    then show ?thesis using 2(5) by (auto simp: split_loop.simps(2))
  qed
qed simp

section \<open>Cutting after lexing\<close>

text \<open>
  The reference in two passes: \<open>quoted\<close> marks the bytes of dollar-quoted blocks, \<open>cut\<close> ends a chunk at
  every unmarked semicolon that is followed by a blank line.
\<close>

function quoted :: "string \<Rightarrow> string \<Rightarrow> bool list" where
  "quoted tag [] = []"
| "quoted tag (c # cs) =
     (if tag \<noteq> [] then
        (if c = CHR ''$'' \<and> has_prefix tag (c # cs)
         then replicate (length tag) True @ quoted [] (drop (length tag) (c # cs))
         else True # quoted tag cs)
      else if c = CHR ''$'' \<and> dollarTagAt (c # cs) \<noteq> [] then
        replicate (length (dollarTagAt (c # cs))) True @
          quoted (dollarTagAt (c # cs)) (drop (length (dollarTagAt (c # cs))) (c # cs))
      else False # quoted [] cs)"
  by pat_completeness auto
termination
  by (relation "measure (\<lambda>(tag, s). length s)") (auto simp: has_prefix_def split: list.splits)

declare quoted.simps(2) [simp del]

fun cut :: "string \<Rightarrow> bool list \<Rightarrow> string \<Rightarrow> string list" where
  "cut cur (q # qs) (c # cs) =
     (if \<not> q \<and> c = CHR '';'' \<and> has_prefix statement_end (c # cs) then (cur @ [c]) # cut [] qs cs
      else cut (cur @ [c]) qs cs)"
| "cut cur _ _ = [cur]"

lemma cut_marked: "n \<le> length s \<Longrightarrow> cut cur (replicate n True @ qs) s = cut (cur @ take n s) qs (drop n s)"
proof (induction n arbitrary: cur s)
  case (Suc n)
  then show ?case by (cases s) auto
qed simp

lemma has_prefix_length: "has_prefix p s \<Longrightarrow> length p \<le> length s"
  by (metis has_prefix_def length_take min.cobounded1)

lemma split_loop_cut: "split_loop cur tag s = cut cur (quoted tag s) s"
proof (induction cur tag s rule: split_loop.induct)
  case (2 cur tag c cs)
  note tag = dollarTagAt_prefix [of "c # cs"]
  have len: "length (dollarTagAt (c # cs)) \<le> length (c # cs)" if "dollarTagAt (c # cs) \<noteq> []"
    using arg_cong [OF tag [OF that], of length] by simp
  consider (close) "tag \<noteq> []" "c = CHR ''$'' \<and> has_prefix tag (c # cs)"
    | (inside) "tag \<noteq> []" "\<not> (c = CHR ''$'' \<and> has_prefix tag (c # cs))"
    | (open') "tag = []" "c = CHR ''$'' \<and> dollarTagAt (c # cs) \<noteq> []"
    | (cut) "tag = []" "c = CHR '';'' \<and> has_prefix statement_end (c # cs)"
    | (other) "tag = []" "\<not> (c = CHR ''$'' \<and> dollarTagAt (c # cs) \<noteq> [])" "\<not> (c = CHR '';'' \<and> has_prefix statement_end (c # cs))"
    by blast
  then show ?case
  proof cases
    case close
    have "split_loop cur tag (c # cs) = split_loop (cur @ take (length tag) (c # cs)) [] (drop (length tag) (c # cs))"
      using close by (auto simp: split_loop.simps(2))
    also have "\<dots> = cut (cur @ take (length tag) (c # cs)) (quoted [] (drop (length tag) (c # cs))) (drop (length tag) (c # cs))"
      using 2(1) close by blast
    also have "\<dots> = cut cur (quoted tag (c # cs)) (c # cs)"
      using close has_prefix_length [of tag "c # cs"] by (subst cut_marked [symmetric]) (auto simp: quoted.simps(2))
    finally show ?thesis .
  next
    case inside
    then show ?thesis using 2(2) by (auto simp: split_loop.simps(2) quoted.simps(2))
  next
    case open'
    let ?t = "dollarTagAt (c # cs)"
    have "split_loop cur tag (c # cs) = split_loop (cur @ ?t) ?t (drop (length ?t) (c # cs))"
      using open' by (auto simp: split_loop.simps(2))
    also have "\<dots> = cut (cur @ ?t) (quoted ?t (drop (length ?t) (c # cs))) (drop (length ?t) (c # cs))"
      using 2(3) open' by blast
    also have "cur @ ?t = cur @ take (length ?t) (c # cs)"
      using tag open' by (metis append_eq_conv_conj)
    also have "cut (cur @ take (length ?t) (c # cs)) (quoted ?t (drop (length ?t) (c # cs))) (drop (length ?t) (c # cs)) =
        cut cur (quoted tag (c # cs)) (c # cs)"
      using open' len by (subst cut_marked [symmetric]) (auto simp: quoted.simps(2))
    finally show ?thesis .
  next
    case cut
    then show ?thesis using 2(4) by (auto simp: split_loop.simps(2) quoted.simps(2))
  next
    case other
    then show ?thesis using 2(5) by (auto simp: split_loop.simps(2) quoted.simps(2))
  qed
qed simp

text \<open>
  C31. Cutting a migration into statements loses and adds nothing: the chunks put together are
  the script. And it cuts exactly where a two-pass reference would: after every semicolon
  followed by a blank line that lies outside the dollar-quoted blocks, so no block is ever torn
  apart.
\<close>

theorem cutting_respects_dollar_quotes:
  "concat (splitStatements sql) = sql \<and> splitStatements sql = cut [] (quoted [] sql) sql"
  using split_loop_concat [of "[]" "[]" sql] by (simp add: splitStatements_def split_loop_cut)

section \<open>Every script once\<close>

lemma up_loop_versions:
  "up_loop exec file i names s = Some s' \<Longrightarrow>
     set (sc_versions s) \<subseteq> set (sc_versions s') \<and> (\<forall>k < length names. fmt_nat (i + k + 1) \<in> set (sc_versions s'))"
proof (induction names arbitrary: i s)
  case (Cons name names)
  obtain s1 where s1: "up_loop exec file (Suc i) names s1 = Some s'" "set (sc_versions s) \<subseteq> set (sc_versions s1)"
    "fmt_nat (i + 1) \<in> set (sc_versions s1)"
    using Cons.prems by (fastforce simp: Let_def split: if_splits option.splits)
  from Cons.IH [OF s1(1)] s1(2,3) show ?case
    by (auto simp: less_Suc_eq_0_disj)
qed simp

lemma up_loop_skips: "(\<forall>k < length names. fmt_nat (i + k + 1) \<in> set (sc_versions s)) \<Longrightarrow> up_loop exec file i names s = Some s"
proof (induction names arbitrary: i)
  case (Cons name names)
  have "fmt_nat (i + 1) \<in> set (sc_versions s)" using Cons.prems by fastforce
  moreover have "\<forall>k < length names. fmt_nat (Suc i + k + 1) \<in> set (sc_versions s)" using Cons.prems by fastforce
  ultimately show ?case using Cons.IH [of "Suc i"] by simp
qed simp

text \<open>
  C32. A migration run that succeeds has recorded every script, and running it again, against
  any database behaviour and with any later content of the files, changes nothing; a run that
  fails leaves the schema and the recorded versions as they were.
\<close>

theorem migrations_apply_once:
  assumes "Up exec file names s = (ok, s')"
  shows "if ok then (\<forall>k < length names. fmt_nat (k + 1) \<in> set (sc_versions s')) \<and> Up exec' file' names s' = (True, s')
    else s' = s"
proof (cases "up_loop exec file 0 names s")
  case (Some s1)
  then have r: "ok" "s' = s1" using assms by (auto simp: Up_def)
  have all: "\<forall>k < length names. fmt_nat (0 + k + 1) \<in> set (sc_versions s1)" using up_loop_versions [OF Some] by blast
  from up_loop_skips [OF this, of exec' file'] all r show ?thesis by (simp add: Up_def)
qed (use assms in \<open>simp add: Up_def\<close>)

text \<open>A database that records the statements it is given, and two scripts, one with a quoted block.\<close>

definition scripts :: "string \<Rightarrow> string option" where
  "scripts name =
     (if name = ''a.sql'' then Some (''CREATE a;'' @ [CHR 0x0A, CHR 0x0A] @ ''CREATE b;'')
      else if name = ''b.sql'' then Some (''DO $x$ BEGIN c;'' @ [CHR 0x0A, CHR 0x0A] @ ''END $x$;'')
      else None)"

definition migrated :: "bool \<times> string list schema" where
  "migrated = Up (\<lambda>st d. Some (d @ [st])) scripts [''a.sql'', ''b.sql''] \<lparr>sc_versions = [], sc_db = []\<rparr>"

theorem migrations_apply_once_witness:
  "sc_db (snd migrated) = [''CREATE a;'', ''CREATE b;'', ''DO $x$ BEGIN c;'' @ [CHR 0x0A, CHR 0x0A] @ ''END $x$;''] \<and>
     Up (\<lambda>_ _. None) (\<lambda>_. None) [''a.sql'', ''b.sql''] (snd migrated) = (True, snd migrated)"
proof -
  have "fst migrated" by code_simp
  then have run: "Up (\<lambda>st d. Some (d @ [st])) scripts [''a.sql'', ''b.sql''] \<lparr>sc_versions = [], sc_db = []\<rparr> = (True, snd migrated)"
    by (cases migrated) (simp add: migrated_def)
  have "Up (\<lambda>_ _. None) (\<lambda>_. None) [''a.sql'', ''b.sql''] (snd migrated) = (True, snd migrated)"
    using migrations_apply_once [OF run] by simp
  moreover have "sc_db (snd migrated) = [''CREATE a;'', ''CREATE b;'', ''DO $x$ BEGIN c;'' @ [CHR 0x0A, CHR 0x0A] @ ''END $x$;'']"
    by code_simp
  ultimately show ?thesis by simp
qed

end
