(* ===== verification/Json_Coerce.thy ===== *)
theory Json_Coerce
  imports Go_Parse
begin

text \<open>
  Request bodies from browser forms (\<^verbatim>\<open>internal/handlers/json_coerce.go\<close>): numbers and booleans that
  arrive as strings are rewritten to the scalar the target struct declares, before the ordinary decoder
  runs.

  A Go type is the part of it the code inspects: the kind, the element of a pointer or slice, the tagged
  fields of a struct. \<^verbatim>\<open>strconv.ParseFloat\<close> is the parameter \<open>pf\<close>: \<open>None\<close> is an error, \<open>Some None\<close> a value
  that JSON cannot carry (infinite or not a number). Numbers are exact: the generic map the code decodes
  into holds 64-bit floats, which would round an integer field beyond 2^53, and the narrower integer kinds are
  not told apart; no body of the service declares an integer. Keys are matched exactly.
\<close>

section \<open>Types and values\<close>

datatype gotype =
    GFloat
  | GInt
  | GUint
  | GBool
  | GString
  | GOther
  | GPtr gotype
  | GSlice gotype
  | GStruct "(string \<times> gotype) list"

datatype json_value =
    JNull
  | JBool bool
  | JNum amount
  | JNonFinite
  | JStr string
  | JArr "json_value list"
  | JObj "(string \<times> json_value) list"

type_synonym float_parser = "string \<Rightarrow> amount option option"

fun Elem :: "gotype \<Rightarrow> gotype" where
  "Elem (GPtr t) = Elem t"
| "Elem t = t"

definition tag_skipped :: "string \<Rightarrow> bool" where
  "tag_skipped name \<longleftrightarrow> name = [] \<or> name = ''-''"

definition set_key :: "string \<Rightarrow> json_value \<Rightarrow> (string \<times> json_value) list \<Rightarrow> (string \<times> json_value) list" where
  "set_key k v m = map (\<lambda>(k', x). (k', if k' = k then v else x)) m"

section \<open>Coercion\<close>

definition is_scalar :: "gotype \<Rightarrow> bool" where
  "is_scalar t \<longleftrightarrow> t = GFloat \<or> t = GInt \<or> t = GUint \<or> t = GBool"

text \<open>The string value of a field of kind \<open>t\<close>, rewritten.\<close>

definition coerce_scalar :: "float_parser \<Rightarrow> gotype \<Rightarrow> string \<Rightarrow> json_value" where
  "coerce_scalar pf t s =
     (if s = [] then (if is_scalar t then JNull else JStr s)
      else case t of
          GFloat \<Rightarrow> (case pf s of None \<Rightarrow> JStr s | Some None \<Rightarrow> JNonFinite | Some (Some v) \<Rightarrow> JNum v)
        | GInt \<Rightarrow> (case parse_int64 s of None \<Rightarrow> JStr s | Some n \<Rightarrow> JNum (of_int n))
        | GUint \<Rightarrow> (case parse_uint64 s of None \<Rightarrow> JStr s | Some n \<Rightarrow> JNum (of_int n))
        | GBool \<Rightarrow> (case parse_bool s of None \<Rightarrow> JStr s | Some b \<Rightarrow> JBool b)
        | _ \<Rightarrow> JStr s)"

text \<open>What a loop over the fields of a struct does: rewrite the value under each name that is present.\<close>

definition each_field ::
  "(gotype \<Rightarrow> json_value \<Rightarrow> json_value) \<Rightarrow> (string \<times> gotype) list \<Rightarrow> (string \<times> json_value) list \<Rightarrow> (string \<times> json_value) list" where
  "each_field g fs m =
     fold (\<lambda>(name, t) m. if tag_skipped name then m else case map_of m name of None \<Rightarrow> m | Some j \<Rightarrow> set_key name (g t j) m) fs m"

definition scalar_value :: "float_parser \<Rightarrow> gotype \<Rightarrow> json_value \<Rightarrow> json_value" where
  "scalar_value pf t j = (case j of JStr s \<Rightarrow> coerce_scalar pf (Elem t) s | _ \<Rightarrow> j)"

lemma each_field_cong [fundef_cong]:
  "fs = fs' \<Longrightarrow> m = m' \<Longrightarrow> (\<And>n t j. (n, t) \<in> set fs' \<Longrightarrow> g t j = g' t j) \<Longrightarrow> each_field g fs m = each_field g' fs' m'"
  unfolding each_field_def by (intro fold_cong refl) (auto split: option.splits)

lemma size_Elem: "size (Elem t) \<le> size t"
  by (induction t rule: Elem.induct) auto

lemma size_field: "Elem t = GStruct fs \<Longrightarrow> (n, ft) \<in> set fs \<Longrightarrow> size ft < size t"
proof -
  have "(n, ft) \<in> set fs \<Longrightarrow> size ft < size (GStruct fs)" by (induction fs) auto
  then show "Elem t = GStruct fs \<Longrightarrow> (n, ft) \<in> set fs \<Longrightarrow> size ft < size t" using size_Elem [of t] by simp
qed

lemma size_element: "Elem t = GSlice et \<Longrightarrow> size et < size t"
  using size_Elem [of t] by simp

text \<open>The two loops: scalars first, then nested structs and slices of structs.\<close>

function coerceScalarStrings :: "float_parser \<Rightarrow> gotype \<Rightarrow> (string \<times> json_value) list \<Rightarrow> (string \<times> json_value) list" where
  "coerceScalarStrings pf t m =
     (case Elem t of
        GStruct fs \<Rightarrow>
          each_field (\<lambda>ft j.
              case Elem ft of
                GStruct _ \<Rightarrow> (case j of JObj m' \<Rightarrow> JObj (coerceScalarStrings pf ft m') | _ \<Rightarrow> j)
              | GSlice et \<Rightarrow>
                  (case Elem et of
                     GStruct _ \<Rightarrow>
                       (case j of
                          JArr els \<Rightarrow> JArr (map (\<lambda>el. case el of JObj m' \<Rightarrow> JObj (coerceScalarStrings pf et m') | _ \<Rightarrow> el) els)
                        | _ \<Rightarrow> j)
                   | _ \<Rightarrow> j)
              | _ \<Rightarrow> j)
            fs (each_field (scalar_value pf) fs m)
      | _ \<Rightarrow> m)"
  by pat_completeness auto
termination
  by (relation "measure (\<lambda>(pf, t, m). size t)") (auto dest: size_field size_element less_trans)

declare coerceScalarStrings.simps [simp del]

text \<open>A value with an infinite number cannot be encoded again.\<close>

fun encodable :: "json_value \<Rightarrow> bool" where
  "encodable JNonFinite = False"
| "encodable (JArr els) = list_all encodable els"
| "encodable (JObj m) = list_all (\<lambda>(_, j). encodable j) m"
| "encodable _ = True"

text \<open>
  \<^verbatim>\<open>coerceJSONScalars\<close>: an object for a struct, an array of objects for a slice; anything else, and anything that
  cannot be encoded again, is left alone.
\<close>

definition coerce_object :: "float_parser \<Rightarrow> gotype \<Rightarrow> json_value \<Rightarrow> json_value" where
  "coerce_object pf t j = (case j of JObj m \<Rightarrow> JObj (coerceScalarStrings pf t m) | _ \<Rightarrow> j)"

definition coerceJSONScalars :: "float_parser \<Rightarrow> gotype \<Rightarrow> json_value \<Rightarrow> json_value" where
  "coerceJSONScalars pf t raw =
     (let out = (case Elem t of
            GSlice et \<Rightarrow>
              (case raw of JArr els \<Rightarrow> if list_all (\<lambda>j. case j of JNull \<Rightarrow> True | JObj _ \<Rightarrow> True | _ \<Rightarrow> False) els
                 then JArr (map (coerce_object pf et) els) else raw
               | _ \<Rightarrow> raw)
          | GStruct _ \<Rightarrow> coerce_object pf t raw
          | _ \<Rightarrow> raw)
      in if encodable out then out else raw)"

section \<open>What the decoder accepts\<close>

text \<open>
  \<^verbatim>\<open>encoding/json\<close> into a value of the type: null fits everything, integers fit their 64-bit kinds, unknown keys are
  ignored.
\<close>

definition fits :: "int \<Rightarrow> int \<Rightarrow> amount \<Rightarrow> bool" where
  "fits lo hi v \<longleftrightarrow> of_int \<lfloor>v\<rfloor> = v \<and> lo \<le> \<lfloor>v\<rfloor> \<and> \<lfloor>v\<rfloor> < hi"

function accepts :: "gotype \<Rightarrow> json_value \<Rightarrow> bool" where
  "accepts t j =
     (case j of
        JNull \<Rightarrow> True
      | JNonFinite \<Rightarrow> False
      | _ \<Rightarrow>
        (case Elem t of
           GFloat \<Rightarrow> (case j of JNum _ \<Rightarrow> True | _ \<Rightarrow> False)
         | GInt \<Rightarrow> (case j of JNum v \<Rightarrow> fits (- (2 ^ 63)) (2 ^ 63) v | _ \<Rightarrow> False)
         | GUint \<Rightarrow> (case j of JNum v \<Rightarrow> fits 0 (2 ^ 64) v | _ \<Rightarrow> False)
         | GBool \<Rightarrow> (case j of JBool _ \<Rightarrow> True | _ \<Rightarrow> False)
         | GString \<Rightarrow> (case j of JStr _ \<Rightarrow> True | _ \<Rightarrow> False)
         | GSlice et \<Rightarrow> (case j of JArr els \<Rightarrow> list_all (accepts et) els | _ \<Rightarrow> False)
         | GStruct fs \<Rightarrow>
             (case j of
                JObj m \<Rightarrow> list_all (\<lambda>(n, ft). tag_skipped n \<or> (case map_of m n of None \<Rightarrow> True | Some x \<Rightarrow> accepts ft x)) fs
              | _ \<Rightarrow> False)
         | _ \<Rightarrow> True))"
  by pat_completeness auto
termination
  by (relation "measure (\<lambda>(t, j). size t)") (auto dest: size_field size_element)

declare accepts.simps [simp del]

text \<open>Field names are distinct within a struct.\<close>

fun wf_type :: "gotype \<Rightarrow> bool" where
  "wf_type (GStruct fs) \<longleftrightarrow> distinct (map fst fs) \<and> list_all (\<lambda>(_, t). wf_type t) fs"
| "wf_type (GPtr t) \<longleftrightarrow> wf_type t"
| "wf_type (GSlice t) \<longleftrightarrow> wf_type t"
| "wf_type _ \<longleftrightarrow> True"

lemma wf_Elem [simp]: "wf_type (Elem t) \<longleftrightarrow> wf_type t"
  by (induction t rule: Elem.induct) auto

lemma map_of_set_key: "map_of (set_key k v m) n = (if n = k then map_option (\<lambda>_. v) (map_of m n) else map_of m n)"
  by (induction m) (auto simp: set_key_def)

lemma each_field_get:
  "distinct (map fst fs) \<Longrightarrow> map_of (each_field g fs m) n =
     (case map_of fs n of None \<Rightarrow> map_of m n | Some t \<Rightarrow> if tag_skipped n then map_of m n else map_option (g t) (map_of m n))"
proof (induction fs arbitrary: m)
  case (Cons f fs)
  obtain k t where f: "f = (k, t)" by force
  have rest: "each_field g ((k, t) # fs) m =
      each_field g fs (if tag_skipped k then m else case map_of m k of None \<Rightarrow> m | Some j \<Rightarrow> set_key k (g t j) m)"
    by (simp add: each_field_def)
  have "map_of fs k = None" using Cons.prems f by (simp add: map_of_eq_None_iff)
  then show ?case
    using Cons.IH Cons.prems f by (auto simp: rest map_of_set_key split: option.splits)
qed (simp add: each_field_def)

lemma accepts_str: "accepts t (JStr s) \<Longrightarrow> \<not> is_scalar (Elem t)"
  by (subst (asm) accepts.simps) (auto simp: is_scalar_def split: gotype.splits)

lemma accepts_scalar_value: "accepts t j \<Longrightarrow> scalar_value pf t j = j"
  using accepts_str [of t]
  by (auto simp: scalar_value_def coerce_scalar_def is_scalar_def split: json_value.splits gotype.splits)

definition nested_value :: "float_parser \<Rightarrow> gotype \<Rightarrow> json_value \<Rightarrow> json_value" where
  "nested_value pf ft j =
     (case Elem ft of
        GStruct _ \<Rightarrow> (case j of JObj m' \<Rightarrow> JObj (coerceScalarStrings pf ft m') | _ \<Rightarrow> j)
      | GSlice et \<Rightarrow>
          (case Elem et of
             GStruct _ \<Rightarrow>
               (case j of
                  JArr els \<Rightarrow> JArr (map (\<lambda>el. case el of JObj m' \<Rightarrow> JObj (coerceScalarStrings pf et m') | _ \<Rightarrow> el) els)
                | _ \<Rightarrow> j)
           | _ \<Rightarrow> j)
      | _ \<Rightarrow> j)"

lemma coerce_struct:
  "Elem t = GStruct fs \<Longrightarrow> coerceScalarStrings pf t m = each_field (nested_value pf) fs (each_field (scalar_value pf) fs m)"
  by (subst coerceScalarStrings.simps) (simp add: nested_value_def [abs_def])

lemma coerce_get:
  assumes "Elem t = GStruct fs" and "wf_type t"
  shows "map_of (coerceScalarStrings pf t m) n =
    (case map_of fs n of None \<Rightarrow> map_of m n
     | Some ft \<Rightarrow> if tag_skipped n then map_of m n else map_option (\<lambda>j. nested_value pf ft (scalar_value pf ft j)) (map_of m n))"
proof -
  have "distinct (map fst fs)" using assms wf_Elem [of t] by simp
  then show ?thesis by (auto simp: coerce_struct [OF assms(1)] each_field_get option.map_comp o_def split: option.splits)
qed

lemma accepts_struct:
  assumes "Elem t = GStruct fs" and "wf_type t"
  shows "accepts t (JObj m) \<longleftrightarrow>
    (\<forall>n ft x. map_of fs n = Some ft \<longrightarrow> \<not> tag_skipped n \<longrightarrow> map_of m n = Some x \<longrightarrow> accepts ft x)"
proof -
  have "distinct (map fst fs)" using assms wf_Elem [of t] by simp
  then show ?thesis
    by (subst accepts.simps) (force simp: assms(1) list_all_iff split: option.splits)
qed

lemma nested_accepts:
  assumes "accepts ft j" and "wf_type ft"
    and obj: "\<And>m'. accepts ft (JObj m') \<Longrightarrow> accepts ft (JObj (coerceScalarStrings pf ft m'))"
    and elem: "\<And>et m'. Elem ft = GSlice et \<Longrightarrow> accepts et (JObj m') \<Longrightarrow> accepts et (JObj (coerceScalarStrings pf et m'))"
  shows "accepts ft (nested_value pf ft j)"
proof (cases "Elem ft")
  case (GSlice et)
  show ?thesis
  proof (cases j)
    case (JArr els)
    have "\<forall>x\<in>set els. accepts et x" using assms(1) JArr GSlice by (subst (asm) accepts.simps) (simp add: list_all_iff)
    then have "accepts ft (JArr (map (\<lambda>el. case el of JObj m' \<Rightarrow> JObj (coerceScalarStrings pf et m') | _ \<Rightarrow> el) els))"
      using elem [OF GSlice] by (subst accepts.simps) (auto simp: GSlice list_all_iff split: json_value.splits)
    then show ?thesis using assms(1) JArr GSlice by (simp add: nested_value_def split: gotype.splits)
  qed (use assms(1) GSlice in \<open>auto simp: nested_value_def split: gotype.splits\<close>)
next
  case (GStruct fs)
  then show ?thesis using assms(1) obj by (auto simp: nested_value_def split: json_value.splits)
qed (use assms(1) in \<open>simp_all add: nested_value_def\<close>)

lemma coercion_keeps_accepted:
  "wf_type t \<Longrightarrow> accepts t (JObj m) \<Longrightarrow> accepts t (JObj (coerceScalarStrings pf t m))"
proof (induction "size t" arbitrary: t m rule: less_induct)
  case less
  show ?case
  proof (cases "\<exists>fs. Elem t = GStruct fs")
    case True
    then obtain fs where fs: "Elem t = GStruct fs" by blast
    have field: "accepts ft (nested_value pf ft (scalar_value pf ft x))"
      if "map_of fs n = Some ft" "\<not> tag_skipped n" "map_of m n = Some x" for n ft x
    proof -
      have in_fs: "(n, ft) \<in> set fs" using that(1) by (simp add: map_of_SomeD)
      then have small: "size ft < size t" using size_field fs by blast
      have wf: "wf_type ft" using less.prems(1) in_fs fs wf_Elem [of t] by (auto simp: list_all_iff)
      have acc: "accepts ft x" using less.prems that accepts_struct [OF fs less.prems(1)] by blast
      show ?thesis
        unfolding accepts_scalar_value [OF acc]
      proof (rule nested_accepts [OF acc wf])
        show "accepts ft (JObj (coerceScalarStrings pf ft m'))" if "accepts ft (JObj m')" for m'
          using less.hyps small wf that by blast
        show "accepts et (JObj (coerceScalarStrings pf et m'))" if "Elem ft = GSlice et" "accepts et (JObj m')" for et m'
        proof -
          have "size et < size t" using size_element that(1) small less_trans by blast
          moreover have "wf_type et" using wf that(1) wf_Elem [of ft] by simp
          ultimately show ?thesis using less.hyps that(2) by blast
        qed
      qed
    qed
    then show ?thesis
      unfolding accepts_struct [OF fs less.prems(1)] coerce_get [OF fs less.prems(1)] by auto
  next
    case False
    then show ?thesis using less.prems by (subst coerceScalarStrings.simps) (auto split: gotype.splits)
  qed
qed

section \<open>Form bodies\<close>

text \<open>The text of a form field that means a value of the declared kind; a blank one clears it.\<close>

definition parses :: "float_parser \<Rightarrow> gotype \<Rightarrow> string \<Rightarrow> bool" where
  "parses pf t s \<longleftrightarrow> s = [] \<or>
     (case t of
        GFloat \<Rightarrow> (case pf s of Some (Some _) \<Rightarrow> True | _ \<Rightarrow> False)
      | GInt \<Rightarrow> parse_int64 s \<noteq> None
      | GUint \<Rightarrow> parse_uint64 s \<noteq> None
      | GBool \<Rightarrow> parse_bool s \<noteq> None
      | _ \<Rightarrow> False)"

lemma accepts_scalar:
  "accepts t JNull"
  "Elem t = GFloat \<Longrightarrow> accepts t (JNum v)"
  "Elem t = GInt \<Longrightarrow> accepts t (JNum v) \<longleftrightarrow> fits (- (2 ^ 63)) (2 ^ 63) v"
  "Elem t = GUint \<Longrightarrow> accepts t (JNum v) \<longleftrightarrow> fits 0 (2 ^ 64) v"
  "Elem t = GBool \<Longrightarrow> accepts t (JBool b)"
  by (subst accepts.simps; simp)+

lemma fits_of_int: "fits lo hi (of_int n) \<longleftrightarrow> lo \<le> n \<and> n < hi"
  by (simp add: fits_def)

lemma coerced_scalar_accepted:
  assumes "is_scalar (Elem t)" and "parses pf (Elem t) s"
  shows "accepts t (coerce_scalar pf (Elem t) s)"
proof (cases "s = []")
  case True
  with assms(1) show ?thesis by (simp add: coerce_scalar_def accepts_scalar(1))
next
  case False
  consider "Elem t = GFloat" | "Elem t = GInt" | "Elem t = GUint" | "Elem t = GBool"
    using assms(1) by (auto simp: is_scalar_def)
  then show ?thesis
  proof cases
    case 1
    with False assms(2) show ?thesis by (auto simp: coerce_scalar_def parses_def accepts_scalar split: option.splits)
  next
    case 2
    then obtain n where "parse_int64 s = Some n" using False assms(2) by (auto simp: parses_def)
    with 2 False parse_int64_bounds [of s n] show ?thesis by (simp add: coerce_scalar_def accepts_scalar fits_of_int)
  next
    case 3
    then obtain n where "parse_uint64 s = Some n" using False assms(2) by (auto simp: parses_def)
    with 3 False parse_uint64_bounds [of s n] show ?thesis by (simp add: coerce_scalar_def accepts_scalar fits_of_int)
  next
    case 4
    with False assms(2) show ?thesis by (auto simp: coerce_scalar_def parses_def accepts_scalar split: option.splits)
  qed
qed

text \<open>
  C34. Rewriting a form body never turns a body the decoder accepts into one it refuses, at any
  depth of nested structs and slices; and a numeric or boolean field sent as text, blank or
  readable as its kind, is accepted afterwards.
\<close>

theorem form_bodies_decode:
  assumes "wf_type t" and "Elem t = GStruct fs"
  shows "(accepts t (JObj m) \<longrightarrow> accepts t (coerceJSONScalars pf t (JObj m))) \<and>
    (\<forall>n ft s. map_of fs n = Some ft \<longrightarrow> \<not> tag_skipped n \<longrightarrow> map_of m n = Some (JStr s) \<longrightarrow> is_scalar (Elem ft) \<longrightarrow>
       parses pf (Elem ft) s \<longrightarrow> (\<exists>j. map_of (coerceScalarStrings pf t m) n = Some j \<and> accepts ft j))"
proof (intro conjI impI allI)
  assume acc: "accepts t (JObj m)"
  then show "accepts t (coerceJSONScalars pf t (JObj m))"
    using coercion_keeps_accepted [OF assms(1) acc] by (simp add: coerceJSONScalars_def coerce_object_def assms(2) Let_def)
next
  fix n ft s
  assume f: "map_of fs n = Some ft" "\<not> tag_skipped n" "map_of m n = Some (JStr s)" and sc: "is_scalar (Elem ft)" "parses pf (Elem ft) s"
  have "nested_value pf ft j = j" for j using sc(1) by (auto simp: nested_value_def is_scalar_def)
  then show "\<exists>j. map_of (coerceScalarStrings pf t m) n = Some j \<and> accepts ft j"
    using f coerced_scalar_accepted [OF sc] by (simp add: coerce_get [OF assms(2,1)] scalar_value_def)
qed

text \<open>A purchase order as a browser form sends it.\<close>

definition po_type :: gotype where
  "po_type = GStruct [(''vendorId'', GString), (''items'', GSlice (GStruct [(''qty'', GFloat), (''name'', GString)])), (''urgent'', GPtr GBool)]"

definition po_form :: "(string \<times> json_value) list" where
  "po_form = [(''vendorId'', JStr ''7''), (''items'', JArr [JObj [(''qty'', JNum 5), (''name'', JStr ''5'')]]), (''urgent'', JStr ''true'')]"

theorem form_bodies_decode_witness:
  "map_of (coerceScalarStrings (\<lambda>_. None) po_type po_form) ''urgent'' = Some (JBool True) \<and>
     map_of (coerceScalarStrings (\<lambda>_. None) po_type po_form) ''vendorId'' = Some (JStr ''7'') \<and>
     (\<exists>j. map_of (coerceScalarStrings (\<lambda>_. None) po_type po_form) ''urgent'' = Some j \<and> accepts (GPtr GBool) j)"
proof -
  have wf: "wf_type po_type" by (simp add: po_type_def)
  have el: "Elem po_type = GStruct [(''vendorId'', GString), (''items'', GSlice (GStruct [(''qty'', GFloat), (''name'', GString)])),
      (''urgent'', GPtr GBool)]"
    by (simp add: po_type_def)
  have "\<exists>j. map_of (coerceScalarStrings (\<lambda>_. None) po_type po_form) ''urgent'' = Some j \<and> accepts (GPtr GBool) j"
  proof -
    have "parses (\<lambda>_. None) GBool ''true''" by code_simp
    then show ?thesis
      using form_bodies_decode [OF wf el, of po_form "\<lambda>_. None"]
      by (auto simp: po_form_def tag_skipped_def is_scalar_def)
  qed
  moreover have "map_of (coerceScalarStrings (\<lambda>_. None) po_type po_form) ''urgent'' = Some (JBool True)" by code_simp
  moreover have "map_of (coerceScalarStrings (\<lambda>_. None) po_type po_form) ''vendorId'' = Some (JStr ''7'')" by code_simp
  ultimately show ?thesis by simp
qed

end
