(* ===== verification/Spec2Isabelle.thy ===== *)
theory Spec2Isabelle
  imports Approval_Properties Desk_Properties Trade_Properties Supplier_Properties Intake_Properties Access_Properties
    Listing_Properties Attachment_Properties System Migrations Json_Coerce
begin

text \<open>
  Verification of the IAG procurement service: the Go service that takes a purchase from
  requisition through approval, order, goods receipt and invoice to payment, against departmental
  budgets kept in PostgreSQL.

  \<^bold>\<open>The program.\<close> HTTP handlers and Kafka consumers call the repository \<^verbatim>\<open>internal/repo\<close>,
  whose operations each run one transaction: they check the request, write the rows they own, move the
  budget envelope, append an audit row and enqueue an event in the outbox. Approval of a requisition is
  either a ledger of amount tiers (\<^verbatim>\<open>requisition_approval.go\<close>) or a walk over desks run by the
  engine \<^verbatim>\<open>third_party/platform-go/approvalchain\<close> and persisted by
  \<^verbatim>\<open>requisition_desk_chain.go\<close>. A publisher drains the outbox to the broker. In front of the
  repository a router authenticates the request, checks its permission, runs one handler and logs it; listings
  answer from the database or from a snapshot cached in Redis. \<^verbatim>\<open>cmd/server\<close> reads the settings,
  migrates the schema and starts the workers.

  \<^bold>\<open>Approval engine.\<close> \<open>Approval_Chain\<close> holds desks, chains, amount bands, the registry and
  role matching (\<^verbatim>\<open>chain.go\<close>, \<^verbatim>\<open>roles.go\<close>); \<open>Approval_Engine\<close> the request state and the
  transitions (\<^verbatim>\<open>state.go\<close>, \<^verbatim>\<open>engine.go\<close>); \<open>Approval_Queue\<close> the actionable queue and the
  tracker (\<^verbatim>\<open>queue.go\<close>). \<open>Approval_Walk\<close> states the contract of a transition as the locale
  \<open>approval_transition\<close>, interpreted on all six transitions and on the transition picked by an
  operation, and carries the invariants along \<open>chain_reach\<close>. \<open>Approval_Properties\<close> has the
  theorems: every engaged desk signs, nobody signs twice or approves their own request, exactly when an
  advance succeeds, the history is append-only, the queue and the tracker agree with the engine, and
  how an edited amount escapes or blocks the walk. Every engaged desk signs on chains whose amount bands never decrease;
  the other theorems hold on every chain the registry accepts.

  \<^bold>\<open>Store.\<close> \<open>Store\<close> has the rows, the tables (association lists by id under the locales
  \<open>keyed_table\<close> and \<open>row_table\<close>, interpreted on the table operations), the error values with
  their HTTP status, and the audit row. A transaction is a function from the database to an error or a
  result with the new database; a rollback is the error. \<open>Outbox\<close> has the event builders, the
  queue and the publisher.

  \<^bold>\<open>Operations.\<close> \<open>Budgets\<close> (\<^verbatim>\<open>requisition_outcome.go\<close>, \<^verbatim>\<open>budget_period.go\<close>) has the
  movements of an envelope, each an interpretation of the locale \<open>budget_move\<close>, and the operations
  that run them. \<open>Requisitions\<close> has the requisition writes and tiered approval, \<open>Desk_Chain\<close>
  the desk matrix and the persisted walk, \<open>Purchasing\<close> orders, requests for quotation and awards,
  \<open>Receiving\<close> goods receipts, \<open>Payables\<close> invoices and payments, \<open>Vendors\<close> suppliers and
  their standing, \<open>Catalogue\<close> items and contracts, \<open>Intake\<close> the imports and the ledgers of
  handled events, \<open>Consumers\<close> the message handlers and \<open>Consumer_Loop\<close> the loops around them, with their
  retries, dead letters and commits (\<^verbatim>\<open>internal/consumer\<close>).

  \<^bold>\<open>Properties of the repository.\<close> \<open>Desk_Properties\<close>: the persisted walk refines the engine, a
  stored approval carries every signature, an approval reserves the budget, the SQL queue is exact, an
  edited matrix is published as sent. \<open>Requisitions\<close> and \<open>Outbox\<close>: tiered approval and the
  segregation of its signatures; no event is lost, every event is delivered, bounds of the retry delay
  and the poll interval. \<open>Ledger\<close> shows for every operation and message what it leaves of the money
  side and that each envelope keeps balancing; \<open>Order_Books\<close> defines when the envelopes, the orders
  and the receipts agree, and \<open>Order_Ledger\<close> that the order and receipt operations keep it.
  \<open>Ledger_Properties\<close> states the two balance theorems and the run that leaves a commitment behind,
  \<open>Trade_Properties\<close> posting and the three-way match, \<open>Supplier_Properties\<close> suspension
  and awards, the gates two updates miss and the spelling of an id that passes one, \<open>Intake_Properties\<close> redelivery, late
  quality advice and the messages whose statement the database refuses.
  \<open>Consumer_Loop\<close>: the store moves by repository operations, and a committed message is handled or dead-lettered.

  \<^bold>\<open>Service.\<close> \<open>Access\<close> has the users, groups and permissions with their writes, login and the
  authentication middleware (\<^verbatim>\<open>internal/rbac\<close>, \<^verbatim>\<open>internal/iam\<close>, \<^verbatim>\<open>internal/middleware\<close>);
  \<open>Notifications\<close> the feed, the alerts and the signal bus; \<open>Listings\<close> the paged reads, the snapshot
  and the vendor portal; \<open>Attachments\<close> the attachment rows, the bucket and the backfill command. \<open>Api\<close> has
  the writing handlers, \<open>Api_Desk\<close> the desk endpoints, \<open>Api_Reads\<close> the reading ones, \<open>Api_Routes\<close> every route
  with its path and permissions and one request, \<open>serve\<close>, through the whole chain
  (\<^verbatim>\<open>internal/handlers\<close>). \<open>Api_Contract\<close> states as the locale \<open>request_effect\<close> what the elementary
  effects of handlers must satisfy for every request to satisfy it; it is interpreted on two relations in
  \<open>Api_Properties\<close>: the service refines the repository, and the cached snapshot is exact while no write falls between the
  load of a reader and its store, with the interleaving that breaks it otherwise. The same theory shows
  that every write carries its permission and that a refused request changes nothing. \<open>Listing_Properties\<close>: pages
  put together are the snapshot, and the portal shows a user only the rows of the linked vendor.
  \<open>Access_Properties\<close>: groups give their permissions, a login token carries them, an administrator remains.
  \<open>Attachment_Properties\<close>: no orphaned objects, and the backfill stamps only stored bytes.

  \<^bold>\<open>Process.\<close> \<open>Go_Parse\<close> has the parsers of the standard library the code uses; \<open>Json_Coerce\<close> the
  rewriting of form bodies before they are decoded, and that it only ever helps; \<open>Configuration\<close> the settings,
  their validation and CORS, and what a loaded configuration guarantees; \<open>Migrations\<close> the cutting of scripts and
  that each is applied once; \<open>Workers\<close> the wiring, the background jobs and the bounded key fetch at boot.
  \<open>Verifier\<close> has the key set of the token verifier, its refresh and the choice of a key
  (\<^verbatim>\<open>pkg/authclient\<close>), and that only keys of the last accepted document authenticate a request. \<open>Clients\<close> has the
  token cache and the client of the notifications service, the signal bus with its Redis channel, the connection
  hook, the response headers and the container's probe. \<open>Bootstrap\<close> shows that a first boot leaves an administrator.
  \<open>System\<close> puts the parts together: requests, key refreshes, jobs, broadcasts, the publisher and the consumers
  interleave as steps of one process, which refines the repository.

  \<^bold>\<open>Modelling choices.\<close> Amounts are exact rationals, where the code has \<^verbatim>\<open>float64\<close> and
  \<^verbatim>\<open>numeric\<close>: the epsilons of the code are kept, rounding error is not modelled. Retry delays are
  64-bit words, because they overflow. Generated ids, document numbers, the clock and the date come from
  the argument \<open>env\<close>. The row locks that serialise writers become the sequential application of
  operations, and a request is one step; only the filling of the cached snapshot, which no lock protects, is also given
  in its separate steps. Ids are strings in the spelling the database prints, and requests name them so; the supplier of an
  order, which the code compares as text and stores as a uuid, may come in any spelling the uuid type reads. A statement
  that compares an uncast parameter with a uuid and with a text column fails, as three statements do since migration 027.
  \<^verbatim>\<open>ORDER BY\<close> on text is the byte order. Code outside
  the repository is a parameter: \<open>rx\<close> for \<^verbatim>\<open>regexp.Compile\<close>, \<open>ovf\<close> for the conversion of an
  out-of-range power to an integer, \<open>scm_id\<close> for the md5-derived id of a party, \<open>pf\<close> for
  \<^verbatim>\<open>strconv.ParseFloat\<close>, \<open>dispatch\<close> for the broker, and in the records \<open>server\<close> and
  \<open>libraries\<close> the token library, the password hash and the delivery of notifications; what the brokers and the
  remote services answer is an argument of the operation that asks them; \<open>sha\<close> is SHA-256 and \<open>exec\<close> what a
  statement of a migration does. Redis and the object store may fail at any request; PostgreSQL answers. A body
  is the decoded struct. Strings are sequences of bytes in which blanks and case are the ASCII ones.

  \<^bold>\<open>Termination and bounds.\<close> Every definition is total: the loops of the code run over a slice or a
  query result and are recursion on the list, the retry of a message recurses on the attempts left (five), the
  fetch of the signing keys on the attempts not yet made (five), the coercion of a body on the size of its type,
  a drain takes 32 rows. The registration of permissions, which retries without bound, runs over the list of the
  outcomes of its attempts, as the loops of the consumers run over what is fetched until the context ends. No fuel
  is used.

  \<^bold>\<open>Not modelled.\<close> The drivers of Kafka, Redis and PostgreSQL and the HTTP transport, the cryptography of
  tokens and passwords, the listener, telemetry and shutdown, the times at which tickers fire, and the packages of
  the vendored platform module other than the approval engine. They are input and output around the state above, or
  libraries whose sources the repository does not have.
\<close>

end
